(* ===== verification/Js.thy ===== *)
theory Js
  imports Main "HOL-Library.Char_ord" "HOL-Library.List_Lexorder" "HOL-Library.AList"
begin

text \<open>
  The prelude of the development: the part of the ECMAScript runtime that the harness
  relies on, and the generic lemmas the components share.

  \<^item> \<open>js\<close> is the type of run-time values, for the code that receives \<open>unknown\<close> or reads
    persisted JSON and checks every field before it trusts it. Objects keep their entries in
    insertion order. \<open>JExotic\<close> stands for the values outside JSON: its argument is
    \<open>typeof\<close> (\<open>bigint\<close>, \<open>function\<close>, \<open>symbol\<close>, or \<open>object\<close> for an instance of a class).
  \<^item> \<open>js_num\<close>: the integers below \<open>10 ^ 21\<close> in magnitude (which ECMAScript prints as plain
    decimals) are \<open>NInt\<close>; every other finite double is \<open>NText\<close> of its shortest
    round-trip text, which ECMAScript's \<open>Number::toString\<close> makes unique; \<open>-0\<close> and \<open>0\<close> are
    one value, as they are for \<open>===\<close> and \<open>JSON.stringify\<close>.
  \<^item> Strings are \<open>char list\<close> (code units below 256), compared code unit by code unit, which
    is what \<open><\<close> and the default \<open>Array.prototype.sort\<close> do.
  \<^item> \<open>js_uniq\<close> is \<open>[...new Set(xs)]\<close> (first occurrences, in order);
    \<open>AList.update\<close> is \<open>Map.prototype.set\<close> on the list of a \<open>Map\<close>'s entries.
  \<^item> \<open>js_env\<close> bundles what comes from outside the repository: the SHA-256 digest of
    \<open>node:crypto\<close> in hex, and the platform's date parser and printer.
\<close>

named_theorems js_simps \<open>unfolding of the JavaScript run-time operations\<close>

subsection \<open>Values\<close>

datatype js_num = NInt int | NText string | NNaN | NInf bool

datatype js =
    JUndefined
  | JNull
  | JBool bool
  | JNum js_num
  | JStr string
  | JArr "js list"
  | JObj "(string \<times> js) list"
  | JExotic string

type_synonym js_entries = "(string \<times> js) list"

record js_env =
  sha256 :: "string \<Rightarrow> string"
  date_parse :: "string \<Rightarrow> int option"
  to_iso :: "int \<Rightarrow> string"

fun js_typeof :: "js \<Rightarrow> string" where
  "js_typeof JUndefined = ''undefined''"
| "js_typeof JNull = ''object''"
| "js_typeof (JBool _) = ''boolean''"
| "js_typeof (JNum _) = ''number''"
| "js_typeof (JStr _) = ''string''"
| "js_typeof (JArr _) = ''object''"
| "js_typeof (JObj _) = ''object''"
| "js_typeof (JExotic t) = t"

fun js_truthy :: "js \<Rightarrow> bool" where
  "js_truthy JUndefined = False"
| "js_truthy JNull = False"
| "js_truthy (JBool b) = b"
| "js_truthy (JNum (NInt n)) = (n \<noteq> 0)"
| "js_truthy (JNum NNaN) = False"
| "js_truthy (JNum _) = True"
| "js_truthy (JStr s) = (s \<noteq> [])"
| "js_truthy _ = True"

text \<open>Reading an own property; a missing one is \<open>undefined\<close>.\<close>

fun js_get :: "js \<Rightarrow> string \<Rightarrow> js" where
  "js_get (JObj kvs) k = (case map_of kvs k of Some v \<Rightarrow> v | None \<Rightarrow> JUndefined)"
| "js_get _ k = JUndefined"

text \<open>\<open>a ?? b\<close>.\<close>

definition js_nullish :: "js \<Rightarrow> bool" where
  "js_nullish v \<longleftrightarrow> v = JUndefined \<or> v = JNull"

definition js_coalesce :: "js \<Rightarrow> js \<Rightarrow> js" where
  "js_coalesce a b = (if js_nullish a then b else a)"

text \<open>
  \<open>===\<close> on the values the code compares with it (primitives). Objects are compared by
  reference in the source; two separately read objects are never identical.
\<close>

fun js_same :: "js \<Rightarrow> js \<Rightarrow> bool" where
  "js_same (JNum NNaN) _ = False"
| "js_same (JArr _) _ = False"
| "js_same (JObj _) _ = False"
| "js_same (JExotic _) _ = False"
| "js_same a b = (a = b)"

definition js_is_array :: "js \<Rightarrow> bool" where
  "js_is_array v = (case v of JArr _ \<Rightarrow> True | _ \<Rightarrow> False)"

fun js_items :: "js \<Rightarrow> js list" where
  "js_items (JArr xs) = xs"
| "js_items _ = []"

text \<open>\<open>value && typeof value === "object"\<close>.\<close>

definition js_is_object :: "js \<Rightarrow> bool" where
  "js_is_object v \<longleftrightarrow> js_truthy v \<and> js_typeof v = ''object''"

definition isRecord :: "js \<Rightarrow> bool" where
  "isRecord v \<longleftrightarrow> js_typeof v = ''object'' \<and> v \<noteq> JNull \<and> \<not> js_is_array v"

definition max_safe_integer :: int where
  "max_safe_integer = 9007199254740991"

definition safe_int :: "int \<Rightarrow> bool" where
  "safe_int n \<longleftrightarrow> - max_safe_integer \<le> n \<and> n \<le> max_safe_integer"

fun js_int :: "js \<Rightarrow> int option" where
  "js_int (JNum (NInt n)) = Some n"
| "js_int _ = None"

definition js_is_safe_integer :: "js \<Rightarrow> bool" where
  "js_is_safe_integer v = (case js_int v of Some n \<Rightarrow> safe_int n | None \<Rightarrow> False)"

text \<open>\<open>Number.isSafeInteger(v) && v >= low\<close>.\<close>

definition js_safe_at_least :: "int \<Rightarrow> js \<Rightarrow> bool" where
  "js_safe_at_least low v = (case js_int v of Some n \<Rightarrow> safe_int n \<and> low \<le> n | None \<Rightarrow> False)"

lemma js_safe_at_leastE:
  assumes "js_safe_at_least low v"
  obtains n where "v = JNum (NInt n)" "safe_int n" "low \<le> n"
proof -
  have "js_int v = Some n \<Longrightarrow> v = JNum (NInt n)" for n
    by (cases v rule: js_int.cases) auto
  with assms that show thesis
    by (auto simp: js_safe_at_least_def split: option.splits)
qed

lemma js_same_StrD: "js_same v (JStr s) \<Longrightarrow> v = JStr s"
  by (cases v rule: js_truthy.cases) auto

lemma js_same_Str_iff [simp]: "js_same v (JStr s) \<longleftrightarrow> v = JStr s"
  by (auto dest: js_same_StrD)

lemma js_same_eq: "js_same a b \<Longrightarrow> a = b"
  by (cases "(a, b)" rule: js_same.cases) auto

lemma js_same_sym: "js_same a b \<Longrightarrow> js_same b a"
  by (cases "(a, b)" rule: js_same.cases) auto

text \<open>
  \<open>typeof\<close> of a value that is not a primitive is \<open>object\<close>, \<open>function\<close>, \<open>symbol\<close> or \<open>bigint\<close>; this is the
  only fact about such values that the code relies on.
\<close>

fun js_wellformed :: "js \<Rightarrow> bool" where
  "js_wellformed (JExotic t) = (t \<in> {''object'', ''function'', ''symbol'', ''bigint''})"
| "js_wellformed (JArr xs) = list_all js_wellformed xs"
| "js_wellformed (JObj kvs) = list_all (\<lambda>(k, v). js_wellformed v) kvs"
| "js_wellformed _ = True"

lemma js_wellformed_get: "js_wellformed v \<Longrightarrow> js_wellformed (js_get v k)"
  by (cases v) (auto simp: list_all_iff split: option.splits dest: map_of_SomeD)

lemma js_wellformed_items: "js_wellformed v \<Longrightarrow> x \<in> set (js_items v) \<Longrightarrow> js_wellformed x"
  by (cases v) (auto simp: list_all_iff)

subsection \<open>Strings\<close>

definition js_white :: "char \<Rightarrow> bool" where
  "js_white c \<longleftrightarrow> (of_char c :: nat) \<in> {9, 10, 11, 12, 13, 32, 160}"

definition js_trim :: "string \<Rightarrow> string" where
  "js_trim s = rev (dropWhile js_white (rev (dropWhile js_white s)))"

fun js_join :: "string \<Rightarrow> string list \<Rightarrow> string" where
  "js_join sep [] = []"
| "js_join sep [x] = x"
| "js_join sep (x # xs) = x @ sep @ js_join sep xs"

lemma js_join_Cons: "js_join sep (x # xs) = x @ concat (map ((@) sep) xs)"
proof (induction xs arbitrary: x)
  case (Cons y xs)
  show ?case using Cons.IH [of y] by simp
qed simp

fun js_split :: "char \<Rightarrow> string \<Rightarrow> string list" where
  "js_split c [] = [[]]"
| "js_split c (x # xs) =
     (if x = c then [] # js_split c xs
      else (case js_split c xs of [] \<Rightarrow> [[x]] | y # ys \<Rightarrow> (x # y) # ys))"

definition starts_with :: "string \<Rightarrow> string \<Rightarrow> bool" where
  "starts_with p s \<longleftrightarrow> take (length p) s = p"

definition ends_with :: "string \<Rightarrow> string \<Rightarrow> bool" where
  "ends_with p s \<longleftrightarrow> starts_with (rev p) (rev s)"

lemma starts_with_append [simp]: "starts_with p (p @ s)"
  by (simp add: starts_with_def)

lemma starts_with_iff: "starts_with p s \<longleftrightarrow> (\<exists>t. s = p @ t)"
  by (metis append_eq_conv_conj append_take_drop_id starts_with_def)

definition digit_char :: "nat \<Rightarrow> char" where
  "digit_char d = char_of (48 + d)"

fun nat_text :: "nat \<Rightarrow> string" where
  "nat_text n = (if n < 10 then [digit_char n] else nat_text (n div 10) @ [digit_char (n mod 10)])"

declare nat_text.simps [simp del]

definition int_text :: "int \<Rightarrow> string" where
  "int_text n = (if n < 0 then CHR ''-'' # nat_text (nat (- n)) else nat_text (nat n))"

text \<open>\<open>String(value)\<close>. The text of a value outside JSON is not determined here: its type name stands for it.\<close>

fun js_string :: "js \<Rightarrow> string" where
  "js_string JUndefined = ''undefined''"
| "js_string JNull = ''null''"
| "js_string (JBool b) = (if b then ''true'' else ''false'')"
| "js_string (JNum (NInt n)) = int_text n"
| "js_string (JNum (NText t)) = t"
| "js_string (JNum NNaN) = ''NaN''"
| "js_string (JNum (NInf neg)) = (if neg then ''-Infinity'' else ''Infinity'')"
| "js_string (JStr s) = s"
| "js_string (JArr xs) = js_join '','' (map (\<lambda>x. if js_nullish x then [] else js_string x) xs)"
| "js_string (JObj kvs) = ''[object Object]''"
| "js_string (JExotic t) = t"

text \<open>\<open>toLowerCase\<close> on code units below 256: the ASCII and the Latin-1 capitals.\<close>

definition lower_char :: "char \<Rightarrow> char" where
  "lower_char c = (let n = (of_char c :: nat) in
     if (65 \<le> n \<and> n \<le> 90) \<or> (192 \<le> n \<and> n \<le> 222 \<and> n \<noteq> 215) then char_of (n + 32) else c)"

definition js_lower :: "string \<Rightarrow> string" where
  "js_lower s = map lower_char s"

text \<open>\<open>/^[a-f0-9]{64}$/\<close>, the shape of a SHA-256 digest in hex.\<close>

definition hex_char :: "char \<Rightarrow> bool" where
  "hex_char c \<longleftrightarrow> (CHR ''a'' \<le> c \<and> c \<le> CHR ''f'') \<or> (CHR ''0'' \<le> c \<and> c \<le> CHR ''9'')"

definition is_digest :: "string \<Rightarrow> bool" where
  "is_digest s \<longleftrightarrow> length s = 64 \<and> list_all hex_char s"

subsection \<open>Sets, sorting, results\<close>

definition js_uniq :: "'a list \<Rightarrow> 'a list" where
  "js_uniq xs = rev (remdups (rev xs))"

lemma set_js_uniq [simp]: "set (js_uniq xs) = set xs"
  by (simp add: js_uniq_def)

lemma distinct_js_uniq [simp]: "distinct (js_uniq xs)"
  by (simp add: js_uniq_def)

lemma js_uniq_distinct [simp]: "distinct xs \<Longrightarrow> js_uniq xs = xs"
  by (simp add: js_uniq_def distinct_remdups_id)

lemma js_uniq_Nil_iff [simp]: "js_uniq xs = [] \<longleftrightarrow> xs = []"
  by (simp add: js_uniq_def)

lemma length_js_uniq_le: "length (js_uniq xs) \<le> length xs"
  using length_remdups_leq [of "rev xs"] by (simp add: js_uniq_def)

lemma length_js_uniq_card: "length (js_uniq xs) = card (set xs)"
  using distinct_card [of "js_uniq xs"] by simp

lemma length_js_uniq_eq: "length (js_uniq xs) = length xs \<longleftrightarrow> distinct xs"
  unfolding length_js_uniq_card by (metis card_distinct distinct_card)

lemma sort_key_Nil_iff: "sort_key f xs = [] \<longleftrightarrow> xs = []"
  by (metis length_0_conv length_sort)

text \<open>The errors of a list of results: the first one wins, as a \<open>throw\<close> in a loop does.\<close>

fun sequence_results :: "('e + 'a) list \<Rightarrow> 'e + 'a list" where
  "sequence_results [] = Inr []"
| "sequence_results (Inl e # _) = Inl e"
| "sequence_results (Inr x # rs) =
     (case sequence_results rs of Inl e \<Rightarrow> Inl e | Inr xs \<Rightarrow> Inr (x # xs))"

lemma sequence_results_map_Inr [simp]: "sequence_results (map Inr xs) = Inr xs"
  by (induction xs) auto

lemma sequence_results_Inr: "sequence_results rs = Inr xs \<longleftrightarrow> rs = map Inr xs"
proof
  show "sequence_results rs = Inr xs \<Longrightarrow> rs = map Inr xs"
    by (induction rs arbitrary: xs rule: sequence_results.induct) (auto split: sum.splits)
qed simp

text \<open>A sequence of checks, each of which throws or passes.\<close>

fun check_all :: "('a \<Rightarrow> 'e option) \<Rightarrow> 'a list \<Rightarrow> 'e option" where
  "check_all f [] = None"
| "check_all f (x # xs) = (case f x of Some e \<Rightarrow> Some e | None \<Rightarrow> check_all f xs)"

lemma check_all_None: "check_all f xs = None \<longleftrightarrow> (\<forall>x \<in> set xs. f x = None)"
  by (induction xs) (auto split: option.splits)

lemma check_all_Some: "check_all f xs = Some e \<Longrightarrow> \<exists>x \<in> set xs. f x = Some e"
  by (induction xs) (auto split: option.splits)

text \<open>A guard that throws, followed by the rest.\<close>

lemma option_guard_None [simp]:
  "(case x of None \<Rightarrow> r | Some e \<Rightarrow> Some (f e)) = None \<longleftrightarrow> x = None \<and> r = None"
  by (cases x) auto

lemma if_guard_None [simp]: "(if b then Some e else r) = None \<longleftrightarrow> \<not> b \<and> r = None"
  by simp

lemma sum_guard_None [simp]:
  "(case x of Inl e \<Rightarrow> Some (f e) | Inr y \<Rightarrow> r y) = None \<longleftrightarrow> (\<exists>y. x = Inr y \<and> r y = None)"
  by (cases x) auto

lemma map_of_update [simp]: "map_of (AList.update k v kvs) = (map_of kvs)(k \<mapsto> v)"
  by (simp add: update_conv')

lemma set_update_subset: "set (map snd (AList.update k v m)) \<subseteq> insert v (set (map snd m))"
  by (induction m) auto

lemma js_get_update:
  "js_get (JObj (AList.update k v kvs)) k' = (if k' = k then v else js_get (JObj kvs) k')"
  by simp

text \<open>Results with an error: sequencing, and a check of every element that stops at the first error.\<close>

definition andThen :: "'e + 'a \<Rightarrow> ('a \<Rightarrow> 'e + 'b) \<Rightarrow> 'e + 'b" where
  "andThen r f = (case r of Inl e \<Rightarrow> Inl e | Inr x \<Rightarrow> f x)"

fun checkEach :: "('a \<Rightarrow> 'e + unit) \<Rightarrow> 'a list \<Rightarrow> 'e + unit" where
  "checkEach f [] = Inr ()"
| "checkEach f (x # xs) = andThen (f x) (\<lambda>_. checkEach f xs)"

lemma andThen_Inr [simp]: "andThen r f = Inr y \<longleftrightarrow> (\<exists>x. r = Inr x \<and> f x = Inr y)"
  by (cases r) (auto simp: andThen_def)

lemma checkEach_Inr: "checkEach f xs = Inr u \<longleftrightarrow> (\<forall>x \<in> set xs. f x = Inr ())"
  by (induction xs) auto

lemma find_SomeD: "List.find P xs = Some x \<Longrightarrow> x \<in> set xs \<and> P x"
  by (induction xs) (auto split: if_splits)

text \<open>\<open>xs.sort(compare)\<close> with the order \<open>le a b\<close> for \<open>compare(a, b) <= 0\<close>; the sort is stable.\<close>

fun insertBy :: "('a \<Rightarrow> 'a \<Rightarrow> bool) \<Rightarrow> 'a \<Rightarrow> 'a list \<Rightarrow> 'a list" where
  "insertBy le x [] = [x]"
| "insertBy le x (y # ys) = (if le x y then x # y # ys else y # insertBy le x ys)"

definition sortBy :: "('a \<Rightarrow> 'a \<Rightarrow> bool) \<Rightarrow> 'a list \<Rightarrow> 'a list" where
  "sortBy le xs = foldr (insertBy le) xs []"

end
