(* ===== verification/Digest.thy ===== *)
theory Digest
  imports Js
begin

text \<open>
  Canonical serialization and digests (\<open>src/src/core/digest.ts\<close>). \<open>serialize\<close> follows the
  source case by case, errors included; \<open>canon\<close> is the abstract content of a value (objects
  as sorted entries without \<open>undefined\<close>), and the lemmas show that the serialization depends
  on the content only and determines it.
\<close>

subsection \<open>The model\<close>

datatype serialize_error =
    NonFiniteNumber string
  | UndefinedValue string
  | UnsupportedType string string
  | UndefinedArrayValue string nat
  | UnsupportedObjectType string

definition hex_digit :: "nat \<Rightarrow> char" where
  "hex_digit d = (if d < 10 then char_of (48 + d) else char_of (87 + d))"

text \<open>\<open>JSON.stringify\<close> of one code unit inside a string, and of a string.\<close>

definition json_escape :: "char \<Rightarrow> string" where
  "json_escape c =
     (let n = of_char c :: nat in
      if n = 34 \<or> n = 92 then [CHR 0x5C, c]
      else if n = 8 then [CHR 0x5C, CHR ''b'']
      else if n = 12 then [CHR 0x5C, CHR ''f'']
      else if n = 10 then [CHR 0x5C, CHR ''n'']
      else if n = 13 then [CHR 0x5C, CHR ''r'']
      else if n = 9 then [CHR 0x5C, CHR ''t'']
      else if n < 32 then [CHR 0x5C, CHR ''u'', CHR ''0'', CHR ''0'', hex_digit (n div 16), hex_digit (n mod 16)]
      else [c])"

text \<open>The same function with the plain characters first, for evaluation.\<close>

lemma json_escape_plain [code]:
  "json_escape c = (if CHR '' '' \<le> c \<and> c \<noteq> CHR 0x22 \<and> c \<noteq> CHR 0x5C then [c] else
     (let n = of_char c :: nat in
      if n = 34 \<or> n = 92 then [CHR 0x5C, c]
      else if n = 8 then [CHR 0x5C, CHR ''b'']
      else if n = 12 then [CHR 0x5C, CHR ''f'']
      else if n = 10 then [CHR 0x5C, CHR ''n'']
      else if n = 13 then [CHR 0x5C, CHR ''r'']
      else if n = 9 then [CHR 0x5C, CHR ''t'']
      else [CHR 0x5C, CHR ''u'', CHR ''0'', CHR ''0'', hex_digit (n div 16), hex_digit (n mod 16)]))"
proof -
  have eq: "(of_char c :: nat) = 34 \<longleftrightarrow> c = CHR 0x22" "(of_char c :: nat) = 92 \<longleftrightarrow> c = CHR 0x5C"
    using of_char_eq_iff [of c "CHR 0x22", where 'a = nat] of_char_eq_iff [of c "CHR 0x5C", where 'a = nat] by simp_all
  have le: "CHR '' '' \<le> c \<longleftrightarrow> 32 \<le> (of_char c :: nat)" by (simp add: less_eq_char_def)
  show ?thesis unfolding json_escape_def Let_def eq le by auto
qed

definition json_string :: "string \<Rightarrow> string" where
  "json_string s = CHR 0x22 # concat (map json_escape s) @ [CHR 0x22]"

definition sorted_entries :: "(string \<times> js) list \<Rightarrow> (string \<times> js) list" where
  "sorted_entries kvs = sort_key fst (filter (\<lambda>(k, v). v \<noteq> JUndefined) kvs)"

lemma sorted_entries_size:
  assumes "(k, v) \<in> set (sorted_entries kvs)"
  shows "size v < Suc (size_list (size_prod (\<lambda>_. 0) size) kvs)"
proof -
  from assms have "(k, v) \<in> set kvs"
    by (auto simp: sorted_entries_def)
  then have "size_prod (\<lambda>_. 0) size (k, v) \<le> size_list (size_prod (\<lambda>_. 0) size) kvs"
    by (rule size_list_estimation') simp
  then show ?thesis by simp
qed

function serialize :: "js \<Rightarrow> string \<Rightarrow> bool \<Rightarrow> serialize_error + string" where
  "serialize JNull path nested = Inr ''null''"
| "serialize (JStr s) path nested = Inr (json_string s)"
| "serialize (JBool b) path nested = Inr (if b then ''true'' else ''false'')"
| "serialize (JNum x) path nested =
     (case x of
        NInt n \<Rightarrow> Inr (int_text n)
      | NText t \<Rightarrow> Inr t
      | _ \<Rightarrow> Inl (NonFiniteNumber path))"
| "serialize JUndefined path nested = (if nested then Inr [] else Inl (UndefinedValue path))"
| "serialize (JExotic t) path nested =
     (if t \<in> set [''bigint'', ''function'', ''symbol''] then Inl (UnsupportedType t path)
      else Inl (UnsupportedObjectType path))"
| "serialize (JArr xs) path nested =
     (case sequence_results (map (\<lambda>(i, x).
             if x = JUndefined then Inl (UndefinedArrayValue path i)
             else serialize x (path @ ''['' @ nat_text i @ '']'') False) (enumerate 0 xs)) of
        Inl e \<Rightarrow> Inl e
      | Inr ss \<Rightarrow> Inr (''['' @ js_join '','' ss @ '']''))"
| "serialize (JObj kvs) path nested =
     (case sequence_results (map (\<lambda>(k, v).
             map_sum id (\<lambda>s. json_string k @ '':'' @ s) (serialize v (path @ ''.'' @ k) True))
             (sorted_entries kvs)) of
        Inl e \<Rightarrow> Inl e
      | Inr ss \<Rightarrow> Inr (''{'' @ js_join '','' ss @ ''}''))"
  by pat_completeness auto
termination
proof (relation "measure (\<lambda>(v, _, _). size v)")
  fix xs :: "js list" and path z x y
  assume "z \<in> set (enumerate 0 xs)" "(x, y) = z"
  then have "y \<in> set xs" by (auto simp: in_set_enumerate_eq)
  then have "size y \<le> size_list size xs" by (rule size_list_estimation') simp
  then show "((y, path @ ''['' @ nat_text x @ '']'', False), JArr xs, path, nested)
      \<in> measure (\<lambda>(v, _, _). size v)" for nested
    by simp
next
  fix kvs :: js_entries and path z x y
  assume "z \<in> set (sorted_entries kvs)" "(x, y) = z"
  then show "((y, path @ ''.'' @ x, True), JObj kvs, path, nested) \<in> measure (\<lambda>(v, _, _). size v)" for nested
    using sorted_entries_size [of x y kvs] by simp
qed simp

definition canonicalSerialize :: "js \<Rightarrow> serialize_error + string" where
  "canonicalSerialize v = serialize v ''$'' False"

definition sha256Utf8 :: "js_env \<Rightarrow> string \<Rightarrow> string" where
  "sha256Utf8 E s = sha256 E s"

definition sha256Canonical :: "js_env \<Rightarrow> js \<Rightarrow> serialize_error + string" where
  "sha256Canonical E v = map_sum id (sha256Utf8 E) (canonicalSerialize v)"

subsection \<open>The abstract content of a value\<close>

text \<open>
  \<open>canon\<close> forgets what serialization ignores: the order of an object's entries and its
  \<open>undefined\<close> entries. \<open>ser\<close> prints a canonical value; \<open>printable\<close> are the values with
  nothing unsupported inside.
\<close>

lemma enumerate_snd_in: "(i, x) \<in> set (enumerate 0 xs) \<Longrightarrow> x \<in> set xs"
  by (auto simp: in_set_enumerate_eq)

function canon :: "js \<Rightarrow> js" where
  "canon (JArr xs) = JArr (map canon xs)"
| "canon (JObj kvs) = JObj (map (\<lambda>(k, v). (k, canon v)) (sorted_entries kvs))"
| "canon JUndefined = JUndefined"
| "canon JNull = JNull"
| "canon (JBool b) = JBool b"
| "canon (JNum n) = JNum n"
| "canon (JStr s) = JStr s"
| "canon (JExotic t) = JExotic t"
  by pat_completeness auto
termination
proof (relation "measure size")
  fix xs :: "js list" and x
  assume "x \<in> set xs"
  then have "size x \<le> size_list size xs" by (rule size_list_estimation') simp
  then show "(x, JArr xs) \<in> measure size" by simp
next
  fix kvs :: js_entries and z x y
  assume "z \<in> set (sorted_entries kvs)" "(x, y) = z"
  then show "(y, JObj kvs) \<in> measure size"
    using sorted_entries_size [of x y kvs] by simp
qed simp

fun num_text_ok :: "js_num \<Rightarrow> bool" where
  "num_text_ok (NInt n) = True"
| "num_text_ok (NText t) =
     (list_all (\<lambda>c. c \<in> set ''0123456789.e+-'') t \<and> list_ex (\<lambda>c. c \<in> set ''.e'') t)"
| "num_text_ok _ = False"

fun ser :: "js \<Rightarrow> string" where
  "ser JNull = ''null''"
| "ser (JStr s) = json_string s"
| "ser (JBool b) = (if b then ''true'' else ''false'')"
| "ser (JNum (NInt n)) = int_text n"
| "ser (JNum (NText t)) = t"
| "ser (JArr xs) = ''['' @ js_join '','' (map ser xs) @ '']''"
| "ser (JObj kvs) = ''{'' @ js_join '','' (map (\<lambda>(k, v). json_string k @ '':'' @ ser v) kvs) @ ''}''"
| "ser _ = []"

fun printable :: "js \<Rightarrow> bool" where
  "printable JNull = True"
| "printable (JStr s) = True"
| "printable (JBool b) = True"
| "printable (JNum x) = num_text_ok x"
| "printable (JArr xs) = list_all printable xs"
| "printable (JObj kvs) = list_all (\<lambda>(k, v). printable v) kvs"
| "printable _ = False"

text \<open>Every number text inside a value is the text of a number that is not an \<open>NInt\<close>.\<close>

fun nums_ok :: "js \<Rightarrow> bool" where
  "nums_ok (JNum (NText t)) = num_text_ok (NText t)"
| "nums_ok (JArr xs) = list_all nums_ok xs"
| "nums_ok (JObj kvs) = list_all (\<lambda>(k, v). nums_ok v) kvs"
| "nums_ok _ = True"

lemma canon_undefined_iff [simp]: "canon v = JUndefined \<longleftrightarrow> v = JUndefined"
  by (cases v) auto

lemma sort_key_map_fst:
  "sort_key fst (map (\<lambda>(k, v). (k, f v)) kvs) = map (\<lambda>(k, v). (k, f v)) (sort_key fst kvs)"
proof -
  have ins: "insort_key fst (k, f v) (map (\<lambda>(k, v). (k, f v)) kvs)
      = map (\<lambda>(k, v). (k, f v)) (insort_key fst (k, v) kvs)" for k v kvs
    by (induction kvs) auto
  show ?thesis
    by (induction kvs) (auto simp: ins split: prod.splits)
qed

lemma sort_key_sorted_id: "sorted (map f xs) \<Longrightarrow> sort_key f xs = xs"
proof (induction xs)
  case (Cons x xs)
  then have "insort_key f x xs = x # xs" by (cases xs) auto
  with Cons show ?case by simp
qed simp

lemma sorted_entries_idem:
  assumes "\<And>k v. (k, v) \<in> set kvs \<Longrightarrow> f v \<noteq> JUndefined"
    and "sorted (map fst kvs)"
  shows "sorted_entries (map (\<lambda>(k, v). (k, f v)) kvs) = map (\<lambda>(k, v). (k, f v)) kvs"
proof -
  have "filter (\<lambda>(k, v). v \<noteq> JUndefined) (map (\<lambda>(k, v). (k, f v)) kvs) = map (\<lambda>(k, v). (k, f v)) kvs"
    using assms(1) by (auto simp: filter_id_conv)
  then show ?thesis
    using assms(2) by (simp add: sorted_entries_def sort_key_map_fst sort_key_sorted_id)
qed

lemma sorted_sorted_entries: "sorted (map fst (sorted_entries kvs))"
  by (simp add: sorted_entries_def)

lemma sorted_entries_not_undefined: "(k, v) \<in> set (sorted_entries kvs) \<Longrightarrow> v \<noteq> JUndefined"
  by (auto simp: sorted_entries_def)

subsection \<open>Serialization depends on the content only\<close>

lemma sorted_entries_canon:
  "sorted_entries (map (\<lambda>(k, v). (k, canon v)) (sorted_entries kvs))
    = map (\<lambda>(k, v). (k, canon v)) (sorted_entries kvs)"
  by (rule sorted_entries_idem) (auto simp: sorted_sorted_entries dest: sorted_entries_not_undefined)

lemma enumerate_snd_ex: "x \<in> set xs \<Longrightarrow> \<exists>i. (i, x) \<in> set (enumerate n xs)"
  by (induction xs arbitrary: n) auto

lemma enumerate_map: "enumerate n (map f xs) = map (\<lambda>(i, x). (i, f x)) (enumerate n xs)"
  by (induction xs arbitrary: n) auto

lemma serialize_canon: "serialize (canon v) path nested = serialize v path nested"
proof (induction v path nested rule: serialize.induct)
  case (7 xs path nested)
  have "map (\<lambda>(i, x). if x = JUndefined then Inl (UndefinedArrayValue path i)
            else serialize x (path @ ''['' @ nat_text i @ '']'') False) (enumerate 0 (map canon xs))
      = map (\<lambda>(i, x). if x = JUndefined then Inl (UndefinedArrayValue path i)
            else serialize x (path @ ''['' @ nat_text i @ '']'') False) (enumerate 0 xs)"
    using 7 by (auto simp: enumerate_map)
  then show ?case by simp
next
  case (8 kvs path nested)
  have "map (\<lambda>(k, v). map_sum id (\<lambda>s. json_string k @ '':'' @ s) (serialize v (path @ ''.'' @ k) True))
          (map (\<lambda>(k, v). (k, canon v)) (sorted_entries kvs))
      = map (\<lambda>(k, v). map_sum id (\<lambda>s. json_string k @ '':'' @ s) (serialize v (path @ ''.'' @ k) True))
          (sorted_entries kvs)"
    using 8 by auto
  then show ?case by (simp only: canon.simps serialize.simps sorted_entries_canon)
qed simp_all

lemma serialize_items_ser:
  assumes "sequence_results (map g xs) = Inr ss"
    and "\<And>x s. x \<in> set xs \<Longrightarrow> g x = Inr s \<Longrightarrow> s = f x"
  shows "ss = map f xs"
  using assms
proof (induction xs arbitrary: ss)
  case (Cons x xs)
  then show ?case by (cases "g x") (auto split: sum.splits)
qed simp

lemma sequence_results_map_Inr_each:
  assumes "sequence_results (map g xs) = Inr ss" and "x \<in> set xs"
  shows "\<exists>s. g x = Inr s"
  using assms
proof (induction xs arbitrary: ss)
  case (Cons y xs)
  then show ?case by (cases "g y") (auto split: sum.splits)
qed simp

text \<open>What \<open>serialize\<close> returns is the printed content.\<close>

lemma serialize_ser:
  assumes "serialize v path nested = Inr s" and "v \<noteq> JUndefined"
  shows "s = ser (canon v)"
  using assms
proof (induction v path nested arbitrary: s rule: serialize.induct)
  case (7 xs path nested)
  then obtain ss where ss: "sequence_results (map (\<lambda>(i, x).
             if x = JUndefined then Inl (UndefinedArrayValue path i)
             else serialize x (path @ ''['' @ nat_text i @ '']'') False) (enumerate 0 xs)) = Inr ss"
      and s: "s = ''['' @ js_join '','' ss @ '']''"
    by (auto split: sum.splits)
  have "ss = map (\<lambda>(i, x). ser (canon x)) (enumerate 0 xs)"
    by (rule serialize_items_ser [OF ss]) (auto split: if_splits simp: "7.IH")
  also have "\<dots> = map (ser \<circ> canon) (map snd (enumerate 0 xs))"
    unfolding map_map by (rule map_cong) auto
  finally show ?case by (simp only: s map_snd_enumerate canon.simps ser.simps map_map)
next
  case (8 kvs path nested)
  then obtain ss where ss: "sequence_results (map (\<lambda>(k, v).
             map_sum id (\<lambda>s. json_string k @ '':'' @ s) (serialize v (path @ ''.'' @ k) True))
             (sorted_entries kvs)) = Inr ss"
      and s: "s = ''{'' @ js_join '','' ss @ ''}''"
    by (auto split: sum.splits)
  have "ss = map (\<lambda>(k, v). json_string k @ '':'' @ ser (canon v)) (sorted_entries kvs)"
  proof (rule serialize_items_ser [OF ss])
    fix e t
    assume e: "e \<in> set (sorted_entries kvs)"
      and t: "(case e of (k, v) \<Rightarrow> map_sum id (\<lambda>s. json_string k @ '':'' @ s)
                (serialize v (path @ ''.'' @ k) True)) = Inr t"
    obtain k v where kv: "e = (k, v)" by force
    with t obtain u where u: "serialize v (path @ ''.'' @ k) True = Inr u" and "t = json_string k @ '':'' @ u"
      by (cases "serialize v (path @ ''.'' @ k) True") auto
    moreover have "u = ser (canon v)"
      using "8.IH" [OF e kv [symmetric] u] e kv sorted_entries_not_undefined by blast
    ultimately show "t = (case e of (k, v) \<Rightarrow> json_string k @ '':'' @ ser (canon v))"
      using kv by simp
  qed
  then show ?case by (simp add: s comp_def case_prod_unfold)
qed (auto split: js_num.splits if_splits)

text \<open>A value that serializes has nothing unsupported inside.\<close>

lemma serialize_printable:
  assumes "serialize v path nested = Inr s" and "v \<noteq> JUndefined" and "nums_ok v"
  shows "printable (canon v)"
  using assms
proof (induction v path nested arbitrary: s rule: serialize.induct)
  case (4 x path nested)
  then show ?case by (cases x) auto
next
  case (7 xs path nested)
  then obtain ss where ss: "sequence_results (map (\<lambda>(i, x).
             if x = JUndefined then Inl (UndefinedArrayValue path i)
             else serialize x (path @ ''['' @ nat_text i @ '']'') False) (enumerate 0 xs)) = Inr ss"
    by (auto split: sum.splits)
  have "printable (canon x)" if x: "x \<in> set xs" for x
  proof -
    from x obtain i where ix: "(i, x) \<in> set (enumerate 0 xs)"
      using enumerate_snd_ex [of x xs 0] by blast
    from sequence_results_map_Inr_each [OF ss ix]
    obtain t where "x \<noteq> JUndefined" "serialize x (path @ ''['' @ nat_text i @ '']'') False = Inr t"
      by (auto split: if_splits)
    with "7.IH" [OF ix refl] "7.prems"(3) x show ?thesis by (auto simp: list_all_iff)
  qed
  then show ?case by (simp add: list_all_iff)
next
  case (8 kvs path nested)
  then obtain ss where ss: "sequence_results (map (\<lambda>(k, v).
             map_sum id (\<lambda>s. json_string k @ '':'' @ s) (serialize v (path @ ''.'' @ k) True))
             (sorted_entries kvs)) = Inr ss"
    by (auto split: sum.splits)
  have "printable (canon v)" if kv: "(k, v) \<in> set (sorted_entries kvs)" for k v
  proof -
    from sequence_results_map_Inr_each [OF ss kv] obtain t
      where t: "serialize v (path @ ''.'' @ k) True = Inr t"
      by (cases "serialize v (path @ ''.'' @ k) True") auto
    have "nums_ok v" using "8.prems"(3) kv by (auto simp: list_all_iff sorted_entries_def)
    with "8.IH" [OF kv refl t] sorted_entries_not_undefined [OF kv] show ?thesis by blast
  qed
  then show ?case by (auto simp: list_all_iff)
qed (auto split: if_splits)

subsection \<open>Serialization determines the content\<close>

text \<open>Numbers: the decimal text can be read back.\<close>

definition digit_value :: "char \<Rightarrow> nat" where
  "digit_value c = of_char c - 48"

lemma digit_value_char: "d < 10 \<Longrightarrow> digit_value (digit_char d) = d"
  by (simp add: digit_value_def digit_char_def of_char_of)

lemma read_nat_text: "foldl (\<lambda>a c. 10 * a + digit_value c) 0 (nat_text n) = n"
proof (induction n rule: nat_text.induct)
  case (1 n)
  then show ?case
    by (subst nat_text.simps) (auto simp: digit_value_char)
qed

lemma nat_text_inject: "nat_text m = nat_text n \<Longrightarrow> m = n"
  by (metis read_nat_text)

lemma digit_char_digit: "d < 10 \<Longrightarrow> digit_char d \<in> set ''0123456789''"
proof -
  assume "d < 10"
  then have "d = 0 \<or> d = 1 \<or> d = 2 \<or> d = 3 \<or> d = 4 \<or> d = 5 \<or> d = 6 \<or> d = 7 \<or> d = 8 \<or> d = 9"
    by arith
  then show ?thesis
    by (elim disjE) (simp_all add: digit_char_def char_of_def bit_0)
qed

lemma nat_text_digits: "c \<in> set (nat_text n) \<Longrightarrow> c \<in> set ''0123456789''"
proof (induction n rule: nat_text.induct)
  case (1 n)
  show ?case
  proof (cases "n < 10")
    case True
    with "1.prems" have "c = digit_char n" by (simp add: nat_text.simps [of n])
    with True show ?thesis using digit_char_digit by blast
  next
    case False
    with "1.prems" have "c \<in> set (nat_text (n div 10)) \<or> c = digit_char (n mod 10)"
      by (subst (asm) nat_text.simps) auto
    with False "1.IH" show ?thesis using digit_char_digit [of "n mod 10"] by fastforce
  qed
qed

lemma nat_text_not_Nil [simp]: "nat_text n \<noteq> []"
  by (subst nat_text.simps) simp

lemma int_text_digits: "c \<in> set (int_text n) \<Longrightarrow> c \<in> set ''0123456789-''"
  using nat_text_digits by (fastforce simp: int_text_def split: if_splits)

lemma int_text_not_Nil [simp]: "int_text n \<noteq> []"
  by (simp add: int_text_def)

lemma int_text_inject: "int_text m = int_text n \<Longrightarrow> m = n"
proof -
  assume eq: "int_text m = int_text n"
  have minus: "nat_text k \<noteq> CHR ''-'' # s" for s k
    using nat_text_digits [of "CHR ''-''" k] by auto
  show "m = n"
  proof (cases "m < 0"; cases "n < 0")
    assume "m < 0" "n < 0"
    with eq have "nat (- m) = nat (- n)" by (auto simp: int_text_def dest: nat_text_inject)
    with \<open>m < 0\<close> \<open>n < 0\<close> show ?thesis by simp
  next
    assume "\<not> m < 0" "\<not> n < 0"
    with eq have "nat m = nat n" by (auto simp: int_text_def dest: nat_text_inject)
    with \<open>\<not> m < 0\<close> \<open>\<not> n < 0\<close> show ?thesis by simp
  qed (use eq minus in \<open>auto simp: int_text_def dest: sym\<close>)
qed

text \<open>Strings: an escaped code unit, and the closing quote, can be told apart.\<close>

definition hex_value :: "char \<Rightarrow> nat" where
  "hex_value c = (if c \<le> CHR ''9'' then of_char c - 48 else of_char c - 87)"

fun unescape :: "string \<Rightarrow> (char \<times> string) option" where
  "unescape (a # rest) =
     (if a = CHR 0x5C then
        (case rest of
           b # r \<Rightarrow>
             (if b = CHR 0x22 \<or> b = CHR 0x5C then Some (b, r)
              else if b = CHR ''b'' then Some (char_of (8 :: nat), r)
              else if b = CHR ''f'' then Some (char_of (12 :: nat), r)
              else if b = CHR ''n'' then Some (char_of (10 :: nat), r)
              else if b = CHR ''r'' then Some (char_of (13 :: nat), r)
              else if b = CHR ''t'' then Some (char_of (9 :: nat), r)
              else (case r of
                      _ # _ # h # l # r' \<Rightarrow> Some (char_of (16 * hex_value h + hex_value l), r')
                    | _ \<Rightarrow> None))
         | [] \<Rightarrow> None)
      else if a = CHR 0x22 then None
      else Some (a, rest))"
| "unescape [] = None"

lemma hex_value_digit:
  assumes "d < 16"
  shows "hex_value (hex_digit d) = d"
proof -
  from assms have "d = 0 \<or> d = 1 \<or> d = 2 \<or> d = 3 \<or> d = 4 \<or> d = 5 \<or> d = 6 \<or> d = 7 \<or> d = 8
      \<or> d = 9 \<or> d = 10 \<or> d = 11 \<or> d = 12 \<or> d = 13 \<or> d = 14 \<or> d = 15"
    by arith
  then show ?thesis
    by (elim disjE) (simp_all add: hex_value_def hex_digit_def of_char_of less_eq_char_def)
qed

lemma of_char_eqD: "(of_char c :: nat) = n \<Longrightarrow> c = char_of n"
  by (metis char_of_char)

lemma unescape_escape: "unescape (json_escape c @ s) = Some (c, s)"
proof -
  let ?n = "of_char c :: nat"
  consider "?n = 34 \<or> ?n = 92 \<or> ?n = 8 \<or> ?n = 12 \<or> ?n = 10 \<or> ?n = 13 \<or> ?n = 9"
    | "?n < 32" "?n \<notin> {34, 92, 8, 12, 10, 13, 9}"
    | "\<not> ?n < 32" "?n \<notin> {34, 92, 8, 12, 10, 13, 9}"
    by blast
  then show ?thesis
  proof cases
    case 1
    then show ?thesis
      by (elim disjE) (frule of_char_eqD, simp add: json_escape_def char_of_def bit_0)+
  next
    case 2
    have d: "?n div 16 < 16" "?n mod 16 < 16" using 2(1) by auto
    from 2 have "json_escape c = [CHR 0x5C, CHR ''u'', CHR ''0'', CHR ''0'', hex_digit (?n div 16), hex_digit (?n mod 16)]"
      by (simp add: json_escape_def Let_def)
    then have "unescape (json_escape c @ s)
        = Some (char_of (16 * hex_value (hex_digit (?n div 16)) + hex_value (hex_digit (?n mod 16))), s)"
      by simp
    also have "\<dots> = Some (char_of ?n, s)"
      by (simp add: hex_value_digit [OF d(1)] hex_value_digit [OF d(2)])
    finally show ?thesis by simp
  next
    case 3
    then have "c \<noteq> CHR 0x5C" "c \<noteq> CHR 0x22" by auto
    with 3 show ?thesis by (simp add: json_escape_def)
  qed
qed

lemma json_body_inject:
  "concat (map json_escape s) @ CHR 0x22 # r = concat (map json_escape t) @ CHR 0x22 # r'
    \<Longrightarrow> s = t \<and> r = r'"
proof (induction s arbitrary: t)
  case Nil
  show ?case
  proof (cases t)
    case (Cons c t')
    with Nil have "unescape (CHR 0x22 # r) = Some (c, concat (map json_escape t') @ CHR 0x22 # r')"
      by (simp add: unescape_escape)
    then show ?thesis by simp
  qed (use Nil in simp)
next
  case (Cons c s)
  have u: "unescape (concat (map json_escape (c # s)) @ CHR 0x22 # r)
      = Some (c, concat (map json_escape s) @ CHR 0x22 # r)"
    by (simp add: unescape_escape)
  show ?case
  proof (cases t)
    case Nil
    with Cons.prems u show ?thesis by simp
  next
    case (Cons d t')
    with Cons.prems u have "c = d" "concat (map json_escape s) @ CHR 0x22 # r
        = concat (map json_escape t') @ CHR 0x22 # r'"
      by (simp_all add: unescape_escape)
    with Cons.IH Cons show ?thesis by simp
  qed
qed

lemma json_string_inject: "json_string s @ r = json_string t @ r' \<Longrightarrow> s = t \<and> r = r'"
  using json_body_inject [of s r t r'] by (simp add: json_string_def)

text \<open>Lists: items are separated by commas and closed by a bracket.\<close>

definition terminated :: "string \<Rightarrow> bool" where
  "terminated r \<longleftrightarrow> r = [] \<or> hd r \<in> set '',]}''"

definition reads_back :: "('a \<Rightarrow> string) \<Rightarrow> 'a \<Rightarrow> 'a \<Rightarrow> bool" where
  "reads_back f x y \<longleftrightarrow>
     (\<forall>r r'. terminated r \<longrightarrow> terminated r' \<longrightarrow> f x @ r = f y @ r' \<longrightarrow> x = y \<and> r = r')"

lemma terminated_close [simp]: "c \<in> set '']}'' \<Longrightarrow> terminated (c # r)"
  by (auto simp: terminated_def)

lemma terminated_comma [simp]: "terminated (CHR '','' # r)"
  by (simp add: terminated_def)

lemma comma_join: "js_join '','' (x # xs) = x @ concat (map (\<lambda>y. CHR '','' # y) xs)"
proof -
  have "(@) '','' = (\<lambda>y. CHR '','' # y)" by (rule ext) simp
  then show ?thesis by (simp only: js_join_Cons)
qed

lemma tail_terminated [simp]:
  "c \<in> set '']}'' \<Longrightarrow> terminated (concat (map (\<lambda>y. CHR '','' # y) xs) @ c # r)"
  by (cases xs) (auto simp: terminated_def)

lemma tail_inject:
  assumes "c \<in> set '']}''" and "\<And>x y. x \<in> set xs \<Longrightarrow> y \<in> set ys \<Longrightarrow> reads_back f x y"
    and "concat (map (\<lambda>x. CHR '','' # f x) xs) @ c # r = concat (map (\<lambda>x. CHR '','' # f x) ys) @ c # r'"
  shows "xs = ys \<and> r = r'"
  using assms(2,3)
proof (induction xs arbitrary: ys)
  case Nil
  then show ?case using assms(1) by (cases ys) auto
next
  case (Cons x xs)
  then obtain y ys' where ys: "ys = y # ys'"
    using assms(1) by (cases ys) auto
  let ?t = "\<lambda>zs. concat (map (\<lambda>z. CHR '','' # f z) zs)"
  have "terminated (?t xs @ c # r)" "terminated (?t ys' @ c # r')"
    using assms(1) tail_terminated [of c "map f xs" r] tail_terminated [of c "map f ys'" r']
    by (simp_all add: comp_def)
  moreover have "f x @ ?t xs @ c # r = f y @ ?t ys' @ c # r'"
    using Cons.prems(2) ys by simp
  ultimately have "x = y" "?t xs @ c # r = ?t ys' @ c # r'"
    using Cons.prems(1) [of x y] ys by (auto simp: reads_back_def)
  with Cons.IH [of ys'] Cons.prems(1) ys show ?case by simp
qed

lemma join_inject:
  assumes c: "c \<in> set '']}''" and "\<And>x y. x \<in> set xs \<Longrightarrow> y \<in> set ys \<Longrightarrow> reads_back f x y"
    and hd: "\<And>x. x \<in> set xs \<union> set ys \<Longrightarrow> f x \<noteq> [] \<and> hd (f x) \<noteq> c"
    and eq: "js_join '','' (map f xs) @ c # r = js_join '','' (map f ys) @ c # r'"
  shows "xs = ys \<and> r = r'"
proof (cases xs; cases ys)
  fix x xs' y ys'
  assume xs: "xs = x # xs'" and ys: "ys = y # ys'"
  let ?t = "\<lambda>zs. concat (map (\<lambda>z. CHR '','' # f z) zs)"
  have "terminated (?t xs' @ c # r)" "terminated (?t ys' @ c # r')"
    using c tail_terminated [of c "map f xs'" r] tail_terminated [of c "map f ys'" r']
    by (simp_all add: comp_def)
  moreover have "f x @ ?t xs' @ c # r = f y @ ?t ys' @ c # r'"
    using eq xs ys by (simp add: comma_join comp_def)
  ultimately have "x = y" "?t xs' @ c # r = ?t ys' @ c # r'"
    using assms(2) [of x y] xs ys by (auto simp: reads_back_def)
  with tail_inject [OF c, of xs' ys' f] assms(2) xs ys show ?thesis by simp
next
  fix y ys'
  assume "xs = []" "ys = y # ys'"
  with eq hd [of y] show ?thesis by (cases "f y") (auto simp: comma_join)
next
  fix x xs'
  assume "xs = x # xs'" "ys = []"
  with eq hd [of x] show ?thesis by (cases "f x") (auto simp: comma_join)
qed (use eq in simp)

text \<open>Each kind of value is recognised by its first character.\<close>

lemma number_read_back:
  assumes "list_all (\<lambda>c. c \<in> set ''0123456789.e+-'') t" "list_all (\<lambda>c. c \<in> set ''0123456789.e+-'') u"
    and "terminated r" "terminated r'" "t @ r = u @ r'"
  shows "t = u \<and> r = r'"
proof -
  let ?P = "\<lambda>c. c \<in> set ''0123456789.e+-''"
  have stop: "takeWhile ?P r = []" if "terminated r" for r
    using that by (cases r) (auto simp: terminated_def)
  have "takeWhile ?P (t @ r) = t" "takeWhile ?P (u @ r') = u"
    using assms(1-4) by (simp_all only: list_all_iff takeWhile_append2 stop append_Nil2)
  with assms(5) show ?thesis by auto
qed

lemma num_text_chars:
  assumes "num_text_ok x"
  shows "ser (JNum x) \<noteq> [] \<and> list_all (\<lambda>c. c \<in> set ''0123456789.e+-'') (ser (JNum x))"
proof (cases x)
  case (NInt n)
  have "c \<in> set ''0123456789.e+-''" if "c \<in> set (int_text n)" for c
    using int_text_digits [OF that] by auto
  with NInt show ?thesis by (simp only: ser.simps int_text_not_Nil list_all_iff) blast
next
  case (NText t)
  with assms show ?thesis by (cases t) auto
qed (use assms in auto)

lemma num_text_inject:
  assumes "num_text_ok x" "num_text_ok y" "ser (JNum x) = ser (JNum y)"
  shows "x = y"
proof -
  have no_dot: "\<not> list_ex (\<lambda>c. c \<in> set ''.e'') (int_text n)" for n
    using int_text_digits by (fastforce simp: list_ex_iff)
  show ?thesis
    using assms by (cases x; cases y) (auto dest: int_text_inject simp: no_dot [simplified])
qed

definition lead :: "js \<Rightarrow> char set" where
  "lead v = (case v of
       JNull \<Rightarrow> {CHR ''n''} | JStr _ \<Rightarrow> {CHR 0x22} | JBool b \<Rightarrow> {if b then CHR ''t'' else CHR ''f''}
     | JNum _ \<Rightarrow> set ''0123456789.e+-'' | JArr _ \<Rightarrow> {CHR ''[''} | JObj _ \<Rightarrow> {CHR ''{''} | _ \<Rightarrow> {})"

lemma ser_lead: "printable v \<Longrightarrow> ser v \<noteq> [] \<and> hd (ser v) \<in> lead v"
proof (cases v)
  case (JNum x)
  moreover assume "printable v"
  ultimately have "num_text_ok x" by simp
  then have "ser v \<noteq> []" "list_all (\<lambda>c. c \<in> set ''0123456789.e+-'') (ser v)"
    using num_text_chars JNum by blast+
  with JNum show ?thesis by (cases "ser v") (auto simp: lead_def)
qed (auto simp: lead_def json_string_def)

lemma ser_hd: "printable v \<Longrightarrow> ser v \<noteq> [] \<and> hd (ser v) \<notin> set '',]}''"
  using ser_lead [of v] by (cases v) (auto simp: lead_def)

lemma lead_disjoint:
  assumes "c \<in> lead v" "c \<in> lead w"
  shows "(case (v, w) of
       (JNull, JNull) \<Rightarrow> True | (JStr _, JStr _) \<Rightarrow> True | (JBool a, JBool b) \<Rightarrow> a = b
     | (JNum _, JNum _) \<Rightarrow> True | (JArr _, JArr _) \<Rightarrow> True | (JObj _, JObj _) \<Rightarrow> True | _ \<Rightarrow> False)"
  using assms by (cases v; cases w) (auto simp: lead_def split: if_splits)

definition same_kind :: "js \<Rightarrow> js \<Rightarrow> bool" where
  "same_kind v w = (case (v, w) of
       (JNull, JNull) \<Rightarrow> True | (JStr _, JStr _) \<Rightarrow> True | (JBool a, JBool b) \<Rightarrow> a = b
     | (JNum _, JNum _) \<Rightarrow> True | (JArr _, JArr _) \<Rightarrow> True | (JObj _, JObj _) \<Rightarrow> True | _ \<Rightarrow> False)"

lemma ser_same_kind:
  assumes "printable v" "printable w" "ser v @ r = ser w @ r'"
  shows "same_kind v w"
proof -
  have "hd (ser v) = hd (ser w)"
    using assms ser_lead [OF assms(1)] ser_lead [OF assms(2)] by (metis hd_append2)
  with ser_lead [OF assms(1)] ser_lead [OF assms(2)] show ?thesis
    unfolding same_kind_def by (intro lead_disjoint [of "hd (ser v)"]) auto
qed

lemma reads_backI:
  assumes "printable v" "printable w"
    and "\<And>r r'. terminated r \<Longrightarrow> terminated r' \<Longrightarrow> same_kind v w \<Longrightarrow> ser v @ r = ser w @ r' \<Longrightarrow> v = w \<and> r = r'"
  shows "reads_back ser v w"
  using assms ser_same_kind unfolding reads_back_def by blast

lemma entry_reads_back:
  assumes "reads_back ser v w"
  shows "reads_back (\<lambda>(k, v). json_string k @ '':'' @ ser v) (k, v) (l, w)"
  unfolding reads_back_def
proof (intro allI impI)
  fix r r'
  assume "terminated r" "terminated r'"
    and "(case (k, v) of (k, v) \<Rightarrow> json_string k @ '':'' @ ser v) @ r
       = (case (l, w) of (k, v) \<Rightarrow> json_string k @ '':'' @ ser v) @ r'"
  then show "(k, v) = (l, w) \<and> r = r'"
    using assms json_string_inject [of k "'':'' @ ser v @ r" l "'':'' @ ser w @ r'"]
    by (auto simp: reads_back_def)
qed

lemma num_reads_back:
  assumes "num_text_ok x" "printable w"
  shows "reads_back ser (JNum x) w"
proof (rule reads_backI)
  fix r r'
  assume t: "terminated r" "terminated r'" and k: "same_kind (JNum x) w" and e: "ser (JNum x) @ r = ser w @ r'"
  from k obtain y where w: "w = JNum y" by (auto simp: same_kind_def split: js.splits)
  with assms have y: "num_text_ok y" by simp
  have "ser (JNum x) = ser (JNum y) \<and> r = r'"
    using num_text_chars [OF assms(1)] num_text_chars [OF y] t e unfolding w
    by (intro number_read_back) blast+
  then show "JNum x = w \<and> r = r'" using num_text_inject [OF assms(1) y] w by blast
qed (use assms in auto)

lemma ser_reads_back: "printable v \<Longrightarrow> printable w \<Longrightarrow> reads_back ser v w"
proof (induction v arbitrary: w rule: ser.induct)
  case (2 s)
  then show ?case
    by (intro reads_backI) (auto simp: same_kind_def dest: json_string_inject split: js.splits)
next
  case (4 n)
  then show ?case by (simp add: num_reads_back)
next
  case (5 t)
  then show ?case by (simp only: num_reads_back printable.simps)
next
  case (6 xs)
  show ?case
  proof (rule reads_backI)
    fix r r' assume "same_kind (JArr xs) w" and eq: "ser (JArr xs) @ r = ser w @ r'"
    then obtain ys where w: "w = JArr ys" by (auto simp: same_kind_def split: js.splits)
    have "xs = ys \<and> r = r'"
    proof (rule join_inject [where f = ser and c = "CHR '']''"])
      show "reads_back ser x y" if "x \<in> set xs" "y \<in> set ys" for x y
        using that 6 w by (auto simp: list_all_iff)
      show "ser x \<noteq> [] \<and> hd (ser x) \<noteq> CHR '']''" if "x \<in> set xs \<union> set ys" for x
        using that 6 w ser_hd [of x] by (auto simp: list_all_iff)
      show "js_join '','' (map ser xs) @ CHR '']'' # r = js_join '','' (map ser ys) @ CHR '']'' # r'"
        using eq w by simp
    qed simp
    with w show "JArr xs = w \<and> r = r'" by simp
  qed (use 6 in auto)
next
  case (7 kvs)
  let ?f = "\<lambda>(k, v). json_string k @ '':'' @ ser v"
  show ?case
  proof (rule reads_backI)
    fix r r' assume "same_kind (JObj kvs) w" and eq: "ser (JObj kvs) @ r = ser w @ r'"
    then obtain lws where w: "w = JObj lws" by (auto simp: same_kind_def split: js.splits)
    have "kvs = lws \<and> r = r'"
    proof (rule join_inject [where f = ?f and c = "CHR ''}''"])
      show "reads_back ?f x y" if "x \<in> set kvs" "y \<in> set lws" for x y
      proof -
        obtain k v l u where xy: "x = (k, v)" "y = (l, u)" by force
        have "printable v" "printable u" using that 7 w xy by (auto simp: list_all_iff)
        then have "reads_back ser v u" using "7.IH" that(1) xy(1) by blast
        then show ?thesis unfolding xy by (rule entry_reads_back)
      qed
      show "?f x \<noteq> [] \<and> hd (?f x) \<noteq> CHR ''}''" if "x \<in> set kvs \<union> set lws" for x
        by (cases x) (simp add: json_string_def)
      show "js_join '','' (map ?f kvs) @ CHR ''}'' # r = js_join '','' (map ?f lws) @ CHR ''}'' # r'"
        using eq w by simp
    qed simp
    with w show "JObj kvs = w \<and> r = r'" by simp
  qed (use 7 in auto)
qed (auto intro!: reads_backI simp: same_kind_def split: js.splits)

lemma serialize_content:
  assumes "serialize v p m = Inr s" "serialize w q n = Inr s"
    and "v \<noteq> JUndefined" "w \<noteq> JUndefined" "nums_ok v" "nums_ok w"
  shows "canon v = canon w"
proof -
  have "s = ser (canon v)" "s = ser (canon w)"
    by (rule serialize_ser [OF assms(1,3)], rule serialize_ser [OF assms(2,4)])
  then have "ser (canon v) = ser (canon w)" by simp
  moreover have "reads_back ser (canon v) (canon w)"
    using serialize_printable [OF assms(1,3,5)] serialize_printable [OF assms(2,4,6)] ser_reads_back by blast
  moreover have "terminated []" by (simp add: terminated_def)
  ultimately show ?thesis
    unfolding reads_back_def by blast
qed

lemma canonicalSerialize_not_undefined: "canonicalSerialize v = Inr s \<Longrightarrow> v \<noteq> JUndefined"
  by (auto simp: canonicalSerialize_def)

text \<open>Content and properties: equal content means equal content of every property.\<close>

lemma map_of_insort_key: "map_of (insort_key fst kv kvs) = map_of (kv # kvs)"
  by (induction kvs) (auto simp: fun_eq_iff)

lemma map_of_sort_key: "map_of (sort_key fst kvs) = map_of kvs"
  by (induction kvs) (auto simp: map_of_insort_key)

lemma map_of_filter_defined:
  "distinct (map fst kvs) \<Longrightarrow>
    map_of (filter (\<lambda>(k, v). v \<noteq> JUndefined) kvs) k
      = (case map_of kvs k of Some v \<Rightarrow> if v = JUndefined then None else Some v | None \<Rightarrow> None)"
  by (induction kvs) (auto simp: map_of_eq_None_iff image_iff split: option.splits)

lemma canon_get:
  assumes "distinct (map fst kvs)"
  shows "js_get (canon (JObj kvs)) k = canon (js_get (JObj kvs) k)"
proof -
  have "map_of (map (\<lambda>(k, v). (k, canon v)) (sorted_entries kvs)) k = map_option canon (map_of (sorted_entries kvs) k)"
    by (induction "sorted_entries kvs" arbitrary: kvs) (auto simp: map_of_map)
  with assms show ?thesis
    by (auto simp: sorted_entries_def map_of_sort_key map_of_filter_defined split: option.splits)
qed

lemma sequence_results_ex:
  "(\<And>x. x \<in> set xs \<Longrightarrow> \<exists>s. g x = Inr s) \<Longrightarrow> \<exists>ss. sequence_results (map g xs) = Inr ss"
proof (induction xs)
  case (Cons x xs)
  obtain s where "g x = Inr s" using Cons.prems by force
  moreover obtain ss where "sequence_results (map g xs) = Inr ss" using Cons by force
  ultimately show ?case by auto
qed simp

lemma printable_serializes: "printable (canon v) \<Longrightarrow> \<exists>s. serialize v path nested = Inr s"
proof (induction v path nested rule: serialize.induct)
  case (4 x path nested)
  then show ?case by (cases x) auto
next
  case (7 xs path nested)
  have "\<exists>ss. sequence_results (map (\<lambda>(i, x).
             if x = JUndefined then Inl (UndefinedArrayValue path i)
             else serialize x (path @ ''['' @ nat_text i @ '']'') False) (enumerate 0 xs)) = Inr ss"
  proof (rule sequence_results_ex)
    fix e assume e: "e \<in> set (enumerate 0 xs)"
    obtain i x where ix: "e = (i, x)" by force
    with e "7.prems" have "printable (canon x)" by (auto simp: list_all_iff dest: enumerate_snd_in)
    then have "x \<noteq> JUndefined" by auto
    with "7.IH" [OF e ix [symmetric]] \<open>printable (canon x)\<close> ix
    show "\<exists>s. (case e of (i, x) \<Rightarrow> if x = JUndefined then Inl (UndefinedArrayValue path i)
             else serialize x (path @ ''['' @ nat_text i @ '']'') False) = Inr s" by auto
  qed
  then show ?case by (auto simp: case_prod_unfold)
next
  case (8 kvs path nested)
  have "\<exists>ss. sequence_results (map (\<lambda>(k, v).
             map_sum id (\<lambda>s. json_string k @ '':'' @ s) (serialize v (path @ ''.'' @ k) True))
             (sorted_entries kvs)) = Inr ss"
  proof (rule sequence_results_ex)
    fix e assume e: "e \<in> set (sorted_entries kvs)"
    obtain k v where kv: "e = (k, v)" by force
    with e "8.prems" have "printable (canon v)" by (auto simp: list_all_iff)
    with "8.IH" [OF e kv [symmetric]] kv
    show "\<exists>s. (case e of (k, v) \<Rightarrow> map_sum id (\<lambda>s. json_string k @ '':'' @ s)
             (serialize v (path @ ''.'' @ k) True)) = Inr s" by auto
  qed
  then show ?case by (auto simp: case_prod_unfold)
qed auto

subsection \<open>Properties\<close>

text \<open>C1: two values have the same canonical serialization exactly when they have the same
  content: the order of object entries and \<open>undefined\<close> entries do not matter, and nothing else is
  lost (no two different contents share a serialization).\<close>

theorem canonicalSerialize_content_iff:
  assumes "canonicalSerialize v = Inr s" and "nums_ok v" and "nums_ok w"
  shows "canonicalSerialize w = Inr s \<longleftrightarrow> canon w = canon v"
proof
  assume "canonicalSerialize w = Inr s"
  with assms show "canon w = canon v"
    using serialize_content canonicalSerialize_not_undefined unfolding canonicalSerialize_def by blast
next
  assume "canon w = canon v"
  then show "canonicalSerialize w = Inr s"
    using assms(1) unfolding canonicalSerialize_def by (metis serialize_canon)
qed

theorem canonicalSerialize_content_iff_witness:
  "canonicalSerialize (JObj [(''b'', JNum (NInt 2)), (''a'', JArr [JBool True]), (''c'', JUndefined)])
     = Inr ''{\"a\":[true],\"b\":2}''
   \<and> canonicalSerialize (JObj [(''a'', JArr [JBool True]), (''b'', JNum (NInt 2))])
     = Inr ''{\"a\":[true],\"b\":2}''"
proof -
  let ?v = "JObj [(''b'', JNum (NInt 2)), (''a'', JArr [JBool True]), (''c'', JUndefined)]"
  let ?w = "JObj [(''a'', JArr [JBool True]), (''b'', JNum (NInt 2))]"
  have v: "canonicalSerialize ?v = Inr ''{\"a\":[true],\"b\":2}''" by code_simp
  moreover have "nums_ok ?v" "nums_ok ?w" by simp_all
  moreover have "canon ?w = canon ?v" by code_simp
  ultimately show ?thesis using canonicalSerialize_content_iff [of ?v _ ?w] by blast
qed

text \<open>C27: serialization of a value returns exactly when nothing unsupported (a non-finite number,
  an exotic value, an \<open>undefined\<close> outside an object's entries) is inside; otherwise it throws.\<close>

theorem canonicalSerialize_total_iff:
  assumes "nums_ok v"
  shows "(\<exists>s. canonicalSerialize v = Inr s) \<longleftrightarrow> printable (canon v)"
proof
  assume "\<exists>s. canonicalSerialize v = Inr s"
  then obtain s where s: "canonicalSerialize v = Inr s" ..
  then show "printable (canon v)"
    using serialize_printable canonicalSerialize_not_undefined assms unfolding canonicalSerialize_def by blast
qed (simp add: canonicalSerialize_def printable_serializes)

theorem canonicalSerialize_total_iff_witness:
  "\<not> (\<exists>s. canonicalSerialize (JObj [(''a'', JArr [JNum NNaN])]) = Inr s)"
proof -
  have "nums_ok (JObj [(''a'', JArr [JNum NNaN])])" by simp
  moreover have "\<not> printable (canon (JObj [(''a'', JArr [JNum NNaN])]))" by code_simp
  ultimately show ?thesis using canonicalSerialize_total_iff by blast
qed

end
