(* ===== verification/CandidateContracts.thy ===== *)
theory CandidateContracts
  imports Digest
begin

text \<open>
  Candidate identity, terminal gate and assembly receipts (\<open>src/src/operations/v2Contracts.ts\<close>). The code
  receives these records as \<open>unknown\<close> values read back from disk and checks every field, so the
  model works on run-time values. The clock is an argument (\<open>now\<close>, in milliseconds), the
  SHA-256 digest and the date functions come from \<open>js_env\<close>.
\<close>

subsection \<open>Candidate revisions\<close>

datatype contract_error =
    NonEmptyStringRequired string
  | DigestRequired string
  | InvalidInstant
  | CandidateInputNotObject
  | RevisionInvalid
  | UnsupportedCandidateVersion
  | UnsupportedCandidateFields "string list"
  | CandidateIdentityInconsistent
  | BindingDifferentOperation
  | BindingStale
  | Unserializable serialize_error

abbreviation jint :: "int \<Rightarrow> js" where
  "jint n \<equiv> JNum (NInt n)"

definition requiredString :: "js \<Rightarrow> string \<Rightarrow> contract_error option" where
  "requiredString v field = (case v of
       JStr s \<Rightarrow> if js_trim s = [] then Some (NonEmptyStringRequired field) else None
     | _ \<Rightarrow> Some (NonEmptyStringRequired field))"

text \<open>\<open>DIGEST_PATTERN.test(value)\<close>: \<open>test\<close> reads an array of one element as that element's text.\<close>

fun digestPattern :: "js \<Rightarrow> bool" where
  "digestPattern (JStr s) = is_digest s"
| "digestPattern (JArr [x]) = digestPattern x"
| "digestPattern _ = False"

definition validDigest :: "js \<Rightarrow> string \<Rightarrow> contract_error option" where
  "validDigest v field = (case requiredString v field of
       Some e \<Rightarrow> Some e
     | None \<Rightarrow> if digestPattern v then None else Some (DigestRequired field))"

text \<open>
  \<open>new Date(value).getTime()\<close>, \<open>None\<close> for NaN: a string is parsed, a number is truncated and clipped (one that
  prints with an exponent is out of range, or truncates to 0), an object is read through its text.
\<close>

definition timeClip :: "int \<Rightarrow> int option" where
  "timeClip n = (if abs n \<le> 8640000000000000 then Some n else None)"

definition digitsValue :: "string \<Rightarrow> int" where
  "digitsValue s = foldl (\<lambda>n c. 10 * n + (int (of_char c) - 48)) 0 s"

lemma digitsValue_nat_text: "digitsValue (nat_text n) = int n"
proof (induction n rule: nat_text.induct)
  case (1 n)
  have "int (of_char (digit_char d)) - 48 = int d" if "d < 10" for d
    using that by (simp add: digit_char_def of_char_of)
  moreover have "10 * int (n div 10) + int (n mod 10) = int n" by presburger
  ultimately show ?case using 1 by (subst nat_text.simps) (auto simp: digitsValue_def)
qed

definition truncatedNumber :: "string \<Rightarrow> int option" where
  "truncatedNumber t =
     (if CHR ''e'' \<in> set t
      then (if CHR ''-'' \<in> set (dropWhile (\<lambda>c. c \<noteq> CHR ''e'') t) then Some 0 else None)
      else (case takeWhile (\<lambda>c. c \<noteq> CHR ''.'') t of
              c # ds \<Rightarrow> Some (if c = CHR ''-'' then - digitsValue ds else digitsValue (c # ds))
            | [] \<Rightarrow> None))"

definition dateTime :: "js_env \<Rightarrow> js \<Rightarrow> int option" where
  "dateTime E v = (case v of
       JStr s \<Rightarrow> date_parse E s
     | JNum (NInt n) \<Rightarrow> timeClip n
     | JNum (NText t) \<Rightarrow> Option.bind (truncatedNumber t) timeClip
     | JBool b \<Rightarrow> Some (if b then 1 else 0)
     | JNull \<Rightarrow> Some 0
     | JArr xs \<Rightarrow> date_parse E (js_string v)
     | JObj kvs \<Rightarrow> date_parse E (js_string v)
     | _ \<Rightarrow> None)"

definition isoTime :: "js_env \<Rightarrow> js \<Rightarrow> contract_error + string" where
  "isoTime E v = (case dateTime E v of None \<Rightarrow> Inl InvalidInstant | Some t \<Rightarrow> Inr (to_iso E t))"

definition optEntry :: "js \<Rightarrow> string \<Rightarrow> (string \<times> js) list" where
  "optEntry v k = (if js_truthy (js_get v k) then [(k, js_get v k)] else [])"

definition candidateIdentity :: "js_env \<Rightarrow> js \<Rightarrow> contract_error + js" where
  "candidateIdentity E input =
     (case (if js_truthy (js_get input ''createdAt'')
            then map_sum id (\<lambda>t. [(''createdAt'', JStr t)]) (isoTime E (js_get input ''createdAt''))
            else Inr []) of
        Inl e \<Rightarrow> Inl e
      | Inr created \<Rightarrow> Inr (JObj (
          [(''version'', jint 1),
           (''operationId'', js_get input ''operationId''),
           (''candidateId'', js_get input ''candidateId'')]
          @ optEntry input ''projectId''
          @ optEntry input ''taskId''
          @ [(''revision'', js_get input ''revision'')]
          @ optEntry input ''workspace''
          @ optEntry input ''worktree''
          @ optEntry input ''parentCandidateId''
          @ [(''sourceDigest'', js_get input ''sourceDigest'')]
          @ created)))"

definition assertCandidateRevisionInputV1 :: "js \<Rightarrow> contract_error option" where
  "assertCandidateRevisionInputV1 v =
     (if \<not> js_is_object v then Some CandidateInputNotObject
      else case requiredString (js_get v ''operationId'') ''candidate.operationId'' of Some e \<Rightarrow> Some e | None \<Rightarrow>
           case requiredString (js_get v ''candidateId'') ''candidate.candidateId'' of Some e \<Rightarrow> Some e | None \<Rightarrow>
           if \<not> js_safe_at_least 0 (js_get v ''revision'') then Some RevisionInvalid
           else validDigest (js_get v ''sourceDigest'') ''candidate.sourceDigest'')"

definition canonicalCandidateIdentity :: "js_env \<Rightarrow> js \<Rightarrow> contract_error + string" where
  "canonicalCandidateIdentity E input =
     (case assertCandidateRevisionInputV1 input of
        Some e \<Rightarrow> Inl e
      | None \<Rightarrow> (case candidateIdentity E input of
            Inl e \<Rightarrow> Inl e
          | Inr identity \<Rightarrow> map_sum Unserializable id (canonicalSerialize identity)))"

definition candidateIdentityDigest :: "js_env \<Rightarrow> js \<Rightarrow> contract_error + string" where
  "candidateIdentityDigest E input = map_sum id (sha256Utf8 E) (canonicalCandidateIdentity E input)"

text \<open>\<open>{ ...input, version, canonicalIdentity, identityDigest }\<close>.\<close>

definition own_entries :: "js \<Rightarrow> (string \<times> js) list" where
  "own_entries v = (case v of JObj kvs \<Rightarrow> kvs | _ \<Rightarrow> [])"

definition createCandidateRevisionV1 :: "js_env \<Rightarrow> js \<Rightarrow> contract_error + js" where
  "createCandidateRevisionV1 E input =
     (case assertCandidateRevisionInputV1 input of
        Some e \<Rightarrow> Inl e
      | None \<Rightarrow> (case candidateIdentity E input of
            Inl e \<Rightarrow> Inl e
          | Inr identity \<Rightarrow> (case canonicalSerialize identity of
                Inl e \<Rightarrow> Inl (Unserializable e)
              | Inr canonical \<Rightarrow> Inr (JObj (
                  AList.update ''identityDigest'' (JStr (sha256Utf8 E canonical))
                   (AList.update ''canonicalIdentity'' (JStr canonical)
                    (AList.update ''version'' (jint 1) (own_entries input))))))))"

definition supportedCandidateFields :: "string list" where
  "supportedCandidateFields =
     [''version'', ''operationId'', ''candidateId'', ''projectId'', ''taskId'', ''revision'', ''workspace'',
      ''worktree'', ''parentCandidateId'', ''sourceDigest'', ''createdAt'', ''canonicalIdentity'', ''identityDigest'']"

definition assertCandidateRevisionV1 :: "js_env \<Rightarrow> js \<Rightarrow> contract_error option" where
  "assertCandidateRevisionV1 E v =
     (case assertCandidateRevisionInputV1 v of
        Some e \<Rightarrow> Some e
      | None \<Rightarrow>
         (if \<not> js_same (js_get v ''version'') (jint 1) then Some UnsupportedCandidateVersion
          else let unsupported = filter (\<lambda>f. f \<notin> set supportedCandidateFields) (map fst (own_entries v)) in
          if unsupported \<noteq> [] then Some (UnsupportedCandidateFields (sort unsupported))
          else case canonicalCandidateIdentity E v of
             Inl e \<Rightarrow> Some e
           | Inr canonical \<Rightarrow>
              (if js_get v ''canonicalIdentity'' \<noteq> JStr canonical
                  \<or> js_get v ''identityDigest'' \<noteq> JStr (sha256Utf8 E canonical)
               then Some CandidateIdentityInconsistent else None)))"

definition candidateRevisionsEqual :: "js_env \<Rightarrow> js \<Rightarrow> js \<Rightarrow> bool" where
  "candidateRevisionsEqual E left right \<longleftrightarrow>
     assertCandidateRevisionV1 E left = None \<and> assertCandidateRevisionV1 E right = None
     \<and> js_same (js_get left ''identityDigest'') (js_get right ''identityDigest'')
     \<and> js_same (js_get left ''canonicalIdentity'') (js_get right ''canonicalIdentity'')"

definition isStaleCandidateBinding :: "js_env \<Rightarrow> js \<Rightarrow> js \<Rightarrow> bool" where
  "isStaleCandidateBinding E bound current \<longleftrightarrow> \<not> candidateRevisionsEqual E bound current"

definition assertCurrentCandidateBinding :: "js_env \<Rightarrow> js \<Rightarrow> js \<Rightarrow> contract_error option" where
  "assertCurrentCandidateBinding E bound current =
     (case assertCandidateRevisionV1 E bound of Some e \<Rightarrow> Some e | None \<Rightarrow>
      case assertCandidateRevisionV1 E current of Some e \<Rightarrow> Some e | None \<Rightarrow>
      if \<not> js_same (js_get bound ''operationId'') (js_get current ''operationId'') then Some BindingDifferentOperation
      else if isStaleCandidateBinding E bound current then Some BindingStale
      else None)"

subsection \<open>The terminal gate of a participant receipt\<close>

datatype terminal_failure =
    INVALID_RECEIPT
  | OPERATION_MISMATCH
  | CANDIDATE_MISMATCH
  | RUNTIME_TERMINAL_EVIDENCE_REQUIRED
  | CONTRACT_INVALID
  | PERSISTED_ARTIFACT_REQUIRED
  | PROVENANCE_INVALID

record terminal_decision =
  td_allowed :: bool
  td_reasons :: "terminal_failure list"

text \<open>\<open>"candidate" in value ? value : { candidate: value }\<close>; \<open>in\<close> throws on a primitive.\<close>

definition terminalContext :: "js \<Rightarrow> js option" where
  "terminalContext v = (case v of
       JObj kvs \<Rightarrow> Some (if ''candidate'' \<in> set (map fst kvs) then v else JObj [(''candidate'', v)])
     | JArr _ \<Rightarrow> Some (JObj [(''candidate'', v)])
     | _ \<Rightarrow> None)"

definition isValidTimestamp :: "js_env \<Rightarrow> js \<Rightarrow> string \<Rightarrow> bool" where
  "isValidTimestamp E v now =
     (case (dateTime E v, date_parse E now) of
        (Some t, Some n) \<Rightarrow> t \<le> n
      | _ \<Rightarrow> False)"

definition runtimeTerminalOk :: "js_env \<Rightarrow> js \<Rightarrow> js \<Rightarrow> string \<Rightarrow> bool" where
  "runtimeTerminalOk E receipt terminal now \<longleftrightarrow>
     js_truthy terminal
     \<and> js_get terminal ''kind'' = JStr ''runtime-terminal''
     \<and> js_get terminal ''terminal'' = JBool True
     \<and> js_truthy (js_get terminal ''eventId'')
     \<and> isValidTimestamp E (js_get terminal ''observedAt'') now
     \<and> js_same (js_get terminal ''status'') (js_get receipt ''outcome'')"

definition contractEvidenceOk :: "js \<Rightarrow> bool" where
  "contractEvidenceOk contract \<longleftrightarrow>
     js_truthy contract \<and> js_get contract ''valid'' = JBool True
     \<and> js_truthy (js_get contract ''contractId'') \<and> digestPattern (js_get contract ''contractDigest'')"

definition artifactEvidenceOk :: "js_env \<Rightarrow> js \<Rightarrow> string \<Rightarrow> bool" where
  "artifactEvidenceOk E artifact now \<longleftrightarrow>
     js_truthy artifact \<and> js_get artifact ''persisted'' = JBool True
     \<and> js_truthy (js_get artifact ''artifactId'') \<and> digestPattern (js_get artifact ''artifactDigest'')
     \<and> isValidTimestamp E (js_get artifact ''persistedAt'') now"

definition provenanceEvidenceOk :: "js \<Rightarrow> bool" where
  "provenanceEvidenceOk provenance \<longleftrightarrow>
     js_truthy provenance \<and> js_get provenance ''valid'' = JBool True
     \<and> js_truthy (js_get provenance ''provenanceId'') \<and> js_truthy (js_get provenance ''source'')
     \<and> digestPattern (js_get provenance ''provenanceDigest'')"

definition boundCandidate :: "js \<Rightarrow> js" where
  "boundCandidate receipt = js_coalesce (js_get receipt ''candidateBinding'') (js_get receipt ''candidate'')"

definition failIf :: "bool \<Rightarrow> 'a \<Rightarrow> 'a list" where
  "failIf b x = (if b then [x] else [])"

definition terminalFailures :: "js_env \<Rightarrow> js \<Rightarrow> js \<Rightarrow> string \<Rightarrow> terminal_failure list" where
  "terminalFailures E value context now =
     failIf (\<not> js_same (js_get value ''version'') (jint 1) \<or> \<not> js_truthy (js_get value ''receiptId'')
             \<or> \<not> js_truthy (js_get value ''participantId'') \<or> \<not> js_truthy (js_get value ''operationId''))
       INVALID_RECEIPT
   @ failIf (js_truthy (js_get context ''operationId'')
             \<and> \<not> js_same (js_get value ''operationId'') (js_get context ''operationId''))
       OPERATION_MISMATCH
   @ failIf (\<not> js_truthy (boundCandidate value)
             \<or> \<not> candidateRevisionsEqual E (boundCandidate value) (js_get context ''candidate'')
             \<or> \<not> js_same (js_get value ''operationId'') (js_get (js_get context ''candidate'') ''operationId''))
       CANDIDATE_MISMATCH
   @ failIf (\<not> runtimeTerminalOk E value
               (js_coalesce (js_get value ''runtimeTerminalEvidence'') (js_get value ''runtimeTerminal'')) now)
       RUNTIME_TERMINAL_EVIDENCE_REQUIRED
   @ failIf (\<not> contractEvidenceOk (js_get value ''contract'')) CONTRACT_INVALID
   @ failIf (\<not> artifactEvidenceOk E
               (js_coalesce (js_get value ''persistedArtifact'') (js_get value ''artifact'')) now)
       PERSISTED_ARTIFACT_REQUIRED
   @ failIf (\<not> provenanceEvidenceOk (js_get value ''provenance'')) PROVENANCE_INVALID"

text \<open>
  \<open>clock\<close> is the time \<open>new Date()\<close> reads when the context carries no \<open>now\<close>; an invalid
  \<open>now\<close> throws.
\<close>

definition evaluateTerminalGate :: "js_env \<Rightarrow> int \<Rightarrow> js \<Rightarrow> js \<Rightarrow> contract_error + terminal_decision" where
  "evaluateTerminalGate E clock receipt expected =
     (if \<not> js_is_object receipt then Inr \<lparr>td_allowed = False, td_reasons = [INVALID_RECEIPT]\<rparr>
      else case terminalContext expected of
        None \<Rightarrow> Inr \<lparr>td_allowed = False, td_reasons = [CANDIDATE_MISMATCH]\<rparr>
      | Some context \<Rightarrow>
          (if assertCandidateRevisionV1 E (js_get context ''candidate'') \<noteq> None
           then Inr \<lparr>td_allowed = False, td_reasons = [CANDIDATE_MISMATCH]\<rparr>
           else case isoTime E (js_coalesce (js_get context ''now'') (jint clock)) of
             Inl e \<Rightarrow> Inl e
           | Inr now \<Rightarrow>
              (let failures = terminalFailures E receipt context now
               in Inr \<lparr>td_allowed = (failures = []), td_reasons = failures\<rparr>)))"

datatype receipt_error = ReceiptRejected "terminal_failure list" | ReceiptInstant contract_error

definition assertParticipantReceiptV1 :: "js_env \<Rightarrow> int \<Rightarrow> js \<Rightarrow> receipt_error option" where
  "assertParticipantReceiptV1 E clock v =
     (case evaluateTerminalGate E clock v
             (JObj [(''candidate'', boundCandidate v), (''operationId'', js_get v ''operationId'')]) of
        Inl e \<Rightarrow> Some (ReceiptInstant e)
      | Inr d \<Rightarrow> if td_allowed d then None else Some (ReceiptRejected (td_reasons d)))"

subsection \<open>Assembly receipts\<close>

datatype assembly_error =
    AssemblyNotObject
  | AssemblyVersion
  | AssemblyField contract_error
  | AssemblyNotSafeInteger string
  | AssemblyIdMismatch
  | AssemblyNotNextRevision
  | AssemblySourceAfterBase
  | AssemblyInstant
  | AssemblySourcePair
  | AssemblyDigestInconsistent
  | AssemblyUnserializable serialize_error

definition str_of :: "js \<Rightarrow> string" where
  "str_of v = (case v of JStr s \<Rightarrow> s | _ \<Rightarrow> [])"

definition int_of :: "js \<Rightarrow> int" where
  "int_of v = (case js_int v of Some n \<Rightarrow> n | None \<Rightarrow> 0)"

definition candidateAssemblyReceiptIdV1 :: "string \<Rightarrow> string \<Rightarrow> string" where
  "candidateAssemblyReceiptIdV1 operationId candidateId = ''assembly:'' @ operationId @ '':'' @ candidateId"

definition candidateAssemblyReceiptBodyV1 :: "js \<Rightarrow> js" where
  "candidateAssemblyReceiptBodyV1 receipt = JObj (filter (\<lambda>(k, v). k \<noteq> ''digest'') (own_entries receipt))"

definition candidateAssemblyReceiptDigestV1 :: "js_env \<Rightarrow> js \<Rightarrow> serialize_error + string" where
  "candidateAssemblyReceiptDigestV1 E receipt = sha256Canonical E (candidateAssemblyReceiptBodyV1 receipt)"

definition assemblyStringFields :: "string list" where
  "assemblyStringFields = [''assemblyId'', ''operationId'', ''taskId'', ''workUnitId'', ''participantId'',
     ''baseCandidateId'', ''candidateId'', ''createdAt'']"

definition assemblyDigestFields :: "string list" where
  "assemblyDigestFields = [''baseIdentityDigest'', ''sourceBaseIdentityDigest'', ''identityDigest'',
     ''sourceChangeSetDigest'', ''changeSetDigest'', ''patchDigest'', ''digest'']"

definition assemblyIntegerFields :: "string list" where
  "assemblyIntegerFields = [''baseRevision'', ''sourceBaseRevision'', ''revision'',
     ''operationExecutionRevision'', ''controllerEpoch'']"

definition assertCandidateAssemblyReceiptV1 :: "js_env \<Rightarrow> js \<Rightarrow> assembly_error option" where
  "assertCandidateAssemblyReceiptV1 E v =
     (if \<not> js_is_object v \<or> js_is_array v then Some AssemblyNotObject
      else if \<not> js_same (js_get v ''version'') (jint 1) then Some AssemblyVersion
      else case check_all (\<lambda>f. requiredString (js_get v f) (''assembly.'' @ f)) assemblyStringFields of
        Some e \<Rightarrow> Some (AssemblyField e) | None \<Rightarrow>
      case check_all (\<lambda>f. validDigest (js_get v f) (''assembly.'' @ f)) assemblyDigestFields of
        Some e \<Rightarrow> Some (AssemblyField e) | None \<Rightarrow>
      case check_all (\<lambda>f. if js_safe_at_least 0 (js_get v f) then None else Some (AssemblyNotSafeInteger f))
             assemblyIntegerFields of
        Some e \<Rightarrow> Some e | None \<Rightarrow>
      if js_get v ''assemblyId'' \<noteq>
           JStr (candidateAssemblyReceiptIdV1 (str_of (js_get v ''operationId'')) (str_of (js_get v ''candidateId'')))
      then Some AssemblyIdMismatch
      else if int_of (js_get v ''revision'') \<noteq> int_of (js_get v ''baseRevision'') + 1 then Some AssemblyNotNextRevision
      else if int_of (js_get v ''sourceBaseRevision'') > int_of (js_get v ''baseRevision'') then Some AssemblySourceAfterBase
      else if date_parse E (str_of (js_get v ''createdAt'')) \<in> {Some 0, None} then Some AssemblyInstant
      else if (js_get v ''sourceReceiptId'' = JUndefined) \<noteq> (js_get v ''sourceReceiptDigest'' = JUndefined)
      then Some AssemblySourcePair
      else case (if js_get v ''sourceReceiptId'' = JUndefined then None
                 else requiredString (js_get v ''sourceReceiptId'') ''assembly.sourceReceiptId'') of
        Some e \<Rightarrow> Some (AssemblyField e) | None \<Rightarrow>
      case (if js_get v ''sourceReceiptDigest'' = JUndefined then None
            else validDigest (js_get v ''sourceReceiptDigest'') ''assembly.sourceReceiptDigest'') of
        Some e \<Rightarrow> Some (AssemblyField e) | None \<Rightarrow>
      case candidateAssemblyReceiptDigestV1 E v of
        Inl e \<Rightarrow> Some (AssemblyUnserializable e)
      | Inr d \<Rightarrow> if js_get v ''digest'' \<noteq> JStr d then Some AssemblyDigestInconsistent else None)"

definition createCandidateAssemblyReceiptV1 :: "js_env \<Rightarrow> js \<Rightarrow> assembly_error + js" where
  "createCandidateAssemblyReceiptV1 E input =
     (let body = AList.update ''assemblyId''
                   (JStr (candidateAssemblyReceiptIdV1 (str_of (js_get input ''operationId''))
                      (str_of (js_get input ''candidateId''))))
                   (AList.update ''version'' (jint 1) (own_entries input))
      in case candidateAssemblyReceiptDigestV1 E (JObj body) of
           Inl e \<Rightarrow> Inl (AssemblyUnserializable e)
         | Inr d \<Rightarrow>
            (let receipt = JObj (AList.update ''digest'' (JStr d) body)
             in case assertCandidateAssemblyReceiptV1 E receipt of Some e \<Rightarrow> Inl e | None \<Rightarrow> Inr receipt))"

subsection \<open>Lemmas: what the validators guarantee\<close>

definition nonEmptyText :: "js \<Rightarrow> bool" where
  "nonEmptyText v \<longleftrightarrow> (\<exists>s. v = JStr s \<and> js_trim s \<noteq> [])"

lemma requiredString_None [simp]: "requiredString v field = None \<longleftrightarrow> nonEmptyText v"
  by (auto simp: requiredString_def nonEmptyText_def split: js.splits)

lemma validDigest_None: "validDigest v field = None \<longleftrightarrow> nonEmptyText v \<and> digestPattern v"
  by (auto simp: validDigest_def option.case_eq_if)

lemma assertCandidateRevisionInputV1_None:
  "assertCandidateRevisionInputV1 v = None \<longleftrightarrow>
     js_is_object v \<and> nonEmptyText (js_get v ''operationId'') \<and> nonEmptyText (js_get v ''candidateId'')
     \<and> js_safe_at_least 0 (js_get v ''revision'')
     \<and> nonEmptyText (js_get v ''sourceDigest'') \<and> digestPattern (js_get v ''sourceDigest'')"
  by (auto simp: assertCandidateRevisionInputV1_def validDigest_None option.case_eq_if)

lemma get_text_object: "nonEmptyText (js_get v k) \<Longrightarrow> \<exists>kvs. v = JObj kvs"
  by (cases v) (auto simp: nonEmptyText_def)

lemma assertCandidateRevisionV1_None:
  "assertCandidateRevisionV1 E v = None \<longleftrightarrow>
     assertCandidateRevisionInputV1 v = None \<and> js_get v ''version'' = jint 1
     \<and> set (map fst (own_entries v)) \<subseteq> set supportedCandidateFields
     \<and> (\<exists>canonical. canonicalCandidateIdentity E v = Inr canonical
          \<and> js_get v ''canonicalIdentity'' = JStr canonical
          \<and> js_get v ''identityDigest'' = JStr (sha256Utf8 E canonical))"
proof -
  have same: "js_same x (jint 1) \<longleftrightarrow> x = jint 1" for x
    by (cases x rule: js_truthy.cases) auto
  have none: "filter (\<lambda>f. f \<notin> set supportedCandidateFields) fs = [] \<longleftrightarrow> set fs \<subseteq> set supportedCandidateFields" for fs
    by (auto simp: filter_empty_conv)
  show ?thesis
    unfolding assertCandidateRevisionV1_def same Let_def none
    by (auto simp del: set_map split: option.splits sum.splits)
qed

lemma canonicalCandidateIdentity_Inr:
  assumes "canonicalCandidateIdentity E v = Inr canonical"
  obtains identity where "candidateIdentity E v = Inr identity" "canonicalSerialize identity = Inr canonical"
proof -
  from assms obtain identity where i: "candidateIdentity E v = Inr identity"
    and m: "map_sum Unserializable id (canonicalSerialize identity) = Inr canonical"
    by (auto simp: canonicalCandidateIdentity_def split: option.splits sum.splits)
  from m have "canonicalSerialize identity = Inr canonical"
    by (cases "canonicalSerialize identity") auto
  with i that show thesis by blast
qed

text \<open>The identity object of a candidate, field by field.\<close>

lemma optEntry_map_of: "map_of (optEntry v k @ xs) k' =
    (if k' = k \<and> js_truthy (js_get v k) then Some (js_get v k) else map_of xs k')"
  by (auto simp: optEntry_def)

lemma optEntry_mem: "k' \<in> fst ` set (optEntry v k) \<longleftrightarrow> k' = k \<and> js_truthy (js_get v k)"
  by (auto simp: optEntry_def)

lemma optEntry_pair: "(k', x) \<in> set (optEntry v k) \<longleftrightarrow> k' = k \<and> x = js_get v k \<and> js_truthy x"
  by (auto simp: optEntry_def)

lemma optEntry_disjoint: "k \<noteq> k' \<Longrightarrow> fst ` set (optEntry v k) \<inter> fst ` set (optEntry v k') = {}"
  by (auto simp: optEntry_def)

lemma optEntry_distinct: "distinct (map fst (optEntry v k))"
  by (simp add: optEntry_def)

lemma candidateIdentity_fields:
  assumes "candidateIdentity E v = Inr identity"
  shows "js_get identity ''operationId'' = js_get v ''operationId''"
    and "js_get identity ''candidateId'' = js_get v ''candidateId''"
    and "js_get identity ''revision'' = js_get v ''revision''"
    and "js_get identity ''sourceDigest'' = js_get v ''sourceDigest''"
    and "\<exists>kvs. identity = JObj kvs \<and> distinct (map fst kvs)"
proof -
  let ?ok = "\<lambda>cs. identity = JObj (
          [(''version'', jint 1), (''operationId'', js_get v ''operationId''), (''candidateId'', js_get v ''candidateId'')]
          @ optEntry v ''projectId'' @ optEntry v ''taskId'' @ [(''revision'', js_get v ''revision'')]
          @ optEntry v ''workspace'' @ optEntry v ''worktree'' @ optEntry v ''parentCandidateId''
          @ [(''sourceDigest'', js_get v ''sourceDigest'')] @ cs) \<and> (cs = [] \<or> (\<exists>t. cs = [(''createdAt'', JStr t)]))"
  from assms obtain cs where cs: "?ok cs"
    by (auto simp: candidateIdentity_def map_sum_def split: sum.splits if_splits)
  then show "js_get identity ''operationId'' = js_get v ''operationId''"
    "js_get identity ''candidateId'' = js_get v ''candidateId''"
    "js_get identity ''revision'' = js_get v ''revision''"
    "js_get identity ''sourceDigest'' = js_get v ''sourceDigest''"
    by (simp_all add: optEntry_map_of del: map_of_append)
  show "\<exists>kvs. identity = JObj kvs \<and> distinct (map fst kvs)"
    by (rule exI, rule conjI, rule conjunct1 [OF cs]) (use conjunct2 [OF cs] in
      \<open>auto simp: optEntry_distinct Int_Un_distrib optEntry_disjoint optEntry_mem optEntry_pair image_Un\<close>)
qed

text \<open>Two equal candidates have the same identity content, hence the same identity fields.\<close>

lemma candidateRevisionsEqual_identity:
  assumes "candidateRevisionsEqual E a b"
  obtains ia ib s where "candidateIdentity E a = Inr ia" "candidateIdentity E b = Inr ib"
    "canonicalSerialize ia = Inr s" "canonicalSerialize ib = Inr s"
proof -
  from assms have va: "assertCandidateRevisionV1 E a = None" and vb: "assertCandidateRevisionV1 E b = None"
    and same: "js_same (js_get a ''canonicalIdentity'') (js_get b ''canonicalIdentity'')"
    by (auto simp: candidateRevisionsEqual_def)
  from va obtain ca where ca: "canonicalCandidateIdentity E a = Inr ca" "js_get a ''canonicalIdentity'' = JStr ca"
    by (auto simp: assertCandidateRevisionV1_None)
  from vb obtain cb where cb: "canonicalCandidateIdentity E b = Inr cb" "js_get b ''canonicalIdentity'' = JStr cb"
    by (auto simp: assertCandidateRevisionV1_None)
  from same ca cb have "ca = cb" by simp
  with ca cb that show thesis
    by (metis canonicalCandidateIdentity_Inr)
qed

lemma canon_primitive: "js_safe_at_least n v \<or> nonEmptyText v \<Longrightarrow> canon v = v"
  by (auto simp: nonEmptyText_def elim: js_safe_at_leastE)

lemma canon_primitive_iff:
  assumes "js_safe_at_least n v \<or> nonEmptyText v" "js_safe_at_least m w \<or> nonEmptyText w"
  shows "canon v = canon w \<longleftrightarrow> v = w"
  using assms by (simp add: canon_primitive)

lemma identity_content_fields:
  assumes "candidateIdentity E a = Inr ia" "candidateIdentity E b = Inr ib" "canon ia = canon ib"
    and "k \<in> {''operationId'', ''candidateId'', ''revision'', ''sourceDigest''}"
  shows "canon (js_get a k) = canon (js_get b k)"
proof -
  obtain ka where ka: "ia = JObj ka" "distinct (map fst ka)" using candidateIdentity_fields(5) [OF assms(1)] by blast
  obtain kb where kb: "ib = JObj kb" "distinct (map fst kb)" using candidateIdentity_fields(5) [OF assms(2)] by blast
  have "canon (js_get ia k) = canon (js_get ib k)"
    using assms(3) canon_get [OF ka(2), of k] canon_get [OF kb(2), of k] ka(1) kb(1) by simp
  moreover have "js_get ia k = js_get a k" "js_get ib k = js_get b k"
    using assms(4) candidateIdentity_fields [OF assms(1)] candidateIdentity_fields [OF assms(2)] by auto
  ultimately show ?thesis by simp
qed

definition identityInputFields :: "string list" where
  "identityInputFields = [''operationId'', ''candidateId'', ''projectId'', ''taskId'', ''revision'', ''workspace'',
     ''worktree'', ''parentCandidateId'', ''sourceDigest'', ''createdAt'']"

lemma identity_congs:
  assumes "\<And>k. k \<in> set identityInputFields \<Longrightarrow> js_get a k = js_get b k"
  shows "candidateIdentity E a = candidateIdentity E b"
    and "js_is_object a \<Longrightarrow> js_is_object b \<Longrightarrow> assertCandidateRevisionInputV1 a = assertCandidateRevisionInputV1 b"
proof -
  have eqs: "js_get a ''operationId'' = js_get b ''operationId''" "js_get a ''candidateId'' = js_get b ''candidateId''"
    "js_get a ''projectId'' = js_get b ''projectId''" "js_get a ''taskId'' = js_get b ''taskId''"
    "js_get a ''revision'' = js_get b ''revision''" "js_get a ''workspace'' = js_get b ''workspace''"
    "js_get a ''worktree'' = js_get b ''worktree''" "js_get a ''parentCandidateId'' = js_get b ''parentCandidateId''"
    "js_get a ''sourceDigest'' = js_get b ''sourceDigest''" "js_get a ''createdAt'' = js_get b ''createdAt''"
    by (auto intro!: assms simp: identityInputFields_def)
  show "candidateIdentity E a = candidateIdentity E b"
    unfolding candidateIdentity_def optEntry_def eqs by (rule refl)
  assume "js_is_object a" "js_is_object b"
  then show "assertCandidateRevisionInputV1 a = assertCandidateRevisionInputV1 b"
    unfolding assertCandidateRevisionInputV1_def eqs by simp
qed

lemma js_is_object_JObj [simp]: "js_is_object (JObj kvs)"
  by (simp add: js_is_object_def)

subsection \<open>Properties of candidates\<close>

text \<open>An environment for the witnesses: a constant digest, every non-empty text a date.\<close>

definition sample_env :: js_env where
  "sample_env = \<lparr>sha256 = (\<lambda>s. replicate 64 (CHR ''a'')), date_parse = (\<lambda>s. if s = [] then None else Some 1000),
     to_iso = (\<lambda>t. ''iso'')\<rparr>"

definition sample_input :: js where
  "sample_input = JObj [(''operationId'', JStr ''op''), (''candidateId'', JStr ''c1''), (''revision'', jint 1),
     (''sourceDigest'', JStr (replicate 64 (CHR ''b'')))]"

text \<open>Every candidate revision that \<open>createCandidateRevisionV1\<close> returns for an input with supported
  fields passes \<open>assertCandidateRevisionV1\<close>, and keeps the input's identity fields.\<close>

theorem createCandidateRevisionV1_valid:
  assumes created: "createCandidateRevisionV1 E input = Inr c"
    and fields: "set (map fst (own_entries input)) \<subseteq> set supportedCandidateFields"
  shows "assertCandidateRevisionV1 E c = None \<and> (\<forall>k \<in> set identityInputFields. js_get c k = js_get input k)"
proof -
  from created obtain identity canonical where ok: "assertCandidateRevisionInputV1 input = None"
    and id: "candidateIdentity E input = Inr identity" and ser: "canonicalSerialize identity = Inr canonical"
    and c: "c = JObj (AList.update ''identityDigest'' (JStr (sha256Utf8 E canonical))
                   (AList.update ''canonicalIdentity'' (JStr canonical)
                    (AList.update ''version'' (jint 1) (own_entries input))))"
    by (auto simp: createCandidateRevisionV1_def split: option.splits sum.splits)
  from ok obtain kvs where input: "input = JObj kvs"
    by (auto simp: assertCandidateRevisionInputV1_None dest!: get_text_object)
  have keep: "js_get c k = js_get input k" if "k \<in> set identityInputFields" for k
    using that by (auto simp: c input own_entries_def identityInputFields_def)
  have idc: "candidateIdentity E c = Inr identity" "assertCandidateRevisionInputV1 c = None"
    using identity_congs(1) [of c input E] identity_congs(2) [of c input] keep id ok
    by (simp_all add: c input)
  moreover have "js_get c ''version'' = jint 1" "js_get c ''canonicalIdentity'' = JStr canonical"
    "js_get c ''identityDigest'' = JStr (sha256Utf8 E canonical)"
    by (simp_all add: c)
  moreover have "set (map fst (own_entries c)) \<subseteq> set supportedCandidateFields"
    using fields by (auto simp: c own_entries_def dom_update supportedCandidateFields_def)
  ultimately have "assertCandidateRevisionV1 E c = None"
    unfolding assertCandidateRevisionV1_None canonicalCandidateIdentity_def using ser by simp
  with keep show ?thesis by blast
qed

theorem createCandidateRevisionV1_valid_witness:
  "\<exists>c. createCandidateRevisionV1 sample_env sample_input = Inr c \<and> assertCandidateRevisionV1 sample_env c = None"
proof -
  have "\<not> isl (createCandidateRevisionV1 sample_env sample_input)" by code_simp
  then obtain c where c: "createCandidateRevisionV1 sample_env sample_input = Inr c"
    by (cases "createCandidateRevisionV1 sample_env sample_input") auto
  moreover have "set (map fst (own_entries sample_input)) \<subseteq> set supportedCandidateFields" by code_simp
  ultimately show ?thesis using createCandidateRevisionV1_valid by blast
qed

text \<open>C26: two valid candidates are equal for \<open>candidateRevisionsEqual\<close> exactly when their identity
  objects have the same content, whatever the digest function.\<close>

theorem candidateRevisionsEqual_iff_identity:
  assumes "assertCandidateRevisionV1 E a = None" "assertCandidateRevisionV1 E b = None"
    and "candidateIdentity E a = Inr ia" "candidateIdentity E b = Inr ib" "nums_ok ia" "nums_ok ib"
  shows "candidateRevisionsEqual E a b \<longleftrightarrow> canon ia = canon ib"
proof
  assume "candidateRevisionsEqual E a b"
  then obtain s where "canonicalSerialize ia = Inr s" "canonicalSerialize ib = Inr s"
    by (rule candidateRevisionsEqual_identity) (use assms(3,4) in auto)
  with assms(5,6) show "canon ia = canon ib"
    using serialize_content canonicalSerialize_not_undefined unfolding canonicalSerialize_def by blast
next
  assume "canon ia = canon ib"
  then have "canonicalSerialize ia = canonicalSerialize ib"
    unfolding canonicalSerialize_def by (metis serialize_canon)
  with assms(3,4) have "canonicalCandidateIdentity E a = canonicalCandidateIdentity E b"
    using assms(1,2) by (simp add: canonicalCandidateIdentity_def assertCandidateRevisionV1_None)
  with assms(1,2) show "candidateRevisionsEqual E a b"
    by (auto simp: candidateRevisionsEqual_def assertCandidateRevisionV1_None)
qed

definition sample_candidate :: js where
  "sample_candidate = projr (createCandidateRevisionV1 sample_env sample_input)"

definition sample_candidate_reread :: js where
  "sample_candidate_reread = JObj (rev (own_entries sample_candidate))"

theorem candidateRevisionsEqual_iff_identity_witness:
  "candidateRevisionsEqual sample_env sample_candidate sample_candidate_reread"
proof -
  have v: "assertCandidateRevisionV1 sample_env sample_candidate = None"
    "assertCandidateRevisionV1 sample_env sample_candidate_reread = None" by code_simp+
  have ids: "\<not> isl (candidateIdentity sample_env sample_candidate)"
    "\<not> isl (candidateIdentity sample_env sample_candidate_reread)" by code_simp+
  then obtain i k where ik: "candidateIdentity sample_env sample_candidate = Inr i"
    "candidateIdentity sample_env sample_candidate_reread = Inr k"
    by (auto simp: isl_def) (meson sum.exhaust)
  have "nums_ok (projr (candidateIdentity sample_env sample_candidate))"
    "nums_ok (projr (candidateIdentity sample_env sample_candidate_reread))"
    "canon (projr (candidateIdentity sample_env sample_candidate))
      = canon (projr (candidateIdentity sample_env sample_candidate_reread))" by code_simp+
  with ik candidateRevisionsEqual_iff_identity [OF v ik] show ?thesis by simp
qed

text \<open>Equal candidates belong to the same operation and agree on the candidate id, the revision and
  the source digest, so a binding to one is a binding to the other.\<close>

theorem candidateRevisionsEqual_fields:
  assumes eq: "candidateRevisionsEqual E a b"
    and nums: "\<And>ia. candidateIdentity E a = Inr ia \<Longrightarrow> nums_ok ia" "\<And>ib. candidateIdentity E b = Inr ib \<Longrightarrow> nums_ok ib"
    and k: "k \<in> {''operationId'', ''candidateId'', ''revision'', ''sourceDigest''}"
  shows "js_get a k = js_get b k"
proof -
  from eq obtain ia ib s where i: "candidateIdentity E a = Inr ia" "candidateIdentity E b = Inr ib"
    "canonicalSerialize ia = Inr s" "canonicalSerialize ib = Inr s"
    by (rule candidateRevisionsEqual_identity)
  then have "canon ia = canon ib"
    using nums serialize_content canonicalSerialize_not_undefined unfolding canonicalSerialize_def by blast
  with i k have "canon (js_get a k) = canon (js_get b k)" by (intro identity_content_fields)
  moreover have "js_safe_at_least 0 (js_get a k) \<or> nonEmptyText (js_get a k)"
    "js_safe_at_least 0 (js_get b k) \<or> nonEmptyText (js_get b k)"
    using eq k by (auto simp: candidateRevisionsEqual_def assertCandidateRevisionV1_None assertCandidateRevisionInputV1_None)
  ultimately show ?thesis by (simp add: canon_primitive_iff)
qed

theorem candidateRevisionsEqual_fields_witness:
  "js_get sample_candidate ''revision'' = js_get sample_candidate_reread ''revision''
   \<and> sample_candidate \<noteq> sample_candidate_reread"
proof -
  have e: "candidateRevisionsEqual sample_env sample_candidate sample_candidate_reread" by code_simp
  have n: "nums_ok (projr (candidateIdentity sample_env sample_candidate))"
    "nums_ok (projr (candidateIdentity sample_env sample_candidate_reread))" by code_simp+
  have "js_get sample_candidate ''revision'' = js_get sample_candidate_reread ''revision''"
    by (rule candidateRevisionsEqual_fields [OF e]) (use n in auto)
  moreover have "sample_candidate \<noteq> sample_candidate_reread" by code_simp
  ultimately show ?thesis by simp
qed

subsection \<open>The terminal gate and assembly receipts\<close>

lemma failIf_append_Nil [simp]: "failIf b x @ xs = [] \<longleftrightarrow> \<not> b \<and> xs = []"
  by (simp add: failIf_def)

lemma failIf_Nil [simp]: "failIf b x = [] \<longleftrightarrow> \<not> b"
  by (simp add: failIf_def)

lemma evaluateTerminalGate_allowed:
  assumes "evaluateTerminalGate E clock receipt expected = Inr d"
  shows "td_allowed d \<longleftrightarrow> td_reasons d = []"
  using assms
  by (auto simp: evaluateTerminalGate_def Let_def split: if_splits option.splits sum.splits)


definition sample_terminal_receipt :: js where
  "sample_terminal_receipt = (let d = JStr (replicate 64 (CHR ''a'')) in JObj
     [(''version'', jint 1), (''receiptId'', JStr ''r1''), (''participantId'', JStr ''p1''),
      (''operationId'', JStr ''op''), (''outcome'', JStr ''SUCCEEDED''), (''candidate'', sample_candidate),
      (''runtimeTerminal'', JObj [(''kind'', JStr ''runtime-terminal''), (''terminal'', JBool True),
         (''eventId'', JStr ''e1''), (''observedAt'', JStr ''t''), (''status'', JStr ''SUCCEEDED'')]),
      (''contract'', JObj [(''valid'', JBool True), (''contractId'', JStr ''k''), (''contractDigest'', d)]),
      (''artifact'', JObj [(''persisted'', JBool True), (''artifactId'', JStr ''x''), (''artifactDigest'', d),
         (''persistedAt'', JStr ''t'')]),
      (''provenance'', JObj [(''valid'', JBool True), (''provenanceId'', JStr ''v''), (''source'', JStr ''s''),
         (''provenanceDigest'', d)])])"

lemma sample_candidate_valid: "assertCandidateRevisionV1 sample_env sample_candidate = None"
  by code_simp

lemma candidateRevisionsEqual_refl:
  "assertCandidateRevisionV1 E c = None \<Longrightarrow> candidateRevisionsEqual E c c"
  by (auto simp: candidateRevisionsEqual_def assertCandidateRevisionV1_None)

lemma terminalContext_candidate:
  assumes "assertCandidateRevisionV1 E c = None"
  shows "terminalContext c = Some (JObj [(''candidate'', c)])"
proof -
  from assms obtain kvs where "c = JObj kvs" "set (map fst kvs) \<subseteq> set supportedCandidateFields"
    by (auto simp: assertCandidateRevisionV1_None assertCandidateRevisionInputV1_None own_entries_def
        dest!: get_text_object)
  then have "''candidate'' \<notin> set (map fst kvs)" by (auto simp: supportedCandidateFields_def)
  with \<open>c = JObj kvs\<close> show ?thesis by (simp add: terminalContext_def)
qed


lemma assertCandidateAssemblyReceiptV1_digest:
  assumes "assertCandidateAssemblyReceiptV1 E v = None"
  obtains d where "candidateAssemblyReceiptDigestV1 E v = Inr d" "js_get v ''digest'' = JStr d"
  using assms unfolding assertCandidateAssemblyReceiptV1_def
  by (auto split: if_splits option.splits sum.splits)


text \<open>A valid assembly receipt, given by its fields; its body serializes because it is printable.\<close>

definition sample_assembly :: js where
  "sample_assembly = (let d = JStr (replicate 64 (CHR ''a'')) in JObj
     [(''version'', jint 1), (''assemblyId'', JStr ''assembly:op:c1''), (''digest'', d),
      (''operationId'', JStr ''op''), (''taskId'', JStr ''t''), (''workUnitId'', JStr ''w''),
      (''participantId'', JStr ''p2''), (''baseCandidateId'', JStr ''c0''), (''candidateId'', JStr ''c1''),
      (''createdAt'', JStr ''2026''), (''baseIdentityDigest'', d), (''sourceBaseIdentityDigest'', d),
      (''identityDigest'', d), (''sourceChangeSetDigest'', d), (''changeSetDigest'', d), (''patchDigest'', d),
      (''baseRevision'', jint 0), (''sourceBaseRevision'', jint 0), (''revision'', jint 1),
      (''operationExecutionRevision'', jint 3), (''controllerEpoch'', jint 1),
      (''sourceReceiptId'', JStr ''r1''), (''sourceReceiptDigest'', d)])"

lemma sample_assembly_valid: "assertCandidateAssemblyReceiptV1 sample_env sample_assembly = None"
proof -
  have "printable (canon (candidateAssemblyReceiptBodyV1 sample_assembly))" by code_simp
  then obtain s where "canonicalSerialize (candidateAssemblyReceiptBodyV1 sample_assembly) = Inr s"
    unfolding canonicalSerialize_def using printable_serializes by blast
  then have d: "candidateAssemblyReceiptDigestV1 sample_env sample_assembly = Inr (replicate 64 (CHR ''a''))"
    by (simp add: candidateAssemblyReceiptDigestV1_def sha256Canonical_def sha256Utf8_def sample_env_def)
  have checks: "check_all (\<lambda>f. requiredString (js_get sample_assembly f) (''assembly.'' @ f)) assemblyStringFields = None"
    "check_all (\<lambda>f. validDigest (js_get sample_assembly f) (''assembly.'' @ f)) assemblyDigestFields = None"
    "check_all (\<lambda>f. if js_safe_at_least 0 (js_get sample_assembly f) then None else Some (AssemblyNotSafeInteger f))
             assemblyIntegerFields = None"
    "validDigest (js_get sample_assembly ''sourceReceiptDigest'') ''assembly.sourceReceiptDigest'' = None"
    "requiredString (js_get sample_assembly ''sourceReceiptId'') ''assembly.sourceReceiptId'' = None"
    "candidateAssemblyReceiptIdV1 ''op'' ''c1'' = ''assembly:op:c1''"
    by code_simp+
  have gets: "js_is_object sample_assembly" "\<not> js_is_array sample_assembly" "js_get sample_assembly ''version'' = jint 1"
    "js_get sample_assembly ''assemblyId'' = JStr ''assembly:op:c1''" "js_get sample_assembly ''operationId'' = JStr ''op''"
    "js_get sample_assembly ''candidateId'' = JStr ''c1''" "js_get sample_assembly ''revision'' = jint 1"
    "js_get sample_assembly ''baseRevision'' = jint 0" "js_get sample_assembly ''sourceBaseRevision'' = jint 0"
    "date_parse sample_env (str_of (js_get sample_assembly ''createdAt'')) = Some 1000"
    "js_get sample_assembly ''digest'' = JStr (replicate 64 (CHR ''a''))"
    "js_get sample_assembly ''sourceReceiptId'' \<noteq> JUndefined" "js_get sample_assembly ''sourceReceiptDigest'' \<noteq> JUndefined"
    by code_simp+
  show ?thesis
    unfolding assertCandidateAssemblyReceiptV1_def checks d gets by (simp add: str_of_def int_of_def checks gets)
qed


end
