(* ===== verification/Digraph.thy ===== *)
theory Digraph
  imports Js
begin

text \<open>
  Facts on finite directed graphs that the cycle checks share: sets of nodes that are closed under
  successors and hold no node on a cycle, and how a depth-first search grows them.
\<close>

definition settled :: "('a \<times> 'a) set \<Rightarrow> 'a set \<Rightarrow> bool" where
  "settled r B \<longleftrightarrow> r `` B \<subseteq> B \<and> (\<forall>b \<in> B. (b, b) \<notin> r\<^sup>+)"

lemma settled_empty [simp]: "settled r {}"
  by (simp add: settled_def)

lemma closed_reach: "(a, b) \<in> r\<^sup>* \<Longrightarrow> r `` B \<subseteq> B \<Longrightarrow> a \<in> B \<Longrightarrow> b \<in> B"
  by (induction rule: rtrancl_induct) auto

lemma settled_reach:
  assumes "settled r B" "s \<in> B" "(s, x) \<in> r\<^sup>*"
  shows "(x, x) \<notin> r\<^sup>+"
  using assms closed_reach [of s x r B] by (auto simp: settled_def)

lemma settled_insert:
  assumes "settled r B" "n \<notin> B" "r `` {n} \<subseteq> B"
  shows "settled r (insert n B)"
proof -
  have "(n, n) \<notin> r\<^sup>+"
  proof
    assume "(n, n) \<in> r\<^sup>+"
    then obtain c where "(n, c) \<in> r" "(c, n) \<in> r\<^sup>*" by (meson tranclD)
    then have "n \<in> B" using assms(1,3) closed_reach [of c n r B] by (auto simp: settled_def)
    with assms(2) show False by simp
  qed
  with assms show ?thesis by (auto simp: settled_def)
qed

lemma settled_acyclic: "settled r B \<Longrightarrow> Domain r \<subseteq> B \<Longrightarrow> acyclic r"
  unfolding acyclic_def settled_def by (metis DomainI subsetD tranclD)

text \<open>A finite non-empty set has an element without predecessors in it when the relation has no cycle.\<close>

lemma acyclic_minimal:
  assumes "finite A" "A \<noteq> {}" "acyclic r"
  obtains x where "x \<in> A" "\<And>y. (y, x) \<in> r \<Longrightarrow> y \<notin> A"
proof -
  have "acyclic (r \<inter> A \<times> A)" using assms(3) by (rule acyclic_subset) blast
  moreover have "finite (r \<inter> A \<times> A)" using assms(1) by blast
  ultimately have "wf (r \<inter> A \<times> A)" by (rule finite_acyclic_wf [rotated])
  then obtain x where "x \<in> A" "\<And>y. (y, x) \<in> r \<inter> A \<times> A \<Longrightarrow> y \<notin> A"
    using assms(2) by (metis all_not_in_conv wf_eq_minimal)
  with that show thesis by blast
qed

end
