(* ===== verification/CandidateLineage.thy ===== *)
theory CandidateLineage
  imports CandidateContracts Digraph
begin

text \<open>
  Receipt lineage and retry chains (the second half of \<open>src/src/operations/v2Contracts.ts\<close>): the walk
  over assembly receipts from the current candidate back to the candidate a receipt is bound to, and
  the search of a failed participant's retry descendants for one that completed. Participants are
  records; receipts and assemblies are run-time values, as in the code.
\<close>

subsection \<open>Receipt lineage\<close>

datatype lineage = DIRECT_BINDING | ASSEMBLY js | ANCESTOR

record cursor =
  cu_candidateId :: js
  cu_revision :: js
  cu_identityDigest :: js

definition assemblyAt :: "js list \<Rightarrow> cursor \<Rightarrow> js option" where
  "assemblyAt valid c = List.find (\<lambda>a. js_same (js_get a ''candidateId'') (cu_candidateId c)
     \<and> js_same (js_get a ''revision'') (cu_revision c)
     \<and> js_same (js_get a ''identityDigest'') (cu_identityDigest c)) valid"

definition baseCursor :: "js \<Rightarrow> cursor" where
  "baseCursor a = \<lparr>cu_candidateId = js_get a ''baseCandidateId'', cu_revision = js_get a ''baseRevision'',
     cu_identityDigest = js_get a ''baseIdentityDigest''\<rparr>"

definition candidateCursor :: "js \<Rightarrow> cursor" where
  "candidateCursor c = \<lparr>cu_candidateId = js_get c ''candidateId'', cu_revision = js_get c ''revision'',
     cu_identityDigest = js_get c ''identityDigest''\<rparr>"

text \<open>The assemblies the loop visits (at most \<open>hops\<close> of them), from the current candidate backwards.\<close>

fun lineageWalk :: "js list \<Rightarrow> nat \<Rightarrow> cursor \<Rightarrow> js list" where
  "lineageWalk valid 0 c = []"
| "lineageWalk valid (Suc hops) c =
     (case assemblyAt valid c of
        None \<Rightarrow> []
      | Some a \<Rightarrow> a # lineageWalk valid hops (baseCursor a))"

definition namesReceipt :: "js \<Rightarrow> string \<Rightarrow> js \<Rightarrow> bool" where
  "namesReceipt receipt digest a \<longleftrightarrow>
     js_same (js_get a ''sourceReceiptId'') (js_get receipt ''receiptId'')
     \<and> js_get a ''sourceReceiptDigest'' = JStr digest"

definition nonProducingCandidateRoles :: "string list" where
  "nonProducingCandidateRoles = [''Explorer'', ''Planner'', ''Reviewer'', ''Librarian'', ''Spec Manager'']"

definition resolveCandidateLineageReceiptV1 ::
    "js_env \<Rightarrow> js \<Rightarrow> js \<Rightarrow> js list \<Rightarrow> serialize_error + lineage option" where
  "resolveCandidateLineageReceiptV1 E receipt current assemblies =
     (let bound = boundCandidate receipt in
      if \<not> js_truthy bound then Inr None
      else if assertCandidateRevisionV1 E bound \<noteq> None \<or> assertCandidateRevisionV1 E current \<noteq> None then Inr None
      else if candidateRevisionsEqual E bound current then Inr (Some DIRECT_BINDING)
      else if js_get receipt ''settled'' \<noteq> JBool True \<or> js_get receipt ''outcome'' \<noteq> JStr ''SUCCEEDED'' then Inr None
      else if \<not> js_same (js_get receipt ''operationId'') (js_get current ''operationId'') then Inr None
      else let valid = filter (\<lambda>a. assertCandidateAssemblyReceiptV1 E a = None) assemblies in
      case sha256Canonical E receipt of
        Inl e \<Rightarrow> Inl e
      | Inr receiptDigest \<Rightarrow>
         (let walk = lineageWalk valid (nat (int_of (js_get current ''revision'')) + 1) (candidateCursor current);
              match = (case filter (namesReceipt receipt receiptDigest) walk of [] \<Rightarrow> None | ms \<Rightarrow> Some (last ms));
              onAncestry = list_ex (\<lambda>c. js_same (cu_revision c) (js_get bound ''revision'')
                  \<and> js_same (cu_identityDigest c) (js_get bound ''identityDigest'')) (map baseCursor walk)
          in case match of
               None \<Rightarrow> Inr (if onAncestry \<and> str_of (js_get receipt ''role'') \<in> set nonProducingCandidateRoles
                            then Some ANCESTOR else None)
             | Some a \<Rightarrow> Inr (if \<not> onAncestry then None
                 else if \<not> js_same (js_get a ''sourceBaseRevision'') (js_get bound ''revision'')
                         \<or> \<not> js_same (js_get a ''sourceBaseIdentityDigest'') (js_get bound ''identityDigest'')
                 then None
                 else Some (ASSEMBLY a))))"

subsection \<open>Retry chains\<close>

record participant_ref =
  pr_id :: string
  pr_parentAgentId :: "string option"

type_synonym children_map = "(string \<times> string list) list"

text \<open>\<open>children.get(node)\<close>, the children in insertion order, none when the node has no entry.\<close>

definition childrenOf :: "children_map \<Rightarrow> string \<Rightarrow> string list" where
  "childrenOf m p = (case map_of m p of Some cs \<Rightarrow> cs | None \<Rightarrow> [])"

definition addLink :: "string list \<Rightarrow> string \<Rightarrow> string \<Rightarrow> children_map \<Rightarrow> children_map" where
  "addLink known parent child m =
     (if parent \<notin> set known \<or> child \<notin> set known then m
      else AList.update parent
             (if child \<in> set (childrenOf m parent) then childrenOf m parent else childrenOf m parent @ [child]) m)"

definition receiptOwners :: "string list \<Rightarrow> js \<Rightarrow> string list" where
  "receiptOwners known receipt = js_uniq (
     (case js_get receipt ''participantId'' of JStr p \<Rightarrow> if p \<in> set known then [p] else [] | _ \<Rightarrow> [])
   @ (case js_get receipt ''sessionId'' of JStr p \<Rightarrow> if p \<in> set known then [p] else [] | _ \<Rightarrow> []))"

definition linkParticipants :: "string list \<Rightarrow> participant_ref list \<Rightarrow> children_map \<Rightarrow> children_map" where
  "linkParticipants known ps m = fold (\<lambda>p m. case pr_parentAgentId p of
       Some parent \<Rightarrow> if parent = [] then m else addLink known parent (pr_id p) m
     | None \<Rightarrow> m) ps m"

definition linkReceipts :: "string list \<Rightarrow> js list \<Rightarrow> children_map \<Rightarrow> children_map" where
  "linkReceipts known receipts m = fold (\<lambda>r m. case js_get r ''parentParticipantId'' of
       JStr parent \<Rightarrow> if parent = [] then m else fold (addLink known parent) (receiptOwners known r) m
     | _ \<Rightarrow> m) receipts m"

datatype colour = GRAY | BLACK

type_synonym dfs_stack = "(string \<times> string list) list"

definition uncoloured :: "children_map \<Rightarrow> (string \<times> colour) list \<Rightarrow> dfs_stack \<Rightarrow> string set" where
  "uncoloured m col st = (\<Union>(set ` snd ` set m) \<union> \<Union>(set ` snd ` set st)) - set (map fst col)"

text \<open>The path-based depth-first search: \<open>False\<close> when it meets a \<open>GRAY\<close> node again.\<close>

function acyclicFrom :: "children_map \<Rightarrow> (string \<times> colour) list \<Rightarrow> dfs_stack \<Rightarrow> bool" where
  "acyclicFrom m col [] = True"
| "acyclicFrom m col ((node, []) # st) = acyclicFrom m (AList.update node BLACK col) st"
| "acyclicFrom m col ((node, nxt # rest) # st) =
     (case map_of col nxt of
        Some GRAY \<Rightarrow> False
      | Some BLACK \<Rightarrow> acyclicFrom m col ((node, rest) # st)
      | None \<Rightarrow> acyclicFrom m (AList.update nxt GRAY col)
                 ((nxt, sort (childrenOf m nxt)) # (node, rest) # st))"
  by pat_completeness auto

lemma uncoloured_finite: "finite (uncoloured m col st)"
  by (simp add: uncoloured_def)

lemma childrenOf_in: "set (childrenOf m p) \<subseteq> \<Union>(set ` snd ` set m)"
proof (cases "map_of m p")
  case (Some cs)
  then have "(p, cs) \<in> set m" by (rule map_of_SomeD)
  with Some show ?thesis by (force simp: childrenOf_def)
qed (simp add: childrenOf_def)

lemma uncoloured_mono:
  assumes "set (map fst col) \<subseteq> set (map fst col')"
    and "\<Union>(set ` snd ` set st') \<subseteq> \<Union>(set ` snd ` set m) \<union> \<Union>(set ` snd ` set st)"
  shows "card (uncoloured m col' st') \<le> card (uncoloured m col st)"
  using assms by (intro card_mono uncoloured_finite) (auto simp: uncoloured_def)

lemma uncoloured_push:
  assumes "map_of col nxt = None"
  shows "card (uncoloured m (AList.update nxt GRAY col) ((nxt, sort (childrenOf m nxt)) # (node, rest) # st))
    < card (uncoloured m col ((node, nxt # rest) # st))"
proof (rule psubset_card_mono [OF uncoloured_finite])
  have "nxt \<in> uncoloured m col ((node, nxt # rest) # st)"
    using assms by (auto simp: uncoloured_def map_of_eq_None_iff)
  moreover have "nxt \<notin> uncoloured m (AList.update nxt GRAY col) ((nxt, sort (childrenOf m nxt)) # (node, rest) # st)"
    by (auto simp: uncoloured_def dom_update)
  moreover have "uncoloured m (AList.update nxt GRAY col) ((nxt, sort (childrenOf m nxt)) # (node, rest) # st)
      \<subseteq> uncoloured m col ((node, nxt # rest) # st)"
    using childrenOf_in [of m nxt] by (auto simp: uncoloured_def dom_update)
  ultimately show "uncoloured m (AList.update nxt GRAY col) ((nxt, sort (childrenOf m nxt)) # (node, rest) # st)
      \<subset> uncoloured m col ((node, nxt # rest) # st)"
    by blast
qed

termination acyclicFrom
proof (relation "measures [\<lambda>(m, col, st). card (uncoloured m col st),
    \<lambda>(m, col, st). sum_list (map (\<lambda>(n, cs). length cs + 1) st)]", goal_cases)
  case (2 m col node st)
  have "card (uncoloured m (AList.update node BLACK col) st) \<le> card (uncoloured m col ((node, []) # st))"
    by (rule uncoloured_mono) (auto simp: dom_update)
  then show ?case by auto
next
  case (4 m col node nxt rest st)
  have "card (uncoloured m col ((node, rest) # st)) \<le> card (uncoloured m col ((node, nxt # rest) # st))"
    by (rule uncoloured_mono) auto
  then show ?case by auto
next
  case (3 m col node nxt rest st)
  then show ?case using uncoloured_push [of col nxt] by simp
qed simp

fun someResult :: "('a \<Rightarrow> 'e + bool) \<Rightarrow> 'a list \<Rightarrow> 'e + bool" where
  "someResult f [] = Inr False"
| "someResult f (x # xs) = (case f x of Inl e \<Rightarrow> Inl e | Inr True \<Rightarrow> Inr True | Inr False \<Rightarrow> someResult f xs)"

definition receiptCompletes :: "js_env \<Rightarrow> js \<Rightarrow> js list \<Rightarrow> string \<Rightarrow> js \<Rightarrow> serialize_error + bool" where
  "receiptCompletes E current assemblies descendant entry =
     (if (js_get entry ''participantId'' = JStr descendant \<or> js_get entry ''sessionId'' = JStr descendant)
         \<and> js_get entry ''settled'' = JBool True \<and> js_get entry ''outcome'' = JStr ''SUCCEEDED''
         \<and> js_get entry ''candidate'' \<noteq> JUndefined
      then map_sum id (\<lambda>r. r \<noteq> None) (resolveCandidateLineageReceiptV1 E entry current assemblies)
      else Inr False)"

text \<open>One level of the breadth-first walk: the first completed descendant, or the nodes visited so far.\<close>

fun scanFrontier :: "(string \<Rightarrow> 'e + bool) \<Rightarrow> string list \<Rightarrow> string list \<Rightarrow> 'e + (string option \<times> string list)" where
  "scanFrontier completed visited [] = Inr (None, visited)"
| "scanFrontier completed visited (d # ds) =
     (if d \<in> set visited then scanFrontier completed visited ds
      else case completed d of
        Inl e \<Rightarrow> Inl e
      | Inr True \<Rightarrow> Inr (Some d, d # visited)
      | Inr False \<Rightarrow> scanFrontier completed (d # visited) ds)"

definition nextFrontier :: "children_map \<Rightarrow> string list \<Rightarrow> string list \<Rightarrow> string list" where
  "nextFrontier m visited frontier =
     sort (js_uniq (filter (\<lambda>c. c \<notin> set visited) (concat (map (childrenOf m) frontier))))"

lemma scanFrontier_visited:
  "scanFrontier completed visited ds = Inr (None, visited') \<Longrightarrow> set visited' = set visited \<union> set ds"
  by (induction completed visited ds rule: scanFrontier.induct) (auto split: if_splits sum.splits bool.splits)

definition unvisited :: "children_map \<Rightarrow> string list \<Rightarrow> string list \<Rightarrow> string set" where
  "unvisited m visited frontier = (\<Union>(set ` snd ` set m) \<union> set frontier) - set visited"

lemma set_nextFrontier: "set (nextFrontier m visited frontier) = (\<Union>d \<in> set frontier. set (childrenOf m d)) - set visited"
  by (auto simp: nextFrontier_def)

lemma unvisited_next:
  assumes "set visited' = set visited \<union> set frontier"
  shows "unvisited m visited' (nextFrontier m visited' frontier) \<subseteq> unvisited m visited frontier - set frontier"
  using assms childrenOf_in [of m] by (fastforce simp: unvisited_def set_nextFrontier)

function supersedeSearch :: "(string \<Rightarrow> 'e + bool) \<Rightarrow> children_map \<Rightarrow> string list \<Rightarrow> string list \<Rightarrow> 'e + string option" where
  "supersedeSearch completed m visited frontier =
     (if frontier = [] then Inr None
      else case scanFrontier completed visited frontier of
        Inl e \<Rightarrow> Inl e
      | Inr (Some d, _) \<Rightarrow> Inr (Some d)
      | Inr (None, visited') \<Rightarrow> supersedeSearch completed m visited' (nextFrontier m visited' frontier))"
  by pat_completeness auto
termination
proof (relation "measures [\<lambda>(f, m, visited, frontier). card (unvisited m visited frontier),
    \<lambda>(f, m, visited, frontier). if frontier = [] then 0 else if set frontier \<subseteq> set visited then 2 else 1]", goal_cases)
  case (2 completed m visited frontier x a visited')
  then have v: "set visited' = set visited \<union> set frontier"
    using scanFrontier_visited by blast
  let ?U = "unvisited m visited frontier" and ?next = "nextFrontier m visited' frontier"
  have fin: "finite ?U" by (simp add: unvisited_def)
  have sub: "unvisited m visited' ?next \<subseteq> ?U - set frontier" using v by (rule unvisited_next)
  show ?case
  proof (cases "set frontier \<subseteq> set visited")
    case True
    have "card (unvisited m visited' ?next) \<le> card ?U" using sub fin by (meson Diff_subset card_mono order_trans)
    moreover have "?next = [] \<or> \<not> set ?next \<subseteq> set visited'"
      by (cases ?next) (use set_nextFrontier [of m visited' frontier] in auto)
    ultimately show ?thesis using True 2 by auto
  next
    case False
    then have "?U - set frontier \<subset> ?U" by (auto simp: unvisited_def)
    with sub have "card (unvisited m visited' ?next) < card ?U" using fin by (meson psubset_card_mono subset_psubset_trans)
    then show ?thesis by simp
  qed
qed simp

declare supersedeSearch.simps [simp del]

definition resolveAttemptChainSupersedeV1 ::
    "js_env \<Rightarrow> string \<Rightarrow> (string \<times> participant_ref) list \<Rightarrow> js list \<Rightarrow> js \<Rightarrow> js list \<Rightarrow> serialize_error + string option" where
  "resolveAttemptChainSupersedeV1 E participantId participants receipts current assemblies =
     (if map_of participants participantId = None then Inr None
      else let known = map fst participants;
               children = linkReceipts known receipts (linkParticipants known (map snd participants) []);
               start = sort (childrenOf children participantId)
           in if \<not> acyclicFrom children [(participantId, GRAY)] [(participantId, start)] then Inr None
              else supersedeSearch
                     (\<lambda>d. someResult (receiptCompletes E current assemblies d) receipts)
                     children [participantId] start)"

subsection \<open>The lineage walk\<close>

text \<open>\<open>descends valid c a\<close>: the assembly \<open>a\<close> is reached from the cursor \<open>c\<close> by following assembly bases.\<close>

inductive descends :: "js list \<Rightarrow> cursor \<Rightarrow> js \<Rightarrow> bool" for valid where
  here: "assemblyAt valid c = Some a \<Longrightarrow> descends valid c a"
| further: "assemblyAt valid c = Some b \<Longrightarrow> descends valid (baseCursor b) a \<Longrightarrow> descends valid c a"

lemma assemblyAt_SomeD:
  assumes "assemblyAt valid c = Some a"
  shows "a \<in> set valid" "js_same (js_get a ''revision'') (cu_revision c)"
  using assms by (auto simp: assemblyAt_def find_Some_iff)

lemma descends_valid: "descends valid c a \<Longrightarrow> a \<in> set valid"
  by (induction rule: descends.induct) (auto dest: assemblyAt_SomeD)

lemma lineageWalk_descends: "a \<in> set (lineageWalk valid n c) \<Longrightarrow> descends valid c a"
proof (induction valid n c rule: lineageWalk.induct)
  case (2 valid hops c)
  then show ?case by (cases "assemblyAt valid c") (auto intro: descends.intros)
qed simp

lemma valid_assembly_revision:
  assumes "assertCandidateAssemblyReceiptV1 E a = None"
  obtains b where "js_get a ''baseRevision'' = jint b" "js_get a ''revision'' = jint (b + 1)" "0 \<le> b"
proof -
  have "check_all (\<lambda>f. if js_safe_at_least 0 (js_get a f) then None else Some (AssemblyNotSafeInteger f))
      assemblyIntegerFields = None"
    and step: "int_of (js_get a ''revision'') = int_of (js_get a ''baseRevision'') + 1"
    using assms unfolding assertCandidateAssemblyReceiptV1_def by (auto split: if_splits option.splits)
  then have "js_safe_at_least 0 (js_get a ''baseRevision'')" "js_safe_at_least 0 (js_get a ''revision'')"
    by (auto simp: check_all_None assemblyIntegerFields_def split: if_splits)
  then obtain b r where "js_get a ''baseRevision'' = jint b" "js_get a ''revision'' = jint r" "0 \<le> b"
    by (auto elim!: js_safe_at_leastE)
  with step that show thesis by (auto simp: int_of_def)
qed

lemma js_same_jint: "js_same (jint n) v \<longleftrightarrow> v = jint n"
  by (cases v rule: js_truthy.cases) auto

lemma lineageWalk_enough:
  assumes "\<forall>a \<in> set valid. assertCandidateAssemblyReceiptV1 E a = None"
    and "cu_revision c = jint (int r)" "r \<le> n"
  shows "lineageWalk valid n c = lineageWalk valid r c"
  using assms(2,3)
proof (induction r arbitrary: n c)
  case 0
  show ?case
  proof (cases n)
    case (Suc m)
    have False if "assemblyAt valid c = Some a" for a
    proof -
      from that assms(1) obtain b where "js_get a ''revision'' = jint (b + 1)" "0 \<le> b"
        by (meson assemblyAt_SomeD(1) valid_assembly_revision)
      with assemblyAt_SomeD(2) [OF that] 0 show False by (auto simp: js_same_jint)
    qed
    then have "assemblyAt valid c = None" by fastforce
    then show ?thesis using Suc by simp
  qed simp
next
  case (Suc r)
  then obtain m where m: "n = Suc m" "r \<le> m" by (cases n) auto
  have "lineageWalk valid m (baseCursor a) = lineageWalk valid r (baseCursor a)" if "assemblyAt valid c = Some a" for a
  proof -
    from that assms(1) obtain b where "js_get a ''revision'' = jint (b + 1)" "js_get a ''baseRevision'' = jint b"
      by (meson assemblyAt_SomeD(1) valid_assembly_revision)
    with assemblyAt_SomeD(2) [OF that] Suc.prems have "cu_revision (baseCursor a) = jint (int r)"
      by (auto simp: js_same_jint baseCursor_def)
    with m(2) show ?thesis by (rule Suc.IH [rotated])
  qed
  with m show ?case by (auto split: option.splits)
qed

text \<open>The hop bound of the lineage loop never cuts an ancestry short. Over validated assembly
  receipts every hop lowers the revision by one, so the loop limit \<open>revision + 1\<close> visits everything any
  larger limit would visit.\<close>

theorem lineage_hop_bound_complete:
  assumes "\<forall>a \<in> set valid. assertCandidateAssemblyReceiptV1 E a = None"
    and "assertCandidateRevisionV1 E current = None"
    and "n \<ge> nat (int_of (js_get current ''revision'')) + 1"
  shows "lineageWalk valid n (candidateCursor current)
       = lineageWalk valid (nat (int_of (js_get current ''revision'')) + 1) (candidateCursor current)"
proof -
  from assms(2) have "js_safe_at_least 0 (js_get current ''revision'')"
    by (simp add: assertCandidateRevisionV1_None assertCandidateRevisionInputV1_None)
  then obtain r where "js_get current ''revision'' = jint (int r)"
    by (metis js_safe_at_leastE nonneg_int_cases)
  then have "cu_revision (candidateCursor current) = jint (int r)" "nat (int_of (js_get current ''revision'')) = r"
    by (simp_all add: candidateCursor_def int_of_def)
  with assms(3) show ?thesis
    using lineageWalk_enough [OF assms(1), of "candidateCursor current" r n]
      lineageWalk_enough [OF assms(1), of "candidateCursor current" r "r + 1"] by simp
qed

theorem lineage_hop_bound_complete_witness:
  "lineageWalk [] 5 (candidateCursor sample_candidate) = lineageWalk [] 2 (candidateCursor sample_candidate)"
proof -
  have "assertCandidateRevisionV1 sample_env sample_candidate = None"
    "int_of (js_get sample_candidate ''revision'') = 1" by code_simp+
  then show ?thesis using lineage_hop_bound_complete [of "[]" sample_env sample_candidate 5]
    by (simp add: numeral_2_eq_2)
qed


definition sample_base :: js where
  "sample_base = projr (createCandidateRevisionV1 sample_env
     (JObj [(''operationId'', JStr ''op''), (''candidateId'', JStr ''c0''), (''revision'', jint 0),
            (''sourceDigest'', JStr (replicate 64 (CHR ''b'')))]))"

definition sample_receipt :: js where
  "sample_receipt = JObj [(''receiptId'', JStr ''r1''), (''operationId'', JStr ''op''), (''settled'', JBool True),
     (''outcome'', JStr ''SUCCEEDED''), (''participantId'', JStr ''p2''), (''candidate'', sample_base)]"

lemma sample_lineage:
  "resolveCandidateLineageReceiptV1 sample_env sample_receipt sample_candidate [sample_assembly]
     = Inr (Some (ASSEMBLY sample_assembly))"
proof -
  have v: "assertCandidateRevisionV1 sample_env sample_base = None" by code_simp
  have "\<not> js_same (js_get sample_base ''canonicalIdentity'') (js_get sample_candidate ''canonicalIdentity'')" by code_simp
  then have ne: "\<not> candidateRevisionsEqual sample_env sample_base sample_candidate"
    by (simp add: candidateRevisionsEqual_def)
  have w: "boundCandidate sample_receipt = sample_base" "js_truthy sample_base"
    "js_get sample_receipt ''settled'' = JBool True" "js_get sample_receipt ''outcome'' = JStr ''SUCCEEDED''"
    "js_same (js_get sample_receipt ''operationId'') (js_get sample_candidate ''operationId'')"
    "sha256Canonical sample_env sample_receipt = Inr (replicate 64 (CHR ''a''))" by code_simp+
  have x: "lineageWalk [sample_assembly] (nat (int_of (js_get sample_candidate ''revision'')) + 1)
      (candidateCursor sample_candidate) = [sample_assembly]"
    "namesReceipt sample_receipt (replicate 64 (CHR ''a'')) sample_assembly"
    "js_same (cu_revision (baseCursor sample_assembly)) (js_get sample_base ''revision'')"
    "js_same (cu_identityDigest (baseCursor sample_assembly)) (js_get sample_base ''identityDigest'')"
    "js_same (js_get sample_assembly ''sourceBaseRevision'') (js_get sample_base ''revision'')"
    "js_same (js_get sample_assembly ''sourceBaseIdentityDigest'') (js_get sample_base ''identityDigest'')"
    by code_simp+
  have f: "filter (\<lambda>a. assertCandidateAssemblyReceiptV1 sample_env a = None) [sample_assembly] = [sample_assembly]"
    by (simp add: sample_assembly_valid)
  show ?thesis
    unfolding resolveCandidateLineageReceiptV1_def Let_def w(1) f x(1) by (simp add: v sample_candidate_valid ne w x)
qed


subsection \<open>Cyclic retry lineage\<close>

definition edges :: "children_map \<Rightarrow> (string \<times> string) set" where
  "edges m = {(p, c). c \<in> set (childrenOf m p)}"

definition black :: "(string \<times> colour) list \<Rightarrow> string set" where
  "black col = {n. map_of col n = Some BLACK}"

text \<open>
  The invariant of the search: black nodes are settled, the stack holds the distinct gray nodes as a
  path (top first), and a node's children are black, still to be visited, or the node above it.
\<close>

fun stackOk :: "children_map \<Rightarrow> string set \<Rightarrow> string option \<Rightarrow> dfs_stack \<Rightarrow> bool" where
  "stackOk m B up [] = True"
| "stackOk m B up ((n, rest) # st) \<longleftrightarrow>
     (case up of None \<Rightarrow> True | Some a \<Rightarrow> (n, a) \<in> edges m)
     \<and> set rest \<subseteq> edges m `` {n} \<and> edges m `` {n} \<subseteq> B \<union> set rest \<union> set_option up
     \<and> stackOk m B (Some n) st"

definition dfsInv :: "children_map \<Rightarrow> (string \<times> colour) list \<Rightarrow> dfs_stack \<Rightarrow> bool" where
  "dfsInv m col st \<longleftrightarrow> settled (edges m) (black col) \<and> distinct (map fst st)
     \<and> (\<forall>n. map_of col n = Some GRAY \<longleftrightarrow> n \<in> set (map fst st)) \<and> stackOk m (black col) None st"

lemma stackOk_mono: "stackOk m B up st \<Longrightarrow> B \<subseteq> B' \<Longrightarrow> set_option up \<subseteq> B' \<union> set_option up' \<Longrightarrow>
    (case up' of None \<Rightarrow> True | Some a \<Rightarrow> case st of [] \<Rightarrow> True | (n, _) # _ \<Rightarrow> (n, a) \<in> edges m) \<Longrightarrow>
    stackOk m B' up' st"
proof (induction m B up st arbitrary: up' rule: stackOk.induct)
  case (2 m B up n rest st)
  then have "stackOk m B' (Some n) st"
    by (intro "2.IH") (auto split: list.splits elim: stackOk.elims)
  with 2 show ?case by (auto split: option.splits)
qed simp

lemma stackOk_path: "stackOk m B up st \<Longrightarrow> x \<in> set (map fst st) \<Longrightarrow> up = Some a \<Longrightarrow> (x, a) \<in> (edges m)\<^sup>+"
proof (induction m B up st arbitrary: a rule: stackOk.induct)
  case (2 m B up n rest st)
  then have "(n, a) \<in> edges m" by simp
  with 2 show ?case by (auto intro: trancl_into_trancl)
qed simp

lemma black_update: "black (AList.update n BLACK col) = insert n (black col)"
  "map_of col n = None \<Longrightarrow> black (AList.update n GRAY col) = black col"
  by (auto simp: black_def)

lemma dfsInv_finish:
  assumes "dfsInv m col ((n, []) # st)"
  shows "dfsInv m (AList.update n BLACK col) st"
proof -
  from assms have gray: "\<And>x. map_of col x = Some GRAY \<longleftrightarrow> x = n \<or> x \<in> set (map fst st)" "n \<notin> set (map fst st)"
    and closed: "edges m `` {n} \<subseteq> black col" and st: "stackOk m (black col) (Some n) st"
    and settled: "settled (edges m) (black col)" "distinct (map fst st)"
    by (auto simp: dfsInv_def)
  have "n \<notin> black col" using gray(1) [of n] by (auto simp: black_def)
  with settled(1) closed have "settled (edges m) (insert n (black col))" by (intro settled_insert)
  moreover have "stackOk m (insert n (black col)) None st" by (rule stackOk_mono [OF st]) auto
  moreover have "map_of (AList.update n BLACK col) x = Some GRAY \<longleftrightarrow> x \<in> set (map fst st)" for x
    using gray by auto
  ultimately show ?thesis using settled(2) by (simp add: dfsInv_def black_update)
qed

lemma dfsInv_skip:
  assumes "dfsInv m col ((n, c # rest) # st)" "map_of col c = Some BLACK"
  shows "dfsInv m col ((n, rest) # st)"
  using assms by (auto simp: dfsInv_def black_def)

lemma dfsInv_push:
  assumes "dfsInv m col ((n, c # rest) # st)" "map_of col c = None"
  shows "dfsInv m (AList.update c GRAY col) ((c, sort (childrenOf m c)) # (n, rest) # st)"
proof -
  have "edges m `` {c} = set (childrenOf m c)" by (auto simp: edges_def)
  moreover have "map_of col c = Some GRAY \<longleftrightarrow> c \<in> set (map fst ((n, c # rest) # st))"
    using assms(1) unfolding dfsInv_def by blast
  ultimately show ?thesis using assms by (auto simp: dfsInv_def black_update)
qed

lemma acyclicFrom_settles:
  "acyclicFrom m col st \<Longrightarrow> dfsInv m col st \<Longrightarrow> \<exists>B. settled (edges m) B \<and> black col \<union> set (map fst st) \<subseteq> B"
proof (induction m col st rule: acyclicFrom.induct)
  case (2 m col n st)
  then obtain B where "settled (edges m) B" "black (AList.update n BLACK col) \<union> set (map fst st) \<subseteq> B"
    using dfsInv_finish by fastforce
  then show ?case by (auto simp: black_update)
next
  case (3 m col n c rest st)
  show ?case
  proof (cases "map_of col c")
    case None
    moreover have "dfsInv m (AList.update c GRAY col) ((c, sort (childrenOf m c)) # (n, rest) # st)"
      using 3(4) None by (rule dfsInv_push)
    ultimately obtain B where "settled (edges m) B" "black (AList.update c GRAY col) \<union> set (map fst ((n, rest) # st)) \<subseteq> B"
      using 3(1,3) by auto
    with None show ?thesis by (auto simp: black_update)
  next
    case (Some x)
    then have x: "x = BLACK" using 3(3) by (cases x) auto
    then have "dfsInv m col ((n, rest) # st)" using 3(4) Some dfsInv_skip by blast
    with 3(2,3) Some x show ?thesis by auto
  qed
qed (auto simp: dfsInv_def)

lemma acyclicFrom_False:
  "\<not> acyclicFrom m col st \<Longrightarrow> dfsInv m col st \<Longrightarrow>
   \<exists>x b. b \<in> set (map fst st) \<and> (b, x) \<in> (edges m)\<^sup>* \<and> (x, x) \<in> (edges m)\<^sup>+"
proof (induction m col st rule: acyclicFrom.induct)
  case (2 m col n st)
  moreover have "dfsInv m (AList.update n BLACK col) st" using 2(3) by (rule dfsInv_finish)
  ultimately obtain x b where "b \<in> set (map fst st)" "(b, x) \<in> (edges m)\<^sup>*" "(x, x) \<in> (edges m)\<^sup>+" by auto
  then show ?case by auto
next
  case (3 m col n c rest st)
  then have nc: "(n, c) \<in> edges m" by (auto simp: dfsInv_def)
  show ?case
  proof (cases "map_of col c")
    case None
    moreover have "dfsInv m (AList.update c GRAY col) ((c, sort (childrenOf m c)) # (n, rest) # st)"
      using 3(4) None by (rule dfsInv_push)
    ultimately obtain x b where
      "b \<in> set (map fst ((c, sort (childrenOf m c)) # (n, rest) # st))" "(b, x) \<in> (edges m)\<^sup>*" "(x, x) \<in> (edges m)\<^sup>+"
      using 3(1) [OF None] 3(3) by auto
    with nc show ?thesis by (auto intro: converse_rtrancl_into_rtrancl)
  next
    case (Some col')
    show ?thesis
    proof (cases col')
      case GRAY
      then have "c \<in> set (map fst ((n, c # rest) # st))" using Some 3(4) by (auto simp: dfsInv_def)
      then have "(c, n) \<in> (edges m)\<^sup>*"
        using 3(4) stackOk_path [of m "black col" "Some n" st c n]
        by (cases "c = n") (auto simp: dfsInv_def simp del: set_map intro: trancl_into_rtrancl)
      with nc have "(n, n) \<in> (edges m)\<^sup>+" by (rule rtrancl_into_trancl2)
      then show ?thesis by auto
    next
      case BLACK
      then have "dfsInv m col ((n, rest) # st)" using 3(4) Some dfsInv_skip by blast
      then obtain x b where "b \<in> set (map fst ((n, rest) # st))" "(b, x) \<in> (edges m)\<^sup>*" "(x, x) \<in> (edges m)\<^sup>+"
        using 3(2,3) Some BLACK by auto
      then show ?thesis by auto
    qed
  qed
qed simp

lemma acyclicFrom_start:
  "acyclicFrom m [(s, GRAY)] [(s, sort (childrenOf m s))]
     \<longleftrightarrow> \<not> (\<exists>x. (s, x) \<in> (edges m)\<^sup>* \<and> (x, x) \<in> (edges m)\<^sup>+)"
proof -
  have inv: "dfsInv m [(s, GRAY)] [(s, sort (childrenOf m s))]"
    by (auto simp: dfsInv_def settled_def black_def edges_def split: if_splits)
  show ?thesis
    using acyclicFrom_settles [OF _ inv] acyclicFrom_False [OF _ inv] settled_reach by fastforce
qed

subsection \<open>The nearest completed retry\<close>

lemma scanFrontier_None:
  "scanFrontier completed visited ds = Inr (None, visited') \<Longrightarrow> \<forall>d \<in> set ds - set visited. completed d = Inr False"
  by (induction completed visited ds rule: scanFrontier.induct) (auto split: if_splits sum.splits bool.splits)

lemma scanFrontier_Some:
  "scanFrontier completed visited ds = Inr (Some d, visited') \<Longrightarrow>
   d \<in> set ds \<and> d \<notin> set visited \<and> completed d = Inr True"
  by (induction completed visited ds rule: scanFrontier.induct) (auto split: if_splits sum.splits bool.splits)

text \<open>
  Level \<open>k\<close> of the breadth-first walk from \<open>s\<close>: the frontier is at distance \<open>k\<close>, everything nearer
  has been visited and is not completed, and visited nodes have their children visited or ahead.
\<close>

definition bfsLevel :: "(string \<Rightarrow> 'e + bool) \<Rightarrow> children_map \<Rightarrow> string \<Rightarrow> nat \<Rightarrow> string list \<Rightarrow> string list \<Rightarrow> bool" where
  "bfsLevel completed m s k visited frontier \<longleftrightarrow>
     (\<forall>x \<in> set frontier. (s, x) \<in> edges m ^^ k)
     \<and> (\<forall>j y. j < k \<longrightarrow> (s, y) \<in> edges m ^^ j \<longrightarrow> y \<in> set visited)
     \<and> (\<forall>y. (s, y) \<in> edges m ^^ k \<longrightarrow> y \<in> set visited \<union> set frontier)
     \<and> (\<forall>y \<in> set visited. y = s \<or> completed y = Inr False)
     \<and> s \<in> set visited \<and> edges m `` set visited \<subseteq> set visited \<union> set frontier"

lemma bfsLevel_next:
  assumes level: "bfsLevel completed m s k visited frontier"
    and scan: "scanFrontier completed visited frontier = Inr (None, visited')"
  shows "bfsLevel completed m s (Suc k) visited' (nextFrontier m visited' frontier)"
proof -
  have v: "set visited' = set visited \<union> set frontier" using scan by (rule scanFrontier_visited)
  have n: "set (nextFrontier m visited' frontier) = edges m `` set frontier - set visited'"
    by (auto simp: set_nextFrontier edges_def)
  have "(s, x) \<in> edges m ^^ Suc k" if "x \<in> set (nextFrontier m visited' frontier)" for x
    using that level n by (auto simp: bfsLevel_def)
  moreover have "y \<in> set visited'" if "j < Suc k" "(s, y) \<in> edges m ^^ j" for j y
    using that level v by (cases "j = k") (auto simp: bfsLevel_def less_Suc_eq)
  moreover have closed: "edges m `` set visited' \<subseteq> set visited' \<union> set (nextFrontier m visited' frontier)"
    using level n v by (auto simp: bfsLevel_def)
  moreover have "y \<in> set visited' \<union> set (nextFrontier m visited' frontier)" if "(s, y) \<in> edges m ^^ Suc k" for y
  proof -
    from that obtain x where "(s, x) \<in> edges m ^^ k" "(x, y) \<in> edges m" by auto
    then have "x \<in> set visited'" using level v by (auto simp: bfsLevel_def)
    with \<open>(x, y) \<in> edges m\<close> closed show ?thesis by blast
  qed
  moreover have "y = s \<or> completed y = Inr False" if "y \<in> set visited'" for y
    using that level v scanFrontier_None [OF scan] by (auto simp: bfsLevel_def)
  moreover have "s \<in> set visited'" using level v by (simp add: bfsLevel_def)
  ultimately show ?thesis unfolding bfsLevel_def by (intro conjI allI ballI impI) (assumption | blast)+
qed

definition nearestCompleted :: "(string \<Rightarrow> 'e + bool) \<Rightarrow> children_map \<Rightarrow> string \<Rightarrow> string \<Rightarrow> bool" where
  "nearestCompleted completed m s d \<longleftrightarrow> d \<noteq> s \<and> completed d = Inr True
     \<and> (\<exists>k. (s, d) \<in> edges m ^^ k \<and> (\<forall>j y. j < k \<longrightarrow> (s, y) \<in> edges m ^^ j \<longrightarrow> y = s \<or> completed y = Inr False))"

lemma supersedeSearch_spec:
  assumes "bfsLevel completed m s k visited frontier" "supersedeSearch completed m visited frontier = Inr r"
  shows "case r of Some d \<Rightarrow> nearestCompleted completed m s d
     | None \<Rightarrow> (\<forall>y. (s, y) \<in> (edges m)\<^sup>* \<longrightarrow> y = s \<or> completed y = Inr False)"
  using assms
proof (induction completed m visited frontier arbitrary: k rule: supersedeSearch.induct)
  case (1 completed m visited frontier)
  show ?case
  proof (cases "frontier = []")
    case True
    with 1(3) have "r = None" by (simp add: supersedeSearch.simps)
    moreover have "y \<in> set visited" if "(s, y) \<in> (edges m)\<^sup>*" for y
      using that 1(2) True by (auto simp: bfsLevel_def intro: closed_reach)
    ultimately show ?thesis using 1(2) by (auto simp: bfsLevel_def)
  next
    case False
    then obtain d v where scan: "scanFrontier completed visited frontier = Inr (d, v)"
      using 1(3) by (subst (asm) supersedeSearch.simps) (auto split: sum.splits)
    show ?thesis
    proof (cases d)
      case None
      with False scan 1(3) have "supersedeSearch completed m v (nextFrontier m v frontier) = Inr r"
        by (subst (asm) supersedeSearch.simps) simp
      moreover have "bfsLevel completed m s (Suc k) v (nextFrontier m v frontier)"
        using 1(2) scan None by (intro bfsLevel_next) simp_all
      ultimately show ?thesis using 1(1) [OF False scan refl None] by blast
    next
      case (Some x)
      with False scan 1(3) have "r = Some x" by (subst (asm) supersedeSearch.simps) simp
      moreover have "nearestCompleted completed m s x"
        using 1(2) scanFrontier_Some [of completed visited frontier x v] scan Some
        unfolding nearestCompleted_def bfsLevel_def by metis
      ultimately show ?thesis by simp
    qed
  qed
qed

definition retryChildren :: "string list \<Rightarrow> participant_ref list \<Rightarrow> js list \<Rightarrow> children_map" where
  "retryChildren known ps receipts = linkReceipts known receipts (linkParticipants known ps [])"

lemma resolveAttemptChainSupersedeV1_unfold:
  fixes participants receipts
  assumes "map_of participants s \<noteq> None"
  defines "m \<equiv> retryChildren (map fst participants) (map snd participants) receipts"
  shows "resolveAttemptChainSupersedeV1 E s participants receipts current assemblies =
    (if \<exists>x. (s, x) \<in> (edges m)\<^sup>* \<and> (x, x) \<in> (edges m)\<^sup>+ then Inr None
     else supersedeSearch (\<lambda>d. someResult (receiptCompletes E current assemblies d) receipts) m [s] (sort (childrenOf m s)))"
  using assms(1)
  unfolding resolveAttemptChainSupersedeV1_def Let_def retryChildren_def [symmetric] m_def [symmetric] acyclicFrom_start
  by auto

lemma bfsLevel_start: "bfsLevel completed m s 1 [s] (sort (childrenOf m s))"
  by (auto simp: bfsLevel_def edges_def)

text \<open>C31: a cyclic retry lineage never supersedes. The resolution of a participant from which a cycle of the
  parent links is reachable is \<open>undefined\<close>, whatever receipts exist; the depth-first colouring finds
  exactly those graphs.\<close>

theorem cyclic_retry_lineage_fails_closed:
  fixes participants receipts
  defines "m \<equiv> retryChildren (map fst participants) (map snd participants) receipts"
  assumes "(s, x) \<in> (edges m)\<^sup>*" "(x, x) \<in> (edges m)\<^sup>+"
  shows "resolveAttemptChainSupersedeV1 E s participants receipts current assemblies = Inr None"
proof (cases "map_of participants s")
  case None
  then show ?thesis by (simp add: resolveAttemptChainSupersedeV1_def)
next
  case (Some p)
  then show ?thesis
    using assms(2,3) unfolding m_def by (subst resolveAttemptChainSupersedeV1_unfold) auto
qed

definition cyclic_participants :: "(string \<times> participant_ref) list" where
  "cyclic_participants =
     [(''p1'', \<lparr>pr_id = ''p1'', pr_parentAgentId = Some ''p2''\<rparr>), (''p2'', \<lparr>pr_id = ''p2'', pr_parentAgentId = Some ''p1''\<rparr>)]"

theorem cyclic_retry_lineage_fails_closed_witness:
  "resolveAttemptChainSupersedeV1 sample_env ''p1'' cyclic_participants [sample_receipt] sample_candidate [sample_assembly]
     = Inr None"
proof -
  let ?m = "retryChildren (map fst cyclic_participants) (map snd cyclic_participants) [sample_receipt]"
  have "''p2'' \<in> set (childrenOf ?m ''p1'')" "''p1'' \<in> set (childrenOf ?m ''p2'')" by code_simp+
  then have "(''p1'', ''p2'') \<in> edges ?m" "(''p2'', ''p1'') \<in> edges ?m" by (simp_all add: edges_def)
  then have "(''p1'', ''p1'') \<in> (edges ?m)\<^sup>+" by (meson r_into_trancl trancl_into_trancl)
  then show ?thesis by (rule cyclic_retry_lineage_fails_closed [OF rtrancl_refl])
qed

text \<open>The superseding participant is the nearest completed retry. When the resolution returns a
  participant it is a proper descendant of the failed one with a settled, succeeded, lineage-proven receipt,
  and no strictly nearer descendant has one; when it returns \<open>undefined\<close> on an acyclic lineage, no
  descendant has one.\<close>

theorem resolveAttemptChainSupersedeV1_nearest:
  fixes participants receipts E current assemblies
  defines "m \<equiv> retryChildren (map fst participants) (map snd participants) receipts"
    and "completed \<equiv> (\<lambda>d. someResult (receiptCompletes E current assemblies d) receipts)"
  assumes known: "map_of participants s \<noteq> None"
    and acyclic: "\<not> (\<exists>x. (s, x) \<in> (edges m)\<^sup>* \<and> (x, x) \<in> (edges m)\<^sup>+)"
    and r: "resolveAttemptChainSupersedeV1 E s participants receipts current assemblies = Inr r"
  shows "case r of Some d \<Rightarrow> nearestCompleted completed m s d
     | None \<Rightarrow> (\<forall>y. (s, y) \<in> (edges m)\<^sup>* \<longrightarrow> y = s \<or> completed y = Inr False)"
proof -
  have "supersedeSearch completed m [s] (sort (childrenOf m s)) = Inr r"
    using r acyclic unfolding m_def completed_def
    by (subst (asm) resolveAttemptChainSupersedeV1_unfold [OF known]) simp
  with bfsLevel_start show ?thesis by (rule supersedeSearch_spec)
qed

definition retry_participants :: "(string \<times> participant_ref) list" where
  "retry_participants =
     [(''p1'', \<lparr>pr_id = ''p1'', pr_parentAgentId = None\<rparr>), (''p2'', \<lparr>pr_id = ''p2'', pr_parentAgentId = Some ''p1''\<rparr>)]"

theorem resolveAttemptChainSupersedeV1_nearest_witness:
  "nearestCompleted (\<lambda>d. someResult (receiptCompletes sample_env sample_candidate [sample_assembly] d) [sample_receipt])
     (retryChildren (map fst retry_participants) (map snd retry_participants) [sample_receipt]) ''p1'' ''p2''"
proof -
  let ?m = "retryChildren (map fst retry_participants) (map snd retry_participants) [sample_receipt]"
  have known: "map_of retry_participants ''p1'' \<noteq> None" by code_simp
  have "acyclicFrom ?m [(''p1'', GRAY)] [(''p1'', sort (childrenOf ?m ''p1''))]" by code_simp
  then have acyclic: "\<not> (\<exists>x. (''p1'', x) \<in> (edges ?m)\<^sup>* \<and> (x, x) \<in> (edges ?m)\<^sup>+)"
    using acyclicFrom_start by blast
  have "js_get sample_receipt ''participantId'' = JStr ''p2''" "js_get sample_receipt ''settled'' = JBool True"
    "js_get sample_receipt ''outcome'' = JStr ''SUCCEEDED''" "js_get sample_receipt ''candidate'' \<noteq> JUndefined"
    "sort (childrenOf ?m ''p1'') = [''p2'']" by code_simp+
  then have "resolveAttemptChainSupersedeV1 sample_env ''p1'' retry_participants [sample_receipt] sample_candidate
      [sample_assembly] = Inr (Some ''p2'')"
    unfolding resolveAttemptChainSupersedeV1_unfold [OF known] using acyclic
    by (simp add: supersedeSearch.simps receiptCompletes_def sample_lineage)
  from resolveAttemptChainSupersedeV1_nearest [OF known acyclic this] show ?thesis by simp
qed

end
