(* ===== verification/WorkGraph.thy ===== *)
theory WorkGraph
  imports Complex_Main Digraph
begin

text \<open>
  Work graphs (\<open>src/src/architecture/workGraph.ts\<close>): the graph of work units a plan declares, its
  validation, the conflicts between units and the scheduler that places units in waves. The schema
  parser (\<open>zod\<close>) and the glob matcher (\<open>minimatch\<close>) are arguments of the definitions that use them.
\<close>

subsection \<open>Data\<close>

datatype WorkRisk = risk_low | risk_medium | risk_high | risk_critical

datatype ChangeKind = ck_source | ck_test | ck_schema | ck_config | ck_docs | ck_dependency | ck_infrastructure
  | ck_security

datatype GraphWorkUnitStatus = PENDING | IN_PROGRESS | COMPLETED | BLOCKED

datatype ResourceClaimMode = SHARED_READ | EXCLUSIVE_WRITE | ORDERED_SEQUENCE

record ResourceClaimV1 =
  rc_resource :: string
  rc_mode :: ResourceClaimMode
  rc_order :: "nat option"

text \<open>What the scheduler needs of a unit; a work unit of the graph extends it.\<close>

record SchedulableWorkUnitV1 =
  wu_id :: string
  wu_scope :: "string list"
  wu_dependencies :: "string list"
  wu_resourceClaims :: "ResourceClaimV1 list"

record WorkUnitV1 = SchedulableWorkUnitV1 +
  wu_objective :: string
  wu_requirementRefs :: "string list"
  wu_acceptanceRefs :: "string list"
  wu_competencies :: "string list"
  wu_riskTags :: "string list"
  wu_changeKinds :: "ChangeKind list"
  wu_risk :: WorkRisk
  wu_status :: GraphWorkUnitStatus

record WorkGraphV1 =
  wg_taskId :: string
  wg_objective :: string
  wg_route :: string
  wg_assurance :: string
  wg_requirementRefs :: "string list"
  wg_acceptanceRefs :: "string list"
  wg_units :: "WorkUnitV1 list"

datatype graph_error =
    SchemaRejected string
  | DuplicateUnit string
  | DuplicateResourceClaim string string
  | OrderMissing string string
  | DuplicateModeClaim string string
  | UnknownDependency string string
  | SelfDependency string
  | UnknownUnit string
  | DependencyCycle string
  | UncoveredRequirements "string list"
  | UncoveredAcceptance "string list"
  | RecursionBudget

subsection \<open>Validation\<close>

text \<open>The \<open>Set\<close> loops: the first repeated element throws.\<close>

fun firstRepeated :: "'a list \<Rightarrow> 'a list \<Rightarrow> 'a option" where
  "firstRepeated seen [] = None"
| "firstRepeated seen (x # xs) = (if x \<in> set seen then Some x else firstRepeated (x # seen) xs)"

fun checkClaims :: "string \<Rightarrow> string list \<Rightarrow> (string \<times> ResourceClaimMode) list \<Rightarrow> ResourceClaimV1 list \<Rightarrow> graph_error option" where
  "checkClaims unitId resources modes [] = None"
| "checkClaims unitId resources modes (c # cs) =
     (if rc_resource c \<in> set resources then Some (DuplicateResourceClaim unitId (rc_resource c))
      else if rc_mode c = ORDERED_SEQUENCE \<and> rc_order c = None then Some (OrderMissing unitId (rc_resource c))
      else if (rc_resource c, rc_mode c) \<in> set modes then Some (DuplicateModeClaim unitId (rc_resource c))
      else checkClaims unitId (rc_resource c # resources) ((rc_resource c, rc_mode c) # modes) cs)"

definition checkDependency :: "string list \<Rightarrow> ('a) SchedulableWorkUnitV1_scheme \<Rightarrow> string \<Rightarrow> graph_error option" where
  "checkDependency ids u d =
     (if d \<notin> set ids then Some (UnknownDependency (wu_id u) d)
      else if d = wu_id u then Some (SelfDependency (wu_id u))
      else None)"

datatype visit_mark = visiting | visited

text \<open>A loop whose body may throw, over a state.\<close>

fun foldResult :: "('s \<Rightarrow> 'a \<Rightarrow> 'e + 's) \<Rightarrow> 's \<Rightarrow> 'a list \<Rightarrow> 'e + 's" where
  "foldResult f st [] = Inr st"
| "foldResult f st (x # xs) = (case f st x of Inl e \<Rightarrow> Inl e | Inr st' \<Rightarrow> foldResult f st' xs)"

text \<open>
  The recursive \<open>visit\<close>. The first argument bounds the depth of the recursion; the depth never exceeds
  the number of units plus one, and the validation passes that number (see \<open>visit_budget\<close>).
\<close>

primrec visit :: "nat \<Rightarrow> 'a SchedulableWorkUnitV1_scheme list \<Rightarrow> (string \<times> visit_mark) list \<Rightarrow> string \<Rightarrow>
    graph_error + (string \<times> visit_mark) list" where
  "visit 0 units marks i = Inl RecursionBudget"
| "visit (Suc n) units marks i =
     (case map_of marks i of
        Some visiting \<Rightarrow> Inl (DependencyCycle i)
      | Some visited \<Rightarrow> Inr marks
      | None \<Rightarrow> (case List.find (\<lambda>u. wu_id u = i) units of
            None \<Rightarrow> Inl (UnknownUnit i)
          | Some u \<Rightarrow> (case foldResult (visit n units) (AList.update i visiting marks) (wu_dependencies u) of
                Inl e \<Rightarrow> Inl e
              | Inr marks' \<Rightarrow> Inr (AList.update i visited marks'))))"

definition validateParsed :: "WorkGraphV1 \<Rightarrow> graph_error option" where
  "validateParsed g =
     (let units = wg_units g; ids = map wu_id units in
      case firstRepeated [] ids of Some i \<Rightarrow> Some (DuplicateUnit i) | None \<Rightarrow>
      case check_all (\<lambda>u. checkClaims (wu_id u) [] [] (wu_resourceClaims u)) units of Some e \<Rightarrow> Some e | None \<Rightarrow>
      case check_all (\<lambda>u. check_all (checkDependency ids u) (wu_dependencies u)) units of Some e \<Rightarrow> Some e | None \<Rightarrow>
      case foldResult (visit (length units + 1) units) [] ids of Inl e \<Rightarrow> Some e | Inr _ \<Rightarrow>
      let missingRequirements = filter (\<lambda>r. r \<notin> set (concat (map wu_requirementRefs units))) (wg_requirementRefs g);
          missingAcceptance = filter (\<lambda>r. r \<notin> set (concat (map wu_acceptanceRefs units))) (wg_acceptanceRefs g) in
      if missingRequirements \<noteq> [] then Some (UncoveredRequirements missingRequirements)
      else if missingAcceptance \<noteq> [] then Some (UncoveredAcceptance missingAcceptance)
      else None)"

definition validateWorkGraph :: "('v \<Rightarrow> string + WorkGraphV1) \<Rightarrow> 'v \<Rightarrow> graph_error + WorkGraphV1" where
  "validateWorkGraph parse v =
     (case parse v of
        Inl msg \<Rightarrow> Inl (SchemaRejected msg)
      | Inr g \<Rightarrow> (case validateParsed g of Some e \<Rightarrow> Inl e | None \<Rightarrow> Inr g))"

text \<open>\<open>createWorkGraph\<close> adds the version field and validates; \<open>withVersion\<close> is that spread.\<close>

definition createWorkGraph :: "('v \<Rightarrow> string + WorkGraphV1) \<Rightarrow> ('i \<Rightarrow> 'v) \<Rightarrow> 'i \<Rightarrow> graph_error + WorkGraphV1" where
  "createWorkGraph parse withVersion input = validateWorkGraph parse (withVersion input)"

subsection \<open>Conflicts\<close>

definition addMode :: "ResourceClaimV1 \<Rightarrow> (string \<times> ResourceClaimMode list) list \<Rightarrow> (string \<times> ResourceClaimMode list) list" where
  "addMode c m = AList.update (rc_resource c)
     (let modes = (case map_of m (rc_resource c) of Some ms \<Rightarrow> ms | None \<Rightarrow> [])
      in if rc_mode c \<in> set modes then modes else modes @ [rc_mode c]) m"

definition claimsByResource :: "ResourceClaimV1 list \<Rightarrow> (string \<times> ResourceClaimMode list) list" where
  "claimsByResource claims = fold addMode claims []"

definition modesOf :: "(string \<times> ResourceClaimMode list) list \<Rightarrow> string \<Rightarrow> ResourceClaimMode list" where
  "modesOf m r = (case map_of m r of Some ms \<Rightarrow> ms | None \<Rightarrow> [])"

definition resourceConflict :: "string \<Rightarrow> ResourceClaimMode list \<Rightarrow> ResourceClaimMode list \<Rightarrow> string option" where
  "resourceConflict resource left right =
     (if ORDERED_SEQUENCE \<in> set left \<or> ORDERED_SEQUENCE \<in> set right
      then Some (''resource:'' @ resource @ '':ordered-sequence'')
      else if EXCLUSIVE_WRITE \<in> set left \<and> EXCLUSIVE_WRITE \<in> set right
      then Some (''resource:'' @ resource @ '':exclusive-exclusive'')
      else if (EXCLUSIVE_WRITE \<in> set left) \<noteq> (EXCLUSIVE_WRITE \<in> set right)
      then Some (''resource:'' @ resource @ '':write-read'')
      else None)"

definition resourceClaimConflicts :: "ResourceClaimV1 list \<Rightarrow> ResourceClaimV1 list \<Rightarrow> string list" where
  "resourceClaimConflicts left right =
     (let l = claimsByResource left; r = claimsByResource right
      in List.map_filter (\<lambda>resource. resourceConflict resource (modesOf l resource) (modesOf r resource))
           (sort (filter (\<lambda>name. map_of r name \<noteq> None) (map fst l))))"

text \<open>\<open>byResource.set(key, [...(byResource.get(key) ?? []), entry])\<close>.\<close>

definition pushEntry :: "'k \<Rightarrow> 'a \<Rightarrow> ('k \<times> 'a list) list \<Rightarrow> ('k \<times> 'a list) list" where
  "pushEntry k x m = AList.update k ((case map_of m k of Some xs \<Rightarrow> xs | None \<Rightarrow> []) @ [x]) m"

definition orderKey :: "nat option \<Rightarrow> string" where
  "orderKey ord = (case ord of None \<Rightarrow> ''undefined'' | Some n \<Rightarrow> nat_text n)"

definition orderedEntries :: "(string \<times> ResourceClaimV1 list) list \<Rightarrow> (string \<times> (string \<times> nat option) list) list" where
  "orderedEntries units = fold (\<lambda>(i, claims) m.
     fold (\<lambda>c m. if rc_mode c \<noteq> ORDERED_SEQUENCE then m else pushEntry (rc_resource c) (i, rc_order c) m) claims m) units []"

definition duplicateOrders :: "string \<Rightarrow> (string \<times> nat option) list \<Rightarrow> string list" where
  "duplicateOrders resource entries =
     (let idsByOrder = fold (\<lambda>(i, ord) m. pushEntry (orderKey ord) i m) entries []
      in map (\<lambda>k. ''resource:'' @ resource @ '':duplicate-order:'' @ k)
           (filter (\<lambda>k. 1 < length (the (map_of idsByOrder k))) (sort (map fst idsByOrder))))"

definition resourceClaimOrderingViolations :: "(string \<times> ResourceClaimV1 list) list \<Rightarrow> string list" where
  "resourceClaimOrderingViolations units =
     (let byResource = orderedEntries units
      in concat (map (\<lambda>r. duplicateOrders r (the (map_of byResource r))) (sort (map fst byResource))))"

definition stripTrailing :: "char \<Rightarrow> string \<Rightarrow> string" where
  "stripTrailing c s = rev (dropWhile ((=) c) (rev s))"

definition scopeStaticPrefix :: "string \<Rightarrow> string" where
  "scopeStaticPrefix pattern =
     stripTrailing (CHR ''/'') (takeWhile (\<lambda>c. c \<notin> {CHR ''?'', CHR ''*'', CHR ''[''}) pattern)"

definition pathWithin :: "string \<Rightarrow> string \<Rightarrow> bool" where
  "pathWithin candidate parent \<longleftrightarrow> candidate = parent \<or> starts_with (parent @ ''/'') candidate"

definition nonEmptyPrefixOverlap :: "string \<Rightarrow> string \<Rightarrow> bool" where
  "nonEmptyPrefixOverlap left right \<longleftrightarrow>
     left \<noteq> [] \<and> right \<noteq> [] \<and> (pathWithin left right \<or> pathWithin right left)"

text \<open>\<open>mm\<close> is \<open>minimatch(path, pattern, \<lbrace> dot: true \<rbrace>)\<close>.\<close>

definition workUnitScopesOverlap :: "(string \<Rightarrow> string \<Rightarrow> bool) \<Rightarrow> string list \<Rightarrow> string list \<Rightarrow> bool" where
  "workUnitScopesOverlap mm left right =
     list_ex (\<lambda>l. list_ex (\<lambda>r. l = r \<or> mm l r \<or> mm r l
        \<or> nonEmptyPrefixOverlap (scopeStaticPrefix l) (scopeStaticPrefix r)) right) left"

definition deterministicSchedulingConflicts ::
    "(string \<Rightarrow> string \<Rightarrow> bool) \<Rightarrow> 'a SchedulableWorkUnitV1_scheme \<Rightarrow> 'a SchedulableWorkUnitV1_scheme \<Rightarrow> string list" where
  "deterministicSchedulingConflicts mm left right = js_uniq (
     (if workUnitScopesOverlap mm (wu_scope left) (wu_scope right) then [''scope-overlap''] else [])
     @ map ((@) ''resource-claim:'') (resourceClaimConflicts (wu_resourceClaims left) (wu_resourceClaims right)))"

subsection \<open>The conflict contract\<close>

text \<open>What the scheduler relies on: conflicts are symmetric, so checking a new unit against the units already
  chosen is enough.\<close>

locale conflict_relation =
  fixes clash :: "'u \<Rightarrow> 'u \<Rightarrow> bool"
  assumes clash_sym: "clash a b \<Longrightarrow> clash b a"
begin

lemma greedy_independent:
  assumes "sorted_wrt (\<lambda>a b. \<not> clash b a) xs" "a \<in> set xs" "b \<in> set xs" "a \<noteq> b"
  shows "\<not> clash a b"
proof -
  from assms(2-4) obtain i j where ij: "i < length xs" "j < length xs" "xs ! i = a" "xs ! j = b" "i \<noteq> j"
    by (metis in_set_conv_nth)
  have "\<not> clash (xs ! n) (xs ! m)" if "m < n" "n < length xs" for m n
    using assms(1) that by (auto simp: sorted_wrt_iff_nth_less)
  with ij clash_sym show ?thesis by (metis linorder_neqE_nat)
qed

end

lemma map_of_addMode: "map_of (addMode c m) = (map_of m)(rc_resource c \<mapsto>
    (let modes = modesOf m (rc_resource c) in if rc_mode c \<in> set modes then modes else modes @ [rc_mode c]))"
  by (simp add: addMode_def modesOf_def)

lemma claimsByResource_spec:
  "set (modesOf (fold addMode cs m) r) = set (modesOf m r) \<union> rc_mode ` {c \<in> set cs. rc_resource c = r}
   \<and> (map_of (fold addMode cs m) r \<noteq> None \<longleftrightarrow> map_of m r \<noteq> None \<or> r \<in> rc_resource ` set cs)"
proof (induction cs arbitrary: m)
  case (Cons c cs)
  have "set (modesOf (addMode c m) r) = set (modesOf m r) \<union> (if rc_resource c = r then {rc_mode c} else {})"
    by (auto simp: modesOf_def map_of_addMode Let_def)
  moreover have "map_of (addMode c m) r \<noteq> None \<longleftrightarrow> map_of m r \<noteq> None \<or> r = rc_resource c"
    by (auto simp: map_of_addMode)
  ultimately show ?case using Cons.IH [of "addMode c m"] by auto
qed simp

lemma set_modesOf_claims [simp]:
  "set (modesOf (claimsByResource cs) r) = rc_mode ` {c \<in> set cs. rc_resource c = r}"
  "map_of (claimsByResource cs) r = None \<longleftrightarrow> r \<notin> rc_resource ` set cs"
  using claimsByResource_spec [of cs "[]" r] by (auto simp: claimsByResource_def modesOf_def)

lemma resourceConflict_None:
  "resourceConflict r left right = None \<longleftrightarrow>
     ORDERED_SEQUENCE \<notin> set left \<and> ORDERED_SEQUENCE \<notin> set right
     \<and> EXCLUSIVE_WRITE \<notin> set left \<and> EXCLUSIVE_WRITE \<notin> set right"
  by (auto simp: resourceConflict_def)

lemma map_filter_Nil: "List.map_filter f xs = [] \<longleftrightarrow> (\<forall>x \<in> set xs. f x = None)"
  by (induction xs) (auto simp: List.map_filter_simps split: option.splits)

lemma resourceClaimConflicts_Nil:
  "resourceClaimConflicts left right = [] \<longleftrightarrow>
     (\<forall>c \<in> set left. \<forall>d \<in> set right. rc_resource c = rc_resource d \<longrightarrow> rc_mode c = SHARED_READ \<and> rc_mode d = SHARED_READ)"
proof -
  have keys: "r \<in> set (map fst (claimsByResource left)) \<longleftrightarrow> r \<in> rc_resource ` set left" for r
    using set_modesOf_claims(2) [of left r] by (simp add: map_of_eq_None_iff)
  have mode: "m = SHARED_READ \<longleftrightarrow> m \<noteq> ORDERED_SEQUENCE \<and> m \<noteq> EXCLUSIVE_WRITE" for m
    by (cases m) auto
  show ?thesis
    unfolding resourceClaimConflicts_def Let_def map_filter_Nil resourceConflict_None set_sort set_filter
      set_modesOf_claims mode using keys by (auto simp: image_iff; metis)
qed

lemma deterministicSchedulingConflicts_Nil:
  "deterministicSchedulingConflicts mm a b = [] \<longleftrightarrow>
     \<not> workUnitScopesOverlap mm (wu_scope a) (wu_scope b)
     \<and> resourceClaimConflicts (wu_resourceClaims a) (wu_resourceClaims b) = []"
  by (simp add: deterministicSchedulingConflicts_def)

lemma workUnitScopesOverlap_sym: "workUnitScopesOverlap mm l r \<longleftrightarrow> workUnitScopesOverlap mm r l"
  by (auto simp: workUnitScopesOverlap_def list_ex_iff nonEmptyPrefixOverlap_def)

interpretation det: conflict_relation "\<lambda>a b. deterministicSchedulingConflicts mm a b \<noteq> []" for mm
  by unfold_locales
    (auto simp: deterministicSchedulingConflicts_Nil resourceClaimConflicts_Nil workUnitScopesOverlap_sym)

subsection \<open>The cycle check of the validation\<close>

definition dependsOn :: "'a SchedulableWorkUnitV1_scheme list \<Rightarrow> (string \<times> string) set" where
  "dependsOn units = {(wu_id u, d) | u d. u \<in> set units \<and> d \<in> set (wu_dependencies u)}"

definition marked :: "visit_mark \<Rightarrow> (string \<times> visit_mark) list \<Rightarrow> string set" where
  "marked k marks = {i. map_of marks i = Some k}"

lemma marked_update: "marked k (AList.update i v marks) = (if v = k then insert i (marked k marks) else marked k marks - {i})"
  by (auto simp: marked_def)

lemma marked_disjoint: "i \<in> marked visiting marks \<Longrightarrow> i \<notin> marked visited marks"
  by (simp add: marked_def)

lemma visit_mark_cases: "m = visiting \<or> m = visited"
  by (cases m) auto

lemma dom_marked: "dom (map_of marks) = marked visiting marks \<union> marked visited marks"
proof -
  have "(\<exists>m. map_of marks i = Some m) \<longleftrightarrow> map_of marks i = Some visiting \<or> map_of marks i = Some visited" for i
    by (metis visit_mark_cases)
  then show ?thesis by (auto simp: marked_def dom_def)
qed

lemma foldResult_Inl:
  "foldResult f st xs = Inl e \<Longrightarrow> \<exists>ys x zs st'. xs = ys @ x # zs \<and> foldResult f st ys = Inr st' \<and> f st' x = Inl e"
proof (induction xs arbitrary: st)
  case (Cons x xs)
  show ?case
  proof (cases "f st x")
    case (Inl e')
    with Cons.prems show ?thesis by (intro exI [of _ "[]"]) auto
  next
    case (Inr st1)
    with Cons.prems Cons.IH [of st1] obtain ys y zs st' where
      "xs = ys @ y # zs" "foldResult f st1 ys = Inr st'" "f st' y = Inl e" by auto
    with Inr show ?thesis by (intro exI [of _ "x # ys"]) auto
  qed
qed simp

text \<open>A rule for loops: a preorder that every step extends, and a fact each step establishes for good.\<close>

lemma foldResult_Inr:
  assumes "foldResult f st xs = Inr st'" "P st"
    and step: "\<And>st x st'. f st x = Inr st' \<Longrightarrow> P st \<Longrightarrow> P st' \<and> ext st st' \<and> Q x st'"
    and ext: "\<And>st. ext st st" "\<And>a b c. ext a b \<Longrightarrow> ext b c \<Longrightarrow> ext a c" "\<And>x a b. ext a b \<Longrightarrow> Q x a \<Longrightarrow> Q x b"
  shows "P st' \<and> ext st st' \<and> (\<forall>x \<in> set xs. Q x st')"
  using assms(1,2)
proof (induction xs arbitrary: st)
  case (Cons x xs)
  then obtain st1 where s1: "f st x = Inr st1" "foldResult f st1 xs = Inr st'" by (auto split: sum.splits)
  with step Cons.prems(2) have "P st1" "ext st st1" "Q x st1" by blast+
  with Cons.IH [OF s1(2)] ext show ?case by (metis set_ConsD)
qed (simp add: ext(1))

text \<open>Progress of the marks: what is being visited stays so, what has been visited stays visited.\<close>

definition marksGrow :: "(string \<times> visit_mark) list \<Rightarrow> (string \<times> visit_mark) list \<Rightarrow> bool" where
  "marksGrow a b \<longleftrightarrow> marked visiting a = marked visiting b \<and> marked visited a \<subseteq> marked visited b"

lemma marksGrow_refl: "marksGrow a a" and marksGrow_trans: "marksGrow a b \<Longrightarrow> marksGrow b c \<Longrightarrow> marksGrow a c"
  by (auto simp: marksGrow_def)

lemma visit_None:
  assumes "visit (Suc n) units marks i = Inr marks'" "map_of marks i = None"
  obtains u m where "List.find (\<lambda>u. wu_id u = i) units = Some u"
    "foldResult (visit n units) (AList.update i visiting marks) (wu_dependencies u) = Inr m" "marks' = AList.update i visited m"
  using assms by (auto split: option.splits sum.splits)

lemma visit_grow: "visit n units marks i = Inr marks' \<Longrightarrow> marksGrow marks marks' \<and> i \<in> marked visited marks'"
proof (induction n arbitrary: marks i marks')
  case (Suc n)
  show ?case
  proof (cases "map_of marks i")
    case None
    with Suc.prems obtain u m where "List.find (\<lambda>u. wu_id u = i) units = Some u" and
      m: "foldResult (visit n units) (AList.update i visiting marks) (wu_dependencies u) = Inr m"
      "marks' = AList.update i visited m" by (rule visit_None)
    have "marksGrow (AList.update i visiting marks) m"
      using foldResult_Inr [OF m(1), of "\<lambda>_. True" marksGrow "\<lambda>_ _. True"] Suc.IH marksGrow_refl marksGrow_trans by blast
    with m(2) None show ?thesis by (auto simp: marksGrow_def marked_update) (auto simp: marked_def)
  next
    case (Some k)
    with Suc.prems show ?thesis by (cases k) (auto simp: marksGrow_refl marked_def)
  qed
qed simp

lemma visit_settles:
  assumes "distinct (map wu_id units)"
  shows "visit n units marks i = Inr marks' \<Longrightarrow> settled (dependsOn units) (marked visited marks) \<Longrightarrow>
    settled (dependsOn units) (marked visited marks')"
proof (induction n arbitrary: marks i marks')
  case (Suc n)
  show ?case
  proof (cases "map_of marks i")
    case None
    with Suc.prems(1) obtain u m where u: "List.find (\<lambda>u. wu_id u = i) units = Some u"
      and m: "foldResult (visit n units) (AList.update i visiting marks) (wu_dependencies u) = Inr m"
      "marks' = AList.update i visited m" by (rule visit_None)
    have "settled (dependsOn units) (marked visited (AList.update i visiting marks))"
      using Suc.prems(2) None by (simp add: marked_update) (simp add: marked_def)
    with foldResult_Inr [OF m(1), of "\<lambda>s. settled (dependsOn units) (marked visited s)" marksGrow "\<lambda>x s. x \<in> marked visited s"]
    have fold: "settled (dependsOn units) (marked visited m)" "marksGrow (AList.update i visiting marks) m"
      "\<forall>d \<in> set (wu_dependencies u). d \<in> marked visited m"
      using Suc.IH visit_grow marksGrow_refl marksGrow_trans by (blast | auto simp: marksGrow_def)+
    have "dependsOn units `` {i} = set (wu_dependencies u)"
      using u assms by (auto simp: dependsOn_def find_Some_iff distinct_map inj_on_def) (metis nth_mem)+
    moreover have "i \<notin> marked visited m"
      using fold(2) by (auto simp: marksGrow_def marked_update dest: marked_disjoint)
    ultimately have "settled (dependsOn units) (insert i (marked visited m))"
      using fold(1,3) by (intro settled_insert) auto
    then show ?thesis using m(2) by (simp add: marked_update)
  next
    case (Some k)
    with Suc.prems show ?thesis by (cases k) auto
  qed
qed simp

text \<open>
  Failure of the search: when every node being visited reaches the node asked for, all dependencies are
  declared units and the recursion budget exceeds the number of unmarked units, the only error is a
  cycle.
\<close>

lemma visit_budget:
  assumes ids: "distinct (map wu_id units)" and closed: "\<forall>u \<in> set units. set (wu_dependencies u) \<subseteq> wu_id ` set units"
  shows "visit n units marks i = Inl e \<Longrightarrow> i \<in> wu_id ` set units \<Longrightarrow>
    (\<And>x. x \<in> marked visiting marks \<Longrightarrow> (x, i) \<in> (dependsOn units)\<^sup>+) \<Longrightarrow>
    card (wu_id ` set units - dom (map_of marks)) < n \<Longrightarrow>
    \<exists>x. e = DependencyCycle x \<and> (x, x) \<in> (dependsOn units)\<^sup>+"
proof (induction n arbitrary: marks i e)
  case (Suc n)
  show ?case
  proof (cases "map_of marks i")
    case None
    from Suc.prems(2) obtain u where u: "List.find (\<lambda>u. wu_id u = i) units = Some u"
      by (cases "List.find (\<lambda>u. wu_id u = i) units") (auto simp: find_None_iff)
    then have "u \<in> set units" "wu_id u = i" by (auto simp: find_Some_iff)
    from Suc.prems(1) None u have "foldResult (visit n units) (AList.update i visiting marks) (wu_dependencies u) = Inl e"
      by (auto split: sum.splits)
    from foldResult_Inl [OF this] obtain ys d zs m where deps: "wu_dependencies u = ys @ d # zs"
      and m: "foldResult (visit n units) (AList.update i visiting marks) ys = Inr m" and e: "visit n units m d = Inl e" by blast
    have grow: "marksGrow (AList.update i visiting marks) m"
      using foldResult_Inr [OF m, of "\<lambda>_. True" marksGrow "\<lambda>_ _. True"] visit_grow marksGrow_refl marksGrow_trans by blast
    have edge: "(i, d) \<in> dependsOn units" using \<open>u \<in> set units\<close> \<open>wu_id u = i\<close> deps by (force simp: dependsOn_def)
    have "insert i (dom (map_of marks)) \<subseteq> dom (map_of m)"
      using grow None unfolding dom_marked marksGrow_def marked_update by auto
    then have "wu_id ` set units - dom (map_of m) \<subset> wu_id ` set units - dom (map_of marks)"
      using Suc.prems(2) None by auto
    then have "card (wu_id ` set units - dom (map_of m)) < card (wu_id ` set units - dom (map_of marks))"
      by (rule psubset_card_mono [rotated]) simp
    then have "card (wu_id ` set units - dom (map_of m)) < n" using Suc.prems(4) by linarith
    moreover have "(x, d) \<in> (dependsOn units)\<^sup>+" if "x \<in> marked visiting m" for x
    proof -
      from that grow have "x = i \<or> x \<in> marked visiting marks" by (auto simp: marksGrow_def marked_update)
      with edge Suc.prems(3) show ?thesis by (metis r_into_trancl trancl_into_trancl)
    qed
    moreover have "d \<in> wu_id ` set units" using closed \<open>u \<in> set units\<close> deps by auto
    ultimately show ?thesis by (intro Suc.IH [OF e])
  next
    case (Some k)
    with Suc.prems show ?thesis by (cases k) (auto simp: marked_def)
  qed
qed simp

lemma cycle_check_exact:
  assumes ids: "distinct (map wu_id units)"
    and closed: "\<forall>u \<in> set units. set (wu_dependencies u) \<subseteq> wu_id ` set units"
  shows "(\<exists>m. foldResult (visit (length units + 1) units) [] (map wu_id units) = Inr m) \<longleftrightarrow> acyclic (dependsOn units)"
proof
  assume "\<exists>m. foldResult (visit (length units + 1) units) [] (map wu_id units) = Inr m"
  then obtain m where m: "foldResult (visit (length units + 1) units) [] (map wu_id units) = Inr m" ..
  have "settled (dependsOn units) (marked visited m) \<and> (\<forall>i \<in> set (map wu_id units). i \<in> marked visited m)"
  proof -
    have "settled (dependsOn units) (marked visited m) \<and> marksGrow [] m \<and> (\<forall>i \<in> set (map wu_id units). i \<in> marked visited m)"
    proof (rule foldResult_Inr [OF m])
      show "settled (dependsOn units) (marked visited [])" by (simp add: marked_def)
      show "settled (dependsOn units) (marked visited st') \<and> marksGrow st st' \<and> x \<in> marked visited st'"
        if "visit (length units + 1) units st x = Inr st'" "settled (dependsOn units) (marked visited st)" for st x st'
        using visit_settles [OF ids that] visit_grow [OF that(1)] by blast
    qed (auto simp: marksGrow_refl marksGrow_def)
    then show ?thesis by blast
  qed
  then show "acyclic (dependsOn units)" by (intro settled_acyclic) (auto simp: dependsOn_def)
next
  assume acyclic: "acyclic (dependsOn units)"
  show "\<exists>m. foldResult (visit (length units + 1) units) [] (map wu_id units) = Inr m"
  proof (cases "foldResult (visit (length units + 1) units) [] (map wu_id units)")
    case (Inl e)
    from foldResult_Inl [OF Inl] obtain ys i zs m where i: "map wu_id units = ys @ i # zs"
      and m: "foldResult (visit (length units + 1) units) [] ys = Inr m" and e: "visit (length units + 1) units m i = Inl e" by blast
    have "marksGrow [] m"
      using foldResult_Inr [OF m, of "\<lambda>_. True" marksGrow "\<lambda>_ _. True"] visit_grow marksGrow_refl marksGrow_trans by blast
    then have "marked visiting m = {}" by (auto simp: marksGrow_def marked_def)
    moreover have "i \<in> wu_id ` set units" using i by (metis in_set_conv_decomp set_map)
    moreover have "card (wu_id ` set units - dom (map_of m)) < length units + 1"
    proof -
      have "card (wu_id ` set units - dom (map_of m)) \<le> card (wu_id ` set units)" by (intro card_mono) auto
      also have "\<dots> \<le> length units" by (metis card_length length_map set_map)
      finally show ?thesis by simp
    qed
    ultimately obtain x where "(x, x) \<in> (dependsOn units)\<^sup>+"
      using visit_budget [OF ids closed e] by auto
    with acyclic show ?thesis by (auto simp: acyclic_def)
  qed auto
qed

subsection \<open>Validated graphs\<close>

definition wellFormedGraph :: "WorkGraphV1 \<Rightarrow> bool" where
  "wellFormedGraph g \<longleftrightarrow>
     distinct (map wu_id (wg_units g))
     \<and> (\<forall>u \<in> set (wg_units g). distinct (map rc_resource (wu_resourceClaims u))
          \<and> (\<forall>c \<in> set (wu_resourceClaims u). rc_mode c = ORDERED_SEQUENCE \<longrightarrow> rc_order c \<noteq> None)
          \<and> set (wu_dependencies u) \<subseteq> wu_id ` set (wg_units g))
     \<and> acyclic (dependsOn (wg_units g))
     \<and> set (wg_requirementRefs g) \<subseteq> (\<Union>u \<in> set (wg_units g). set (wu_requirementRefs u))
     \<and> set (wg_acceptanceRefs g) \<subseteq> (\<Union>u \<in> set (wg_units g). set (wu_acceptanceRefs u))"

lemma firstRepeated_None: "firstRepeated seen xs = None \<longleftrightarrow> distinct xs \<and> set seen \<inter> set xs = {}"
  by (induction seen xs rule: firstRepeated.induct) auto

lemma checkClaims_None:
  "set (map fst modes) \<subseteq> set resources \<Longrightarrow>
   checkClaims i resources modes cs = None \<longleftrightarrow>
     distinct (map rc_resource cs) \<and> set resources \<inter> set (map rc_resource cs) = {}
     \<and> (\<forall>c \<in> set cs. rc_mode c = ORDERED_SEQUENCE \<longrightarrow> rc_order c \<noteq> None)"
proof (induction i resources modes cs rule: checkClaims.induct)
  case (2 i resources modes c cs)
  then have "(rc_resource c, rc_mode c) \<in> set modes \<Longrightarrow> rc_resource c \<in> set resources" by force
  with 2 show ?case by auto
qed simp

lemma checkDependency_None: "checkDependency ids u d = None \<longleftrightarrow> d \<in> set ids \<and> d \<noteq> wu_id u"
  by (simp add: checkDependency_def)

lemma validateParsed_None: "validateParsed g = None \<longleftrightarrow> wellFormedGraph g"
proof -
  let ?U = "wg_units g"
  have self: "acyclic (dependsOn ?U) \<Longrightarrow> u \<in> set ?U \<Longrightarrow> wu_id u \<notin> set (wu_dependencies u)" for u
    by (auto simp: acyclic_def dependsOn_def)
  have "validateParsed g = None \<longleftrightarrow>
      distinct (map wu_id ?U)
      \<and> (\<forall>u \<in> set ?U. distinct (map rc_resource (wu_resourceClaims u))
           \<and> (\<forall>c \<in> set (wu_resourceClaims u). rc_mode c = ORDERED_SEQUENCE \<longrightarrow> rc_order c \<noteq> None))
      \<and> (\<forall>u \<in> set ?U. set (wu_dependencies u) \<subseteq> wu_id ` set ?U \<and> wu_id u \<notin> set (wu_dependencies u))
      \<and> (\<exists>m. foldResult (visit (length ?U + 1) ?U) [] (map wu_id ?U) = Inr m)
      \<and> set (wg_requirementRefs g) \<subseteq> (\<Union>u \<in> set ?U. set (wu_requirementRefs u))
      \<and> set (wg_acceptanceRefs g) \<subseteq> (\<Union>u \<in> set ?U. set (wu_acceptanceRefs u))"
    unfolding validateParsed_def Let_def option_guard_None sum_guard_None if_guard_None
    by (simp add: firstRepeated_None check_all_None checkClaims_None checkDependency_None filter_empty_conv subset_iff
        del: visit.simps foldResult.simps) blast
  then show ?thesis
    unfolding wellFormedGraph_def using cycle_check_exact [of ?U] self by blast
qed

text \<open>C32: \<open>validateWorkGraph\<close> accepts a value exactly when the schema accepts it and the parsed graph has
  distinct unit ids, distinct resource claims with a position for every ordered claim, dependencies on
  declared units without a cycle, and full coverage of its requirement and acceptance references; it then
  returns the parsed graph.\<close>

theorem validateWorkGraph_accepts_iff:
  "validateWorkGraph parse v = Inr g \<longleftrightarrow> parse v = Inr g \<and> wellFormedGraph g"
  using validateParsed_None [of g] by (auto simp: validateWorkGraph_def split: sum.splits option.splits)

text \<open>Two sets of resource claims are free of conflicts exactly when every resource claimed on both sides
  is claimed for shared reading only.\<close>

theorem resourceClaimConflicts_none_iff:
  "resourceClaimConflicts left right = [] \<longleftrightarrow>
     (\<forall>c \<in> set left. \<forall>d \<in> set right. rc_resource c = rc_resource d \<longrightarrow> rc_mode c = SHARED_READ \<and> rc_mode d = SHARED_READ)"
  by (rule resourceClaimConflicts_Nil)

theorem resourceClaimConflicts_none_iff_witness:
  "resourceClaimConflicts [\<lparr>rc_resource = ''db'', rc_mode = SHARED_READ, rc_order = None\<rparr>]
     [\<lparr>rc_resource = ''db'', rc_mode = EXCLUSIVE_WRITE, rc_order = None\<rparr>] \<noteq> []"
  unfolding resourceClaimConflicts_none_iff by simp

end
