(* ===== verification/WaveScheduler.thy ===== *)
theory WaveScheduler
  imports WorkGraph
begin

text \<open>
  The wave scheduler of \<open>src/src/architecture/workGraph.ts\<close> (\<open>planWorkUnitWaves\<close>) and its error
  classification. \<open>Map\<close>s keyed by unit id are association lists in insertion order, so a repeated id keeps
  its first position and its last unit, as in the code.
\<close>

subsection \<open>The scheduler\<close>

type_synonym sched_unit = SchedulableWorkUnitV1

datatype scheduling_error =
    InvalidSchedulingBound string
  | OrderingBlocked "string list"
  | OrderingDeadlock "string list" string
  | SchedulingUnknownDependency string string
  | SchedulingDependencyCycle "string list"

text \<open>A blueprint bound is a number; \<open>NotFinite\<close> stands for NaN, the infinities and values that are no number.\<close>

datatype wave_bound = Finite rat | NotFinite

definition byUnitId :: "sched_unit list \<Rightarrow> (string \<times> sched_unit) list" where
  "byUnitId units = fold (\<lambda>u. AList.update (wu_id u) u) units []"

definition orderedClaimsOf :: "sched_unit \<Rightarrow> (string \<times> nat option) list" where
  "orderedClaimsOf u = map (\<lambda>c. (rc_resource c, rc_order c)) (filter (\<lambda>c. rc_mode c = ORDERED_SEQUENCE) (wu_resourceClaims u))"

record schedule_ctx =
  sc_ordered :: "(string \<times> (string \<times> nat option) list) list"
  sc_bound :: "string \<Rightarrow> rat"
  sc_excl :: "string \<Rightarrow> string \<Rightarrow> bool"

text \<open>A claim at position \<open>ord\<close> waits for claims on the same resource at a smaller position.\<close>

definition precedesClaim :: "string \<times> nat option \<Rightarrow> string \<times> nat option \<Rightarrow> bool" where
  "precedesClaim other claim \<longleftrightarrow> fst other = fst claim
     \<and> (case (snd other, snd claim) of (Some k, Some n) \<Rightarrow> k < n | _ \<Rightarrow> False)"

definition orderedReadinessSatisfied :: "schedule_ctx \<Rightarrow> string list \<Rightarrow> sched_unit \<Rightarrow> bool" where
  "orderedReadinessSatisfied ctx completed u =
     list_all (\<lambda>claim. list_all (\<lambda>(otherId, otherClaims).
         otherId = wu_id u \<or> otherId \<in> set completed \<or> \<not> list_ex (\<lambda>other. precedesClaim other claim) otherClaims)
       (sc_ordered ctx))
     (case map_of (sc_ordered ctx) (wu_id u) of Some cs \<Rightarrow> cs | None \<Rightarrow> [])"

definition unitReady :: "schedule_ctx \<Rightarrow> string list \<Rightarrow> sched_unit \<Rightarrow> bool" where
  "unitReady ctx completed u \<longleftrightarrow>
     list_all (\<lambda>d. d \<in> set completed) (wu_dependencies u) \<and> orderedReadinessSatisfied ctx completed u"

fun selectWave :: "schedule_ctx \<Rightarrow> string list \<Rightarrow> nat \<Rightarrow> sched_unit list \<Rightarrow> sched_unit list \<Rightarrow> sched_unit list" where
  "selectWave ctx completed k wave [] = wave"
| "selectWave ctx completed k wave (u # us) =
     selectWave ctx completed k
       (if \<not> unitReady ctx completed u then wave
        else if sc_bound ctx (wu_id u) > of_nat k then wave
        else if list_ex (\<lambda>other. sc_excl ctx (wu_id u) (wu_id other)) wave then wave
        else wave @ [u]) us"

definition unknownDependency :: "string list \<Rightarrow> string list \<Rightarrow> sched_unit \<Rightarrow> scheduling_error option" where
  "unknownDependency remainingIds completed u =
     map_option (SchedulingUnknownDependency (wu_id u))
       (List.find (\<lambda>d. d \<notin> set completed \<and> d \<notin> set remainingIds) (wu_dependencies u))"

definition classifySchedulingBlockage :: "sched_unit list \<Rightarrow> string list \<Rightarrow> scheduling_error" where
  "classifySchedulingBlockage remaining completed =
     (let remainingIds = map wu_id remaining in
      case check_all (unknownDependency remainingIds completed) remaining of
        Some e \<Rightarrow> e
      | None \<Rightarrow>
         (case filter (\<lambda>u. list_all (\<lambda>d. d \<in> set completed) (wu_dependencies u)) remaining of
            u # _ \<Rightarrow> OrderingDeadlock remainingIds (wu_id u)
          | [] \<Rightarrow> SchedulingDependencyCycle remainingIds))"

definition boundGap :: "schedule_ctx \<Rightarrow> sched_unit list \<Rightarrow> nat \<Rightarrow> nat" where
  "boundGap ctx remaining k = nat (Max (insert 0 ((\<lambda>u. \<lceil>sc_bound ctx (wu_id u)\<rceil>) ` set remaining)) - int k)"

lemma selectWave_Nil:
  "selectWave ctx completed k [] us = [] \<longleftrightarrow>
     (\<forall>u \<in> set us. unitReady ctx completed u \<longrightarrow> sc_bound ctx (wu_id u) > of_nat k)"
proof -
  have "selectWave ctx completed k wave us = [] \<longleftrightarrow> wave = [] \<and>
     (\<forall>u \<in> set us. unitReady ctx completed u \<longrightarrow> sc_bound ctx (wu_id u) > of_nat k)" for wave
    by (induction us arbitrary: wave) auto
  then show ?thesis by simp
qed

lemma selectWave_append:
  "\<exists>xs. selectWave ctx completed k wave us = wave @ xs \<and> set xs \<subseteq> set us"
proof (induction us arbitrary: wave)
  case (Cons u us)
  obtain xs where "selectWave ctx completed k (wave @ [u]) us = (wave @ [u]) @ xs" "set xs \<subseteq> set us"
    using Cons.IH [of "wave @ [u]"] by blast
  moreover obtain ys where "selectWave ctx completed k wave us = wave @ ys" "set ys \<subseteq> set us"
    using Cons.IH [of wave] by blast
  ultimately show ?case by auto
qed simp

lemma selectWave_subset: "set (selectWave ctx completed k [] us) \<subseteq> set us"
  using selectWave_append [of ctx completed k "[]" us] by auto

lemma boundGap_decreases:
  assumes "u \<in> set remaining" "sc_bound ctx (wu_id u) > of_nat k"
  shows "boundGap ctx remaining (Suc k) < boundGap ctx remaining k"
proof -
  let ?B = "insert 0 ((\<lambda>u. \<lceil>sc_bound ctx (wu_id u)\<rceil>) ` set remaining)"
  have "int k < \<lceil>sc_bound ctx (wu_id u)\<rceil>" using assms(2) by (simp add: less_ceiling_iff)
  moreover have "\<lceil>sc_bound ctx (wu_id u)\<rceil> \<le> Max ?B" using assms(1) by (intro Max_ge) auto
  ultimately show ?thesis by (simp add: boundGap_def)
qed

function scheduleLoop :: "schedule_ctx \<Rightarrow> sched_unit list \<Rightarrow> string list \<Rightarrow> string list list \<Rightarrow>
    scheduling_error + string list list" where
  "scheduleLoop ctx remaining completed waves =
     (if remaining = [] then Inr waves
      else let wave = selectWave ctx completed (length waves) [] remaining in
        if wave = [] then
          (if list_ex (unitReady ctx completed) remaining then scheduleLoop ctx remaining completed (waves @ [[]])
           else Inl (classifySchedulingBlockage remaining completed))
        else scheduleLoop ctx (filter (\<lambda>u. wu_id u \<notin> set (map wu_id wave)) remaining)
               (completed @ map wu_id wave) (waves @ [map wu_id wave]))"
  by pat_completeness auto
termination
proof (relation "measures [\<lambda>(ctx, remaining, completed, waves). length remaining,
    \<lambda>(ctx, remaining, completed, waves). boundGap ctx remaining (length waves)]", goal_cases)
  case (2 ctx remaining completed waves wave)
  then obtain u where "u \<in> set remaining" "unitReady ctx completed u" by (auto simp: list_ex_iff)
  moreover have "selectWave ctx completed (length waves) [] remaining = []" using 2 by simp
  ultimately have "sc_bound ctx (wu_id u) > of_nat (length waves)" by (simp only: selectWave_Nil)
  with \<open>u \<in> set remaining\<close> show ?case using boundGap_decreases by simp
next
  case (3 ctx remaining completed waves wave)
  then have "last wave \<in> set wave" by (intro last_in_set) simp
  then obtain u where "u \<in> set wave" by blast
  with 3 have "u \<in> set remaining" using selectWave_subset by blast
  with \<open>u \<in> set wave\<close> have "length (filter (\<lambda>u. wu_id u \<notin> set (map wu_id wave)) remaining) < length remaining"
    by (intro length_filter_less) auto
  then show ?case by simp
qed simp

declare scheduleLoop.simps [simp del]

definition checkBound :: "nat \<Rightarrow> (string \<Rightarrow> wave_bound) \<Rightarrow> sched_unit \<Rightarrow> scheduling_error option" where
  "checkBound n bound u = (case bound (wu_id u) of
       NotFinite \<Rightarrow> Some (InvalidSchedulingBound (wu_id u))
     | Finite b \<Rightarrow> if b < 0 \<or> b > of_nat n then Some (InvalidSchedulingBound (wu_id u)) else None)"

definition finiteBound :: "wave_bound \<Rightarrow> rat" where
  "finiteBound b = (case b of Finite r \<Rightarrow> r | NotFinite \<Rightarrow> 0)"

record wave_options =
  wo_areMutuallyExclusive :: "(string \<Rightarrow> string \<Rightarrow> bool) option"
  wo_blueprintWaveIndex :: "(string \<Rightarrow> wave_bound) option"

definition mutuallyExclusiveOf :: "(string \<Rightarrow> string \<Rightarrow> bool) \<Rightarrow> sched_unit list \<Rightarrow> wave_options \<Rightarrow> string \<Rightarrow> string \<Rightarrow> bool" where
  "mutuallyExclusiveOf mm units opts l r = (case wo_areMutuallyExclusive opts of
       Some f \<Rightarrow> f l r
     | None \<Rightarrow> deterministicSchedulingConflicts mm (the (map_of (byUnitId units) l)) (the (map_of (byUnitId units) r)) \<noteq> [])"

definition blueprintWaveOf :: "wave_options \<Rightarrow> string \<Rightarrow> wave_bound" where
  "blueprintWaveOf opts = (case wo_blueprintWaveIndex opts of Some f \<Rightarrow> f | None \<Rightarrow> (\<lambda>_. Finite 0))"

definition scheduleContext :: "(string \<Rightarrow> string \<Rightarrow> bool) \<Rightarrow> sched_unit list \<Rightarrow> wave_options \<Rightarrow> schedule_ctx" where
  "scheduleContext mm units opts =
     \<lparr>sc_ordered = fold (\<lambda>u. AList.update (wu_id u) (orderedClaimsOf u)) units [],
      sc_bound = finiteBound \<circ> blueprintWaveOf opts,
      sc_excl = mutuallyExclusiveOf mm units opts\<rparr>"

definition planWorkUnitWaves ::
    "(string \<Rightarrow> string \<Rightarrow> bool) \<Rightarrow> sched_unit list \<Rightarrow> wave_options \<Rightarrow> scheduling_error + string list list" where
  "planWorkUnitWaves mm units opts =
     (case check_all (checkBound (length units) (blueprintWaveOf opts)) units of
        Some e \<Rightarrow> Inl e
      | None \<Rightarrow>
         (let violations = resourceClaimOrderingViolations (map (\<lambda>u. (wu_id u, wu_resourceClaims u)) units) in
          if violations \<noteq> [] then Inl (OrderingBlocked violations)
          else scheduleLoop (scheduleContext mm units opts) (map snd (byUnitId units)) [] []))"

subsection \<open>What a wave holds\<close>

lemma selectWave_sound:
  assumes "\<forall>u \<in> set wave. unitReady ctx completed u \<and> sc_bound ctx (wu_id u) \<le> of_nat k"
    and "sorted_wrt (\<lambda>a b. \<not> sc_excl ctx (wu_id b) (wu_id a)) wave"
  shows "(\<forall>u \<in> set (selectWave ctx completed k wave us). unitReady ctx completed u \<and> sc_bound ctx (wu_id u) \<le> of_nat k)
    \<and> sorted_wrt (\<lambda>a b. \<not> sc_excl ctx (wu_id b) (wu_id a)) (selectWave ctx completed k wave us)"
  using assms
proof (induction us arbitrary: wave)
  case (Cons u us)
  show ?case
    unfolding selectWave.simps using Cons.prems
    by (intro Cons.IH) (auto simp: sorted_wrt_append list_ex_iff not_less)
qed simp

lemma selectWave_distinct:
  "distinct (map wu_id (wave @ us)) \<Longrightarrow> distinct (map wu_id (selectWave ctx completed k wave us))"
proof (induction us arbitrary: wave)
  case (Cons u us)
  show ?case unfolding selectWave.simps using Cons.prems by (intro Cons.IH) auto
qed simp

text \<open>
  The abstract specification of a plan: the waves hold every unit once, a unit is ready when its wave
  starts and not before its bound, no unit of a wave excludes an earlier one, and a wave is empty only
  while a bound lies ahead.
\<close>

definition waveOk :: "schedule_ctx \<Rightarrow> sched_unit list \<Rightarrow> string list list \<Rightarrow> nat \<Rightarrow> bool" where
  "waveOk ctx U waves i \<longleftrightarrow>
     sorted_wrt (\<lambda>a b. \<not> sc_excl ctx b a) (waves ! i)
     \<and> (\<forall>u \<in> set U. wu_id u \<in> set (waves ! i) \<longrightarrow>
          unitReady ctx (concat (take i waves)) u \<and> sc_bound ctx (wu_id u) \<le> of_nat i)
     \<and> (waves ! i = [] \<longrightarrow> (\<exists>u \<in> set U. of_nat i < sc_bound ctx (wu_id u)))"

definition scheduleInv :: "schedule_ctx \<Rightarrow> sched_unit list \<Rightarrow> sched_unit list \<Rightarrow> string list \<Rightarrow> string list list \<Rightarrow> bool" where
  "scheduleInv ctx U remaining completed waves \<longleftrightarrow>
     completed = concat waves \<and> distinct completed \<and> set completed \<subseteq> wu_id ` set U
     \<and> remaining = filter (\<lambda>u. wu_id u \<notin> set completed) U
     \<and> (\<forall>i < length waves. waveOk ctx U waves i)"

lemma waveOk_append: "i < length waves \<Longrightarrow> waveOk ctx U (waves @ ws) i \<longleftrightarrow> waveOk ctx U waves i"
  by (simp add: waveOk_def nth_append)

lemma scheduleInv_empty_wave:
  assumes "scheduleInv ctx U remaining completed waves"
    and "selectWave ctx completed (length waves) [] remaining = []" "list_ex (unitReady ctx completed) remaining"
  shows "scheduleInv ctx U remaining completed (waves @ [[]])"
proof -
  obtain u where "u \<in> set remaining" "unitReady ctx completed u" using assms(3) by (auto simp: list_ex_iff)
  with assms(1,2) have "u \<in> set U" "of_nat (length waves) < sc_bound ctx (wu_id u)"
    by (auto simp: scheduleInv_def selectWave_Nil)
  then have "waveOk ctx U (waves @ [[]]) (length waves)" by (auto simp: waveOk_def)
  with assms(1) show ?thesis by (auto simp: scheduleInv_def less_Suc_eq waveOk_append simp del: set_concat)
qed

lemma scheduleInv_wave:
  assumes inv: "scheduleInv ctx U remaining completed waves" and dist: "distinct (map wu_id U)"
    and wave: "wave = selectWave ctx completed (length waves) [] remaining" "wave \<noteq> []"
  shows "scheduleInv ctx U (filter (\<lambda>u. wu_id u \<notin> set (map wu_id wave)) remaining)
    (completed @ map wu_id wave) (waves @ [map wu_id wave])"
proof -
  have sub: "set wave \<subseteq> set remaining" using selectWave_subset wave(1) by simp
  have rem: "set remaining \<subseteq> set U" "\<forall>u \<in> set remaining. wu_id u \<notin> set completed"
    using inv by (auto simp: scheduleInv_def)
  have "distinct (map wu_id remaining)" using inv dist by (auto simp: scheduleInv_def distinct_map inj_on_def)
  then have dw: "distinct (map wu_id wave)" using selectWave_distinct [of "[]" remaining] wave(1) by simp
  have sound: "\<forall>u \<in> set wave. unitReady ctx completed u \<and> sc_bound ctx (wu_id u) \<le> of_nat (length waves)"
    "sorted_wrt (\<lambda>a b. \<not> sc_excl ctx (wu_id b) (wu_id a)) wave"
    using selectWave_sound [of "[]"] wave(1) by auto
  have "u \<in> set wave" if "u \<in> set U" "wu_id u \<in> set (map wu_id wave)" for u
    using that dist sub rem(1) by (auto simp: distinct_map inj_on_def)
  with sound inv wave(2) have "waveOk ctx U (waves @ [map wu_id wave]) (length waves)"
    by (auto simp: waveOk_def scheduleInv_def sorted_wrt_map)
  moreover have "set (map wu_id wave) \<inter> set completed = {}" using sub rem(2) by auto
  ultimately show ?thesis
    using inv dw sub rem(1) by (auto simp: scheduleInv_def less_Suc_eq waveOk_append intro!: filter_cong simp del: set_concat)
qed

lemma scheduleLoop_inv:
  assumes "scheduleLoop ctx remaining completed waves = Inr waves'" "scheduleInv ctx U remaining completed waves"
    and "distinct (map wu_id U)"
  shows "\<exists>completed'. scheduleInv ctx U [] completed' waves'"
  using assms
proof (induction ctx remaining completed waves rule: scheduleLoop.induct)
  case (1 ctx remaining completed waves)
  let ?wave = "selectWave ctx completed (length waves) [] remaining"
  consider "remaining = []" | "remaining \<noteq> []" "?wave = []" | "remaining \<noteq> []" "?wave \<noteq> []" by blast
  then show ?case
  proof cases
    case 1
    with "1.prems" show ?thesis by (auto simp: scheduleLoop.simps)
  next
    case 2
    then have "list_ex (unitReady ctx completed) remaining" using "1.prems"(1)
      by (subst (asm) scheduleLoop.simps) (auto split: if_splits)
    with 2 1 show ?thesis using scheduleInv_empty_wave by (auto simp: scheduleLoop.simps [of ctx remaining])
  next
    case 3
    with 1 scheduleInv_wave [OF "1.prems"(2,3) refl] show ?thesis
      by (auto simp: scheduleLoop.simps [of ctx remaining] Let_def)
  qed
qed

subsection \<open>Plans over distinct units\<close>

lemma fold_update_distinct:
  "distinct (map f xs) \<Longrightarrow> set (map f xs) \<inter> set (map fst m) = {} \<Longrightarrow>
   fold (\<lambda>x. AList.update (f x) (g x)) xs m = m @ map (\<lambda>x. (f x, g x)) xs"
proof (induction xs arbitrary: m)
  case (Cons x xs)
  then have new: "f x \<notin> set (map fst m)" by auto
  have "AList.update k v m = m @ [(k, v)]" if "k \<notin> set (map fst m)" for k v
    using that by (induction m) auto
  with new Cons show ?case by auto
qed simp

lemma byUnitId_distinct: "distinct (map wu_id units) \<Longrightarrow> byUnitId units = map (\<lambda>u. (wu_id u, u)) units"
  unfolding byUnitId_def using fold_update_distinct [of wu_id units "[]" "\<lambda>u. u"] by simp

lemma map_of_units:
  "distinct (map wu_id units) \<Longrightarrow> u \<in> set units \<Longrightarrow> map_of (map (\<lambda>u. (wu_id u, f u)) units) (wu_id u) = Some (f u)"
  by (auto simp: comp_def intro!: map_of_is_SomeI)

lemma scheduleContext_ordered:
  "distinct (map wu_id units) \<Longrightarrow>
   sc_ordered (scheduleContext mm units opts) = map (\<lambda>u. (wu_id u, orderedClaimsOf u)) units"
  unfolding scheduleContext_def using fold_update_distinct [of wu_id units "[]" orderedClaimsOf] by simp

lemma checkBound_None:
  "checkBound n bound u = None \<longleftrightarrow> (\<exists>b. bound (wu_id u) = Finite b \<and> 0 \<le> b \<and> b \<le> of_nat n)"
  by (cases "bound (wu_id u)") (auto simp: checkBound_def not_less)

lemma planWorkUnitWaves_loop:
  assumes "planWorkUnitWaves mm units opts = Inr waves"
  shows "scheduleLoop (scheduleContext mm units opts) (map snd (byUnitId units)) [] [] = Inr waves"
    and "\<forall>u \<in> set units. \<exists>b. blueprintWaveOf opts (wu_id u) = Finite b \<and> 0 \<le> b \<and> b \<le> of_nat (length units)"
  using assms
  by (auto simp: planWorkUnitWaves_def Let_def check_all_None checkBound_None split: option.splits if_splits)

lemma planWorkUnitWaves_inv:
  assumes "planWorkUnitWaves mm units opts = Inr waves" "distinct (map wu_id units)"
  shows "scheduleInv (scheduleContext mm units opts) units [] (concat waves) waves"
proof -
  have "map snd (byUnitId units) = units" using assms(2) by (simp add: byUnitId_distinct comp_def)
  moreover have "scheduleInv (scheduleContext mm units opts) units units [] []" by (simp add: scheduleInv_def)
  ultimately obtain c where "scheduleInv (scheduleContext mm units opts) units [] c waves"
    using scheduleLoop_inv planWorkUnitWaves_loop(1) [OF assms(1)] assms(2) by fastforce
  moreover from this have "c = concat waves" by (simp add: scheduleInv_def)
  ultimately show ?thesis by simp
qed

lemma scheduleInv_done:
  assumes "scheduleInv ctx U [] (concat waves) waves"
  shows "set (concat waves) = wu_id ` set U" "distinct (concat waves)" "\<And>i. i < length waves \<Longrightarrow> waveOk ctx U waves i"
proof -
  have "\<forall>u \<in> set U. wu_id u \<in> set (concat waves)"
    using assms unfolding scheduleInv_def by (metis filter_empty_conv)
  then show "set (concat waves) = wu_id ` set U" using assms unfolding scheduleInv_def by blast
qed (use assms in \<open>auto simp: scheduleInv_def\<close>)

lemma waveOk_ready:
  assumes "waveOk ctx U waves i" "u \<in> set U" "wu_id u \<in> set (waves ! i)"
  shows "\<And>d. d \<in> set (wu_dependencies u) \<Longrightarrow> d \<in> set (concat (take i waves))"
    and "orderedReadinessSatisfied ctx (concat (take i waves)) u"
    and "sc_bound ctx (wu_id u) \<le> of_nat i"
  using assms by (auto simp: waveOk_def unitReady_def list_all_iff simp del: set_concat)

lemma in_earlier_wave: "d \<in> set (concat (take i waves)) \<longleftrightarrow> (\<exists>j < i. j < length waves \<and> d \<in> set (waves ! j))"
proof -
  have "set (take i waves) = {waves ! j | j. j < i \<and> j < length waves}"
    by (auto simp: set_conv_nth) (metis nth_take)
  then show ?thesis by auto
qed

text \<open>A plan for the witnesses: \<open>b\<close> depends on \<open>a\<close>, \<open>c\<close> overlaps the scope of \<open>a\<close> and precedes \<open>b\<close> in the
  ordered sequence \<open>db\<close>.\<close>

definition sample_a :: sched_unit where
  "sample_a = \<lparr>wu_id = ''a'', wu_scope = [''src/a/**''], wu_dependencies = [], wu_resourceClaims = []\<rparr>"

definition sample_b :: sched_unit where
  "sample_b = \<lparr>wu_id = ''b'', wu_scope = [''docs/b.md''], wu_dependencies = [''a''],
     wu_resourceClaims = [\<lparr>rc_resource = ''db'', rc_mode = ORDERED_SEQUENCE, rc_order = Some 1\<rparr>]\<rparr>"

definition sample_c :: sched_unit where
  "sample_c = \<lparr>wu_id = ''c'', wu_scope = [''src/a/x.ts''], wu_dependencies = [],
     wu_resourceClaims = [\<lparr>rc_resource = ''db'', rc_mode = ORDERED_SEQUENCE, rc_order = Some 0\<rparr>]\<rparr>"

definition sample_d :: sched_unit where
  "sample_d = \<lparr>wu_id = ''d'', wu_scope = [''lib/d.ts''], wu_dependencies = [], wu_resourceClaims = []\<rparr>"

definition default_options :: wave_options where
  "default_options = \<lparr>wo_areMutuallyExclusive = None, wo_blueprintWaveIndex = None\<rparr>"

lemma sample_plan: "planWorkUnitWaves (=) [sample_a, sample_b, sample_c, sample_d] default_options
    = Inr [[''a'', ''d''], [''c''], [''b'']]"
  by code_simp

lemma sample_plan_ids: "distinct (map wu_id [sample_a, sample_b, sample_c, sample_d])"
  by code_simp

text \<open>C33: a plan places every unit in exactly one wave, its dependencies in strictly earlier waves, and no
  unit before its blueprint bound.\<close>

theorem planWorkUnitWaves_sound:
  assumes plan: "planWorkUnitWaves mm units opts = Inr waves" and ids: "distinct (map wu_id units)"
  shows "distinct (concat waves) \<and> set (concat waves) = wu_id ` set units
    \<and> (\<forall>i < length waves. \<forall>u \<in> set units. wu_id u \<in> set (waves ! i) \<longrightarrow>
         (\<forall>d \<in> set (wu_dependencies u). \<exists>j < i. d \<in> set (waves ! j))
         \<and> (\<exists>b. blueprintWaveOf opts (wu_id u) = Finite b \<and> b \<le> of_nat i))"
proof -
  let ?ctx = "scheduleContext mm units opts"
  note inv = scheduleInv_done [OF planWorkUnitWaves_inv [OF plan ids]]
  have "(\<forall>d \<in> set (wu_dependencies u). \<exists>j < i. d \<in> set (waves ! j))
      \<and> (\<exists>b. blueprintWaveOf opts (wu_id u) = Finite b \<and> b \<le> of_nat i)"
    if "i < length waves" "u \<in> set units" "wu_id u \<in> set (waves ! i)" for i u
  proof -
    note ready = waveOk_ready [OF inv(3) [OF that(1)] that(2,3)]
    from planWorkUnitWaves_loop(2) [OF plan] that(2)
    obtain b where b: "blueprintWaveOf opts (wu_id u) = Finite b" by blast
    then have "sc_bound ?ctx (wu_id u) = b" by (simp add: scheduleContext_def finiteBound_def)
    with ready(3) b ready(1) show ?thesis by (fastforce simp: in_earlier_wave simp del: set_concat)
  qed
  with inv(1,2) show ?thesis by blast
qed

theorem planWorkUnitWaves_sound_witness:
  "\<exists>j < 2. ''a'' \<in> set ([[''a'', ''d''], [''c''], [''b'']] ! j)"
proof -
  have "\<forall>d \<in> set (wu_dependencies sample_b). \<exists>j < 2. d \<in> set ([[''a'', ''d''], [''c''], [''b'']] ! j)"
    using planWorkUnitWaves_sound [OF sample_plan sample_plan_ids] by (simp add: sample_b_def numeral_2_eq_2)
  then show ?thesis by (simp add: sample_b_def)
qed

text \<open>C3: units that claim positions of the same ordered resource are placed in strictly increasing waves.\<close>

theorem planWorkUnitWaves_ordered_sequence:
  assumes plan: "planWorkUnitWaves mm units opts = Inr waves" and ids: "distinct (map wu_id units)"
    and units: "u \<in> set units" "v \<in> set units" "u \<noteq> v"
    and claims: "(r, Some k) \<in> set (orderedClaimsOf v)" "(r, Some n) \<in> set (orderedClaimsOf u)" "k < n"
    and i: "i < length waves" "wu_id u \<in> set (waves ! i)"
  shows "\<exists>j < i. wu_id v \<in> set (waves ! j)"
proof -
  let ?ctx = "scheduleContext mm units opts"
  note inv = scheduleInv_done [OF planWorkUnitWaves_inv [OF plan ids]]
  have ready: "orderedReadinessSatisfied ?ctx (concat (take i waves)) u"
    by (rule waveOk_ready(2) [OF inv(3) [OF i(1)] units(1) i(2)])
  have "map_of (sc_ordered ?ctx) (wu_id u) = Some (orderedClaimsOf u)"
    using ids units(1) by (simp add: scheduleContext_ordered map_of_units)
  moreover have "(wu_id v, orderedClaimsOf v) \<in> set (sc_ordered ?ctx)"
    using ids units(2) by (auto simp: scheduleContext_ordered)
  moreover have "wu_id v \<noteq> wu_id u" using ids units by (auto simp: distinct_map inj_on_def)
  moreover have "precedesClaim (r, Some k) (r, Some n)" using claims(3) by (simp add: precedesClaim_def)
  ultimately have "wu_id v \<in> set (concat (take i waves))"
    using ready claims(1,2) unfolding orderedReadinessSatisfied_def list_all_iff list_ex_iff by fastforce
  then show ?thesis by (auto simp: in_earlier_wave simp del: set_concat)
qed

theorem planWorkUnitWaves_ordered_sequence_witness:
  "\<exists>j < 2. wu_id sample_c \<in> set ([[''a'', ''d''], [''c''], [''b'']] ! j)"
  by (rule planWorkUnitWaves_ordered_sequence [OF sample_plan sample_plan_ids, of sample_b sample_c "''db''" 0 1 2])
    (simp_all add: sample_b_def sample_c_def orderedClaimsOf_def numeral_2_eq_2)

subsection \<open>Independence within a wave\<close>

lemma default_exclusion:
  assumes "distinct (map wu_id units)" "wo_areMutuallyExclusive opts = None" "u \<in> set units" "v \<in> set units"
  shows "sc_excl (scheduleContext mm units opts) (wu_id u) (wu_id v) \<longleftrightarrow> deterministicSchedulingConflicts mm u v \<noteq> []"
proof -
  have "map_of (byUnitId units) (wu_id w) = Some w" if "w \<in> set units" for w
    using that assms(1) by (simp add: byUnitId_distinct map_of_units)
  with assms show ?thesis by (simp add: scheduleContext_def mutuallyExclusiveOf_def)
qed

lemma waves_in_units:
  assumes "scheduleInv ctx U [] (concat waves) waves" "i < length waves" "x \<in> set (waves ! i)"
  obtains u where "u \<in> set U" "wu_id u = x"
proof -
  have "x \<in> set (concat waves)" using assms(2,3) nth_mem by fastforce
  with scheduleInv_done(1) [OF assms(1)] that show thesis by auto
qed



subsection \<open>When a plan exists\<close>

definition precedence :: "sched_unit list \<Rightarrow> (string \<times> string) set" where
  "precedence units = {(d, wu_id u) | u d. u \<in> set units \<and> d \<in> set (wu_dependencies u)}
     \<union> {(wu_id v, wu_id u) | u v. u \<in> set units \<and> v \<in> set units \<and> wu_id v \<noteq> wu_id u
          \<and> (\<exists>c \<in> set (orderedClaimsOf u). \<exists>o' \<in> set (orderedClaimsOf v). precedesClaim o' c)}"

lemma scheduleInv_remaining:
  assumes "scheduleInv ctx U remaining completed waves"
  shows "wu_id ` set U = set completed \<union> wu_id ` set remaining" "set remaining \<subseteq> set U"
  using assms by (auto simp: scheduleInv_def simp del: set_concat)

text \<open>A unit without predecessors among the remaining ones is ready.\<close>

lemma minimal_ready:
  assumes inv: "scheduleInv ctx U remaining completed waves" and ids: "distinct (map wu_id U)"
    and closed: "\<forall>u \<in> set U. set (wu_dependencies u) \<subseteq> wu_id ` set U"
    and ordered: "sc_ordered ctx = map (\<lambda>u. (wu_id u, orderedClaimsOf u)) U"
    and u: "u \<in> set remaining" "\<And>y. (y, wu_id u) \<in> precedence U \<Longrightarrow> y \<notin> wu_id ` set remaining"
  shows "unitReady ctx completed u"
proof -
  note rem = scheduleInv_remaining [OF inv]
  have uU: "u \<in> set U" using u(1) rem(2) by blast
  have "d \<in> set completed" if "d \<in> set (wu_dependencies u)" for d
  proof -
    have "(d, wu_id u) \<in> precedence U" using that uU by (auto simp: precedence_def)
    moreover have "d \<in> wu_id ` set U" using closed uU that by blast
    ultimately show ?thesis using u(2) rem(1) by blast
  qed
  moreover have "map_of (sc_ordered ctx) (wu_id u) = Some (orderedClaimsOf u)"
    using ids uU ordered by (simp add: map_of_units)
  moreover have "wu_id v \<in> set completed" if "v \<in> set U" "wu_id v \<noteq> wu_id u"
      "c \<in> set (orderedClaimsOf u)" "p \<in> set (orderedClaimsOf v)" "precedesClaim p c" for v c p
  proof -
    have "(wu_id v, wu_id u) \<in> precedence U" using that uU unfolding precedence_def by blast
    with u(2) rem(1) that(1) show ?thesis by blast
  qed
  ultimately show ?thesis
    by (fastforce simp: unitReady_def orderedReadinessSatisfied_def ordered list_all_iff list_ex_iff)
qed

text \<open>The two ways the loop can stop early, each excluded by a condition on the graph.\<close>

lemma scheduleLoop_Inl:
  assumes "scheduleLoop ctx remaining completed waves = Inl e" "scheduleInv ctx U remaining completed waves"
    and "distinct (map wu_id U)"
  shows "\<exists>remaining' completed' waves'. scheduleInv ctx U remaining' completed' waves' \<and> remaining' \<noteq> []
    \<and> \<not> list_ex (unitReady ctx completed') remaining' \<and> e = classifySchedulingBlockage remaining' completed'"
  using assms
proof (induction ctx remaining completed waves rule: scheduleLoop.induct)
  case (1 ctx remaining completed waves)
  let ?wave = "selectWave ctx completed (length waves) [] remaining"
  have ne: "remaining \<noteq> []" using "1.prems"(1) by (auto simp: scheduleLoop.simps)
  consider (wave) "?wave \<noteq> []" | (stall) "?wave = []" "list_ex (unitReady ctx completed) remaining"
    | (stuck) "?wave = []" "\<not> list_ex (unitReady ctx completed) remaining" by blast
  then show ?case
  proof cases
    case wave
    with 1 ne scheduleInv_wave [OF "1.prems"(2,3) refl] show ?thesis
      by (auto simp: scheduleLoop.simps [of ctx remaining] Let_def)
  next
    case stall
    with 1 ne scheduleInv_empty_wave show ?thesis by (auto simp: scheduleLoop.simps [of ctx remaining])
  next
    case stuck
    with "1.prems" ne show ?thesis by (auto simp: scheduleLoop.simps [of ctx remaining])
  qed
qed

lemma planWorkUnitWaves_Inl:
  assumes plan: "planWorkUnitWaves mm units opts = Inl e" and ids: "distinct (map wu_id units)"
    and bounds: "\<forall>u \<in> set units. \<exists>b. blueprintWaveOf opts (wu_id u) = Finite b \<and> 0 \<le> b \<and> b \<le> of_nat (length units)"
    and orders: "resourceClaimOrderingViolations (map (\<lambda>u. (wu_id u, wu_resourceClaims u)) units) = []"
  obtains remaining completed waves where "scheduleInv (scheduleContext mm units opts) units remaining completed waves"
    "remaining \<noteq> []" "\<not> list_ex (unitReady (scheduleContext mm units opts) completed) remaining"
    "e = classifySchedulingBlockage remaining completed"
proof -
  have "check_all (checkBound (length units) (blueprintWaveOf opts)) units = None"
    using bounds by (simp add: check_all_None checkBound_None)
  with plan orders ids have "scheduleLoop (scheduleContext mm units opts) units [] [] = Inl e"
    by (simp add: planWorkUnitWaves_def byUnitId_distinct comp_def)
  moreover have "scheduleInv (scheduleContext mm units opts) units units [] []" by (simp add: scheduleInv_def)
  ultimately show thesis using scheduleLoop_Inl ids that by blast
qed



text \<open>On a graph whose dependencies are declared and have no cycle, the scheduler never reports an unknown
  dependency or a dependency cycle: the only failure left is an ordering deadlock among ordered claims.\<close>

theorem planWorkUnitWaves_acyclic_errors:
  assumes plan: "planWorkUnitWaves mm units opts = Inl e" and ids: "distinct (map wu_id units)"
    and closed: "\<forall>u \<in> set units. set (wu_dependencies u) \<subseteq> wu_id ` set units"
    and bounds: "\<forall>u \<in> set units. \<exists>b. blueprintWaveOf opts (wu_id u) = Finite b \<and> 0 \<le> b \<and> b \<le> of_nat (length units)"
    and orders: "resourceClaimOrderingViolations (map (\<lambda>u. (wu_id u, wu_resourceClaims u)) units) = []"
    and acyclic: "acyclic (dependsOn units)"
  shows "\<exists>remaining i. e = OrderingDeadlock remaining i"
proof -
  let ?ctx = "scheduleContext mm units opts"
  obtain remaining completed waves where inv: "scheduleInv ?ctx units remaining completed waves"
    and ne: "remaining \<noteq> []" and e: "e = classifySchedulingBlockage remaining completed"
    by (rule planWorkUnitWaves_Inl [OF plan ids bounds orders])
  note rem = scheduleInv_remaining [OF inv]
  have known: "d \<in> set completed \<or> d \<in> wu_id ` set remaining" if "u \<in> set remaining" "d \<in> set (wu_dependencies u)" for u d
    using that closed rem by blast
  then have none: "check_all (unknownDependency (map wu_id remaining) completed) remaining = None"
    by (auto simp: check_all_None unknownDependency_def find_None_iff)
  have conv: "acyclic ((dependsOn units)\<inverse>)" using acyclic by (simp add: acyclic_converse)
  obtain i where i: "i \<in> wu_id ` set remaining" "\<And>y. (y, i) \<in> (dependsOn units)\<inverse> \<Longrightarrow> y \<notin> wu_id ` set remaining"
    using acyclic_minimal [of "wu_id ` set remaining", OF _ _ conv] ne by auto
  then obtain u where u: "u \<in> set remaining" "wu_id u = i" by blast
  have "list_all (\<lambda>d. d \<in> set completed) (wu_dependencies u)"
    using i(2) u known rem(2) by (force simp: list_all_iff dependsOn_def)
  with u(1) have "filter (\<lambda>u. list_all (\<lambda>d. d \<in> set completed) (wu_dependencies u)) remaining \<noteq> []"
    by (auto simp: filter_empty_conv)
  then show ?thesis using none e by (auto simp: classifySchedulingBlockage_def Let_def split: list.splits)
qed

definition deadlock_a :: sched_unit where
  "deadlock_a = sample_c\<lparr>wu_dependencies := [''b'']\<rparr>"

theorem planWorkUnitWaves_acyclic_errors_witness:
  "\<exists>remaining i. planWorkUnitWaves (=) [sample_b\<lparr>wu_dependencies := []\<rparr>, deadlock_a] default_options
     = Inl (OrderingDeadlock remaining i)"
proof -
  let ?units = "[sample_b\<lparr>wu_dependencies := []\<rparr>, deadlock_a]"
  have "isl (planWorkUnitWaves (=) ?units default_options)" by code_simp
  then obtain e where e: "planWorkUnitWaves (=) ?units default_options = Inl e" by (auto simp: isl_def)
  have "\<exists>remaining i. e = OrderingDeadlock remaining i"
  proof (rule planWorkUnitWaves_acyclic_errors [OF e])
    show "resourceClaimOrderingViolations (map (\<lambda>u. (wu_id u, wu_resourceClaims u)) ?units) = []" by code_simp
    show "acyclic (dependsOn ?units)"
    proof (rule acyclicI_order)
      show "(if y = ''b'' then 0 else 1 :: nat) < (if x = ''b'' then 0 else 1)" if "(x, y) \<in> dependsOn ?units" for x y
        using that by (auto simp: dependsOn_def sample_b_def sample_c_def deadlock_a_def)
    qed
  qed (auto simp: sample_b_def sample_c_def deadlock_a_def default_options_def blueprintWaveOf_def)
  with e show ?thesis by blast
qed

end
