(* ===== verification/Machine.thy ===== *)
theory Machine
  imports Js
begin

text \<open>
  State machines under a clock. A component provides a step relation indexed by the time of the step and
  an invariant that may mention that time; a run is a sequence of steps at non-decreasing times.
\<close>

inductive run :: "(int \<Rightarrow> 's \<Rightarrow> 's \<Rightarrow> bool) \<Rightarrow> int \<Rightarrow> 's \<Rightarrow> int \<Rightarrow> 's \<Rightarrow> bool" for step where
  start: "t \<le> t' \<Longrightarrow> run step t s t' s"
| more: "run step t s t' s' \<Longrightarrow> t' \<le> t'' \<Longrightarrow> step t'' s' s'' \<Longrightarrow> run step t s t'' s''"

lemma run_time: "run step t s t' s' \<Longrightarrow> t \<le> t'"
  by (induction rule: run.induct) auto

text \<open>The contract of a component: its steps keep the invariant, and so does the passing of time.\<close>

locale timed_machine =
  fixes step :: "int \<Rightarrow> 's \<Rightarrow> 's \<Rightarrow> bool" and inv :: "int \<Rightarrow> 's \<Rightarrow> bool"
  assumes step_inv: "inv t s \<Longrightarrow> step t s s' \<Longrightarrow> inv t s'"
    and time_inv: "inv t s \<Longrightarrow> t \<le> t' \<Longrightarrow> inv t' s"
begin

lemma run_inv: "run step t s t' s' \<Longrightarrow> inv t s \<Longrightarrow> inv t' s'"
  by (induction rule: run.induct) (blast intro: step_inv time_inv)+

end

text \<open>A component whose steps only go down in a preorder: every later state is below the earlier ones.\<close>

locale attenuating_machine =
  fixes step :: "int \<Rightarrow> 's \<Rightarrow> 's \<Rightarrow> bool" and below :: "'s \<Rightarrow> 's \<Rightarrow> bool"
  assumes step_below: "step t s s' \<Longrightarrow> below s' s"
    and below_refl: "below s s"
    and below_trans: "below a b \<Longrightarrow> below b c \<Longrightarrow> below a c"
begin

lemma run_below: "run step t s t' s' \<Longrightarrow> below s' s"
  by (induction rule: run.induct) (blast intro: step_below below_refl below_trans)+

end

end
