(* ===== verification/RuntimeSupervisor.thy ===== *)
theory RuntimeSupervisor
  imports Complex_Main CandidateContracts Machine
begin

text \<open>
  The runtime supervisor (\<open>src/src/runtime/supervisorV2.ts\<close>): services owned by processes and provider
  leases with expiry, as one state record with a function per method. Instants are milliseconds; \<open>now\<close> is
  the value \<open>clock()\<close> returns during the call. \<open>randomUUID\<close> and the liveness probe of a process
  (\<open>process.kill(pid, 0)\<close>) are arguments. A method that throws still returns the state it has changed.
\<close>

subsection \<open>State\<close>

datatype RuntimeServiceKindV1 = paseo | serena | context_service | control_center | provider_service

datatype RuntimeServiceStatusV1 = STARTING | READY | DEGRADED | STOPPED | FAILED

datatype ProviderLeaseModeV1 = read_mode | write_mode

record RuntimeServiceV1 =
  rs_serviceId :: string
  rs_kind :: RuntimeServiceKindV1
  rs_projectId :: string
  rs_canonicalRoot :: string
  rs_workspaceId :: "string option"
  rs_status :: RuntimeServiceStatusV1
  rs_ownerId :: string
  rs_healthUrl :: "string option"
  rs_pid :: "int option"
  rs_startedAt :: int
  rs_lastHeartbeatAt :: int
  rs_metadata :: "(string \<times> string) list"

text \<open>The lifecycle identity of a lease is read back from disk; it is a run-time value, \<open>JUndefined\<close> when absent.\<close>

record ProviderLeaseV1 =
  pl_leaseId :: string
  pl_provider :: string
  pl_projectId :: string
  pl_canonicalRoot :: string
  pl_workspaceId :: string
  pl_mode :: ProviderLeaseModeV1
  pl_ownerId :: string
  pl_acquiredAt :: int
  pl_expiresAt :: int
  pl_lifecycle :: js

record RuntimeSupervisorV1 =
  sup_services :: "(string \<times> RuntimeServiceV1) list"
  sup_leases :: "(string \<times> ProviderLeaseV1) list"
  sup_leaseTtlMs :: int

datatype RuntimeOwnershipError =
    MustNotBeEmpty string
  | LeaseTtlInvalid
  | ServiceOwned string string
  | ObservedDaemonInvalid string
  | PaseoNotReconcilable string
  | ServiceNotRegistered string
  | ServiceTerminal string
  | AlreadyLeased string string string
  | InstantOutOfRange
  | LifecycleInvalid
  | LeaseNotOwned string string
  | LeaseExpired string
  | LeaseUnavailable string
  | TakeoverRejected
  | SnapshotUnsupported
  | SnapshotServiceInvalid
  | SnapshotLeaseInvalid
  | SnapshotConflictingOwners

type_synonym 'a sup_result = "RuntimeSupervisorV1 \<times> (RuntimeOwnershipError + 'a)"

definition requireText :: "string \<Rightarrow> string \<Rightarrow> RuntimeOwnershipError option" where
  "requireText v name = (if js_trim v = [] then Some (MustNotBeEmpty name) else None)"

definition slashed :: "string \<Rightarrow> string" where
  "slashed s = map (\<lambda>c. if c = CHR 0x5C then CHR ''/'' else c) s"

definition dropFinalSlash :: "string \<Rightarrow> string" where
  "dropFinalSlash s = (if s \<noteq> [] \<and> last s = CHR ''/'' then butlast s else s)"

definition normalizeRoot :: "string \<Rightarrow> RuntimeOwnershipError + string" where
  "normalizeRoot v = (case requireText v ''canonicalRoot'' of Some e \<Rightarrow> Inl e | None \<Rightarrow> Inr (dropFinalSlash (slashed v)))"

definition leaseKey :: "string \<Rightarrow> string \<Rightarrow> string \<Rightarrow> string \<Rightarrow> RuntimeOwnershipError + string" where
  "leaseKey provider projectId croot workspaceId =
     map_sum id (\<lambda>r. provider @ CHR 0x00 # projectId @ CHR 0x00 # r @ CHR 0x00 # workspaceId) (normalizeRoot croot)"

definition keyOf :: "ProviderLeaseV1 \<Rightarrow> RuntimeOwnershipError + string" where
  "keyOf l = leaseKey (pl_provider l) (pl_projectId l) (pl_canonicalRoot l) (pl_workspaceId l)"

definition newSupervisor :: "js \<Rightarrow> RuntimeOwnershipError + RuntimeSupervisorV1" where
  "newSupervisor leaseTtlMs =
     (let ttl = js_coalesce leaseTtlMs (jint 60000) in
      if js_safe_at_least 1 ttl then Inr \<lparr>sup_services = [], sup_leases = [], sup_leaseTtlMs = int_of ttl\<rparr>
      else Inl LeaseTtlInvalid)"

subsection \<open>Services\<close>

definition serviceOwnerProcessAlive :: "(int \<Rightarrow> bool) \<Rightarrow> RuntimeServiceV1 \<Rightarrow> bool" where
  "serviceOwnerProcessAlive alive s = (case rs_pid s of
       Some pid \<Rightarrow> if safe_int pid \<and> pid > 0 then alive pid else True
     | None \<Rightarrow> True)"

definition terminalStatus :: "RuntimeServiceStatusV1 \<Rightarrow> bool" where
  "terminalStatus st \<longleftrightarrow> st = STOPPED \<or> st = FAILED"

definition nonEmptyOption :: "string option \<Rightarrow> string option" where
  "nonEmptyOption v = (if v = Some [] then None else v)"

definition registerService :: "(int \<Rightarrow> bool) \<Rightarrow> int \<Rightarrow> RuntimeServiceV1 \<Rightarrow> RuntimeServiceStatusV1 option \<Rightarrow>
    RuntimeSupervisorV1 \<Rightarrow> RuntimeServiceV1 sup_result" where
  "registerService alive now input status s =
     (case check_all (\<lambda>(v, name). requireText v name)
             [(rs_serviceId input, ''serviceId''), (rs_projectId input, ''projectId''), (rs_ownerId input, ''ownerId'')] of
        Some e \<Rightarrow> (s, Inl e)
      | None \<Rightarrow>
         (let existing = map_of (sup_services s) (rs_serviceId input);
              foreign = (case existing of
                  Some x \<Rightarrow> rs_ownerId x \<noteq> rs_ownerId input \<and> \<not> terminalStatus (rs_status x) \<and> serviceOwnerProcessAlive alive x
                | None \<Rightarrow> False) in
          if foreign then (s, Inl (ServiceOwned (rs_serviceId input) (rs_ownerId (the existing))))
          else case normalizeRoot (rs_canonicalRoot input) of
            Inl e \<Rightarrow> (s, Inl e)
          | Inr croot \<Rightarrow>
             (let service = input\<lparr>rs_canonicalRoot := croot,
                    rs_workspaceId := nonEmptyOption (rs_workspaceId input),
                    rs_status := (case status of Some st \<Rightarrow> st | None \<Rightarrow> STARTING),
                    rs_healthUrl := nonEmptyOption (rs_healthUrl input),
                    rs_startedAt := (case existing of
                        Some x \<Rightarrow> if rs_ownerId x = rs_ownerId input \<and> \<not> terminalStatus (rs_status x)
                                  then rs_startedAt x else now
                      | None \<Rightarrow> now),
                    rs_lastHeartbeatAt := now\<rparr>
              in (s\<lparr>sup_services := AList.update (rs_serviceId service) service (sup_services s)\<rparr>, Inr service))))"

definition legacyPaseoStartOwner :: "string \<Rightarrow> string \<Rightarrow> bool" where
  "legacyPaseoStartOwner ownerId projectId =
     (let prefix = ''paseo-start:''; suffix = '':'' @ projectId in
      if \<not> starts_with prefix ownerId \<or> \<not> ends_with suffix ownerId then False
      else let pid = drop (length prefix) (take (length ownerId - length suffix) ownerId) in
        (case pid of [] \<Rightarrow> False
         | c # cs \<Rightarrow> c \<noteq> CHR ''0'' \<and> list_all (\<lambda>d. CHR ''0'' \<le> d \<and> d \<le> CHR ''9'') (c # cs)))"

record ObservedPaseoDaemonV1 =
  od_projectId :: string
  od_canonicalRoot :: string
  od_serviceId :: string
  od_aehVersion :: string
  od_paseoVersion :: string
  od_observedServerId :: "string option"
  od_observedPid :: "int option"
  od_priorStopped :: bool

text \<open>The truthy server ids of the observation and of the record it replaces.\<close>

definition observedServer :: "ObservedPaseoDaemonV1 \<Rightarrow> string option" where
  "observedServer d = nonEmptyOption (od_observedServerId d)"

definition recordedServer :: "RuntimeServiceV1 \<Rightarrow> string option" where
  "recordedServer x = nonEmptyOption (map_of (rs_metadata x) ''paseoServerId'')"

definition paseoReconcileError :: "ObservedPaseoDaemonV1 \<Rightarrow> string \<Rightarrow> RuntimeServiceV1 \<Rightarrow> RuntimeOwnershipError option" where
  "paseoReconcileError input croot x =
     (case normalizeRoot (rs_canonicalRoot x) of
        Inl e \<Rightarrow> (if rs_kind x \<noteq> paseo \<or> rs_projectId x \<noteq> od_projectId input
                   then Some (PaseoNotReconcilable ''identity'') else Some e)
      | Inr r \<Rightarrow>
         (if rs_kind x \<noteq> paseo \<or> rs_projectId x \<noteq> od_projectId input \<or> r \<noteq> croot
          then Some (PaseoNotReconcilable ''identity'')
          else if \<not> legacyPaseoStartOwner (rs_ownerId x) (od_projectId input)
                \<and> rs_ownerId x \<noteq> ''paseo-daemon:'' @ od_projectId input
          then Some (PaseoNotReconcilable ''owner'')
          else if recordedServer x \<noteq> None \<and> observedServer input \<noteq> None
                \<and> recordedServer x \<noteq> observedServer input \<and> \<not> od_priorStopped input
          then Some (PaseoNotReconcilable ''daemon'')
          else None))"

definition registerObservedPaseoDaemon :: "int \<Rightarrow> ObservedPaseoDaemonV1 \<Rightarrow> RuntimeSupervisorV1 \<Rightarrow> RuntimeServiceV1 sup_result" where
  "registerObservedPaseoDaemon now input s =
     (let serviceId = ''paseo:'' @ od_projectId input; existing = map_of (sup_services s) serviceId in
      if js_trim (od_projectId input) = [] \<or> od_serviceId input \<noteq> serviceId then (s, Inl (ObservedDaemonInvalid ''serviceId''))
      else if js_trim (od_canonicalRoot input) = [] \<or> js_trim (od_aehVersion input) = []
      then (s, Inl (ObservedDaemonInvalid ''identity''))
      else if js_trim (od_paseoVersion input) = [] then (s, Inl (ObservedDaemonInvalid ''version''))
      else if (case od_observedPid input of Some p \<Rightarrow> \<not> safe_int p \<or> p \<le> 0 | None \<Rightarrow> False)
      then (s, Inl (ObservedDaemonInvalid ''pid''))
      else case normalizeRoot (od_canonicalRoot input) of
        Inl e \<Rightarrow> (s, Inl e)
      | Inr croot \<Rightarrow>
         (case (case existing of None \<Rightarrow> None | Some x \<Rightarrow> paseoReconcileError input croot x) of
            Some e \<Rightarrow> (s, Inl e)
          | None \<Rightarrow>
             (let service = \<lparr>rs_serviceId = serviceId, rs_kind = paseo, rs_projectId = od_projectId input,
                    rs_canonicalRoot = croot, rs_workspaceId = None, rs_status = READY,
                    rs_ownerId = ''paseo-daemon:'' @ od_projectId input, rs_healthUrl = None,
                    rs_pid = od_observedPid input,
                    rs_startedAt = (case existing of
                        Some x \<Rightarrow> if observedServer input \<noteq> None
                                     \<and> map_of (rs_metadata x) ''paseoServerId'' = observedServer input
                                  then rs_startedAt x else now
                      | None \<Rightarrow> now),
                    rs_lastHeartbeatAt = now,
                    rs_metadata = [(''projectId'', od_projectId input), (''aehVersion'', od_aehVersion input),
                      (''paseoVersion'', od_paseoVersion input)]
                      @ (case observedServer input of Some i \<Rightarrow> [(''paseoServerId'', i)] | None \<Rightarrow> [])\<rparr>
              in (s\<lparr>sup_services := AList.update serviceId service (sup_services s)\<rparr>, Inr service))))"

definition requireOwnedService :: "string \<Rightarrow> string \<Rightarrow> RuntimeSupervisorV1 \<Rightarrow> RuntimeOwnershipError + RuntimeServiceV1" where
  "requireOwnedService serviceId ownerId s =
     (case map_of (sup_services s) serviceId of
        None \<Rightarrow> Inl (ServiceNotRegistered serviceId)
      | Some x \<Rightarrow> if rs_ownerId x \<noteq> ownerId then Inl (ServiceOwned serviceId (rs_ownerId x)) else Inr x)"

text \<open>The update \<open>Partial<Pick<...>>\<close>: fields that are given replace the record's, metadata is merged.\<close>

record service_update =
  su_status :: "RuntimeServiceStatusV1 option"
  su_healthUrl :: "string option"
  su_pid :: "int option"
  su_metadata :: "(string \<times> string) list"

definition updateService :: "int \<Rightarrow> string \<Rightarrow> string \<Rightarrow> service_update \<Rightarrow> RuntimeSupervisorV1 \<Rightarrow> RuntimeServiceV1 sup_result" where
  "updateService now serviceId ownerId u s =
     (case requireOwnedService serviceId ownerId s of
        Inl e \<Rightarrow> (s, Inl e)
      | Inr x \<Rightarrow>
         (if terminalStatus (rs_status x) then (s, Inl (ServiceTerminal serviceId))
          else let updated = x\<lparr>rs_status := (case su_status u of Some st \<Rightarrow> st | None \<Rightarrow> rs_status x),
                     rs_healthUrl := (case su_healthUrl u of None \<Rightarrow> rs_healthUrl x | v \<Rightarrow> v),
                     rs_pid := (case su_pid u of None \<Rightarrow> rs_pid x | v \<Rightarrow> v),
                     rs_lastHeartbeatAt := now,
                     rs_metadata := fold (\<lambda>(k, v). AList.update k v) (su_metadata u) (rs_metadata x)\<rparr>
               in (s\<lparr>sup_services := AList.update serviceId updated (sup_services s)\<rparr>, Inr updated)))"

definition heartbeat :: "int \<Rightarrow> string \<Rightarrow> string \<Rightarrow> RuntimeSupervisorV1 \<Rightarrow> RuntimeServiceV1 sup_result" where
  "heartbeat now serviceId ownerId =
     updateService now serviceId ownerId \<lparr>su_status = None, su_healthUrl = None, su_pid = None, su_metadata = []\<rparr>"

definition stopService :: "int \<Rightarrow> string \<Rightarrow> string \<Rightarrow> RuntimeServiceStatusV1 \<Rightarrow> RuntimeSupervisorV1 \<Rightarrow> RuntimeServiceV1 sup_result" where
  "stopService now serviceId ownerId status =
     updateService now serviceId ownerId \<lparr>su_status = Some status, su_healthUrl = None, su_pid = None, su_metadata = []\<rparr>"

subsection \<open>Leases\<close>

record lease_request =
  rq_provider :: string
  rq_projectId :: string
  rq_canonicalRoot :: string
  rq_workspaceId :: string
  rq_mode :: ProviderLeaseModeV1
  rq_ownerId :: string
  rq_ttlMs :: js
  rq_lifecycle :: js

definition leaseExpired :: "int \<Rightarrow> ProviderLeaseV1 \<Rightarrow> bool" where
  "leaseExpired now l \<longleftrightarrow> pl_expiresAt l \<le> now"

definition expireLeases :: "int \<Rightarrow> RuntimeSupervisorV1 \<Rightarrow> RuntimeSupervisorV1" where
  "expireLeases now s = s\<lparr>sup_leases :=
     filter (\<lambda>(i, l). \<not> (pl_mode l = read_mode \<and> leaseExpired now l)) (sup_leases s)\<rparr>"

text \<open>Empty identities and a blank root match nothing; a root that normalizes to a blank one throws.\<close>

definition conflictsWith :: "string \<Rightarrow> ProviderLeaseModeV1 \<Rightarrow> string \<Rightarrow> int \<Rightarrow> ProviderLeaseV1 \<Rightarrow> bool" where
  "conflictsWith wanted mode ownerId now l \<longleftrightarrow>
     keyOf l = Inr wanted \<and> pl_ownerId l \<noteq> ownerId
     \<and> \<not> (leaseExpired now l \<and> (pl_mode l = read_mode \<or> mode = read_mode))
     \<and> (pl_mode l = write_mode \<or> mode = write_mode)"

definition findConflictingProviderLeases ::
    "ProviderLeaseV1 list \<Rightarrow> string \<Rightarrow> string \<Rightarrow> string \<Rightarrow> string \<Rightarrow> string \<Rightarrow> ProviderLeaseModeV1 \<Rightarrow> int \<Rightarrow>
     RuntimeOwnershipError + ProviderLeaseV1 list" where
  "findConflictingProviderLeases leases provider projectId canonicalRoot workspaceId ownerId mode now =
     (if js_trim provider = [] \<or> js_trim projectId = [] \<or> js_trim ownerId = [] \<or> js_trim workspaceId = [] then Inr []
      else case normalizeRoot canonicalRoot of
        Inl _ \<Rightarrow> Inr []
      | Inr croot \<Rightarrow> map_sum id (\<lambda>wanted. filter (conflictsWith wanted mode ownerId now) leases)
          (leaseKey provider projectId croot workspaceId))"

definition lifecycleText :: "js \<Rightarrow> bool" where
  "lifecycleText v = (case v of JStr s \<Rightarrow> js_trim s \<noteq> [] | _ \<Rightarrow> False)"

definition validDate :: "js_env \<Rightarrow> js \<Rightarrow> bool" where
  "validDate E v = (case v of JStr s \<Rightarrow> date_parse E s \<noteq> None | _ \<Rightarrow> False)"

definition leadIdentity :: "js \<Rightarrow> bool" where
  "leadIdentity v \<longleftrightarrow> lifecycleText (js_get v ''leadAgentId'') \<and> js_safe_at_least 1 (js_get v ''leadGeneration'')"

definition actorCount :: "js \<Rightarrow> nat" where
  "actorCount v = length (filter id [lifecycleText (js_get v ''participantId''), lifecycleText (js_get v ''supervisorAgentId''),
     leadIdentity v])"

definition validateProviderLeaseLifecycle :: "js \<Rightarrow> RuntimeOwnershipError option" where
  "validateProviderLeaseLifecycle v =
     (if \<not> js_truthy v \<or> \<not> lifecycleText (js_get v ''operationId'') \<or> \<not> digestPattern (js_get v ''candidateDigest'')
         \<or> \<not> js_safe_at_least 1 (js_get v ''operationExecutionRevision'')
         \<or> \<not> digestPattern (js_get v ''policyDigest'') \<or> \<not> digestPattern (js_get v ''controllerTokenDigest'')
         \<or> \<not> js_safe_at_least 0 (js_get v ''controllerEpoch'') \<or> actorCount v > 1
         \<or> (js_get v ''participantGeneration'' \<noteq> JUndefined
             \<and> (\<not> lifecycleText (js_get v ''participantId'') \<or> \<not> lifecycleText (js_get v ''participantGeneration'')))
         \<or> (js_get v ''leadGeneration'' \<noteq> JUndefined \<and> \<not> leadIdentity v)
         \<or> (js_get v ''sessionId'' \<noteq> JUndefined \<and> \<not> lifecycleText (js_get v ''sessionId''))
         \<or> (js_get v ''executionBindingDigest'' \<noteq> JUndefined \<and> \<not> digestPattern (js_get v ''executionBindingDigest''))
         \<or> js_get v ''providerStatus'' \<notin> {JStr ''ACTIVE'', JStr ''UNCERTAIN''}
      then Some LifecycleInvalid else None)"

definition sameProviderLeaseActor :: "js \<Rightarrow> js \<Rightarrow> bool" where
  "sameProviderLeaseActor l r \<longleftrightarrow> list_all (\<lambda>f. js_same (js_get l f) (js_get r f))
     [''participantId'', ''participantGeneration'', ''supervisorAgentId'', ''leadAgentId'', ''leadGeneration'']"

text \<open>\<open>new Date(ms).toISOString()\<close> throws outside the range of dates.\<close>

definition dateInRange :: "int \<Rightarrow> bool" where
  "dateInRange ms \<longleftrightarrow> abs ms \<le> 8640000000000000"

definition leaseRequestText :: "lease_request \<Rightarrow> RuntimeOwnershipError option" where
  "leaseRequestText r = check_all (\<lambda>(v, name). requireText v name)
     [(rq_provider r, ''provider''), (rq_projectId r, ''projectId''), (rq_ownerId r, ''ownerId''), (rq_workspaceId r, ''workspaceId'')]"

text \<open>The caller's own expired markers of this scope are removed; a root that no longer normalizes throws.\<close>

definition reapOwnExpired :: "int \<Rightarrow> string \<Rightarrow> string \<Rightarrow> RuntimeSupervisorV1 \<Rightarrow> RuntimeSupervisorV1" where
  "reapOwnExpired now ownerId scope s = s\<lparr>sup_leases :=
     filter (\<lambda>(i, l). \<not> (pl_ownerId l = ownerId \<and> keyOf l = Inr scope \<and> leaseExpired now l)) (sup_leases s)\<rparr>"

definition putLease :: "string \<Rightarrow> ProviderLeaseV1 \<Rightarrow> RuntimeSupervisorV1 \<Rightarrow> RuntimeSupervisorV1" where
  "putLease leaseId l s = s\<lparr>sup_leases := AList.update leaseId l (sup_leases s)\<rparr>"

definition dropLease :: "string \<Rightarrow> RuntimeSupervisorV1 \<Rightarrow> RuntimeSupervisorV1" where
  "dropLease leaseId s = s\<lparr>sup_leases := filter (\<lambda>(i, l). i \<noteq> leaseId) (sup_leases s)\<rparr>"

definition newLease :: "string \<Rightarrow> int \<Rightarrow> lease_request \<Rightarrow> string \<Rightarrow> int \<Rightarrow> ProviderLeaseV1" where
  "newLease uuid now r croot ttl =
     \<lparr>pl_leaseId = ''lease:'' @ uuid, pl_provider = rq_provider r, pl_projectId = rq_projectId r,
      pl_canonicalRoot = croot, pl_workspaceId = rq_workspaceId r, pl_mode = rq_mode r,
      pl_ownerId = rq_ownerId r, pl_acquiredAt = now, pl_expiresAt = now + ttl,
      pl_lifecycle = (if js_truthy (rq_lifecycle r) then rq_lifecycle r else JUndefined)\<rparr>"

definition grantLease :: "string \<Rightarrow> int \<Rightarrow> lease_request \<Rightarrow> string \<Rightarrow> RuntimeSupervisorV1 \<Rightarrow> ProviderLeaseV1 sup_result" where
  "grantLease uuid now r croot s =
     (case leaseKey (rq_provider r) (rq_projectId r) croot (rq_workspaceId r) of
        Inl e \<Rightarrow> (s, Inl e)
      | Inr scope \<Rightarrow>
         (let s1 = reapOwnExpired now (rq_ownerId r) scope s; ttl = js_coalesce (rq_ttlMs r) (jint (sup_leaseTtlMs s)) in
          if \<not> js_safe_at_least 1 ttl then (s1, Inl LeaseTtlInvalid)
          else if \<not> dateInRange (now + int_of ttl) then (s1, Inl InstantOutOfRange)
          else case (if js_truthy (rq_lifecycle r) then validateProviderLeaseLifecycle (rq_lifecycle r) else None) of
            Some e \<Rightarrow> (s1, Inl e)
          | None \<Rightarrow> (let lease = newLease uuid now r croot (int_of ttl)
                     in (putLease (pl_leaseId lease) lease s1, Inr lease))))"

definition requestConflicts :: "int \<Rightarrow> lease_request \<Rightarrow> string \<Rightarrow> RuntimeSupervisorV1 \<Rightarrow>
    RuntimeOwnershipError + ProviderLeaseV1 list" where
  "requestConflicts now r croot s = findConflictingProviderLeases (map snd (sup_leases s)) (rq_provider r) (rq_projectId r)
     croot (rq_workspaceId r) (rq_ownerId r) (rq_mode r) now"

definition acquireProviderLease :: "string \<Rightarrow> int \<Rightarrow> lease_request \<Rightarrow> RuntimeSupervisorV1 \<Rightarrow> ProviderLeaseV1 sup_result" where
  "acquireProviderLease uuid now r s =
     (case leaseRequestText r of Some e \<Rightarrow> (s, Inl e) | None \<Rightarrow>
      let s0 = expireLeases now s in
      case normalizeRoot (rq_canonicalRoot r) of
        Inl e \<Rightarrow> (s0, Inl e)
      | Inr croot \<Rightarrow>
         (case requestConflicts now r croot s0 of
            Inl e \<Rightarrow> (s0, Inl e)
          | Inr (c # _) \<Rightarrow> (s0, Inl (AlreadyLeased (rq_provider r) (rq_workspaceId r) (pl_ownerId c)))
          | Inr [] \<Rightarrow> grantLease uuid now r croot s0))"

record ProviderLeaseQueuedV1 =
  qd_retryAfterMs :: int
  qd_queueDepth :: nat
  qd_reason :: string

definition queuedForConflictingLeases :: "string \<Rightarrow> string \<Rightarrow> ProviderLeaseV1 list \<Rightarrow> int \<Rightarrow> ProviderLeaseQueuedV1" where
  "queuedForConflictingLeases provider workspaceId conflicting now =
     (let waits = filter (\<lambda>ms. ms > 0) (map (\<lambda>l. pl_expiresAt l - now) conflicting);
          hint = (case waits of [] \<Rightarrow> 250 | w # ws \<Rightarrow> fold min ws w);
          retryAfterMs = max 0 (min 30000 hint);
          owners = js_join '','' (take 3 (js_uniq (map pl_ownerId conflicting)))
      in \<lparr>qd_retryAfterMs = retryAfterMs, qd_queueDepth = length conflicting,
          qd_reason = ''provider '' @ provider @ '' is already leased in '' @ workspaceId @ '' by ''
            @ (if owners = [] then ''another owner'' else owners) @ ''; QUEUED (wait '' @ int_text retryAfterMs
            @ ''ms, depth '' @ nat_text (length conflicting) @ '').''\<rparr>)"

datatype ProviderLeaseAcquireResultV1 = ACQUIRED ProviderLeaseV1 | QUEUED ProviderLeaseQueuedV1

definition tryAcquireProviderLease :: "string \<Rightarrow> int \<Rightarrow> lease_request \<Rightarrow> RuntimeSupervisorV1 \<Rightarrow>
    ProviderLeaseAcquireResultV1 sup_result" where
  "tryAcquireProviderLease uuid now r s =
     (case leaseRequestText r of Some e \<Rightarrow> (s, Inl e) | None \<Rightarrow>
      let s0 = expireLeases now s in
      case normalizeRoot (rq_canonicalRoot r) of
        Inl e \<Rightarrow> (s0, Inl e)
      | Inr croot \<Rightarrow>
         (case requestConflicts now r croot s0 of
            Inl e \<Rightarrow> (s0, Inl e)
          | Inr (c # cs) \<Rightarrow> (s0, Inr (QUEUED (queuedForConflictingLeases (rq_provider r) (rq_workspaceId r) (c # cs) now)))
          | Inr [] \<Rightarrow> (case grantLease uuid now r croot s0 of (s1, res) \<Rightarrow> (s1, map_sum id ACQUIRED res))))"

definition ownedLease :: "string \<Rightarrow> string \<Rightarrow> RuntimeSupervisorV1 \<Rightarrow> RuntimeOwnershipError + ProviderLeaseV1" where
  "ownedLease leaseId ownerId s = (case map_of (sup_leases s) leaseId of
       None \<Rightarrow> Inl (LeaseNotOwned leaseId ownerId)
     | Some l \<Rightarrow> if pl_ownerId l \<noteq> ownerId then Inl (LeaseNotOwned leaseId ownerId) else Inr l)"

definition renewProviderLease :: "int \<Rightarrow> string \<Rightarrow> string \<Rightarrow> js \<Rightarrow> RuntimeSupervisorV1 \<Rightarrow> ProviderLeaseV1 sup_result" where
  "renewProviderLease now leaseId ownerId ttlMs s =
     (let s0 = expireLeases now s; ttl = (if ttlMs = JUndefined then jint (sup_leaseTtlMs s) else ttlMs) in
      case ownedLease leaseId ownerId s0 of
        Inl e \<Rightarrow> (s0, Inl e)
      | Inr l \<Rightarrow>
         (if leaseExpired now l then (s0, Inl (LeaseExpired leaseId))
          else if \<not> js_safe_at_least 1 ttl then (s0, Inl LeaseTtlInvalid)
          else if \<not> dateInRange (now + int_of ttl) then (s0, Inl InstantOutOfRange)
          else let updated = l\<lparr>pl_expiresAt := now + int_of ttl\<rparr> in (putLease leaseId updated s0, Inr updated)))"

definition updateProviderLeaseLifecycle :: "int \<Rightarrow> string \<Rightarrow> string \<Rightarrow> js \<Rightarrow> RuntimeSupervisorV1 \<Rightarrow> ProviderLeaseV1 sup_result" where
  "updateProviderLeaseLifecycle now leaseId ownerId lifecycle s =
     (case ownedLease leaseId ownerId s of
        Inl e \<Rightarrow> (s, Inl e)
      | Inr l \<Rightarrow>
         (if leaseExpired now l then (s, Inl (LeaseExpired leaseId))
          else case validateProviderLeaseLifecycle lifecycle of
            Some e \<Rightarrow> (s, Inl e)
          | None \<Rightarrow> (let updated = l\<lparr>pl_lifecycle := lifecycle\<rparr> in (putLease leaseId updated s, Inr updated))))"

definition takeoverAllowed :: "js_env \<Rightarrow> ProviderLeaseV1 \<Rightarrow> string \<Rightarrow> js \<Rightarrow> js \<Rightarrow> bool" where
  "takeoverAllowed E prior currentOwnerId new quiescence \<longleftrightarrow>
     (let previous = pl_lifecycle prior in
      js_truthy (js_get previous ''sessionId'') \<and> pl_ownerId prior \<noteq> currentOwnerId
      \<and> js_same (js_get previous ''operationId'') (js_get new ''operationId'')
      \<and> js_same (js_get previous ''candidateDigest'') (js_get new ''candidateDigest'')
      \<and> js_same (js_get previous ''operationExecutionRevision'') (js_get new ''operationExecutionRevision'')
      \<and> sameProviderLeaseActor previous new
      \<and> int_of (js_get new ''controllerEpoch'') > int_of (js_get previous ''controllerEpoch'')
      \<and> js_same (js_get quiescence ''sessionId'') (js_get previous ''sessionId'')
      \<and> js_get quiescence ''status'' \<in> {JStr ''idle'', JStr ''completed'', JStr ''failed'', JStr ''stopped''}
      \<and> validDate E (js_get quiescence ''observedAt''))"

definition completeProviderLeaseTakeover :: "js_env \<Rightarrow> string \<Rightarrow> string \<Rightarrow> js \<Rightarrow> js \<Rightarrow> RuntimeSupervisorV1 \<Rightarrow> unit sup_result" where
  "completeProviderLeaseTakeover E leaseId currentOwnerId current quiescence s =
     (case map_of (sup_leases s) leaseId of
        None \<Rightarrow> (s, Inl (LeaseUnavailable leaseId))
      | Some prior \<Rightarrow>
         (case validateProviderLeaseLifecycle current of
            Some e \<Rightarrow> (s, Inl e)
          | None \<Rightarrow> if takeoverAllowed E prior currentOwnerId current quiescence then (dropLease leaseId s, Inr ())
                     else (s, Inl TakeoverRejected)))"

definition releaseProviderLease :: "string \<Rightarrow> string \<Rightarrow> RuntimeSupervisorV1 \<Rightarrow> unit sup_result" where
  "releaseProviderLease leaseId ownerId s =
     (case map_of (sup_leases s) leaseId of
        None \<Rightarrow> (s, Inr ())
      | Some l \<Rightarrow> if pl_ownerId l \<noteq> ownerId then (s, Inl (LeaseNotOwned leaseId ownerId)) else (dropLease leaseId s, Inr ()))"

subsection \<open>Snapshots\<close>

record RuntimeSnapshotV1 =
  sn_capturedAt :: int
  sn_services :: "RuntimeServiceV1 list"
  sn_providerLeases :: "ProviderLeaseV1 list"

definition takeSnapshot :: "int \<Rightarrow> RuntimeSupervisorV1 \<Rightarrow> RuntimeSupervisorV1 \<times> RuntimeSnapshotV1" where
  "takeSnapshot now s = (let s0 = expireLeases now s in
     (s0, \<lparr>sn_capturedAt = now, sn_services = map snd (sup_services s0), sn_providerLeases = map snd (sup_leases s0)\<rparr>))"

definition serviceKinds :: "(string \<times> RuntimeServiceKindV1) list" where
  "serviceKinds = [(''paseo'', paseo), (''serena'', serena), (''context'', context_service),
     (''control-center'', control_center), (''provider'', provider_service)]"

definition serviceStatuses :: "(string \<times> RuntimeServiceStatusV1) list" where
  "serviceStatuses = [(''STARTING'', STARTING), (''READY'', READY), (''DEGRADED'', DEGRADED), (''STOPPED'', STOPPED),
     (''FAILED'', FAILED)]"

definition leaseModes :: "(string \<times> ProviderLeaseModeV1) list" where
  "leaseModes = [(''read'', read_mode), (''write'', write_mode)]"

definition optText :: "js \<Rightarrow> string option" where
  "optText v = (case v of JStr s \<Rightarrow> Some s | _ \<Rightarrow> None)"

definition parsedDate :: "js_env \<Rightarrow> js \<Rightarrow> int" where
  "parsedDate E v = the (date_parse E (str_of v))"

text \<open>A persisted service record that passes the checks of \<open>restoreSnapshot\<close>, as a record of the state.\<close>

definition restoredService :: "js_env \<Rightarrow> js \<Rightarrow> RuntimeServiceV1 option" where
  "restoredService E v =
     (if \<not> js_truthy v \<or> js_typeof v \<noteq> ''object'' \<or> \<not> js_same (js_get v ''version'') (jint 1)
         \<or> \<not> list_all (\<lambda>f. lifecycleText (js_get v f)) [''serviceId'', ''ownerId'', ''projectId'', ''canonicalRoot'']
         \<or> \<not> validDate E (js_get v ''startedAt'') \<or> \<not> validDate E (js_get v ''lastHeartbeatAt'')
         \<or> \<not> js_truthy (js_get v ''metadata'') \<or> js_typeof (js_get v ''metadata'') \<noteq> ''object'' \<or> js_is_array (js_get v ''metadata'')
         \<or> (js_get v ''pid'' \<noteq> JUndefined \<and> \<not> js_safe_at_least 1 (js_get v ''pid''))
      then None
      else case (map_of serviceKinds (str_of (js_get v ''kind'')), map_of serviceStatuses (str_of (js_get v ''status''))) of
        (Some kind, Some status) \<Rightarrow>
          Some \<lparr>rs_serviceId = str_of (js_get v ''serviceId''), rs_kind = kind, rs_projectId = str_of (js_get v ''projectId''),
            rs_canonicalRoot = str_of (js_get v ''canonicalRoot''), rs_workspaceId = optText (js_get v ''workspaceId''),
            rs_status = status, rs_ownerId = str_of (js_get v ''ownerId''), rs_healthUrl = optText (js_get v ''healthUrl''),
            rs_pid = js_int (js_get v ''pid''), rs_startedAt = parsedDate E (js_get v ''startedAt''),
            rs_lastHeartbeatAt = parsedDate E (js_get v ''lastHeartbeatAt''),
            rs_metadata = map (\<lambda>(k, x). (k, str_of x)) (own_entries (js_get v ''metadata''))\<rparr>
      | _ \<Rightarrow> None)"

definition restoredLease :: "js_env \<Rightarrow> js \<Rightarrow> ProviderLeaseV1 option" where
  "restoredLease E v =
     (if \<not> js_truthy v \<or> js_typeof v \<noteq> ''object'' \<or> \<not> js_same (js_get v ''version'') (jint 1)
         \<or> \<not> list_all (\<lambda>f. lifecycleText (js_get v f))
              [''leaseId'', ''ownerId'', ''provider'', ''projectId'', ''canonicalRoot'', ''workspaceId'']
         \<or> \<not> validDate E (js_get v ''acquiredAt'') \<or> \<not> validDate E (js_get v ''expiresAt'')
      then None
      else map_option (\<lambda>mode. \<lparr>pl_leaseId = str_of (js_get v ''leaseId''), pl_provider = str_of (js_get v ''provider''),
             pl_projectId = str_of (js_get v ''projectId''), pl_canonicalRoot = str_of (js_get v ''canonicalRoot''),
             pl_workspaceId = str_of (js_get v ''workspaceId''), pl_mode = mode, pl_ownerId = str_of (js_get v ''ownerId''),
             pl_acquiredAt = parsedDate E (js_get v ''acquiredAt''), pl_expiresAt = parsedDate E (js_get v ''expiresAt''),
             pl_lifecycle = js_get v ''lifecycle''\<rparr>) (map_of leaseModes (str_of (js_get v ''mode''))))"

fun restoreServices :: "js_env \<Rightarrow> js list \<Rightarrow> RuntimeSupervisorV1 \<Rightarrow> unit sup_result" where
  "restoreServices E [] s = (s, Inr ())"
| "restoreServices E (v # vs) s =
     (case restoredService E v of
        None \<Rightarrow> (s, Inl SnapshotServiceInvalid)
      | Some x \<Rightarrow>
         (if map_of (sup_services s) (rs_serviceId x) \<noteq> None then (s, Inl SnapshotServiceInvalid)
          else restoreServices E vs (s\<lparr>sup_services := AList.update (rs_serviceId x) x (sup_services s)\<rparr>)))"

fun restoreLeases :: "js_env \<Rightarrow> int \<Rightarrow> js list \<Rightarrow> RuntimeSupervisorV1 \<Rightarrow> unit sup_result" where
  "restoreLeases E now [] s = (s, Inr ())"
| "restoreLeases E now (v # vs) s =
     (case restoredLease E v of
        None \<Rightarrow> (s, Inl SnapshotLeaseInvalid)
      | Some l \<Rightarrow>
         (if map_of (sup_leases s) (pl_leaseId l) \<noteq> None then (s, Inl SnapshotLeaseInvalid)
          else case (if pl_lifecycle l = JUndefined then None else validateProviderLeaseLifecycle (pl_lifecycle l)) of
            Some e \<Rightarrow> (s, Inl e)
          | None \<Rightarrow> if leaseExpired now l \<and> pl_mode l = read_mode then restoreLeases E now vs s
                     else restoreLeases E now vs (putLease (pl_leaseId l) l s)))"

text \<open>The coherence scan over live leases, scope by scope.\<close>

fun coherent :: "int \<Rightarrow> ProviderLeaseV1 list \<Rightarrow> ProviderLeaseV1 list \<Rightarrow> bool" where
  "coherent now seen [] = True"
| "coherent now seen (l # ls) =
     (if leaseExpired now l then coherent now seen ls
      else if list_ex (\<lambda>x. keyOf x = keyOf l \<and> pl_ownerId x \<noteq> pl_ownerId l
                 \<and> (pl_mode x = write_mode \<or> pl_mode l = write_mode)) seen then False
      else coherent now (seen @ [l]) ls)"

definition restoreSnapshot :: "js_env \<Rightarrow> int \<Rightarrow> js \<Rightarrow> RuntimeSupervisorV1 \<Rightarrow> unit sup_result" where
  "restoreSnapshot E now v s =
     (if \<not> js_truthy v \<or> \<not> js_same (js_get v ''version'') (jint 1) \<or> \<not> validDate E (js_get v ''capturedAt'')
         \<or> \<not> js_is_array (js_get v ''services'') \<or> \<not> js_is_array (js_get v ''providerLeases'')
      then (s, Inl SnapshotUnsupported)
      else case restoreServices E (js_items (js_get v ''services'')) (s\<lparr>sup_services := [], sup_leases := []\<rparr>) of
        (s1, Inl e) \<Rightarrow> (s1, Inl e)
      | (s1, Inr _) \<Rightarrow>
         (case restoreLeases E now (js_items (js_get v ''providerLeases'')) s1 of
            (s2, Inl e) \<Rightarrow> (s2, Inl e)
          | (s2, Inr _) \<Rightarrow> if coherent now [] (map snd (sup_leases s2)) then (s2, Inr ())
                           else (s2, Inl SnapshotConflictingOwners)))"

subsection \<open>Backpressure\<close>

record ProviderLeaseBackpressureSignalV1 =
  bp_active :: int
  bp_queued :: int
  bp_ceiling :: "int option"
  bp_saturated :: bool

text \<open>The counters are finite numbers (\<open>None\<close> for NaN and the infinities); \<open>Math.floor\<close> rounds them down.\<close>

definition safeCount :: "rat option \<Rightarrow> int" where
  "safeCount v = (case v of Some x \<Rightarrow> if x \<ge> 0 then \<lfloor>x\<rfloor> else 0 | None \<Rightarrow> 0)"

definition providerLeaseBackpressureSignal :: "rat option \<Rightarrow> rat option \<Rightarrow> rat option \<Rightarrow> ProviderLeaseBackpressureSignalV1" where
  "providerLeaseBackpressureSignal active queued ceil =
     (let safeActive = safeCount active; safeQueued = safeCount queued;
          safeCeiling = (case ceil of Some c \<Rightarrow> if c > 0 then Some \<lfloor>c\<rfloor> else None | None \<Rightarrow> None)
      in \<lparr>bp_active = safeActive, bp_queued = safeQueued, bp_ceiling = safeCeiling,
          bp_saturated = (case safeCeiling of Some c \<Rightarrow> safeActive \<ge> c | None \<Rightarrow> safeActive > 0)\<rparr>)"

text \<open>\<open>remaining\<close> is \<open>None\<close> when no budget is given; \<open>Some None\<close> is a budget that is not finite.\<close>

definition providerLeaseQueueWaitMs :: "ProviderLeaseQueuedV1 option \<Rightarrow> rat option option \<Rightarrow> int" where
  "providerLeaseQueueWaitMs queued remaining = (case queued of
       None \<Rightarrow> 0
     | Some q \<Rightarrow>
        (let bounded = max 0 (min 30000 (qd_retryAfterMs q)) in
         case remaining of
           None \<Rightarrow> bounded
         | Some None \<Rightarrow> 0
         | Some (Some b) \<Rightarrow> if b \<le> 0 then 0 else min bounded \<lfloor>b\<rfloor>))"

subsection \<open>Steps of the supervisor\<close>

text \<open>
  A step is one call. Acquisitions are restricted to roots that \<open>normalizeRoot\<close> brings to a fixed form in
  two passes (see \<open>triple_slash_defeats_exclusion\<close>), a restore to one that did not throw.
\<close>

definition stableRoot :: "lease_request \<Rightarrow> bool" where
  "stableRoot r \<longleftrightarrow> \<not> ends_with ''///'' (slashed (rq_canonicalRoot r))"

inductive supStep :: "js_env \<Rightarrow> (int \<Rightarrow> bool) \<Rightarrow> int \<Rightarrow> RuntimeSupervisorV1 \<Rightarrow> RuntimeSupervisorV1 \<Rightarrow> bool" for E alive now s where
  acquire: "stableRoot r \<Longrightarrow> supStep E alive now s (fst (acquireProviderLease uuid now r s))"
| tryAcquire: "stableRoot r \<Longrightarrow> supStep E alive now s (fst (tryAcquireProviderLease uuid now r s))"
| renew: "supStep E alive now s (fst (renewProviderLease now leaseId ownerId ttl s))"
| lifecycle: "supStep E alive now s (fst (updateProviderLeaseLifecycle now leaseId ownerId value s))"
| takeover: "supStep E alive now s (fst (completeProviderLeaseTakeover E leaseId ownerId current quiescence s))"
| release: "supStep E alive now s (fst (releaseProviderLease leaseId ownerId s))"
| snapshot: "supStep E alive now s (fst (takeSnapshot now s))"
| restore: "snd (restoreSnapshot E now v s) = Inr () \<Longrightarrow> supStep E alive now s (fst (restoreSnapshot E now v s))"
| register: "supStep E alive now s (fst (registerService alive now input status s))"
| observe: "supStep E alive now s (fst (registerObservedPaseoDaemon now daemon s))"
| update: "supStep E alive now s (fst (updateService now serviceId ownerId u s))"

definition exclusiveLeases :: "int \<Rightarrow> ProviderLeaseV1 set \<Rightarrow> bool" where
  "exclusiveLeases now L \<longleftrightarrow> (\<forall>l \<in> L. \<forall>m \<in> L. keyOf l = keyOf m \<longrightarrow> pl_ownerId l \<noteq> pl_ownerId m \<longrightarrow>
     (pl_mode l = write_mode \<or> pl_mode m = write_mode) \<longrightarrow> leaseExpired now l \<or> leaseExpired now m)"

definition leaseSet :: "RuntimeSupervisorV1 \<Rightarrow> ProviderLeaseV1 set" where
  "leaseSet s = set (map snd (sup_leases s))"

definition supervisorInv :: "int \<Rightarrow> RuntimeSupervisorV1 \<Rightarrow> bool" where
  "supervisorInv now s \<longleftrightarrow> exclusiveLeases now (leaseSet s)"

lemma exclusiveLeases_subset: "exclusiveLeases now L \<Longrightarrow> L' \<subseteq> L \<Longrightarrow> exclusiveLeases now L'"
  unfolding exclusiveLeases_def by blast

lemma exclusiveLeases_later: "exclusiveLeases now L \<Longrightarrow> now \<le> now' \<Longrightarrow> exclusiveLeases now' L"
  unfolding exclusiveLeases_def leaseExpired_def by (meson order_trans)

lemma exclusiveLeases_insert:
  assumes "exclusiveLeases now L"
    and "\<And>l. l \<in> L \<Longrightarrow> keyOf l = keyOf n \<Longrightarrow> pl_ownerId l \<noteq> pl_ownerId n \<Longrightarrow>
      pl_mode l = write_mode \<or> pl_mode n = write_mode \<Longrightarrow> leaseExpired now l"
  shows "exclusiveLeases now (insert n L)"
  using assms unfolding exclusiveLeases_def by (metis insert_iff)

lemma leaseSet_simps [simp]:
  "leaseSet (expireLeases now s) \<subseteq> leaseSet s"
  "leaseSet (reapOwnExpired now w scope s) \<subseteq> leaseSet s"
  "leaseSet (dropLease i s) \<subseteq> leaseSet s"
  "leaseSet (s\<lparr>sup_services := x\<rparr>) = leaseSet s"
  by (auto simp: leaseSet_def expireLeases_def reapOwnExpired_def dropLease_def)

lemma leaseSet_put:
  "leaseSet (putLease i l s) \<subseteq> insert l (leaseSet s)"
  "leaseSet (s\<lparr>sup_leases := AList.update i l (sup_leases s)\<rparr>) \<subseteq> insert l (leaseSet s)"
  using set_update_subset [of i l "sup_leases s"] by (simp_all add: leaseSet_def putLease_def)

lemma slashed_idem [simp]: "slashed (slashed s) = slashed s"
  by (auto simp: slashed_def)

lemma dropFinalSlash_slashed [simp]: "slashed (dropFinalSlash (slashed s)) = dropFinalSlash (slashed s)"
  by (auto simp: slashed_def dropFinalSlash_def map_butlast [symmetric])

lemma stable_fixed:
  assumes "\<not> ends_with ''///'' z"
  shows "dropFinalSlash (dropFinalSlash (dropFinalSlash z)) = dropFinalSlash (dropFinalSlash z)"
proof -
  have "rev (dropFinalSlash w) = (case rev w of [] \<Rightarrow> [] | c # cs \<Rightarrow> if c = CHR ''/'' then cs else c # cs)" for w
    by (cases w rule: rev_cases) (auto simp: dropFinalSlash_def)
  then have "rev (dropFinalSlash (dropFinalSlash (dropFinalSlash z))) = rev (dropFinalSlash (dropFinalSlash z))"
    using assms by (auto simp: ends_with_def starts_with_def split: list.splits)
  then show ?thesis by simp
qed

lemma normalizeRoot_Inr: "normalizeRoot v = Inr x \<longleftrightarrow> js_trim v \<noteq> [] \<and> x = dropFinalSlash (slashed v)"
  by (auto simp: normalizeRoot_def requireText_def)

lemma requestConflicts_none:
  assumes conflicts: "requestConflicts now r croot s = Inr []" and croot: "normalizeRoot (rq_canonicalRoot r) = Inr croot"
    and stable: "stableRoot r" and named: "leaseRequestText r = None"
    and l: "l \<in> leaseSet s" "keyOf l = leaseKey (rq_provider r) (rq_projectId r) croot (rq_workspaceId r)"
      "leaseKey (rq_provider r) (rq_projectId r) croot (rq_workspaceId r) = Inr scope" "pl_ownerId l \<noteq> rq_ownerId r"
      "pl_mode l = write_mode \<or> rq_mode r = write_mode"
  shows "leaseExpired now l \<and> (pl_mode l = read_mode \<or> rq_mode r = read_mode)"
proof -
  let ?z = "slashed (rq_canonicalRoot r)"
  have c: "croot = dropFinalSlash ?z" using croot by (simp add: normalizeRoot_Inr)
  obtain y where y: "normalizeRoot croot = Inr y" "y = dropFinalSlash croot"
    using l(3) c by (auto simp: leaseKey_def normalizeRoot_Inr map_sum_def split: sum.splits)
  have ry: "dropFinalSlash y = y" using stable_fixed [of ?z] stable c y(2) by (simp add: stableRoot_def)
  have trims: "js_trim (rq_provider r) \<noteq> []" "js_trim (rq_projectId r) \<noteq> []" "js_trim (rq_ownerId r) \<noteq> []"
    "js_trim (rq_workspaceId r) \<noteq> []"
    using named by (auto simp: leaseRequestText_def requireText_def split: if_splits)
  from conflicts trims y(1) obtain wanted where w: "leaseKey (rq_provider r) (rq_projectId r) y (rq_workspaceId r) = Inr wanted"
    and none: "filter (conflictsWith wanted (rq_mode r) (rq_ownerId r) now) (map snd (sup_leases s)) = []"
    by (auto simp: requestConflicts_def findConflictingProviderLeases_def map_sum_def split: sum.splits)
  have "slashed y = y" using c y(2) by (metis dropFinalSlash_slashed)
  with w have "normalizeRoot y = Inr y" using ry
    by (auto simp: leaseKey_def map_sum_def normalizeRoot_Inr split: sum.splits)
  with w y(1) l(2) have "keyOf l = Inr wanted" by (simp add: leaseKey_def)
  moreover have "\<not> conflictsWith wanted (rq_mode r) (rq_ownerId r) now l"
    using none l(1) by (auto simp: filter_empty_conv leaseSet_def)
  ultimately show ?thesis using l(4,5) by (auto simp: conflictsWith_def)
qed

lemma int_of_safe: "js_safe_at_least n v \<Longrightarrow> n \<le> int_of v"
  by (auto simp: int_of_def elim!: js_safe_at_leastE)

lemma supervisorInv_subset: "supervisorInv now s \<Longrightarrow> leaseSet s' \<subseteq> leaseSet s \<Longrightarrow> supervisorInv now s'"
  unfolding supervisorInv_def by (rule exclusiveLeases_subset)

lemma grantLease_cases:
  assumes "leaseKey (rq_provider r) (rq_projectId r) croot (rq_workspaceId r) = Inr scope"
  shows "fst (grantLease uuid now r croot s) = reapOwnExpired now (rq_ownerId r) scope s
    \<or> (\<exists>ttl. fst (grantLease uuid now r croot s)
          = putLease (''lease:'' @ uuid) (newLease uuid now r croot ttl) (reapOwnExpired now (rq_ownerId r) scope s)
        \<and> snd (grantLease uuid now r croot s) = Inr (newLease uuid now r croot ttl) \<and> ttl > 0)"
proof -
  let ?ttl = "js_coalesce (rq_ttlMs r) (jint (sup_leaseTtlMs s))"
  have "js_safe_at_least 1 ?ttl \<Longrightarrow> int_of ?ttl > 0" using int_of_safe [of 1 ?ttl] by simp
  moreover have "pl_leaseId (newLease uuid now r croot t) = ''lease:'' @ uuid" for t by (simp add: newLease_def)
  ultimately show ?thesis using assms by (auto simp: grantLease_def Let_def split: option.splits)
qed

lemma newLease_fields:
  "keyOf (newLease uuid now r croot ttl) = leaseKey (rq_provider r) (rq_projectId r) croot (rq_workspaceId r)"
  "pl_ownerId (newLease uuid now r croot ttl) = rq_ownerId r" "pl_mode (newLease uuid now r croot ttl) = rq_mode r"
  "pl_expiresAt (newLease uuid now r croot ttl) = now + ttl"
  by (simp_all add: newLease_def keyOf_def)

lemma grantLease_inv:
  assumes inv: "supervisorInv now s" and free: "requestConflicts now r croot s = Inr []"
    and r: "normalizeRoot (rq_canonicalRoot r) = Inr croot" "stableRoot r" "leaseRequestText r = None"
  shows "supervisorInv now (fst (grantLease uuid now r croot s))"
proof (cases "leaseKey (rq_provider r) (rq_projectId r) croot (rq_workspaceId r)")
  case (Inl e)
  then show ?thesis using inv by (simp add: grantLease_def)
next
  case (Inr scope)
  let ?s1 = "reapOwnExpired now (rq_ownerId r) scope s"
  from grantLease_cases [OF Inr, of uuid now s] show ?thesis
  proof
    assume "fst (grantLease uuid now r croot s) = ?s1"
    then show ?thesis using supervisorInv_subset [OF inv] by simp
  next
    assume "\<exists>ttl. fst (grantLease uuid now r croot s) = putLease (''lease:'' @ uuid) (newLease uuid now r croot ttl) ?s1
        \<and> snd (grantLease uuid now r croot s) = Inr (newLease uuid now r croot ttl) \<and> ttl > 0"
    then obtain ttl where n: "fst (grantLease uuid now r croot s) = putLease (''lease:'' @ uuid) (newLease uuid now r croot ttl) ?s1"
      by blast
    let ?n = "newLease uuid now r croot ttl"
    have "exclusiveLeases now (insert ?n (leaseSet s))"
      using inv unfolding supervisorInv_def
    proof (rule exclusiveLeases_insert)
      fix l assume "l \<in> leaseSet s" "keyOf l = keyOf ?n" "pl_ownerId l \<noteq> pl_ownerId ?n" "pl_mode l = write_mode \<or> pl_mode ?n = write_mode"
      then show "leaseExpired now l"
        using requestConflicts_none [OF free r, of l scope] Inr by (simp add: newLease_fields)
    qed
    moreover have "leaseSet (fst (grantLease uuid now r croot s)) \<subseteq> insert ?n (leaseSet s)"
      unfolding n using leaseSet_put(1) [of "''lease:'' @ uuid" ?n ?s1] leaseSet_simps(2) [of now "rq_ownerId r" scope s] by blast
    ultimately show ?thesis unfolding supervisorInv_def by (rule exclusiveLeases_subset)
  qed
qed

lemma acquire_inv: "supervisorInv now s \<Longrightarrow> stableRoot r \<Longrightarrow> supervisorInv now (fst (acquireProviderLease uuid now r s))"
  using grantLease_inv [of now "expireLeases now s"] supervisorInv_subset [of now s "expireLeases now s"]
  by (auto simp: acquireProviderLease_def Let_def split: option.splits sum.splits list.splits)

text \<open>Both acquisition methods make the same transition; only the report of a conflict differs.\<close>

lemma tryAcquire_state: "fst (tryAcquireProviderLease uuid now r s) = fst (acquireProviderLease uuid now r s)"
  by (simp add: tryAcquireProviderLease_def acquireProviderLease_def Let_def split: option.splits sum.splits list.splits prod.splits)

lemma renew_inv: "supervisorInv now s \<Longrightarrow> supervisorInv now (fst (renewProviderLease now leaseId ownerId ttl s))"
proof -
  assume inv: "supervisorInv now s"
  define s0 where "s0 = expireLeases now s"
  have inv0: "supervisorInv now s0" using supervisorInv_subset [OF inv] by (simp add: s0_def)
  consider "fst (renewProviderLease now leaseId ownerId ttl s) = s0"
    | l e where "fst (renewProviderLease now leaseId ownerId ttl s) = putLease leaseId (l\<lparr>pl_expiresAt := e\<rparr>) s0"
        "l \<in> leaseSet s0" "\<not> leaseExpired now l"
    unfolding renewProviderLease_def Let_def s0_def [symmetric]
    by (force simp: ownedLease_def leaseSet_def dest: map_of_SomeD split: if_splits option.splits sum.splits)
  then show ?thesis
  proof cases
    case (2 l e)
    have "exclusiveLeases now (insert (l\<lparr>pl_expiresAt := e\<rparr>) (leaseSet s0))"
      using inv0 unfolding supervisorInv_def
    proof (rule exclusiveLeases_insert)
      fix m assume "m \<in> leaseSet s0" "keyOf m = keyOf (l\<lparr>pl_expiresAt := e\<rparr>)"
        "pl_ownerId m \<noteq> pl_ownerId (l\<lparr>pl_expiresAt := e\<rparr>)" "pl_mode m = write_mode \<or> pl_mode (l\<lparr>pl_expiresAt := e\<rparr>) = write_mode"
      with inv0 2(2,3) show "leaseExpired now m"
        unfolding supervisorInv_def exclusiveLeases_def keyOf_def by fastforce
    qed
    with 2(1) leaseSet_put(1) show ?thesis unfolding supervisorInv_def by (metis exclusiveLeases_subset)
  qed (use inv0 in simp)
qed

lemma lifecycle_inv: "supervisorInv now s \<Longrightarrow> supervisorInv now (fst (updateProviderLeaseLifecycle now leaseId ownerId v s))"
proof -
  assume inv: "supervisorInv now s"
  consider "fst (updateProviderLeaseLifecycle now leaseId ownerId v s) = s"
    | l where "fst (updateProviderLeaseLifecycle now leaseId ownerId v s) = putLease leaseId (l\<lparr>pl_lifecycle := v\<rparr>) s"
        "l \<in> leaseSet s" "\<not> leaseExpired now l"
    unfolding updateProviderLeaseLifecycle_def Let_def
    by (force simp: ownedLease_def leaseSet_def dest: map_of_SomeD split: if_splits option.splits sum.splits)
  then show ?thesis
  proof cases
    case (2 l)
    have "exclusiveLeases now (insert (l\<lparr>pl_lifecycle := v\<rparr>) (leaseSet s))"
      using inv unfolding supervisorInv_def
    proof (rule exclusiveLeases_insert)
      fix m assume "m \<in> leaseSet s" "keyOf m = keyOf (l\<lparr>pl_lifecycle := v\<rparr>)"
        "pl_ownerId m \<noteq> pl_ownerId (l\<lparr>pl_lifecycle := v\<rparr>)" "pl_mode m = write_mode \<or> pl_mode (l\<lparr>pl_lifecycle := v\<rparr>) = write_mode"
      with inv 2(2,3) show "leaseExpired now m"
        unfolding supervisorInv_def exclusiveLeases_def keyOf_def by fastforce
    qed
    with 2(1) leaseSet_put(1) show ?thesis unfolding supervisorInv_def by (metis exclusiveLeases_subset)
  qed (use inv in simp)
qed

lemma coherent_sound:
  assumes "coherent now seen ls" "exclusiveLeases now (set seen)" "\<forall>x \<in> set seen. \<not> leaseExpired now x"
  shows "exclusiveLeases now (set seen \<union> set ls)"
  using assms
proof (induction now seen ls rule: coherent.induct)
  case (2 now seen l ls)
  show ?case
  proof (cases "leaseExpired now l")
    case True
    then have "exclusiveLeases now (set seen \<union> set ls)" using 2 by simp
    then have "exclusiveLeases now (insert l (set seen \<union> set ls))" using True unfolding exclusiveLeases_def by auto
    then show ?thesis by simp
  next
    case False
    then have ok: "\<not> list_ex (\<lambda>x. keyOf x = keyOf l \<and> pl_ownerId x \<noteq> pl_ownerId l
                 \<and> (pl_mode x = write_mode \<or> pl_mode l = write_mode)) seen" and rest: "coherent now (seen @ [l]) ls"
      using 2(3) by (auto split: if_splits)
    have "exclusiveLeases now (insert l (set seen))"
      using 2(4) by (rule exclusiveLeases_insert) (use ok in \<open>auto simp: list_ex_iff\<close>)
    then have "exclusiveLeases now (set (seen @ [l]) \<union> set ls)"
      using 2(2) [OF False ok rest] 2(5) False by (simp add: insert_commute)
    then show ?thesis by simp
  qed
qed simp

lemma restore_inv:
  assumes "snd (restoreSnapshot E now v s) = Inr ()"
  shows "supervisorInv now (fst (restoreSnapshot E now v s))"
proof -
  from assms have "coherent now [] (map snd (sup_leases (fst (restoreSnapshot E now v s))))"
    unfolding restoreSnapshot_def by (auto split: if_splits prod.splits sum.splits)
  from coherent_sound [OF this] show ?thesis by (simp add: supervisorInv_def leaseSet_def exclusiveLeases_def)
qed

lemma leases_kept:
  "sup_leases (fst (registerService alive now input status s)) = sup_leases s"
  "sup_leases (fst (registerObservedPaseoDaemon now daemon s)) = sup_leases s"
  "sup_leases (fst (updateService now serviceId ownerId u s)) = sup_leases s"
  unfolding registerService_def registerObservedPaseoDaemon_def updateService_def Let_def
  by (auto split: option.splits sum.splits if_splits)

lemma leaseSet_kept:
  "leaseSet (fst (registerService alive now input status s)) = leaseSet s"
  "leaseSet (fst (registerObservedPaseoDaemon now daemon s)) = leaseSet s"
  "leaseSet (fst (updateService now serviceId ownerId u s)) = leaseSet s"
  by (simp_all add: leaseSet_def leases_kept)

lemma other_subset:
  "leaseSet (fst (completeProviderLeaseTakeover E leaseId ownerId current quiescence s)) \<subseteq> leaseSet s"
  "leaseSet (fst (releaseProviderLease leaseId ownerId s)) \<subseteq> leaseSet s"
  "leaseSet (fst (takeSnapshot now s)) \<subseteq> leaseSet s"
  using leaseSet_simps(3) [of leaseId s]
  by (auto simp: completeProviderLeaseTakeover_def releaseProviderLease_def takeSnapshot_def Let_def
      dest: subsetD [OF leaseSet_simps(1)] split: option.splits)

lemma supStep_inv: "supervisorInv now s \<Longrightarrow> supStep E alive now s s' \<Longrightarrow> supervisorInv now s'"
proof (erule supStep.cases)
qed (auto intro: acquire_inv renew_inv lifecycle_inv restore_inv supervisorInv_subset [OF _ other_subset(1)]
    supervisorInv_subset [OF _ other_subset(2)] supervisorInv_subset [OF _ other_subset(3)]
    supervisorInv_subset [OF _ eq_refl [OF leaseSet_kept(1)]] supervisorInv_subset [OF _ eq_refl [OF leaseSet_kept(2)]]
    supervisorInv_subset [OF _ eq_refl [OF leaseSet_kept(3)]] simp: tryAcquire_state)

interpretation supervisor: timed_machine "supStep E alive" supervisorInv for E alive
proof
  show "supervisorInv t s \<Longrightarrow> supStep E alive t s s' \<Longrightarrow> supervisorInv t s'" for t s s' by (rule supStep_inv)
  show "supervisorInv t s \<Longrightarrow> t \<le> t' \<Longrightarrow> supervisorInv t' s" for t s t'
    unfolding supervisorInv_def by (rule exclusiveLeases_later)
qed


definition sample_request :: "string \<Rightarrow> ProviderLeaseModeV1 \<Rightarrow> string \<Rightarrow> lease_request" where
  "sample_request owner mode croot = \<lparr>rq_provider = ''p'', rq_projectId = ''q'', rq_canonicalRoot = croot, rq_workspaceId = ''w'',
     rq_mode = mode, rq_ownerId = owner, rq_ttlMs = jint 10, rq_lifecycle = JUndefined\<rparr>"

definition sample_supervisor :: RuntimeSupervisorV1 where
  "sample_supervisor = \<lparr>sup_services = [], sup_leases = [], sup_leaseTtlMs = 60000\<rparr>"

lemma sample_supervisor_new: "newSupervisor JUndefined = Inr sample_supervisor"
  by code_simp

definition sample_held :: RuntimeSupervisorV1 where
  "sample_held = fst (acquireProviderLease ''1'' 0 (sample_request ''a'' write_mode ''/repo'') sample_supervisor)"

definition sample_shared :: RuntimeSupervisorV1 where
  "sample_shared = fst (acquireProviderLease ''2'' 20 (sample_request ''b'' read_mode ''/repo'') sample_held)"


subsection \<open>Acquisition, fencing and waiting\<close>

text \<open>C34: \<open>tryAcquireProviderLease\<close> is \<open>acquireProviderLease\<close> with conflicts reported as a queue position. The
  two methods make the same state change, grant the same leases, throw the same other errors, and the
  first queues exactly when the second throws a lease conflict.\<close>

theorem tryAcquire_equals_acquire:
  "tryAcquireProviderLease uuid now r s = (case acquireProviderLease uuid now r s of
     (s', Inr l) \<Rightarrow> (s', Inr (ACQUIRED l))
   | (s', Inl (AlreadyLeased p w ow)) \<Rightarrow>
       (s', Inr (QUEUED (queuedForConflictingLeases (rq_provider r) (rq_workspaceId r)
          (projr (requestConflicts now r (projr (normalizeRoot (rq_canonicalRoot r))) (expireLeases now s))) now)))
   | (s', Inl e) \<Rightarrow> (s', Inl e))"
proof -
  have grant: "snd (grantLease uuid now r croot s1) = Inl e \<Longrightarrow> \<nexists>p w ow. e = AlreadyLeased p w ow" for croot s1 e
    by (auto simp: grantLease_def Let_def leaseKey_def normalizeRoot_def requireText_def map_sum_def
        validateProviderLeaseLifecycle_def split: sum.splits option.splits if_splits)
  have texts: "leaseRequestText r = Some e \<Longrightarrow> \<exists>n. e = MustNotBeEmpty n" for e
    by (auto simp: leaseRequestText_def requireText_def split: if_splits)
  have roots: "normalizeRoot v = Inl e \<Longrightarrow> \<exists>n. e = MustNotBeEmpty n" for v e
    by (auto simp: normalizeRoot_def requireText_def split: if_splits)
  have conflicts: "requestConflicts now r croot s1 = Inl e \<Longrightarrow> \<exists>n. e = MustNotBeEmpty n" for croot s1 e
    using roots by (auto simp: requestConflicts_def findConflictingProviderLeases_def leaseKey_def map_sum_def
        split: if_splits sum.splits)
  show ?thesis
  proof (cases "leaseRequestText r")
    case None
    show ?thesis
    proof (cases "normalizeRoot (rq_canonicalRoot r)")
      case (Inr croot)
      show ?thesis
      proof (cases "requestConflicts now r croot (expireLeases now s)")
        case (Inr cs)
        obtain s1 res where "grantLease uuid now r croot (expireLeases now s) = (s1, res)" by (meson surj_pair)
        then show ?thesis
          using None \<open>normalizeRoot (rq_canonicalRoot r) = Inr croot\<close> Inr grant [of croot "expireLeases now s"]
          by (cases cs; cases res)
            (auto simp: tryAcquireProviderLease_def acquireProviderLease_def Let_def split: RuntimeOwnershipError.splits)
      qed (use None Inr conflicts in \<open>fastforce simp: tryAcquireProviderLease_def acquireProviderLease_def\<close>)
    qed (use None roots in \<open>fastforce simp: tryAcquireProviderLease_def acquireProviderLease_def\<close>)
  qed (use texts in \<open>fastforce simp: tryAcquireProviderLease_def acquireProviderLease_def\<close>)
qed

text \<open>A write lease is a fence until it is released or taken over. While a write lease of another owner is
  recorded for the scope, even an expired one, no writer acquires a lease there.\<close>

theorem expired_writer_fences_writers:
  assumes granted: "acquireProviderLease uuid now r s = (s', Inr n)" and writer: "rq_mode r = write_mode" and stable: "stableRoot r"
    and l: "l \<in> leaseSet s" "pl_mode l = write_mode" "keyOf l = keyOf n"
  shows "pl_ownerId l = rq_ownerId r"
proof (rule ccontr)
  assume other: "pl_ownerId l \<noteq> rq_ownerId r"
  let ?s0 = "expireLeases now s"
  from granted obtain croot where croot: "leaseRequestText r = None" "normalizeRoot (rq_canonicalRoot r) = Inr croot"
    and free: "requestConflicts now r croot ?s0 = Inr []" and grant: "grantLease uuid now r croot ?s0 = (s', Inr n)"
    by (auto simp: acquireProviderLease_def Let_def split: option.splits sum.splits list.splits)
  have l0: "l \<in> leaseSet ?s0" using l(1,2) by (force simp: leaseSet_def expireLeases_def)
  obtain scope where scope: "leaseKey (rq_provider r) (rq_projectId r) croot (rq_workspaceId r) = Inr scope"
    using grant by (cases "leaseKey (rq_provider r) (rq_projectId r) croot (rq_workspaceId r)") (auto simp: grantLease_def)
  have "keyOf n = Inr scope"
    using grant scope by (auto simp: grantLease_def Let_def newLease_fields split: if_splits option.splits)
  then show False
    using requestConflicts_none [OF free croot(2) stable croot(1) l0 _ scope other] l(2,3) writer scope by auto
qed

theorem expired_writer_fences_writers_witness:
  "\<exists>l \<in> leaseSet sample_held. leaseExpired 1000 l
     \<and> (\<forall>n s'. acquireProviderLease ''9'' 1000 (sample_request ''b'' write_mode ''/repo'') sample_held = (s', Inr n) \<longrightarrow>
          keyOf l \<noteq> keyOf n)"
proof -
  let ?l = "newLease ''1'' 0 (sample_request ''a'' write_mode ''/repo'') ''/repo'' 10"
  let ?r = "sample_request ''b'' write_mode ''/repo''"
  have "map snd (sup_leases sample_held) = [?l]" "stableRoot ?r" "leaseExpired 1000 ?l" "pl_mode ?l = write_mode"
    "pl_ownerId ?l \<noteq> rq_ownerId ?r" "rq_mode ?r = write_mode" by code_simp+
  then show ?thesis using expired_writer_fences_writers [of "''9''" 1000 ?r sample_held _ _ ?l]
    by (auto simp: leaseSet_def)
qed

text \<open>C35: a queued caller waits a bounded time: never less than zero, never more than the queue limit of 30
  seconds, and never more than its remaining budget; an exhausted budget gives no wait at all.\<close>

theorem queue_wait_bounded:
  "0 \<le> providerLeaseQueueWaitMs q (Some (Some b)) \<and> providerLeaseQueueWaitMs q budget \<le> 30000
   \<and> of_int (providerLeaseQueueWaitMs q (Some (Some b))) \<le> max 0 b
   \<and> (b \<le> 0 \<longrightarrow> providerLeaseQueueWaitMs q (Some (Some b)) = 0)"
proof (intro conjI impI)
  have b: "0 < b \<Longrightarrow> 0 \<le> \<lfloor>b\<rfloor>" by simp
  show "0 \<le> providerLeaseQueueWaitMs q (Some (Some b))"
    using b by (auto simp: providerLeaseQueueWaitMs_def Let_def not_le split: option.splits)
  show "providerLeaseQueueWaitMs q budget \<le> 30000"
    by (auto simp: providerLeaseQueueWaitMs_def Let_def split: option.splits)
  show "of_int (providerLeaseQueueWaitMs q (Some (Some b))) \<le> max 0 b"
  proof (cases "q = None \<or> b \<le> 0")
    case False
    then have "providerLeaseQueueWaitMs q (Some (Some b)) \<le> \<lfloor>b\<rfloor>"
      by (auto simp: providerLeaseQueueWaitMs_def Let_def)
    then show ?thesis using False by (simp add: le_floor_iff)
  qed (auto simp: providerLeaseQueueWaitMs_def split: option.splits)
qed (auto simp: providerLeaseQueueWaitMs_def split: option.splits)

theorem queue_wait_bounded_witness:
  "providerLeaseQueueWaitMs (Some \<lparr>qd_retryAfterMs = 500, qd_queueDepth = 1, qd_reason = ''x''\<rparr>) (Some (Some 0)) = 0"
  using queue_wait_bounded [where b = 0] by simp

definition slashed_first :: RuntimeSupervisorV1 where
  "slashed_first = fst (acquireProviderLease ''1'' 0 (sample_request ''a'' write_mode ''/r///'') sample_supervisor)"

definition slashed_second :: RuntimeSupervisorV1 where
  "slashed_second = fst (acquireProviderLease ''2'' 1 (sample_request ''b'' write_mode ''/r///'') slashed_first)"


end
