(* ===== verification/ObjectiveCompletion.thy ===== *)
theory ObjectiveCompletion
  imports CandidateContracts
begin

text \<open>
  The completion gate of an objective (\<open>src/src/architecture/objectiveCompletion.ts\<close>). The input is read
  back from disk, so every part is a run-time value; each check of the code returns the blockers it
  pushes, in the order it pushes them.
\<close>

subsection \<open>Blockers\<close>

record blocker =
  bl_code :: string
  bl_message :: string

definition mkBlocker :: "string \<Rightarrow> string \<Rightarrow> blocker" where
  "mkBlocker code message = \<lparr>bl_code = code, bl_message = message\<rparr>"

record ObjectiveCompletionDecisionV1 =
  oc_complete :: bool
  oc_blockers :: "blocker list"

definition blankText :: "js \<Rightarrow> bool" where
  "blankText v = (case v of JStr s \<Rightarrow> js_trim s = [] | _ \<Rightarrow> True)"

text \<open>\<open>Map.set\<close> keyed by code and message, then a sort by code and message.\<close>

definition blockerKey :: "blocker \<Rightarrow> string" where
  "blockerKey b = bl_code b @ CHR 0x00 # bl_message b"

definition decide :: "blocker list \<Rightarrow> ObjectiveCompletionDecisionV1" where
  "decide blockers =
     (let unique = fold (\<lambda>b. AList.update (blockerKey b) b) blockers [];
          ordered = sort_key bl_code (sort_key bl_message (map snd unique))
      in \<lparr>oc_complete = (ordered = []), oc_blockers = ordered\<rparr>)"

definition failWith :: "bool \<Rightarrow> string \<Rightarrow> string \<Rightarrow> blocker list" where
  "failWith b code message = failIf b (mkBlocker code message)"

subsection \<open>Identity\<close>

definition identityMismatchFields :: "js_env \<Rightarrow> js \<Rightarrow> js \<Rightarrow> string list" where
  "identityMismatchFields E current other =
     (if \<not> isRecord other then [''identity'']
      else failIf (\<not> js_same (js_get other ''operationId'') (js_get current ''operationId'')) ''operationId''
         @ failIf (\<not> candidateRevisionsEqual E (js_get current ''candidate'') (js_get other ''candidate'')) ''candidate''
         @ failIf (\<not> js_same (js_get other ''policyDigest'') (js_get current ''policyDigest'')) ''policyDigest''
         @ failIf (\<not> js_same (js_get other ''operationExecutionRevision'') (js_get current ''operationExecutionRevision''))
             ''operationExecutionRevision''
         @ failIf (\<not> js_same (js_get other ''controllerEpoch'') (js_get current ''controllerEpoch'')) ''controllerEpoch'')"

definition mismatchText :: "string list \<Rightarrow> string" where
  "mismatchText fs = '' ('' @ js_join '', '' fs @ '').''"

definition validateObjectiveIdentity :: "js_env \<Rightarrow> js \<Rightarrow> blocker list" where
  "validateObjectiveIdentity E v =
     (if \<not> isRecord v then [mkBlocker ''OBJECTIVE_IDENTITY_INVALID'' ''current objective identity must be an object.'']
      else failWith (blankText (js_get v ''operationId'')) ''OPERATION_ID_INVALID''
             ''objective operationId must be a non-empty string.''
         @ failWith (blankText (js_get v ''policyDigest'')) ''POLICY_DIGEST_INVALID''
             ''objective policyDigest must be a non-empty string.''
         @ failWith (\<not> js_safe_at_least 1 (js_get v ''operationExecutionRevision'')) ''EXECUTION_REVISION_INVALID''
             ''objective operationExecutionRevision must be a positive integer.''
         @ failWith (\<not> js_safe_at_least 0 (js_get v ''controllerEpoch'')) ''CONTROLLER_EPOCH_INVALID''
             ''objective controllerEpoch must be a non-negative safe integer.''
         @ failWith (assertCandidateRevisionV1 E (js_get v ''candidate'') \<noteq> None) ''CANDIDATE_INVALID''
             ''current objective candidate identity is not a valid CandidateRevisionV1.''
         @ failWith (js_typeof (js_get v ''operationId'') = ''string'' \<and> isRecord (js_get v ''candidate'')
               \<and> js_typeof (js_get (js_get v ''candidate'') ''operationId'') = ''string''
               \<and> \<not> js_same (js_get (js_get v ''candidate'') ''operationId'') (js_get v ''operationId''))
             ''CANDIDATE_OPERATION_MISMATCH''
             ''current objective candidate belongs to a different operation than the current objective identity.'')"

text \<open>The identity the later checks compare with: an empty one when the input has none.\<close>

definition currentIdentity :: "js \<Rightarrow> js" where
  "currentIdentity v = (if isRecord v then v
     else JObj [(''operationId'', JStr []), (''policyDigest'', JStr []), (''operationExecutionRevision'', jint 0),
                (''controllerEpoch'', jint 0), (''candidate'', JUndefined)])"

definition validateWorkspaceCandidate :: "js_env \<Rightarrow> js \<Rightarrow> js \<Rightarrow> blocker list" where
  "validateWorkspaceCandidate E v current =
     failWith (assertCandidateRevisionV1 E v \<noteq> None) ''WORKSPACE_CANDIDATE_INVALID''
       ''workspace candidate is not a valid CandidateRevisionV1.''
   @ failWith (\<not> candidateRevisionsEqual E (js_get current ''candidate'') v) ''WORKSPACE_CANDIDATE_MISMATCH''
       ''workspace candidate is not the current objective candidate revision.''"

subsection \<open>Work units and evidence\<close>

text \<open>A loop over ids: an invalid id pushes \<open>bad\<close>, a repeated one \<open>dup\<close>; the set of valid ids is kept in order.\<close>

fun scanIds :: "blocker \<Rightarrow> (string \<Rightarrow> blocker list) \<Rightarrow> string list \<Rightarrow> js list \<Rightarrow> blocker list \<times> string list" where
  "scanIds bad dup seen [] = ([], seen)"
| "scanIds bad dup seen (v # vs) =
     (if blankText v then (case scanIds bad dup seen vs of (bs, ids) \<Rightarrow> (bad # bs, ids))
      else let s = str_of v in
        (case scanIds bad dup (if s \<in> set seen then seen else seen @ [s]) vs of
           (bs, ids) \<Rightarrow> ((if s \<in> set seen then dup s else []) @ bs, ids)))"

definition quoted :: "string \<Rightarrow> string \<Rightarrow> string \<Rightarrow> string" where
  "quoted before v after = before @ CHR 0x27 # v @ CHR 0x27 # after"

definition workUnitIds :: "string \<Rightarrow> string \<Rightarrow> js \<Rightarrow> blocker list \<times> string list" where
  "workUnitIds kind label ids = scanIds (mkBlocker ''WORK_UNIT_ID_INVALID'' ''work unit ids must be non-empty strings.'')
     (\<lambda>s. [mkBlocker (''WORK_UNIT_'' @ kind @ ''_DUPLICATE'') (quoted (label @ '' work unit '') s '' is declared more than once.'')])
     [] (js_items ids)"

definition evaluateWorkGraph :: "js \<Rightarrow> blocker list" where
  "evaluateWorkGraph w =
     (if \<not> isRecord w \<or> \<not> js_is_array (js_get w ''requiredWorkUnitIds'') \<or> \<not> js_is_array (js_get w ''accountedWorkUnitIds'')
      then [mkBlocker ''WORK_GRAPH_INVALID'' ''workGraph must declare requiredWorkUnitIds and accountedWorkUnitIds arrays.'']
      else let (rb, required) = workUnitIds ''REQUIRED'' ''required'' (js_get w ''requiredWorkUnitIds'');
               (ab, accounted) = workUnitIds ''ACCOUNTED'' ''accounted'' (js_get w ''accountedWorkUnitIds'')
           in rb @ ab @ map (\<lambda>i. mkBlocker ''WORK_UNIT_UNACCOUNTED'' (quoted ''required work unit '' i '' has no accounted work result.''))
                (filter (\<lambda>i. i \<notin> set accounted) (sort required)))"

datatype gate_kind = VALIDATION | REVIEW

definition gateName :: "gate_kind \<Rightarrow> string" where
  "gateName k = (case k of VALIDATION \<Rightarrow> ''VALIDATION'' | REVIEW \<Rightarrow> ''REVIEW'')"

definition gateLower :: "gate_kind \<Rightarrow> string" where
  "gateLower k = (case k of VALIDATION \<Rightarrow> ''validation'' | REVIEW \<Rightarrow> ''review'')"

definition assertionText :: "gate_kind \<Rightarrow> string \<Rightarrow> string \<Rightarrow> string" where
  "assertionText k i rest = quoted (''required '' @ gateLower k @ '' assertion '') i rest"

definition assertionBlockers :: "js_env \<Rightarrow> gate_kind \<Rightarrow> js list \<Rightarrow> js \<Rightarrow> string \<Rightarrow> blocker list" where
  "assertionBlockers E k evidence current i =
     (case filter (\<lambda>item. isRecord item \<and> js_get item ''assertionId'' = JStr i) evidence of
        [] \<Rightarrow> [mkBlocker (gateName k @ ''_EVIDENCE_MISSING'') (assertionText k i '' has no evidence.'')]
      | [item] \<Rightarrow>
          (if js_get item ''status'' \<noteq> JStr ''PASS''
           then [mkBlocker (gateName k @ ''_EVIDENCE_FAILED'')
                  (assertionText k i (quoted '' evidence status is '' (js_string (js_get item ''status'')) ''; PASS is required.''))]
           else let mismatch = identityMismatchFields E current (js_get item ''identity'') in
             failWith (mismatch \<noteq> []) (gateName k @ ''_EVIDENCE_STALE'')
               (assertionText k i ('' evidence is not bound to the current objective identity'' @ mismatchText mismatch)))
      | items \<Rightarrow> [mkBlocker (gateName k @ ''_EVIDENCE_DUPLICATE'')
                    (assertionText k i ('' has '' @ nat_text (length items) @ '' evidence items; exactly one PASS item is required.''))])"

definition evaluateAssertionEvidenceGate :: "js_env \<Rightarrow> gate_kind \<Rightarrow> js \<Rightarrow> js \<Rightarrow> blocker list" where
  "evaluateAssertionEvidenceGate E k gate current =
     (if \<not> isRecord gate \<or> \<not> js_is_array (js_get gate ''requiredAssertionIds'') \<or> \<not> js_is_array (js_get gate ''evidence'')
      then [mkBlocker (gateName k @ ''_GATE_INVALID'') (gateLower k @ '' gate must declare requiredAssertionIds and evidence arrays.'')]
      else let (bs, required) = scanIds (mkBlocker (gateName k @ ''_REQUIRED_ASSERTION_INVALID'')
                  (gateLower k @ '' required assertion ids must be non-empty strings.''))
                (\<lambda>_. []) [] (js_items (js_get gate ''requiredAssertionIds''))
           in bs @ concat (map (assertionBlockers E k (js_items (js_get gate ''evidence'')) current) (sort required)))"

subsection \<open>Acceptance, certification and delivery\<close>

definition acceptanceIds :: "string \<Rightarrow> string \<Rightarrow> js \<Rightarrow> blocker list \<times> string list" where
  "acceptanceIds kind label ids = scanIds
     (mkBlocker (''ACCEPTANCE_'' @ kind @ ''_ASSERTION_INVALID'') (''acceptance '' @ label @ '' assertion ids must be non-empty strings.''))
     (\<lambda>s. [mkBlocker (''ACCEPTANCE_'' @ kind @ ''_DUPLICATE'') (quoted (''acceptance '' @ label @ '' assertion '') s '' is declared more than once.'')])
     [] (js_items ids)"

definition evaluateAcceptance :: "js_env \<Rightarrow> js \<Rightarrow> js \<Rightarrow> blocker list" where
  "evaluateAcceptance E a current =
     (if \<not> isRecord a then [mkBlocker ''ACCEPTANCE_INVALID'' ''acceptance record must be an object.'']
      else let mismatch = identityMismatchFields E current (js_get a ''identity'');
               (rb, required) = acceptanceIds ''REQUIRED'' ''required'' (js_get a ''requiredAssertionIds'');
               (cb, covered) = acceptanceIds ''COVERED'' ''covered'' (js_get a ''coveredAssertionIds'')
           in failWith (js_get a ''disposition'' \<noteq> JStr ''ACCEPTED'') ''ACCEPTANCE_NOT_ACCEPTED''
                (quoted ''objective acceptance disposition must be ACCEPTED but was '' (js_string (js_get a ''disposition'')) ''.'')
            @ failWith (mismatch \<noteq> []) ''ACCEPTANCE_IDENTITY_MISMATCH''
                (''acceptance is not bound to the current objective identity'' @ mismatchText mismatch)
            @ failWith (\<not> js_is_array (js_get a ''requiredAssertionIds'')) ''ACCEPTANCE_REQUIRED_INVALID''
                ''acceptance requiredAssertionIds must be an array.''
            @ failWith (\<not> js_is_array (js_get a ''coveredAssertionIds'')) ''ACCEPTANCE_COVERED_INVALID''
                ''acceptance coveredAssertionIds must be an array.''
            @ rb @ cb
            @ map (\<lambda>i. mkBlocker ''ACCEPTANCE_COVERAGE_MISSING''
                  (quoted ''acceptance disposition does not cover required assertion '' i ''.''))
                (filter (\<lambda>i. i \<notin> set covered) (sort required))
            @ map (\<lambda>i. mkBlocker ''ACCEPTANCE_COVERAGE_ADDITIONAL''
                  (quoted ''acceptance disposition covers assertion '' i '' which is not required.''))
                (filter (\<lambda>i. i \<notin> set required) (sort covered)))"

definition identityBlockers :: "js_env \<Rightarrow> string \<Rightarrow> string \<Rightarrow> js \<Rightarrow> js \<Rightarrow> blocker list" where
  "identityBlockers E code label current other =
     (let mismatch = identityMismatchFields E current other in
      failWith (mismatch \<noteq> []) code (label @ '' is not bound to the current objective identity'' @ mismatchText mismatch))"

definition evaluateCertification :: "js_env \<Rightarrow> js \<Rightarrow> js \<Rightarrow> blocker list" where
  "evaluateCertification E c current =
     (if \<not> isRecord c \<or> js_typeof (js_get c ''required'') \<noteq> ''boolean''
      then [mkBlocker ''CERTIFICATION_INVALID'' ''certification must declare a boolean required flag.'']
      else if js_truthy (js_get c ''required'')
      then failWith (js_get c ''disposition'' \<noteq> JStr ''PASS'') ''CERTIFICATION_REQUIRED_NOT_PASS''
             (quoted ''required certification disposition must be PASS but was '' (js_string (js_get c ''disposition'')) ''.'')
         @ identityBlockers E ''CERTIFICATION_IDENTITY_MISMATCH'' ''certification'' current (js_get c ''identity'')
      else failWith (js_get c ''disposition'' \<noteq> JUndefined) ''CERTIFICATION_UNEXPECTED_DISPOSITION''
             (quoted ''certification is not required but declares disposition '' (js_string (js_get c ''disposition'')) ''.'')
         @ (if js_get c ''identity'' = JUndefined then []
            else mkBlocker ''CERTIFICATION_UNEXPECTED_IDENTITY'' ''certification is not required but declares an identity.''
              # identityBlockers E ''CERTIFICATION_IDENTITY_MISMATCH'' ''certification'' current (js_get c ''identity'')))"

definition evaluateDelivery :: "js_env \<Rightarrow> js \<Rightarrow> js \<Rightarrow> blocker list" where
  "evaluateDelivery E d current =
     (if \<not> isRecord d \<or> js_typeof (js_get d ''required'') \<noteq> ''boolean''
      then [mkBlocker ''DELIVERY_INVALID'' ''delivery must declare a boolean required flag.'']
      else if js_truthy (js_get d ''required'')
      then failWith (js_get d ''disposition'' \<noteq> JStr ''RECONCILED'') ''DELIVERY_NOT_RECONCILED''
             (quoted ''external delivery is required but disposition is '' (js_string (js_get d ''disposition'')) '' rather than RECONCILED.'')
         @ identityBlockers E ''DELIVERY_IDENTITY_MISMATCH'' ''delivery'' current (js_get d ''identity'')
      else failWith (js_get d ''disposition'' \<noteq> JStr ''NOT_REQUIRED'') ''DELIVERY_UNEXPECTED_DISPOSITION''
             (quoted ''external delivery is not required but disposition is '' (js_string (js_get d ''disposition'')) '' rather than NOT_REQUIRED.'')
         @ (if js_get d ''identity'' = JUndefined then []
            else identityBlockers E ''DELIVERY_IDENTITY_MISMATCH'' ''delivery'' current (js_get d ''identity'')))"

subsection \<open>Findings and participants\<close>

definition findingBlockers :: "js_env \<Rightarrow> js \<Rightarrow> js \<Rightarrow> blocker list" where
  "findingBlockers E current f =
     (if \<not> isRecord f \<or> js_get f ''blocking'' \<noteq> JBool True then []
      else if assertCandidateRevisionV1 E (js_get f ''candidate'') \<noteq> None
      then [mkBlocker ''FINDING_CANDIDATE_INVALID'' ''a blocking objective finding does not carry a valid candidate revision.'']
      else failWith (candidateRevisionsEqual E (js_get f ''candidate'') (js_get current ''candidate'')) ''BLOCKING_FINDING''
             (quoted ''blocking finding applies to the current candidate '' (js_string (js_get (js_get f ''candidate'') ''candidateId''))
                (''@r'' @ js_string (js_get (js_get f ''candidate'') ''revision'') @ ''.'')))"

definition evaluateFindings :: "js_env \<Rightarrow> js \<Rightarrow> js \<Rightarrow> blocker list" where
  "evaluateFindings E fs current =
     (if \<not> js_is_array fs then [mkBlocker ''FINDINGS_INVALID'' ''objective findings must be an array.'']
      else concat (map (findingBlockers E current) (js_items fs)))"

definition participantStatuses :: "string list" where
  "participantStatuses = [''REGISTERED'', ''IDLE'', ''RUNNING'', ''COMPLETED'', ''FAILED'', ''BLOCKED'', ''CANCELLED'']"

definition inFlightParticipantStatuses :: "string list" where
  "inFlightParticipantStatuses = [''REGISTERED'', ''IDLE'', ''RUNNING'']"

definition participantBlockers :: "js \<Rightarrow> blocker list" where
  "participantBlockers p =
     (if \<not> isRecord p then [mkBlocker ''PARTICIPANT_INVALID'' ''objective participant entries must be objects.'']
      else if js_get p ''required'' \<noteq> JBool True then []
      else let status = js_get p ''status''; who = js_string (js_get p ''id'') in
        if js_typeof status \<noteq> ''string'' \<or> str_of status \<notin> set participantStatuses
        then [mkBlocker ''PARTICIPANT_STATUS_INVALID''
               (quoted ''required participant '' who (quoted '' has unsupported status '' (js_string status) ''.''))]
        else failWith (str_of status \<in> set inFlightParticipantStatuses) ''PARTICIPANT_INCOMPLETE''
               (quoted ''required participant '' who ('' is still '' @ str_of status @ ''.'')))"

definition evaluateParticipants :: "js \<Rightarrow> blocker list" where
  "evaluateParticipants ps =
     (if \<not> js_is_array ps then [mkBlocker ''PARTICIPANTS_INVALID'' ''objective participants must be an array.'']
      else concat (map participantBlockers (js_items ps)))"

definition objectiveBlockers :: "js_env \<Rightarrow> js \<Rightarrow> blocker list" where
  "objectiveBlockers E input =
     (let current = currentIdentity (js_get input ''identity'');
          terminalMismatch = identityMismatchFields E current (js_get input ''terminalIdentity'') in
      failWith (\<not> js_same (js_get input ''version'') (jint 1)) ''VERSION_UNSUPPORTED''
        (quoted ''objective completion input version '' (js_string (js_get input ''version'')) '' is not supported.'')
    @ validateObjectiveIdentity E (js_get input ''identity'')
    @ validateWorkspaceCandidate E (js_get input ''workspaceCandidate'') current
    @ evaluateWorkGraph (js_get input ''workGraph'')
    @ evaluateAssertionEvidenceGate E VALIDATION (js_get input ''validation'') current
    @ evaluateAssertionEvidenceGate E REVIEW (js_get input ''review'') current
    @ evaluateAcceptance E (js_get input ''acceptance'') current
    @ evaluateCertification E (js_get input ''certification'') current
    @ evaluateDelivery E (js_get input ''delivery'') current
    @ evaluateFindings E (js_get input ''findings'') current
    @ evaluateParticipants (js_get input ''participants'')
    @ failWith (terminalMismatch \<noteq> []) ''TERMINAL_IDENTITY_MISMATCH''
        (''terminal identity does not match the current objective identity'' @ mismatchText terminalMismatch))"

definition evaluateObjectiveCompletionV1 :: "js_env \<Rightarrow> js \<Rightarrow> ObjectiveCompletionDecisionV1" where
  "evaluateObjectiveCompletionV1 E input =
     (if \<not> isRecord input then decide [mkBlocker ''INPUT_INVALID'' ''objective completion input must be an object.'']
      else decide (objectiveBlockers E input))"

subsection \<open>What a complete objective is\<close>

text \<open>
  The abstract specification, clause by clause: an identity that other records are bound to, ids without
  blanks or repetitions, one passing evidence item per required assertion, and so on.
\<close>

definition boundTo :: "js_env \<Rightarrow> js \<Rightarrow> js \<Rightarrow> bool" where
  "boundTo E current other \<longleftrightarrow> isRecord other
     \<and> (\<forall>f \<in> {''operationId'', ''policyDigest'', ''operationExecutionRevision'', ''controllerEpoch''}.
          js_same (js_get other f) (js_get current f))
     \<and> candidateRevisionsEqual E (js_get current ''candidate'') (js_get other ''candidate'')"

definition validIdentity :: "js_env \<Rightarrow> js \<Rightarrow> bool" where
  "validIdentity E v \<longleftrightarrow> isRecord v \<and> nonEmptyText (js_get v ''operationId'') \<and> nonEmptyText (js_get v ''policyDigest'')
     \<and> js_safe_at_least 1 (js_get v ''operationExecutionRevision'') \<and> js_safe_at_least 0 (js_get v ''controllerEpoch'')
     \<and> assertCandidateRevisionV1 E (js_get v ''candidate'') = None
     \<and> js_get (js_get v ''candidate'') ''operationId'' = js_get v ''operationId''"

definition idList :: "js \<Rightarrow> string list \<Rightarrow> bool" where
  "idList v ids \<longleftrightarrow> v = JArr (map JStr ids) \<and> (\<forall>i \<in> set ids. js_trim i \<noteq> [])"

definition workAccounted :: "js \<Rightarrow> bool" where
  "workAccounted w \<longleftrightarrow> isRecord w \<and> (\<exists>required accounted. idList (js_get w ''requiredWorkUnitIds'') required
     \<and> idList (js_get w ''accountedWorkUnitIds'') accounted \<and> distinct required \<and> distinct accounted
     \<and> set required \<subseteq> set accounted)"

definition evidenceComplete :: "js_env \<Rightarrow> js \<Rightarrow> js \<Rightarrow> bool" where
  "evidenceComplete E gate current \<longleftrightarrow> isRecord gate \<and> js_is_array (js_get gate ''evidence'')
     \<and> (\<exists>required. idList (js_get gate ''requiredAssertionIds'') required
          \<and> (\<forall>i \<in> set required. \<exists>item. filter (\<lambda>x. isRecord x \<and> js_get x ''assertionId'' = JStr i) (js_items (js_get gate ''evidence'')) = [item]
               \<and> js_get item ''status'' = JStr ''PASS'' \<and> boundTo E current (js_get item ''identity'')))"

definition acceptedExactly :: "js_env \<Rightarrow> js \<Rightarrow> js \<Rightarrow> bool" where
  "acceptedExactly E a current \<longleftrightarrow> isRecord a \<and> js_get a ''disposition'' = JStr ''ACCEPTED'' \<and> boundTo E current (js_get a ''identity'')
     \<and> (\<exists>required covered. idList (js_get a ''requiredAssertionIds'') required \<and> idList (js_get a ''coveredAssertionIds'') covered
          \<and> distinct required \<and> distinct covered \<and> set required = set covered)"

definition certified :: "js_env \<Rightarrow> js \<Rightarrow> js \<Rightarrow> bool" where
  "certified E c current \<longleftrightarrow> isRecord c \<and>
     (js_get c ''required'' = JBool True \<and> js_get c ''disposition'' = JStr ''PASS'' \<and> boundTo E current (js_get c ''identity'')
      \<or> js_get c ''required'' = JBool False \<and> js_get c ''disposition'' = JUndefined \<and> js_get c ''identity'' = JUndefined)"

definition delivered :: "js_env \<Rightarrow> js \<Rightarrow> js \<Rightarrow> bool" where
  "delivered E d current \<longleftrightarrow> isRecord d \<and>
     (js_get d ''required'' = JBool True \<and> js_get d ''disposition'' = JStr ''RECONCILED'' \<and> boundTo E current (js_get d ''identity'')
      \<or> js_get d ''required'' = JBool False \<and> js_get d ''disposition'' = JStr ''NOT_REQUIRED''
        \<and> (js_get d ''identity'' = JUndefined \<or> boundTo E current (js_get d ''identity'')))"

definition noBlockingFinding :: "js_env \<Rightarrow> js \<Rightarrow> js \<Rightarrow> bool" where
  "noBlockingFinding E fs current \<longleftrightarrow> (\<exists>xs. fs = JArr xs \<and> (\<forall>f \<in> set xs. isRecord f \<and> js_get f ''blocking'' = JBool True \<longrightarrow>
     assertCandidateRevisionV1 E (js_get f ''candidate'') = None
     \<and> \<not> candidateRevisionsEqual E (js_get f ''candidate'') (js_get current ''candidate'')))"

definition participantsSettled :: "js \<Rightarrow> bool" where
  "participantsSettled ps \<longleftrightarrow> (\<exists>xs. ps = JArr xs \<and> (\<forall>p \<in> set xs. isRecord p \<and> (js_get p ''required'' = JBool True \<longrightarrow>
     (\<exists>st \<in> set participantStatuses - set inFlightParticipantStatuses. js_get p ''status'' = JStr st))))"

definition objectiveComplete :: "js_env \<Rightarrow> js \<Rightarrow> bool" where
  "objectiveComplete E input \<longleftrightarrow> isRecord input \<and> js_get input ''version'' = jint 1
     \<and> (let current = js_get input ''identity'' in
          validIdentity E current
        \<and> candidateRevisionsEqual E (js_get current ''candidate'') (js_get input ''workspaceCandidate'')
        \<and> workAccounted (js_get input ''workGraph'')
        \<and> evidenceComplete E (js_get input ''validation'') current \<and> evidenceComplete E (js_get input ''review'') current
        \<and> acceptedExactly E (js_get input ''acceptance'') current
        \<and> certified E (js_get input ''certification'') current \<and> delivered E (js_get input ''delivery'') current
        \<and> noBlockingFinding E (js_get input ''findings'') current \<and> participantsSettled (js_get input ''participants'')
        \<and> boundTo E current (js_get input ''terminalIdentity''))"

subsection \<open>The checks refine the specification\<close>

lemma failWith_Nil [simp]: "failWith b code message = [] \<longleftrightarrow> \<not> b"
  by (simp add: failWith_def)

lemma failWith_append_Nil [simp]: "failWith b code message @ xs = [] \<longleftrightarrow> \<not> b \<and> xs = []"
  by (simp add: failWith_def)

lemma identityMismatchFields_Nil: "identityMismatchFields E current other = [] \<longleftrightarrow> boundTo E current other"
  by (auto simp: identityMismatchFields_def boundTo_def)

lemma blankText_not: "\<not> blankText v \<longleftrightarrow> nonEmptyText v"
  by (auto simp: blankText_def nonEmptyText_def split: js.splits)

lemma js_typeof_string: "js_typeof (JStr s) = ''string''" "js_typeof v = ''string'' \<Longrightarrow> (\<exists>s. v = JStr s) \<or> v = JExotic ''string''"
  by (cases v; simp)+

lemma js_array_items: "js_is_array v \<longleftrightarrow> (\<exists>xs. v = JArr xs)"
  by (auto simp: js_is_array_def split: js.splits)

lemma scanIds_spec:
  "set (snd (scanIds bad dup seen vs)) = set seen \<union> {s. JStr s \<in> set vs \<and> js_trim s \<noteq> []}"
proof (induction vs arbitrary: seen)
  case (Cons v vs)
  show ?case
  proof (cases "blankText v")
    case True
    then have "\<not> (\<exists>s. v = JStr s \<and> js_trim s \<noteq> [])" by (auto simp: blankText_def)
    with True Cons.IH [of seen] show ?thesis by (auto split: prod.splits)
  next
    case False
    then obtain s where s: "v = JStr s" "js_trim s \<noteq> []" by (auto simp: blankText_def split: js.splits)
    with False Cons.IH [of seen] Cons.IH [of "seen @ [s]"] show ?thesis
      by (auto simp: str_of_def Let_def split: prod.splits)
  qed
qed simp

text \<open>The lists of valid ids, by cases on the first element.\<close>

definition validIds :: "js list \<Rightarrow> string list \<Rightarrow> bool" where
  "validIds vs ids \<longleftrightarrow> vs = map JStr ids \<and> (\<forall>i \<in> set ids. js_trim i \<noteq> [])"

lemma validIds_blank: "blankText v \<Longrightarrow> \<not> validIds (v # vs) ids"
  by (auto simp: validIds_def blankText_def Cons_eq_map_conv)

lemma validIds_Cons:
  "js_trim s \<noteq> [] \<Longrightarrow> (\<exists>ids. validIds (JStr s # vs) ids \<and> P ids) \<longleftrightarrow> (\<exists>ids. validIds vs ids \<and> P (s # ids))"
proof (intro iffI; elim exE conjE)
  fix ids assume "js_trim s \<noteq> []" "validIds vs ids" "P (s # ids)"
  then show "\<exists>ids. validIds (JStr s # vs) ids \<and> P ids"
    by (intro exI [of _ "s # ids"]) (simp add: validIds_def)
qed (auto simp: validIds_def Cons_eq_map_conv)

lemma scanIds_blank: "blankText v \<Longrightarrow> fst (scanIds bad dup seen (v # vs)) \<noteq> []"
  by (simp split: prod.splits)

lemma scanIds_text:
  "js_trim s \<noteq> [] \<Longrightarrow> fst (scanIds bad dup seen (JStr s # vs)) =
     (if s \<in> set seen then dup s else []) @ fst (scanIds bad dup (if s \<in> set seen then seen else seen @ [s]) vs)"
  by (simp add: blankText_def str_of_def Let_def split: prod.splits)

lemma not_blankText: "\<not> blankText v \<Longrightarrow> (\<And>s. v = JStr s \<Longrightarrow> js_trim s \<noteq> [] \<Longrightarrow> thesis) \<Longrightarrow> thesis"
  by (auto simp: blankText_def split: js.splits)

lemma scanIds_dup_Nil:
  assumes "\<And>s. dup s \<noteq> []"
  shows "fst (scanIds bad dup seen vs) = [] \<longleftrightarrow> (\<exists>ids. validIds vs ids \<and> distinct ids \<and> set ids \<inter> set seen = {})"
proof (induction vs arbitrary: seen)
  case Nil
  show ?case by (simp add: validIds_def)
next
  case (Cons v vs)
  show ?case
  proof (cases "blankText v")
    case True
    then show ?thesis using scanIds_blank validIds_blank by metis
  next
    case False
    then obtain s where s: "v = JStr s" "js_trim s \<noteq> []" by (rule not_blankText)
    show ?thesis unfolding s(1) scanIds_text [OF s(2)] validIds_Cons [OF s(2)]
      using assms [of s] Cons.IH [of "seen @ [s]"] by auto
  qed
qed

lemma scanIds_free_Nil:
  "fst (scanIds bad (\<lambda>_. []) seen vs) = [] \<longleftrightarrow> (\<exists>ids. validIds vs ids)"
proof (induction vs arbitrary: seen)
  case Nil
  show ?case by (simp add: validIds_def)
next
  case (Cons v vs)
  show ?case
  proof (cases "blankText v")
    case True
    then show ?thesis using scanIds_blank validIds_blank by metis
  next
    case False
    then obtain s where s: "v = JStr s" "js_trim s \<noteq> []" by (rule not_blankText)
    show ?thesis unfolding s(1) scanIds_text [OF s(2)]
      using Cons.IH validIds_Cons [OF s(2), where P = "\<lambda>_. True"] by simp
  qed
qed

lemma workUnitIds_Nil:
  "js_is_array v \<Longrightarrow> fst (workUnitIds kind label v) = [] \<longleftrightarrow> (\<exists>ids. idList v ids \<and> distinct ids)"
  by (auto simp: workUnitIds_def scanIds_dup_Nil idList_def validIds_def js_array_items)

lemma acceptanceIds_Nil:
  "js_is_array v \<Longrightarrow> fst (acceptanceIds kind label v) = [] \<longleftrightarrow> (\<exists>ids. idList v ids \<and> distinct ids)"
  by (auto simp: acceptanceIds_def scanIds_dup_Nil idList_def validIds_def js_array_items)

lemma idList_ids: "idList v ids \<Longrightarrow> {s. JStr s \<in> set (js_items v) \<and> js_trim s \<noteq> []} = set ids"
  by (auto simp: idList_def)

lemma set_workUnitIds: "idList v ids \<Longrightarrow> set (snd (workUnitIds kind label v)) = set ids"
  using idList_ids [of v ids] by (simp add: workUnitIds_def scanIds_spec)

lemma set_acceptanceIds: "idList v ids \<Longrightarrow> set (snd (acceptanceIds kind label v)) = set ids"
  using idList_ids [of v ids] by (simp add: acceptanceIds_def scanIds_spec)

lemma idList_array: "idList v ids \<Longrightarrow> js_is_array v"
  by (auto simp: idList_def js_array_items)

text \<open>Two scans without blockers, and a relation between the sets they collect.\<close>

lemma two_scans:
  assumes "rb = [] \<longleftrightarrow> (\<exists>r. P r)" "ab = [] \<longleftrightarrow> (\<exists>a. Q a)" "\<And>r. P r \<Longrightarrow> A = set r" "\<And>a. Q a \<Longrightarrow> B = set a"
  shows "rb = [] \<and> ab = [] \<and> R A B \<longleftrightarrow> (\<exists>r a. P r \<and> Q a \<and> R (set r) (set a))"
  using assms by metis

lemma evaluateWorkGraph_Nil: "evaluateWorkGraph w = [] \<longleftrightarrow> workAccounted w"
proof (cases "isRecord w \<and> js_is_array (js_get w ''requiredWorkUnitIds'') \<and> js_is_array (js_get w ''accountedWorkUnitIds'')")
  case True
  obtain rb required where r: "workUnitIds ''REQUIRED'' ''required'' (js_get w ''requiredWorkUnitIds'') = (rb, required)" by fastforce
  obtain ab accounted where a: "workUnitIds ''ACCOUNTED'' ''accounted'' (js_get w ''accountedWorkUnitIds'') = (ab, accounted)" by fastforce
  have "evaluateWorkGraph w = [] \<longleftrightarrow> rb = [] \<and> ab = [] \<and> set required \<subseteq> set accounted"
    using True by (auto simp: evaluateWorkGraph_def r a filter_empty_conv)
  also have "\<dots> \<longleftrightarrow> (\<exists>r a. (idList (js_get w ''requiredWorkUnitIds'') r \<and> distinct r)
      \<and> (idList (js_get w ''accountedWorkUnitIds'') a \<and> distinct a) \<and> set r \<subseteq> set a)"
  proof (rule two_scans)
    show "rb = [] \<longleftrightarrow> (\<exists>ids. idList (js_get w ''requiredWorkUnitIds'') ids \<and> distinct ids)"
      "ab = [] \<longleftrightarrow> (\<exists>ids. idList (js_get w ''accountedWorkUnitIds'') ids \<and> distinct ids)"
      using workUnitIds_Nil [of "js_get w ''requiredWorkUnitIds''" "''REQUIRED''" "''required''"]
        workUnitIds_Nil [of "js_get w ''accountedWorkUnitIds''" "''ACCOUNTED''" "''accounted''"] True
      by (simp_all add: r a)
    show "idList (js_get w ''requiredWorkUnitIds'') i \<and> distinct i \<Longrightarrow> set required = set i"
      "idList (js_get w ''accountedWorkUnitIds'') i \<and> distinct i \<Longrightarrow> set accounted = set i" for i
      using set_workUnitIds [of "js_get w ''requiredWorkUnitIds''" i "''REQUIRED''" "''required''"]
        set_workUnitIds [of "js_get w ''accountedWorkUnitIds''" i "''ACCOUNTED''" "''accounted''"]
      by (simp_all add: r a)
  qed
  finally show ?thesis using True by (auto simp: workAccounted_def)
next
  case False
  then show ?thesis by (auto simp: evaluateWorkGraph_def workAccounted_def dest: idList_array)
qed

lemma assertionBlockers_Nil:
  "assertionBlockers E k evidence current i = [] \<longleftrightarrow>
     (\<exists>item. filter (\<lambda>x. isRecord x \<and> js_get x ''assertionId'' = JStr i) evidence = [item]
        \<and> js_get item ''status'' = JStr ''PASS'' \<and> boundTo E current (js_get item ''identity''))"
  by (auto simp: assertionBlockers_def Let_def identityMismatchFields_Nil split: list.splits)

lemma evaluateAssertionEvidenceGate_Nil:
  "evaluateAssertionEvidenceGate E k gate current = [] \<longleftrightarrow> evidenceComplete E gate current"
proof (cases "isRecord gate \<and> js_is_array (js_get gate ''requiredAssertionIds'') \<and> js_is_array (js_get gate ''evidence'')")
  case True
  define v where "v = js_get gate ''requiredAssertionIds''"
  define bad where "bad = mkBlocker (gateName k @ ''_REQUIRED_ASSERTION_INVALID'') (gateLower k @ '' required assertion ids must be non-empty strings.'')"
  define covers where "covers i = (assertionBlockers E k (js_items (js_get gate ''evidence'')) current i = [])" for i
  obtain bs required where r: "scanIds bad (\<lambda>_. []) [] (js_items v) = (bs, required)" by fastforce
  have bs: "bs = [] \<longleftrightarrow> (\<exists>ids. idList v ids)"
  proof -
    obtain xs where "v = JArr xs" using True by (auto simp: js_array_items v_def)
    with scanIds_free_Nil [of bad "[]" "js_items v"] arg_cong [OF r, of fst] show ?thesis
      by (simp add: idList_def validIds_def)
  qed
  have req: "set required = set ids" if "idList v ids" for ids
    using scanIds_spec [of bad "\<lambda>_. []" "[]" "js_items v"] idList_ids [OF that] by (simp add: r)
  have "evaluateAssertionEvidenceGate E k gate current = [] \<longleftrightarrow> bs = [] \<and> (\<forall>i \<in> set required. covers i)"
    using True r unfolding evaluateAssertionEvidenceGate_def bad_def v_def covers_def by auto
  also have "\<dots> \<longleftrightarrow> (\<exists>ids. idList v ids \<and> (\<forall>i \<in> set ids. covers i))" using bs req by metis
  finally show ?thesis
    using True by (simp add: evidenceComplete_def covers_def assertionBlockers_Nil v_def)
next
  case False
  then show ?thesis by (auto simp: evaluateAssertionEvidenceGate_def evidenceComplete_def dest: idList_array)
qed

lemma evaluateAcceptance_Nil: "evaluateAcceptance E a current = [] \<longleftrightarrow> acceptedExactly E a current"
proof (cases "isRecord a \<and> js_is_array (js_get a ''requiredAssertionIds'') \<and> js_is_array (js_get a ''coveredAssertionIds'')")
  case True
  obtain rb required where r: "acceptanceIds ''REQUIRED'' ''required'' (js_get a ''requiredAssertionIds'') = (rb, required)" by fastforce
  obtain cb covered where c: "acceptanceIds ''COVERED'' ''covered'' (js_get a ''coveredAssertionIds'') = (cb, covered)" by fastforce
  have "evaluateAcceptance E a current = [] \<longleftrightarrow> js_get a ''disposition'' = JStr ''ACCEPTED''
      \<and> boundTo E current (js_get a ''identity'') \<and> rb = [] \<and> cb = [] \<and> set required = set covered"
    using True by (auto simp: evaluateAcceptance_def r c filter_empty_conv identityMismatchFields_Nil)
  also have "rb = [] \<and> cb = [] \<and> set required = set covered
      \<longleftrightarrow> (\<exists>r c. (idList (js_get a ''requiredAssertionIds'') r \<and> distinct r)
        \<and> (idList (js_get a ''coveredAssertionIds'') c \<and> distinct c) \<and> set r = set c)"
  proof (rule two_scans)
    show "rb = [] \<longleftrightarrow> (\<exists>ids. idList (js_get a ''requiredAssertionIds'') ids \<and> distinct ids)"
      "cb = [] \<longleftrightarrow> (\<exists>ids. idList (js_get a ''coveredAssertionIds'') ids \<and> distinct ids)"
      using acceptanceIds_Nil [of "js_get a ''requiredAssertionIds''" "''REQUIRED''" "''required''"]
        acceptanceIds_Nil [of "js_get a ''coveredAssertionIds''" "''COVERED''" "''covered''"] True
      by (simp_all add: r c)
    show "idList (js_get a ''requiredAssertionIds'') i \<and> distinct i \<Longrightarrow> set required = set i"
      "idList (js_get a ''coveredAssertionIds'') i \<and> distinct i \<Longrightarrow> set covered = set i" for i
      using set_acceptanceIds [of "js_get a ''requiredAssertionIds''" i "''REQUIRED''" "''required''"]
        set_acceptanceIds [of "js_get a ''coveredAssertionIds''" i "''COVERED''" "''covered''"]
      by (simp_all add: r c)
  qed
  finally show ?thesis using True by (auto simp: acceptedExactly_def)
next
  case False
  then show ?thesis by (auto simp: evaluateAcceptance_def acceptedExactly_def Let_def split: prod.splits dest: idList_array)
qed

lemma isRecord_JObj: "isRecord v \<longleftrightarrow> (\<exists>kvs. v = JObj kvs) \<or> v = JExotic ''object''"
  by (cases v) (auto simp: isRecord_def js_is_array_def)

lemma js_boolean: "js_typeof v = ''boolean'' \<Longrightarrow> v = JBool (js_truthy v) \<or> v = JExotic ''boolean''"
  by (cases v) auto

lemma identityBlockers_Nil: "identityBlockers E code label current other = [] \<longleftrightarrow> boundTo E current other"
  by (simp add: identityBlockers_def Let_def identityMismatchFields_Nil)

lemma evaluateCertification_Nil:
  "js_get c ''required'' \<noteq> JExotic ''boolean'' \<Longrightarrow> evaluateCertification E c current = [] \<longleftrightarrow> certified E c current"
  using js_boolean [of "js_get c ''required''"]
  by (auto simp: evaluateCertification_def certified_def identityBlockers_Nil)

lemma evaluateDelivery_Nil:
  "js_get d ''required'' \<noteq> JExotic ''boolean'' \<Longrightarrow> evaluateDelivery E d current = [] \<longleftrightarrow> delivered E d current"
  using js_boolean [of "js_get d ''required''"]
  by (auto simp: evaluateDelivery_def delivered_def identityBlockers_Nil)

lemma findingBlockers_Nil:
  "findingBlockers E current f = [] \<longleftrightarrow> (isRecord f \<and> js_get f ''blocking'' = JBool True \<longrightarrow>
     assertCandidateRevisionV1 E (js_get f ''candidate'') = None
     \<and> \<not> candidateRevisionsEqual E (js_get f ''candidate'') (js_get current ''candidate''))"
  by (auto simp: findingBlockers_def)

lemma evaluateFindings_Nil: "evaluateFindings E fs current = [] \<longleftrightarrow> noBlockingFinding E fs current"
  by (cases fs) (simp_all add: evaluateFindings_def noBlockingFinding_def findingBlockers_Nil js_is_array_def)

lemma participantBlockers_Nil:
  "js_get p ''status'' \<noteq> JExotic ''string'' \<Longrightarrow> participantBlockers p = [] \<longleftrightarrow> isRecord p \<and> (js_get p ''required'' = JBool True \<longrightarrow>
     (\<exists>st \<in> set participantStatuses - set inFlightParticipantStatuses. js_get p ''status'' = JStr st))"
  by (cases "js_get p ''status''") (auto simp: participantBlockers_def Let_def str_of_def)

lemma evaluateParticipants_Nil: "js_wellformed ps \<Longrightarrow> evaluateParticipants ps = [] \<longleftrightarrow> participantsSettled ps"
proof (cases ps)
  case (JArr xs)
  assume "js_wellformed ps"
  then have "js_get p ''status'' \<noteq> JExotic ''string''" if "p \<in> set xs" for p
    using js_wellformed_get [of p "''status''"] js_wellformed_items [of ps p] that by (auto simp: JArr)
  with JArr show ?thesis
    by (simp add: evaluateParticipants_def participantsSettled_def js_is_array_def participantBlockers_Nil)
qed (simp_all add: evaluateParticipants_def participantsSettled_def js_is_array_def)

lemma validateObjectiveIdentity_Nil: "validateObjectiveIdentity E v = [] \<longleftrightarrow> validIdentity E v"
proof (cases "isRecord v \<and> nonEmptyText (js_get v ''operationId'') \<and> assertCandidateRevisionV1 E (js_get v ''candidate'') = None")
  case True
  then obtain s c kvs where "js_get v ''operationId'' = JStr s" "js_get (js_get v ''candidate'') ''operationId'' = JStr c"
      "js_get v ''candidate'' = JObj kvs"
    using get_text_object [of "js_get v ''candidate''" "''operationId''"]
    by (auto simp: nonEmptyText_def assertCandidateRevisionV1_None assertCandidateRevisionInputV1_None split: js.splits)
  with True show ?thesis
    by (auto simp: validateObjectiveIdentity_def validIdentity_def blankText_not isRecord_JObj)
next
  case False
  then show ?thesis by (auto simp: validateObjectiveIdentity_def validIdentity_def blankText_not)
qed

lemma candidateRevisionsEqual_valid:
  "candidateRevisionsEqual E a b \<Longrightarrow> assertCandidateRevisionV1 E a = None \<and> assertCandidateRevisionV1 E b = None"
  by (auto simp: candidateRevisionsEqual_def split: sum.splits)

lemma decide_complete: "oc_complete (decide bs) \<longleftrightarrow> bs = []"
proof -
  have "length (fold (\<lambda>b. AList.update (blockerKey b) b) bs kvs) \<ge> length kvs" for kvs :: "(string \<times> blocker) list"
  proof (induction bs arbitrary: kvs)
    case (Cons b bs)
    have "length (AList.update (blockerKey b) b kvs) \<ge> length kvs" by (induction kvs) auto
    also note Cons.IH [of "AList.update (blockerKey b) b kvs"]
    finally show ?case by simp
  qed simp
  from this [of "AList.update (blockerKey (hd bs)) (hd bs) []"] show ?thesis
    by (cases bs) (auto simp: decide_def Let_def sort_key_Nil_iff)
qed

lemma validIdentity_record: "validIdentity E v \<Longrightarrow> currentIdentity v = v"
  by (simp add: validIdentity_def currentIdentity_def)

lemma objectiveBlockers_Nil:
  assumes "js_wellformed input" "isRecord input"
  shows "objectiveBlockers E input = [] \<longleftrightarrow> objectiveComplete E input"
proof -
  have exotic: "js_get (js_get input k) ''required'' \<noteq> JExotic ''boolean''" for k
    using js_wellformed_get [OF js_wellformed_get [OF assms(1)], of k "''required''"] by auto
  have version: "js_same x (jint 1) \<longleftrightarrow> x = jint 1" for x
    by (cases "(x, jint 1)" rule: js_same.cases) auto
  show ?thesis
  proof (cases "validIdentity E (js_get input ''identity'')")
    case True
    with assms show ?thesis
      unfolding objectiveBlockers_def objectiveComplete_def Let_def validIdentity_record [OF True]
      by (simp add: version validateObjectiveIdentity_Nil validateWorkspaceCandidate_def evaluateWorkGraph_Nil
          evaluateAssertionEvidenceGate_Nil evaluateAcceptance_Nil evaluateCertification_Nil [OF exotic]
          evaluateDelivery_Nil [OF exotic] evaluateFindings_Nil evaluateParticipants_Nil js_wellformed_get
          identityMismatchFields_Nil) (metis candidateRevisionsEqual_valid)
  next
    case False
    then show ?thesis
      by (simp add: objectiveBlockers_def objectiveComplete_def Let_def validateObjectiveIdentity_Nil)
  qed
qed

text \<open>
  C14: The objective completion gate refines its specification. An objective is declared complete exactly when
  its version is 1, its identity is valid, the workspace holds the current candidate, every required work unit
  is accounted for (ids without blanks or repetitions), every required validation and review assertion has
  exactly one evidence item, which passes and is bound to the current identity, the acceptance covers exactly
  the required assertions for this identity, certification and delivery are discharged or not required, no
  blocking finding applies to the current candidate, every required participant has settled, and the terminal
  identity is the current one.
\<close>

theorem evaluateObjectiveCompletionV1_refines:
  assumes "js_wellformed input"
  shows "oc_complete (evaluateObjectiveCompletionV1 E input) \<longleftrightarrow> objectiveComplete E input"
proof (cases "isRecord input")
  case True
  with assms show ?thesis
    by (simp add: evaluateObjectiveCompletionV1_def decide_complete objectiveBlockers_Nil)
next
  case False
  then show ?thesis
    by (simp add: evaluateObjectiveCompletionV1_def decide_complete objectiveComplete_def)
qed

definition sample_identity :: js where
  "sample_identity = JObj [(''operationId'', js_get sample_candidate ''operationId''), (''candidate'', sample_candidate),
     (''policyDigest'', JStr ''p''), (''operationExecutionRevision'', jint 1), (''controllerEpoch'', jint 0)]"

definition sample_gate :: js where
  "sample_gate = JObj [(''requiredAssertionIds'', JArr [JStr ''a'']),
     (''evidence'', JArr [JObj [(''assertionId'', JStr ''a''), (''status'', JStr ''PASS''), (''identity'', sample_identity)]])]"

definition sample_objective :: "bool \<Rightarrow> js" where
  "sample_objective settled = JObj [(''version'', jint 1), (''identity'', sample_identity), (''workspaceCandidate'', sample_candidate),
     (''workGraph'', JObj [(''requiredWorkUnitIds'', JArr [JStr ''w'']), (''accountedWorkUnitIds'', JArr [JStr ''w''])]),
     (''validation'', sample_gate), (''review'', sample_gate),
     (''acceptance'', JObj [(''disposition'', JStr ''ACCEPTED''), (''identity'', sample_identity),
        (''requiredAssertionIds'', JArr [JStr ''a'']), (''coveredAssertionIds'', JArr [JStr ''a''])]),
     (''certification'', JObj [(''required'', JBool False)]),
     (''delivery'', JObj [(''required'', JBool False), (''disposition'', JStr ''NOT_REQUIRED'')]),
     (''findings'', JArr []),
     (''participants'', JArr [JObj [(''id'', JStr ''lead''), (''required'', JBool True),
        (''status'', JStr (if settled then ''COMPLETED'' else ''RUNNING''))]]),
     (''terminalIdentity'', sample_identity)]"

lemma sample_identity_valid: "validIdentity sample_env sample_identity"
proof -
  have "js_get sample_candidate ''operationId'' = js_get sample_input ''operationId''" by code_simp
  then show ?thesis using sample_candidate_valid
    by (auto simp: validIdentity_def sample_identity_def isRecord_JObj nonEmptyText_def sample_input_def
        js_safe_at_least_def safe_int_def max_safe_integer_def js_trim_def js_white_def)
qed

lemma sample_identity_bound: "boundTo sample_env sample_identity sample_identity"
  using sample_identity_valid candidateRevisionsEqual_refl
  by (auto simp: validIdentity_def boundTo_def nonEmptyText_def sample_identity_def split: js.splits)

lemma wellformed_candidate: "js_wellformed sample_candidate"
  by code_simp

lemma sample_objective_wellformed: "js_wellformed (sample_objective settled)"
  using wellformed_candidate js_wellformed_get [OF wellformed_candidate, of "''operationId''"]
  by (simp add: sample_objective_def sample_identity_def sample_gate_def)

lemma sample_parts:
  "workAccounted (js_get (sample_objective b) ''workGraph'')"
  "evidenceComplete sample_env sample_gate sample_identity"
  "acceptedExactly sample_env (js_get (sample_objective b) ''acceptance'') sample_identity"
proof -
  have ids: "idList (JArr [JStr [c]]) [[c]]" if "\<not> js_white c" for c
    using that by (simp add: idList_def js_trim_def)
  have a: "idList (JArr [JStr ''a'']) [''a'']" and w: "idList (JArr [JStr ''w'']) [''w'']"
    by (rule ids; simp add: js_white_def)+
  show "workAccounted (js_get (sample_objective b) ''workGraph'')"
    unfolding workAccounted_def sample_objective_def using w
    by (auto simp: isRecord_JObj intro!: exI [of _ "[''w'']"])
  show "evidenceComplete sample_env sample_gate sample_identity"
    unfolding evidenceComplete_def sample_gate_def using a sample_identity_bound
    by (auto simp: isRecord_JObj js_is_array_def)
  show "acceptedExactly sample_env (js_get (sample_objective b) ''acceptance'') sample_identity"
    unfolding acceptedExactly_def sample_objective_def using a sample_identity_bound
    by (auto simp: isRecord_JObj intro!: exI [of _ "[''a'']"])
qed

lemma sample_objective_complete: "objectiveComplete sample_env (sample_objective settled) \<longleftrightarrow> settled"
  using sample_parts sample_identity_valid sample_identity_bound candidateRevisionsEqual_refl [OF sample_candidate_valid]
  by (simp add: objectiveComplete_def Let_def sample_objective_def isRecord_JObj certified_def delivered_def noBlockingFinding_def
      participantsSettled_def participantStatuses_def inFlightParticipantStatuses_def) (simp add: sample_identity_def)

theorem evaluateObjectiveCompletionV1_refines_witness:
  "oc_complete (evaluateObjectiveCompletionV1 sample_env (sample_objective True))
   \<and> \<not> oc_complete (evaluateObjectiveCompletionV1 sample_env (sample_objective False))"
  using evaluateObjectiveCompletionV1_refines [OF sample_objective_wellformed] sample_objective_complete by simp

end
