(* ===== verification/AuthorityV2.thy ===== *)
theory AuthorityV2
  imports CandidateContracts Machine
begin

text \<open>
  Capability leases (\<open>src/src/security/authorityV2.ts\<close>). A permission request is a run-time value that is
  checked before it is trusted; the context and the parent lease it carries are typed by the compiler, so
  reading their fields does not fail. A lease bounds what its holder may hand on: the main result is that
  authority only shrinks along a chain of leases.
\<close>

datatype AuthorityDecisionCodeV1 =
    INVALID_REQUEST
  | EXPIRED
  | OPERATION_MISMATCH
  | CANDIDATE_MISMATCH
  | PROJECT_MISMATCH
  | PARENT_LEASE_REQUIRED
  | PARENT_LEASE_MISMATCH
  | AUTHORITY_ESCALATION
  | CAPABILITY_ESCALATION
  | SCOPE_ESCALATION

definition codeText :: "AuthorityDecisionCodeV1 \<Rightarrow> string" where
  "codeText c = (case c of
       INVALID_REQUEST \<Rightarrow> ''INVALID_REQUEST'' | EXPIRED \<Rightarrow> ''EXPIRED'' | OPERATION_MISMATCH \<Rightarrow> ''OPERATION_MISMATCH''
     | CANDIDATE_MISMATCH \<Rightarrow> ''CANDIDATE_MISMATCH'' | PROJECT_MISMATCH \<Rightarrow> ''PROJECT_MISMATCH''
     | PARENT_LEASE_REQUIRED \<Rightarrow> ''PARENT_LEASE_REQUIRED'' | PARENT_LEASE_MISMATCH \<Rightarrow> ''PARENT_LEASE_MISMATCH''
     | AUTHORITY_ESCALATION \<Rightarrow> ''AUTHORITY_ESCALATION'' | CAPABILITY_ESCALATION \<Rightarrow> ''CAPABILITY_ESCALATION''
     | SCOPE_ESCALATION \<Rightarrow> ''SCOPE_ESCALATION'')"

type_synonym authority_reason = "AuthorityDecisionCodeV1 \<times> string"

record AuthorityDecisionV1 =
  ad_allowed :: bool
  ad_reasons :: "authority_reason list"
  ad_lease :: "js option"

datatype context_now = NowText string | NowDate "int option" | NowUnset

record AuthorityEvaluationContextV1 =
  cx_operationId :: js
  cx_projectId :: js
  cx_candidate :: js
  cx_now :: context_now
  cx_parentLease :: "js option"

datatype authority_error =
    AuthorityInvalidNow
  | AuthorityTypeError
  | AuthorityMalformed
  | AuthorityCandidate contract_error
  | AuthorityDenied "AuthorityDecisionCodeV1 list"

definition MAX_ROOT_AUTHORITY_LEVEL :: int where
  "MAX_ROOT_AUTHORITY_LEVEL = 100"

definition CAPABILITY_NAMES :: "string list" where
  "CAPABILITY_NAMES = [''read'', ''write'', ''execute'', ''network'', ''spawn'', ''delegate'']"

definition isCapabilityName :: "js \<Rightarrow> bool" where
  "isCapabilityName v = (case v of JStr s \<Rightarrow> s \<in> set CAPABILITY_NAMES | _ \<Rightarrow> False)"

text \<open>The instant of the decision as text; \<open>clock\<close> is \<open>Date.now()\<close>.\<close>

definition nowIso :: "js_env \<Rightarrow> int \<Rightarrow> context_now \<Rightarrow> authority_error + string" where
  "nowIso E clock n =
     (case (case n of NowText s \<Rightarrow> date_parse E s | NowDate t \<Rightarrow> Option.bind t timeClip | NowUnset \<Rightarrow> timeClip clock) of
        None \<Rightarrow> Inl AuthorityInvalidNow
      | Some t \<Rightarrow> Inr (to_iso E t))"

definition capabilityName :: "js \<Rightarrow> js option" where
  "capabilityName v =
     (let name = (if js_typeof v = ''string'' then v else if js_is_object v then js_get v ''capability'' else JUndefined)
      in if isCapabilityName name then Some name else None)"

text \<open>\<open>key in value\<close>.\<close>

definition js_in :: "string \<Rightarrow> js \<Rightarrow> bool" where
  "js_in k v \<longleftrightarrow> k \<in> set (map fst (own_entries v))"

definition scopeKeys :: "string list" where
  "scopeKeys = [''paths'', ''commands'', ''hosts'', ''roles'']"

definition capabilityScope :: "js \<Rightarrow> js" where
  "capabilityScope v = (if js_typeof v = ''string'' then JUndefined
     else case List.find (\<lambda>k. js_in k v) scopeKeys of Some k \<Rightarrow> js_get v k | None \<Rightarrow> JUndefined)"

text \<open>\<open>[...new Set(values)].sort()\<close>, which orders by text.\<close>

definition uniqueSorted :: "js list \<Rightarrow> js list" where
  "uniqueSorted vs = sort_key js_string (js_uniq vs)"

text \<open>The elements a \<open>Set\<close> is built from; \<open>None\<close> is the type error of a value that is not iterable.\<close>

fun iterated :: "js \<Rightarrow> js list option" where
  "iterated (JArr xs) = Some xs"
| "iterated (JStr s) = Some (map (\<lambda>c. JStr [c]) s)"
| "iterated JUndefined = Some []"
| "iterated JNull = Some []"
| "iterated _ = None"

definition js_primitive :: "js \<Rightarrow> bool" where
  "js_primitive v = (case v of JArr _ \<Rightarrow> False | JObj _ \<Rightarrow> False | JExotic _ \<Rightarrow> False | _ \<Rightarrow> True)"

text \<open>\<open>new Set(xs).has(v)\<close>: objects are compared by reference, so a value read separately is not found.\<close>

definition js_set_has :: "js list \<Rightarrow> js \<Rightarrow> bool" where
  "js_set_has xs v \<longleftrightarrow> js_primitive v \<and> v \<in> set xs"

definition scopeWithin :: "js \<Rightarrow> js \<Rightarrow> authority_error + bool" where
  "scopeWithin child parent =
     (if \<not> js_truthy parent then Inr True
      else if \<not> js_truthy child then Inr False
      else case iterated parent of None \<Rightarrow> Inl AuthorityTypeError | Some allowed \<Rightarrow>
        (case child of JArr xs \<Rightarrow> Inr (list_all (js_set_has allowed) xs) | _ \<Rightarrow> Inl AuthorityTypeError))"

definition validEnvelope :: "js \<Rightarrow> bool" where
  "validEnvelope v \<longleftrightarrow> js_is_object v \<and> js_get v ''version'' = jint 1
     \<and> js_safe_at_least 0 (js_get v ''level'') \<and> int_of (js_get v ''level'') \<le> MAX_ROOT_AUTHORITY_LEVEL
     \<and> js_is_array (js_get v ''capabilities'') \<and> js_items (js_get v ''capabilities'') \<noteq> []
     \<and> list_all isCapabilityName (js_items (js_get v ''capabilities''))"

text \<open>\<open>child.level > parent.level\<close>, where both are numbers of a lease.\<close>

definition levelAbove :: "js \<Rightarrow> js \<Rightarrow> bool" where
  "levelAbove c p = (case (js_int c, js_int p) of (Some m, Some n) \<Rightarrow> m > n | _ \<Rightarrow> False)"

definition envelopeWithin :: "js \<Rightarrow> js \<Rightarrow> js \<Rightarrow> js \<Rightarrow> authority_error + AuthorityDecisionCodeV1 option" where
  "envelopeWithin child parent capability scope =
     (if levelAbove (js_get child ''level'') (js_get parent ''level'') then Inr (Some AUTHORITY_ESCALATION)
      else let parentCapabilities = js_items (js_get parent ''capabilities'') in
        if \<not> js_set_has parentCapabilities capability
           \<or> list_ex (\<lambda>c. \<not> js_set_has parentCapabilities c) (js_items (js_get child ''capabilities''))
        then Inr (Some CAPABILITY_ESCALATION)
        else (case scopeWithin (js_coalesce scope (js_get child ''scope'')) (js_get parent ''scope'') of
                Inl e \<Rightarrow> Inl e
              | Inr within \<Rightarrow> Inr (if within then None else Some SCOPE_ESCALATION)))"

definition validCapability :: "js \<Rightarrow> bool" where
  "validCapability v =
     (if js_typeof v = ''string'' then isCapabilityName v
      else js_is_object v \<and> capabilityName v \<noteq> None
        \<and> (case List.find (\<lambda>k. js_in k v) scopeKeys of Some k \<Rightarrow> js_is_array (js_get v k) | None \<Rightarrow> True))"

definition invalidRequest :: "js \<Rightarrow> bool" where
  "invalidRequest v \<longleftrightarrow> \<not> js_is_object v \<or> js_get v ''version'' \<noteq> jint 1 \<or> \<not> js_truthy (js_get v ''requestId'')
     \<or> \<not> js_truthy (js_get v ''operationId'') \<or> \<not> js_truthy (js_get v ''participantId'') \<or> \<not> js_truthy (js_get v ''candidate'')
     \<or> \<not> validEnvelope (js_get v ''requestedEnvelope'') \<or> \<not> validCapability (js_get v ''capability'')
     \<or> \<not> js_truthy (js_get v ''requestedAt'') \<or> \<not> js_truthy (js_get v ''expiresAt'')"

definition assertAuthorityEnvelopeV1 :: "js \<Rightarrow> authority_error option" where
  "assertAuthorityEnvelopeV1 v = (if validEnvelope v then None else Some AuthorityMalformed)"

definition assertPermissionRequestV1 :: "js_env \<Rightarrow> js \<Rightarrow> authority_error option" where
  "assertPermissionRequestV1 E v = (if invalidRequest v then Some AuthorityMalformed
     else map_option AuthorityCandidate (assertCandidateRevisionV1 E (js_get v ''candidate'')))"

definition isMonotonicEnvelope :: "js \<Rightarrow> js \<Rightarrow> js \<Rightarrow> js \<Rightarrow> authority_error + bool" where
  "isMonotonicEnvelope child parent capability scope =
     map_sum id (\<lambda>c. c = None) (envelopeWithin child parent capability scope)"

subsection \<open>Evaluating a request\<close>

text \<open>\<open>a <= b\<close> and \<open>a > b\<close> on time values, false when one is NaN.\<close>

definition timeLe :: "int option \<Rightarrow> int option \<Rightarrow> bool" where
  "timeLe a b = (case (a, b) of (Some x, Some y) \<Rightarrow> x \<le> y | _ \<Rightarrow> False)"

definition timeGt :: "int option \<Rightarrow> int option \<Rightarrow> bool" where
  "timeGt a b = (case (a, b) of (Some x, Some y) \<Rightarrow> x > y | _ \<Rightarrow> False)"

definition bindingFailures :: "js_env \<Rightarrow> js \<Rightarrow> AuthorityEvaluationContextV1 \<Rightarrow> authority_reason list" where
  "bindingFailures E v cx =
     failIf (assertCandidateRevisionV1 E (js_get v ''candidate'') \<noteq> None \<or> assertCandidateRevisionV1 E (cx_candidate cx) \<noteq> None)
       (CANDIDATE_MISMATCH, ''request or context has an invalid candidate binding.'')
   @ failIf (\<not> js_same (js_get v ''operationId'') (cx_operationId cx))
       (OPERATION_MISMATCH, ''permission request belongs to a different operation.'')
   @ failIf (js_truthy (cx_projectId cx) \<and> js_truthy (js_get v ''projectId'') \<and> \<not> js_same (js_get v ''projectId'') (cx_projectId cx))
       (PROJECT_MISMATCH, ''permission request belongs to a different project.'')
   @ failIf (js_truthy (js_get (js_get v ''candidate'') ''projectId'') \<and> js_truthy (cx_projectId cx)
         \<and> \<not> js_same (js_get (js_get v ''candidate'') ''projectId'') (cx_projectId cx))
       (PROJECT_MISMATCH, ''candidate project identity does not match the authority context.'')
   @ failIf (\<not> candidateRevisionsEqual E (js_get v ''candidate'') (cx_candidate cx))
       (CANDIDATE_MISMATCH, ''permission request is bound to a stale or different candidate.'')"

definition intervalFailures :: "js_env \<Rightarrow> js \<Rightarrow> int option \<Rightarrow> authority_reason list" where
  "intervalFailures E v now =
     (let expiresAt = dateTime E (js_get v ''expiresAt''); requestedAt = dateTime E (js_get v ''requestedAt'') in
      failIf (expiresAt = None \<or> requestedAt = None \<or> timeLe expiresAt now \<or> timeLe expiresAt requestedAt)
        (EXPIRED, ''permission request is expired or has an invalid interval.''))"

definition parentFailures ::
  "js_env \<Rightarrow> js \<Rightarrow> AuthorityEvaluationContextV1 \<Rightarrow> int option \<Rightarrow> js option \<Rightarrow> js \<Rightarrow> js \<Rightarrow> authority_error + authority_reason list" where
  "parentFailures E v cx now name scope parent =
     (case (case name of None \<Rightarrow> Inr None
            | Some n \<Rightarrow> envelopeWithin (js_get v ''requestedEnvelope'') (js_get parent ''envelope'') n scope) of
        Inl e \<Rightarrow> Inl e
      | Inr escalation \<Rightarrow> Inr (
          failIf (\<not> js_same (js_get parent ''operationId'') (cx_operationId cx)
              \<or> \<not> candidateRevisionsEqual E (js_get parent ''candidate'') (cx_candidate cx))
            (PARENT_LEASE_MISMATCH, ''parent lease belongs to a different operation or candidate.'')
        @ failIf (timeLe (dateTime E (js_get parent ''expiresAt'')) now)
            (EXPIRED, ''parent capability lease has expired.'')
        @ (case escalation of None \<Rightarrow> []
           | Some code \<Rightarrow> [(code, ''requested authority is not monotonic within the parent lease ('' @ codeText code @ '').'')])
        @ failIf (timeGt (dateTime E (js_get v ''expiresAt'')) (dateTime E (js_get parent ''expiresAt'')))
            (EXPIRED, ''child lease cannot outlive its parent lease.'')))"

definition capabilityFailures :: "js \<Rightarrow> AuthorityEvaluationContextV1 \<Rightarrow> js option \<Rightarrow> authority_reason list" where
  "capabilityFailures v cx name =
     failIf (case name of None \<Rightarrow> True
             | Some n \<Rightarrow> n \<notin> set (js_items (js_get (js_get v ''requestedEnvelope'') ''capabilities'')))
       (CAPABILITY_ESCALATION, ''requested capability is not represented by the requested envelope.'')
   @ failIf (js_truthy (js_get v ''parentLeaseId'') \<and>
         (case cx_parentLease cx of None \<Rightarrow> True | Some p \<Rightarrow> \<not> js_same (js_get p ''leaseId'') (js_get v ''parentLeaseId'')))
       (PARENT_LEASE_MISMATCH, ''parent lease identity does not match the authority context.'')"

definition rootFailures :: "js \<Rightarrow> authority_reason list" where
  "rootFailures v =
     (if js_truthy (js_get v ''parentLeaseId'')
      then [(PARENT_LEASE_REQUIRED, ''a referenced parent lease must be supplied.'')]
      else failIf (int_of (js_get (js_get v ''requestedEnvelope'') ''level'') > MAX_ROOT_AUTHORITY_LEVEL)
             (AUTHORITY_ESCALATION, ''root authority exceeds the configured envelope ceiling.''))"

definition evaluatePermissionRequest ::
  "js_env \<Rightarrow> int \<Rightarrow> js \<Rightarrow> AuthorityEvaluationContextV1 \<Rightarrow> authority_error + AuthorityDecisionV1" where
  "evaluatePermissionRequest E clock v cx =
     (if invalidRequest v
      then Inr \<lparr>ad_allowed = False, ad_reasons = [(INVALID_REQUEST, ''permission request is malformed.'')], ad_lease = None\<rparr>
      else case nowIso E clock (cx_now cx) of Inl e \<Rightarrow> Inl e
      | Inr stamp \<Rightarrow>
        (let now = date_parse E stamp; name = capabilityName (js_get v ''capability''); scope = capabilityScope (js_get v ''capability'') in
         case (case cx_parentLease cx of None \<Rightarrow> Inr (rootFailures v) | Some p \<Rightarrow> parentFailures E v cx now name scope p) of
           Inl e \<Rightarrow> Inl e
         | Inr parental \<Rightarrow>
            (let failures = bindingFailures E v cx @ intervalFailures E v now @ capabilityFailures v cx name @ parental in
             Inr \<lparr>ad_allowed = (failures = []), ad_reasons = failures, ad_lease = None\<rparr>)))"

subsection \<open>Issuing a lease\<close>

definition leaseEnvelope :: "js \<Rightarrow> js" where
  "leaseEnvelope v =
     (let requested = js_get v ''requestedEnvelope''; scope = capabilityScope (js_get v ''capability'');
          base = AList.update ''capabilities'' (JArr (uniqueSorted (js_items (js_get requested ''capabilities'')))) (own_entries requested)
      in JObj (if js_truthy scope then AList.update ''scope'' (JArr (uniqueSorted (js_items scope))) base else base))"

definition newCapabilityLease :: "js_env \<Rightarrow> js \<Rightarrow> js \<Rightarrow> string \<Rightarrow> string \<Rightarrow> js" where
  "newCapabilityLease E v name stamp expires = JObj (
     [(''version'', jint 1),
      (''leaseId'', JStr (''lease:'' @ js_string (js_get v ''operationId'') @ '':'' @ js_string (js_get v ''requestId''))),
      (''requestId'', js_get v ''requestId''), (''operationId'', js_get v ''operationId''), (''participantId'', js_get v ''participantId'')]
     @ optEntry v ''projectId''
     @ [(''candidate'', js_get v ''candidate''), (''capability'', name), (''envelope'', leaseEnvelope v),
        (''issuedAt'', JStr stamp), (''expiresAt'', JStr expires)]
     @ optEntry v ''parentLeaseId'')"

definition issueCapabilityLease ::
  "js_env \<Rightarrow> int \<Rightarrow> js \<Rightarrow> AuthorityEvaluationContextV1 \<Rightarrow> authority_error + AuthorityDecisionV1" where
  "issueCapabilityLease E clock v cx =
     (case evaluatePermissionRequest E clock v cx of Inl e \<Rightarrow> Inl e
      | Inr decision \<Rightarrow>
         if \<not> ad_allowed decision then Inr decision
         else (case (capabilityName (js_get v ''capability''), nowIso E clock (cx_now cx), isoTime E (js_get v ''expiresAt'')) of
             (Some name, Inr stamp, Inr expires) \<Rightarrow>
               Inr \<lparr>ad_allowed = True, ad_reasons = [], ad_lease = Some (newCapabilityLease E v name stamp expires)\<rparr>
           | _ \<Rightarrow> Inl AuthorityInvalidNow))"

definition createCapabilityLease :: "js_env \<Rightarrow> int \<Rightarrow> js \<Rightarrow> AuthorityEvaluationContextV1 \<Rightarrow> authority_error + js" where
  "createCapabilityLease E clock v cx =
     (case issueCapabilityLease E clock v cx of Inl e \<Rightarrow> Inl e
      | Inr decision \<Rightarrow> (case ad_lease decision of
            Some lease \<Rightarrow> if ad_allowed decision then Inr lease else Inl (AuthorityDenied (map fst (ad_reasons decision)))
          | None \<Rightarrow> Inl (AuthorityDenied (map fst (ad_reasons decision)))))"

subsection \<open>Authority only shrinks\<close>

text \<open>
  What a lease allows: its level, its capabilities, its scope (none means unrestricted) and how long it lasts.
  A lease is below another when it allows no more, for the same operation and candidate.
\<close>

definition leaseCapabilities :: "js \<Rightarrow> js set" where
  "leaseCapabilities l = set (js_items (js_get (js_get l ''envelope'') ''capabilities''))"

definition leaseScope :: "js \<Rightarrow> js" where
  "leaseScope l = js_get (js_get l ''envelope'') ''scope''"

definition leaseLevel :: "js \<Rightarrow> int option" where
  "leaseLevel l = js_int (js_get (js_get l ''envelope'') ''level'')"

definition leaseExpiry :: "js_env \<Rightarrow> js \<Rightarrow> int option" where
  "leaseExpiry E l = dateTime E (js_get l ''expiresAt'')"

text \<open>A bound that is present in the parent is present in the child and no larger; likewise for the scope.\<close>

definition boundLe :: "int option \<Rightarrow> int option \<Rightarrow> bool" where
  "boundLe c p \<longleftrightarrow> (\<forall>n. p = Some n \<longrightarrow> (\<exists>m \<le> n. c = Some m))"

definition scopeLe :: "js \<Rightarrow> js \<Rightarrow> bool" where
  "scopeLe c p \<longleftrightarrow> (\<forall>xs. p = JArr xs \<longrightarrow> (\<exists>ys. c = JArr ys \<and> set ys \<subseteq> set xs))"

definition leaseBelow :: "js_env \<Rightarrow> js \<Rightarrow> js \<Rightarrow> bool" where
  "leaseBelow E c p \<longleftrightarrow>
     js_get c ''operationId'' = js_get p ''operationId''
   \<and> js_get (js_get c ''candidate'') ''identityDigest'' = js_get (js_get p ''candidate'') ''identityDigest''
   \<and> boundLe (leaseLevel c) (leaseLevel p) \<and> leaseCapabilities c \<subseteq> leaseCapabilities p
   \<and> scopeLe (leaseScope c) (leaseScope p) \<and> boundLe (leaseExpiry E c) (leaseExpiry E p)"

lemma boundLe_refl: "boundLe a a" and boundLe_trans: "boundLe a b \<Longrightarrow> boundLe b c \<Longrightarrow> boundLe a c"
  by (force simp: boundLe_def)+

lemma scopeLe_refl: "scopeLe a a" and scopeLe_trans: "scopeLe a b \<Longrightarrow> scopeLe b c \<Longrightarrow> scopeLe a c"
  by (fastforce simp: scopeLe_def)+

lemma leaseBelow_refl: "leaseBelow E l l"
  by (simp add: leaseBelow_def boundLe_refl scopeLe_refl)

lemma leaseBelow_trans: "leaseBelow E a b \<Longrightarrow> leaseBelow E b c \<Longrightarrow> leaseBelow E a c"
  unfolding leaseBelow_def by (auto intro: boundLe_trans scopeLe_trans)

text \<open>A step hands authority on: a lease is issued under the parent lease, at the time of the step.\<close>

inductive delegates :: "js_env \<Rightarrow> int \<Rightarrow> js \<Rightarrow> js \<Rightarrow> bool" for E where
  issue: "cx_parentLease cx = Some parent \<Longrightarrow> createCapabilityLease E t v cx = Inr child \<Longrightarrow> delegates E t parent child"

inductive_cases delegatesE: "delegates E t parent child"

text \<open>The platform's documented round trip between \<open>toISOString\<close> and the date parser.\<close>

definition iso_faithful :: "js_env \<Rightarrow> bool" where
  "iso_faithful E \<longleftrightarrow> (\<forall>t. timeClip t = Some t \<longrightarrow> date_parse E (to_iso E t) = Some t)
     \<and> (\<forall>s t. date_parse E s = Some t \<longrightarrow> timeClip t = Some t)"

lemma createCapabilityLease_Inr:
  assumes "createCapabilityLease E t v cx = Inr l"
  obtains stamp name expires where
    "\<not> invalidRequest v" "nowIso E t (cx_now cx) = Inr stamp" "capabilityName (js_get v ''capability'') = Some name"
    "isoTime E (js_get v ''expiresAt'') = Inr expires" "l = newCapabilityLease E v name stamp expires"
    "bindingFailures E v cx = []" "intervalFailures E v (date_parse E stamp) = []" "capabilityFailures v cx (Some name) = []"
    "(case cx_parentLease cx of None \<Rightarrow> Inr (rootFailures v)
      | Some p \<Rightarrow> parentFailures E v cx (date_parse E stamp) (Some name) (capabilityScope (js_get v ''capability'')) p) = Inr []"
  using assms
  by (auto simp: createCapabilityLease_def issueCapabilityLease_def evaluatePermissionRequest_def Let_def
      split: sum.splits option.splits if_splits)

lemma newCapabilityLease_get:
  "js_get (newCapabilityLease E v name stamp expires) ''operationId'' = js_get v ''operationId''"
  "js_get (newCapabilityLease E v name stamp expires) ''candidate'' = js_get v ''candidate''"
  "js_get (newCapabilityLease E v name stamp expires) ''envelope'' = leaseEnvelope v"
  "js_get (newCapabilityLease E v name stamp expires) ''expiresAt'' = JStr expires"
  "js_get (newCapabilityLease E v name stamp expires) ''capability'' = name"
  by (auto simp: newCapabilityLease_def map_add_def optEntry_def split: option.splits)

lemma leaseEnvelope_get:
  "js_get (leaseEnvelope v) ''level'' = js_get (js_get v ''requestedEnvelope'') ''level''"
  "js_items (js_get (leaseEnvelope v) ''capabilities'')
     = uniqueSorted (js_items (js_get (js_get v ''requestedEnvelope'') ''capabilities''))"
  "js_get (leaseEnvelope v) ''scope'' =
     (if js_truthy (capabilityScope (js_get v ''capability''))
      then JArr (uniqueSorted (js_items (capabilityScope (js_get v ''capability''))))
      else js_get (js_get v ''requestedEnvelope'') ''scope'')"
  by (cases "js_get v ''requestedEnvelope''"; auto simp: leaseEnvelope_def Let_def own_entries_def)+

lemma set_uniqueSorted [simp]: "set (uniqueSorted vs) = set vs"
  by (simp add: uniqueSorted_def)

lemma uniqueSorted_Nil [simp]: "uniqueSorted vs = [] \<longleftrightarrow> vs = []"
  by (metis set_empty set_uniqueSorted)

lemma parentFailures_Nil:
  assumes "parentFailures E v cx now (Some n) scope p = Inr []"
  shows "envelopeWithin (js_get v ''requestedEnvelope'') (js_get p ''envelope'') n scope = Inr None"
    and "js_get p ''operationId'' = cx_operationId cx" "candidateRevisionsEqual E (js_get p ''candidate'') (cx_candidate cx)"
    and "\<not> timeGt (dateTime E (js_get v ''expiresAt'')) (dateTime E (js_get p ''expiresAt''))"
    and "\<not> timeLe (dateTime E (js_get p ''expiresAt'')) now"
  using assms by (auto simp: parentFailures_def split: sum.splits option.splits dest: js_same_eq)

lemma envelopeWithin_None:
  assumes "envelopeWithin child parent capability scope = Inr None"
  shows "\<not> levelAbove (js_get child ''level'') (js_get parent ''level'')"
    and "set (js_items (js_get child ''capabilities'')) \<subseteq> set (js_items (js_get parent ''capabilities''))"
    and "scopeWithin (js_coalesce scope (js_get child ''scope'')) (js_get parent ''scope'') = Inr True"
  using assms by (auto simp: envelopeWithin_def Let_def list_ex_iff js_set_has_def split: if_splits sum.splits)

lemma isoTime_dateTime:
  assumes "iso_faithful E" "isoTime E v = Inr s"
  shows "dateTime E (JStr s) = dateTime E v"
proof -
  from assms(2) obtain t where t: "dateTime E v = Some t" "s = to_iso E t"
    by (auto simp: isoTime_def split: option.splits)
  have "timeClip t = Some t"
    using t(1) assms(1) by (auto simp: dateTime_def iso_faithful_def timeClip_def bind_eq_Some_conv split: js.splits js_num.splits if_splits)
  with t assms(1) show ?thesis by (simp add: dateTime_def iso_faithful_def)
qed

lemma capabilityScope_array:
  assumes "validCapability v"
  shows "capabilityScope v = JUndefined \<or> js_is_array (capabilityScope v)"
  using assms by (auto simp: capabilityScope_def validCapability_def split: option.splits)

lemma scopeWithin_array:
  "scopeWithin c (JArr xs) = Inr True \<Longrightarrow> \<exists>ys. c = JArr ys \<and> set ys \<subseteq> set xs"
  by (auto simp: scopeWithin_def js_set_has_def list_all_iff split: if_splits js.splits)

lemma leaseScope_issued:
  assumes "validCapability (js_get v ''capability'')"
    and "scopeWithin (js_coalesce (capabilityScope (js_get v ''capability'')) (js_get (js_get v ''requestedEnvelope'') ''scope'')) p = Inr True"
  shows "scopeLe (js_get (leaseEnvelope v) ''scope'') p"
proof -
  have "capabilityScope (js_get v ''capability'') = JUndefined \<or> (\<exists>zs. capabilityScope (js_get v ''capability'') = JArr zs)"
    using capabilityScope_array [OF assms(1)] by (auto simp: js_is_array_def split: js.splits)
  with assms(2) show ?thesis
    by (auto simp: scopeLe_def leaseEnvelope_get js_coalesce_def js_nullish_def dest!: scopeWithin_array)
qed

lemma delegates_below:
  assumes "iso_faithful E" "delegates E t parent child"
  shows "leaseBelow E child parent"
  using assms(2)
proof (cases rule: delegates.cases)
  case (issue cx v)
  obtain stamp name expires where l: "\<not> invalidRequest v" "isoTime E (js_get v ''expiresAt'') = Inr expires"
      "child = newCapabilityLease E v name stamp expires" "bindingFailures E v cx = []"
      and parental: "(case cx_parentLease cx of None \<Rightarrow> Inr (rootFailures v) | Some p \<Rightarrow>
        parentFailures E v cx (date_parse E stamp) (Some name) (capabilityScope (js_get v ''capability'')) p) = Inr []"
    by (rule createCapabilityLease_Inr [OF issue(2)])
  from parental have p: "parentFailures E v cx (date_parse E stamp) (Some name) (capabilityScope (js_get v ''capability'')) parent = Inr []"
    by (simp add: issue(1))
  note parent = parentFailures_Nil [OF p] and within = envelopeWithin_None [OF parentFailures_Nil(1) [OF p]]
  from l(4) have b: "js_get v ''operationId'' = cx_operationId cx" "candidateRevisionsEqual E (js_get v ''candidate'') (cx_candidate cx)"
    by (auto simp: bindingFailures_def dest: js_same_eq)
  have dates: "dateTime E (JStr expires) = dateTime E (js_get v ''expiresAt'')" "dateTime E (JStr expires) \<noteq> None"
    using isoTime_dateTime [OF assms(1) l(2)] l(2) by (auto simp: isoTime_def split: option.splits)
  from l(1) have valid: "validCapability (js_get v ''capability'')" "js_int (js_get (js_get v ''requestedEnvelope'') ''level'') \<noteq> None"
    by (auto simp: invalidRequest_def validEnvelope_def elim: js_safe_at_leastE)
  show ?thesis
    unfolding leaseBelow_def leaseLevel_def leaseCapabilities_def leaseScope_def leaseExpiry_def l(3) newCapabilityLease_get
  proof (intro conjI)
    show "js_get v ''operationId'' = js_get parent ''operationId''" using b(1) parent(2) by simp
    show "js_get (js_get v ''candidate'') ''identityDigest'' = js_get (js_get parent ''candidate'') ''identityDigest''"
      using b(2) parent(3) by (auto simp: candidateRevisionsEqual_def dest!: js_same_eq)
    show "boundLe (js_int (js_get (leaseEnvelope v) ''level'')) (js_int (js_get (js_get parent ''envelope'') ''level''))"
      using within(1) valid(2) by (auto simp: boundLe_def levelAbove_def leaseEnvelope_get split: option.splits)
    show "set (js_items (js_get (leaseEnvelope v) ''capabilities'')) \<subseteq> set (js_items (js_get (js_get parent ''envelope'') ''capabilities''))"
      using within(2) by (simp add: leaseEnvelope_get)
    show "scopeLe (js_get (leaseEnvelope v) ''scope'') (js_get (js_get parent ''envelope'') ''scope'')"
      using leaseScope_issued [OF valid(1) within(3)] .
    show "boundLe (dateTime E (JStr expires)) (dateTime E (js_get parent ''expiresAt''))"
      using dates parent(4) by (auto simp: boundLe_def timeGt_def split: option.splits)
  qed
qed

text \<open>The contract of a machine that only attenuates, for the platforms whose dates round trip.\<close>

definition faithfulDelegates :: "js_env \<Rightarrow> int \<Rightarrow> js \<Rightarrow> js \<Rightarrow> bool" where
  "faithfulDelegates E t parent child \<longleftrightarrow> iso_faithful E \<and> delegates E t parent child"

interpretation leases: attenuating_machine "faithfulDelegates E" "leaseBelow E" for E
  by unfold_locales (auto simp: faithfulDelegates_def intro: delegates_below leaseBelow_refl leaseBelow_trans)

lemma faithful_run: "run (delegates E) t s t' s' \<Longrightarrow> iso_faithful E \<Longrightarrow> run (faithfulDelegates E) t s t' s'"
  by (induction rule: run.induct) (auto intro: run.intros simp: faithfulDelegates_def)

text \<open>
  C8: Authority never grows along a chain of leases. Whatever requests are made, at whatever times and in
  whatever contexts, a lease reached from another by issuing leases under leases belongs to the same operation
  and candidate, has a level that is no higher, only capabilities of the first one, a scope inside its scope,
  and does not outlive it.
\<close>

theorem lease_chain_attenuates:
  assumes "iso_faithful E" "run (delegates E) t ancestor t' descendant"
  shows "leaseBelow E descendant ancestor"
  using leases.run_below [OF faithful_run [OF assms(2,1)]] .

text \<open>A platform that prints a time value as a decimal number.\<close>

definition decimal_env :: js_env where
  "decimal_env = \<lparr>sha256 = (\<lambda>s. replicate 64 (CHR ''a'')),
     date_parse = (\<lambda>s. case s of [] \<Rightarrow> None
       | c # ds \<Rightarrow> timeClip (if c = CHR ''-'' then - digitsValue ds else digitsValue s)),
     to_iso = int_text\<rparr>"

lemma decimal_env_faithful: "iso_faithful decimal_env"
proof -
  have clip: "timeClip n = Some t \<Longrightarrow> timeClip t = Some t" for n t by (auto simp: timeClip_def split: if_splits)
  have minus: "nat_text k \<noteq> CHR ''-'' # s" for s k
    using nat_text_digits [of "CHR ''-''" k] by auto
  have "date_parse decimal_env (to_iso decimal_env t) = timeClip t" for t
  proof (cases "t < 0")
    case True
    then show ?thesis by (simp add: decimal_env_def int_text_def digitsValue_nat_text)
  next
    case False
    obtain c ds where n: "nat_text (nat t) = c # ds" by (cases "nat_text (nat t)") auto
    with minus [of "nat t" ds] have "c \<noteq> CHR ''-''" by auto
    with False n digitsValue_nat_text [of "nat t"] show ?thesis by (simp add: decimal_env_def int_text_def)
  qed
  with clip show ?thesis by (auto simp: iso_faithful_def decimal_env_def split: list.splits)
qed

definition sample_context :: "js option \<Rightarrow> AuthorityEvaluationContextV1" where
  "sample_context parent = \<lparr>cx_operationId = JStr ''op'', cx_projectId = JUndefined, cx_candidate = sample_candidate,
     cx_now = NowUnset, cx_parentLease = parent\<rparr>"

definition sample_request :: "string \<Rightarrow> int \<Rightarrow> js list \<Rightarrow> js list \<Rightarrow> int \<Rightarrow> js" where
  "sample_request i level capabilities paths expires = JObj [(''version'', jint 1), (''requestId'', JStr i), (''operationId'', JStr ''op''),
     (''participantId'', JStr ''p''), (''candidate'', sample_candidate),
     (''capability'', JObj [(''capability'', JStr ''read''), (''paths'', JArr paths)]),
     (''requestedEnvelope'', JObj [(''version'', jint 1), (''level'', jint level), (''capabilities'', JArr capabilities)]),
     (''requestedAt'', jint 1), (''expiresAt'', jint expires)]"

definition sample_lease :: js where
  "sample_lease = projr (createCapabilityLease decimal_env 10
     (sample_request ''r1'' 5 [JStr ''write'', JStr ''read''] [JStr ''b'', JStr ''a''] 900) (sample_context None))"

definition sample_sublease :: js where
  "sample_sublease = projr (createCapabilityLease decimal_env 20
     (sample_request ''r2'' 3 [JStr ''read''] [JStr ''a''] 800) (sample_context (Some sample_lease)))"

lemma sample_sublease_issued: "createCapabilityLease decimal_env 20
    (sample_request ''r2'' 3 [JStr ''read''] [JStr ''a''] 800) (sample_context (Some sample_lease)) = Inr sample_sublease"
proof -
  have "\<not> isl (createCapabilityLease decimal_env 20
    (sample_request ''r2'' 3 [JStr ''read''] [JStr ''a''] 800) (sample_context (Some sample_lease)))" by code_simp
  then show ?thesis by (auto simp: sample_sublease_def isl_def split: sum.splits)
qed

theorem lease_chain_attenuates_witness:
  "run (delegates decimal_env) 10 sample_lease 20 sample_sublease \<and> leaseBelow decimal_env sample_sublease sample_lease"
proof -
  have "delegates decimal_env 20 sample_lease sample_sublease"
    by (rule delegates.issue [OF _ sample_sublease_issued]) (simp add: sample_context_def)
  then have r: "run (delegates decimal_env) 10 sample_lease 20 sample_sublease"
    by (intro run.more [OF run.start, of 10 10]) simp_all
  with lease_chain_attenuates [OF decimal_env_faithful r] show ?thesis by simp
qed

lemma validEnvelope_issued:
  assumes "validEnvelope (js_get v ''requestedEnvelope'')"
  shows "validEnvelope (leaseEnvelope v)"
proof -
  obtain kvs where kvs: "js_get v ''requestedEnvelope'' = JObj kvs"
    using assms by (cases "js_get v ''requestedEnvelope''") (auto simp: validEnvelope_def js_is_object_def)
  have "js_get (leaseEnvelope v) ''version'' = js_get (js_get v ''requestedEnvelope'') ''version''"
    "js_is_array (js_get (leaseEnvelope v) ''capabilities'')" "js_is_object (leaseEnvelope v)"
    by (simp_all add: leaseEnvelope_def Let_def own_entries_def kvs js_is_array_def)
  with assms show ?thesis
    by (auto simp: validEnvelope_def leaseEnvelope_get list_all_iff)
qed

text \<open>
  C37: Every lease that is issued is well formed and current: it belongs to the operation and the candidate of
  the context, its envelope is a valid authority envelope (a level between 0 and 100 and only known
  capabilities), the capability it was issued for is one of them, and it expires after the instant of issue.
\<close>

theorem issued_lease_wellformed:
  assumes "iso_faithful E" "createCapabilityLease E t v cx = Inr l"
  shows "js_get l ''operationId'' = cx_operationId cx
    \<and> candidateRevisionsEqual E (js_get l ''candidate'') (cx_candidate cx)
    \<and> validEnvelope (js_get l ''envelope'') \<and> js_get l ''capability'' \<in> leaseCapabilities l
    \<and> (\<exists>now expiry. nowIso E t (cx_now cx) = Inr (to_iso E now) \<and> leaseExpiry E l = Some expiry \<and> now < expiry)"
proof -
  obtain stamp name expires where l: "\<not> invalidRequest v" "nowIso E t (cx_now cx) = Inr stamp"
      "isoTime E (js_get v ''expiresAt'') = Inr expires" "l = newCapabilityLease E v name stamp expires"
      "bindingFailures E v cx = []" "intervalFailures E v (date_parse E stamp) = []" "capabilityFailures v cx (Some name) = []"
    by (rule createCapabilityLease_Inr [OF assms(2)])
  obtain now where now: "stamp = to_iso E now" "date_parse E stamp = Some now"
    using l(2) assms(1) by (auto simp: nowIso_def iso_faithful_def timeClip_def bind_eq_Some_conv split: option.splits context_now.splits if_splits)
  from l(5) have b: "js_get v ''operationId'' = cx_operationId cx" "candidateRevisionsEqual E (js_get v ''candidate'') (cx_candidate cx)"
    by (auto simp: bindingFailures_def dest: js_same_eq)
  from l(1) have "validEnvelope (leaseEnvelope v)" by (simp add: invalidRequest_def validEnvelope_issued)
  moreover from l(7) have "name \<in> set (js_items (js_get (leaseEnvelope v) ''capabilities''))"
    by (simp add: capabilityFailures_def leaseEnvelope_get)
  moreover from l(6) isoTime_dateTime [OF assms(1) l(3)] obtain expiry where "dateTime E (JStr expires) = Some expiry" "now < expiry"
    by (auto simp: intervalFailures_def Let_def timeLe_def now(2) split: option.splits)
  ultimately show ?thesis
    unfolding l(4) leaseCapabilities_def leaseExpiry_def newCapabilityLease_get using b l(2) now(1) by auto
qed

theorem issued_lease_wellformed_witness:
  "\<exists>l. createCapabilityLease decimal_env 20
     (sample_request ''r2'' 3 [JStr ''read''] [JStr ''a''] 800) (sample_context (Some sample_lease)) = Inr l
   \<and> validEnvelope (js_get l ''envelope'') \<and> js_get l ''operationId'' = JStr ''op''"
  using issued_lease_wellformed [OF decimal_env_faithful sample_sublease_issued] sample_sublease_issued
  by (auto simp: sample_context_def)

end
