(* ===== verification/PullRequestReview.thy ===== *)
theory PullRequestReview
  imports CandidateContracts
begin

text \<open>
  The independent pull request review and the merge eligibility gate (\<open>src/src/delivery/prReview.ts\<close>).
  Reviews are persisted and read back, so they are run-time values. A rejection is the message the code
  throws, since the gate collects these messages as blockers.
\<close>

subsection \<open>Identities and reviewers\<close>

definition PR_REVIEW_MAX_ROUNDS :: int where
  "PR_REVIEW_MAX_ROUNDS = 3"

definition repoChar :: "char \<Rightarrow> bool" where
  "repoChar c \<longleftrightarrow> (CHR ''A'' \<le> c \<and> c \<le> CHR ''Z'') \<or> (CHR ''a'' \<le> c \<and> c \<le> CHR ''z'') \<or> (CHR ''0'' \<le> c \<and> c \<le> CHR ''9'')
     \<or> c \<in> set ''_.-''"

text \<open>\<open>REPOSITORY_PATTERN\<close>: two runs of repository characters around one slash.\<close>

definition REPOSITORY_PATTERN :: "string \<Rightarrow> bool" where
  "REPOSITORY_PATTERN s =
     (let owner = takeWhile repoChar s in
      owner \<noteq> [] \<and> (case drop (length owner) s of
          [] \<Rightarrow> False
        | c # name \<Rightarrow> c = CHR ''/'' \<and> name \<noteq> [] \<and> list_all repoChar name))"

definition SHA_PATTERN :: "string \<Rightarrow> bool" where
  "SHA_PATTERN s \<longleftrightarrow> (length s = 40 \<or> length s = 64)
     \<and> list_all (\<lambda>c. hex_char c \<or> (CHR ''A'' \<le> c \<and> c \<le> CHR ''F'')) s"

definition nonEmpty :: "js \<Rightarrow> string option" where
  "nonEmpty v = (case v of JStr s \<Rightarrow> (if js_trim s = [] then None else Some (js_trim s)) | _ \<Rightarrow> None)"

text \<open>\<open>!nonEmpty(v) || !pattern.test(v)\<close> does not hold.\<close>

definition textMatching :: "(string \<Rightarrow> bool) \<Rightarrow> js \<Rightarrow> bool" where
  "textMatching pattern v \<longleftrightarrow> nonEmpty v \<noteq> None \<and> pattern (str_of v)"

definition quote :: "string" where
  "quote = [CHR 0x27]"

definition assertPullRequestIdentity :: "js \<Rightarrow> string option" where
  "assertPullRequestIdentity pr =
     (if \<not> js_is_object pr then Some ''PR_REVIEW_REJECTED: pr identity must be an object.''
      else if \<not> textMatching REPOSITORY_PATTERN (js_get pr ''repository'')
      then Some (''PR_REVIEW_REJECTED: repository '' @ quote @ js_string (js_get pr ''repository'') @ quote @ '' must be owner/repo.'')
      else if \<not> js_safe_at_least 1 (js_get pr ''number'')
      then Some ''PR_REVIEW_REJECTED: pr number must be a positive integer.''
      else if \<not> textMatching SHA_PATTERN (js_get pr ''headSha'')
      then Some ''PR_REVIEW_REJECTED: pr headSha must be a full Git object name (40 or 64 hex).''
      else if \<not> textMatching SHA_PATTERN (js_get pr ''baseSha'')
      then Some ''PR_REVIEW_REJECTED: pr baseSha must be a full Git object name (40 or 64 hex).''
      else if nonEmpty (js_get pr ''baseRef'') = None
      then Some ''PR_REVIEW_REJECTED: pr baseRef must be a non-empty string.''
      else None)"

definition assertIndependentPrReviewer :: "js \<Rightarrow> js \<Rightarrow> js \<Rightarrow> js \<Rightarrow> string option" where
  "assertIndependentPrReviewer reviewerIdentity implementerIdentity role readOnly =
     (case nonEmpty reviewerIdentity of
        None \<Rightarrow> Some ''PR_REVIEW_REJECTED: reviewerIdentity must be a non-empty string.''
      | Some reviewer \<Rightarrow>
        (case nonEmpty implementerIdentity of
           None \<Rightarrow> Some ''PR_REVIEW_REJECTED: implementerIdentity must be a non-empty string.''
         | Some implementer \<Rightarrow>
            if reviewer = implementer then Some ''PR_REVIEW_SELF_APPROVAL_DENIED: implementer cannot review its own PR.''
            else if role \<noteq> JStr ''Reviewer''
            then Some (''PR_REVIEW_REJECTED: reviewer role must be Reviewer, got '' @ quote @ js_string role @ quote @ ''.'')
            else if readOnly \<noteq> JBool True
            then Some ''PR_REVIEW_REJECTED: independent PR reviewer must hold read-only authority.''
            else None))"

record PullRequestReviewRequirementV1 =
  rr_minReviewers :: int
  rr_requireHighAssurance :: bool
  rr_maxRounds :: int

definition compilePullRequestReviewRequirement :: "js \<Rightarrow> js \<Rightarrow> string + PullRequestReviewRequirementV1" where
  "compilePullRequestReviewRequirement risk requiresHighAssurance =
     (if risk \<notin> {JStr ''low'', JStr ''medium'', JStr ''high''} then Inl ''PR_REVIEW_REJECTED: risk must be low, medium, or high.''
      else Inr \<lparr>rr_minReviewers = 1,
                rr_requireHighAssurance = (risk = JStr ''high'' \<or> requiresHighAssurance = JBool True),
                rr_maxRounds = PR_REVIEW_MAX_ROUNDS\<rparr>)"

subsection \<open>Binding a review\<close>

datatype pr_error = PrRejected string | PrUnserializable serialize_error | PrTypeError

definition severities :: "string list" where
  "severities = [''critical'', ''high'', ''medium'', ''low'', ''note'']"

definition findingRejection :: "js \<Rightarrow> string option" where
  "findingRejection f =
     (if \<not> js_is_object f then Some ''PR_REVIEW_REJECTED: each finding must be an object.''
      else if nonEmpty (js_get f ''id'') = None \<or> nonEmpty (js_get f ''statement'') = None
      then Some ''PR_REVIEW_REJECTED: each finding must have a non-empty id and statement.''
      else if js_get f ''severity'' \<notin> set (map JStr severities)
      then Some (''PR_REVIEW_REJECTED: finding '' @ quote @ js_string (js_get f ''id'') @ quote @ '' has an unsupported severity.'')
      else None)"

definition candidateText :: "js \<Rightarrow> string \<Rightarrow> string" where
  "candidateText c k = js_string (js_coalesce (js_get c k) (JStr []))"

definition reviewCandidate :: "js \<Rightarrow> js" where
  "reviewCandidate c = JObj [(''candidateId'', JStr (candidateText c ''candidateId'')), (''revision'', js_get c ''revision''),
     (''identityDigest'', JStr (candidateText c ''identityDigest''))]"

definition bindRejection :: "js_env \<Rightarrow> string \<Rightarrow> js \<Rightarrow> string option" where
  "bindRejection E clock input =
     (case assertPullRequestIdentity (js_get input ''pr'') of Some e \<Rightarrow> Some e | None \<Rightarrow>
      case assertIndependentPrReviewer (js_get input ''reviewerIdentity'') (js_get input ''implementerIdentity'')
        (js_get input ''reviewerRole'') (js_get input ''readOnly'') of Some e \<Rightarrow> Some e | None \<Rightarrow>
      if nonEmpty (js_get input ''reviewerProvider'') = None
      then Some ''PR_REVIEW_REJECTED: reviewerProvider must be a non-empty string.''
      else if \<not> textMatching is_digest (js_get input ''policyDigest'')
      then Some ''PR_REVIEW_REJECTED: policyDigest must be a lowercase SHA-256 digest.''
      else if \<not> textMatching is_digest (js_get input ''evidenceDigest'')
      then Some ''PR_REVIEW_REJECTED: evidenceDigest must be a lowercase SHA-256 digest.''
      else if \<not> js_is_array (js_get input ''findings'') then Some ''PR_REVIEW_REJECTED: findings must be an array.''
      else case check_all findingRejection (js_items (js_get input ''findings'')) of Some e \<Rightarrow> Some e | None \<Rightarrow>
      if js_get input ''disposition'' \<noteq> JStr ''ACCEPTED'' \<and> js_get input ''disposition'' \<noteq> JStr ''REPAIR_REQUIRED''
      then Some ''PR_REVIEW_REJECTED: disposition must be ACCEPTED or REPAIR_REQUIRED.''
      else if \<not> js_is_object (js_get input ''candidate'') then Some ''PR_REVIEW_REJECTED: candidate must be an object.''
      else if js_trim (candidateText (js_get input ''candidate'') ''candidateId'') = []
        \<or> \<not> js_is_safe_integer (js_get (js_get input ''candidate'') ''revision'')
        \<or> \<not> is_digest (candidateText (js_get input ''candidate'') ''identityDigest'')
      then Some ''PR_REVIEW_REJECTED: candidate binding must carry candidateId, revision, and identityDigest.''
      else if date_parse E (js_string (js_coalesce (js_get input ''reviewedAt'') (JStr clock))) = None
      then Some ''PR_REVIEW_REJECTED: reviewedAt must be a valid timestamp.''
      else if js_coalesce (js_get input ''assuranceTier'') (JStr ''STANDARD'') \<notin> {JStr ''STANDARD'', JStr ''HIGH''}
      then Some ''PR_REVIEW_REJECTED: assuranceTier must be STANDARD or HIGH.''
      else None)"

definition reviewBody :: "string \<Rightarrow> js \<Rightarrow> js_entries" where
  "reviewBody clock input =
     (let pr = js_get input ''pr'' in
      [(''version'', jint 1),
       (''pr'', JObj [(''repository'', js_get pr ''repository''), (''number'', js_get pr ''number''),
          (''headSha'', JStr (js_lower (str_of (js_get pr ''headSha'')))), (''baseSha'', JStr (js_lower (str_of (js_get pr ''baseSha'')))),
          (''baseRef'', js_get pr ''baseRef'')]),
       (''candidate'', reviewCandidate (js_get input ''candidate'')),
       (''reviewerIdentity'', JStr (js_trim (str_of (js_get input ''reviewerIdentity'')))),
       (''reviewerProvider'', JStr (js_trim (str_of (js_get input ''reviewerProvider'')))),
       (''reviewerRole'', js_get input ''reviewerRole''), (''readOnly'', JBool True),
       (''policyDigest'', js_get input ''policyDigest''), (''evidenceDigest'', js_get input ''evidenceDigest''),
       (''assuranceTier'', js_coalesce (js_get input ''assuranceTier'') (JStr ''STANDARD'')),
       (''findings'', JArr (sort_key (\<lambda>f. str_of (js_get f ''id'')) (js_items (js_get input ''findings'')))),
       (''disposition'', js_get input ''disposition''),
       (''reviewedAt'', js_coalesce (js_get input ''reviewedAt'') (JStr clock))])"

definition bindIndependentPrReview :: "js_env \<Rightarrow> string \<Rightarrow> js \<Rightarrow> pr_error + js" where
  "bindIndependentPrReview E clock input =
     (case bindRejection E clock input of Some e \<Rightarrow> Inl (PrRejected e) | None \<Rightarrow>
      let body = reviewBody clock input in
      (case sha256Canonical E (JObj body) of
         Inl e \<Rightarrow> Inl (PrUnserializable e)
       | Inr digest \<Rightarrow> Inr (JObj (body @ [(''digest'', JStr digest)]))))"

subsection \<open>Merge eligibility\<close>

text \<open>The message of a serialization error (\<open>src/src/core/digest.ts\<close>).\<close>

definition serializeMessage :: "serialize_error \<Rightarrow> string" where
  "serializeMessage e = (case e of
       NonFiniteNumber p \<Rightarrow> ''Unsupported non-finite number at '' @ p @ ''.''
     | UndefinedValue p \<Rightarrow> ''Unsupported undefined value at '' @ p @ ''.''
     | UnsupportedType t p \<Rightarrow> ''Unsupported '' @ t @ '' value at '' @ p @ ''.''
     | UndefinedArrayValue p i \<Rightarrow> ''Unsupported undefined array value at '' @ p @ ''['' @ nat_text i @ ''].''
     | UnsupportedObjectType p \<Rightarrow> ''Unsupported object type at '' @ p @ ''.'')"

definition verifyIndependentPrReviewDigest :: "js_env \<Rightarrow> js \<Rightarrow> string option" where
  "verifyIndependentPrReviewDigest E review =
     (if \<not> js_is_object review \<or> js_get review ''version'' \<noteq> jint 1
      then Some ''PR_REVIEW_REJECTED: review must be a version 1 IndependentPullRequestReview.''
      else if js_typeof (js_get review ''digest'') \<noteq> ''string'' \<or> \<not> is_digest (str_of (js_get review ''digest''))
      then Some ''PR_REVIEW_REJECTED: review digest must be a lowercase SHA-256 digest.''
      else case sha256Canonical E (JObj (filter (\<lambda>(k, v). k \<noteq> ''digest'') (own_entries review))) of
        Inl e \<Rightarrow> Some (serializeMessage e)
      | Inr d \<Rightarrow> if js_get review ''digest'' \<noteq> JStr d
          then Some ''PR_REVIEW_STALE: review digest does not match its content; rebase, repair, or merge-conflict resolution invalidates prior reviews.''
          else None)"

datatype DeliveryMergeModeV1 = PR_ONLY | AUTO_MERGE | RISK_GATED

definition modeText :: "DeliveryMergeModeV1 \<Rightarrow> string" where
  "modeText m = (case m of PR_ONLY \<Rightarrow> ''PR_ONLY'' | AUTO_MERGE \<Rightarrow> ''AUTO_MERGE'' | RISK_GATED \<Rightarrow> ''RISK_GATED'')"

definition resolveDeliveryMergeMode :: "js \<Rightarrow> js \<Rightarrow> string + DeliveryMergeModeV1" where
  "resolveDeliveryMergeMode mode mergeAllowedByPolicy =
     (case (if mode = JUndefined then Some PR_ONLY else List.find (\<lambda>m. mode = JStr (modeText m)) [PR_ONLY, AUTO_MERGE, RISK_GATED]) of
        None \<Rightarrow> Inl (''DELIVERY_MERGE_MODE_INVALID: merge mode '' @ quote @ js_string mode @ quote
                  @ '' is not PR_ONLY, AUTO_MERGE, or RISK_GATED.'')
      | Some m \<Rightarrow> Inr (if mergeAllowedByPolicy \<noteq> JBool True then PR_ONLY else m))"

definition HIGH_ASSURANCE_PROVIDERS_DEFAULT :: "string list" where
  "HIGH_ASSURANCE_PROVIDERS_DEFAULT = [''luna'', ''codex'', ''codex/luna'', ''gpt-6-luna'', ''gpt-6-luna-codex'']"

definition isQualifiedHighAssuranceProvider :: "js \<Rightarrow> bool" where
  "isQualifiedHighAssuranceProvider v =
     (case v of JStr s \<Rightarrow> list_ex (\<lambda>q. js_lower q = js_lower (js_trim s)) HIGH_ASSURANCE_PROVIDERS_DEFAULT | _ \<Rightarrow> False)"

definition assertReviewRound :: "js \<Rightarrow> string option" where
  "assertReviewRound v =
     (if \<not> js_safe_at_least 1 v then Some ''PR_REVIEW_REJECTED: review round must be a positive integer.''
      else if int_of v > PR_REVIEW_MAX_ROUNDS
      then Some (''PR_REVIEW_ROUNDS_EXHAUSTED: independent PR review rounds are bounded to '' @ int_text PR_REVIEW_MAX_ROUNDS
                 @ ''; escalate instead of retrying.'')
      else None)"

text \<open>\<open>findings?.some(f => ...)\<close>, which fails on a list that is no array and on a null element it reads.\<close>

fun someBlocking :: "js list \<Rightarrow> bool option" where
  "someBlocking [] = Some False"
| "someBlocking (f # fs) = (if js_nullish f then None
     else if js_get f ''severity'' \<in> {JStr ''critical'', JStr ''high''} then Some True else someBlocking fs)"

definition blockingFinding :: "js \<Rightarrow> bool option" where
  "blockingFinding v = (if js_nullish v then Some False else case v of JArr fs \<Rightarrow> someBlocking fs | _ \<Rightarrow> None)"

text \<open>\<open>v?.toLowerCase()\<close>.\<close>

definition lowered :: "js \<Rightarrow> js option" where
  "lowered v = (if js_nullish v then Some JUndefined else case v of JStr s \<Rightarrow> Some (JStr (js_lower s)) | _ \<Rightarrow> None)"

text \<open>The comparison of two commits, after which the rest of the chain is compared.\<close>

definition thenCompare :: "js option \<Rightarrow> js option \<Rightarrow> bool option \<Rightarrow> bool option" where
  "thenCompare a b rest = (case (a, b) of (Some x, Some y) \<Rightarrow> (if js_same x y then rest else Some True) | _ \<Rightarrow> None)"

definition identityDiffers :: "js \<Rightarrow> js \<Rightarrow> bool option" where
  "identityDiffers a b =
     (if \<not> js_same (js_get a ''number'') (js_get b ''number'') \<or> \<not> js_same (js_get a ''repository'') (js_get b ''repository'') then Some True
      else thenCompare (lowered (js_get a ''headSha'')) (lowered (js_get b ''headSha''))
             (thenCompare (lowered (js_get a ''baseSha'')) (lowered (js_get b ''baseSha''))
               (Some (\<not> js_same (js_get a ''baseRef'') (js_get b ''baseRef'')))))"

definition identityText :: "js \<Rightarrow> string" where
  "identityText v = (case v of JStr s \<Rightarrow> js_trim s | _ \<Rightarrow> [])"

definition reviewerBlockers :: "js \<Rightarrow> js \<Rightarrow> string list" where
  "reviewerBlockers review implementer =
     (let r = identityText (js_get review ''reviewerIdentity''); i = identityText implementer in
      (if r = [] \<or> i = [] then [''MERGE_BLOCKED: reviewer and implementer identities must be non-empty.'']
       else failIf (r = i) ''MERGE_BLOCKED: reviewer is not independent of the implementer.'')
    @ failIf (js_get review ''reviewerRole'' \<noteq> JStr ''Reviewer'') ''MERGE_BLOCKED: independent PR reviewer must hold the Reviewer role.''
    @ failIf (js_get review ''readOnly'' \<noteq> JBool True) ''MERGE_BLOCKED: independent PR reviewer must hold read-only authority.''
    @ failIf (identityText (js_get review ''reviewerProvider'') = [])
        ''MERGE_BLOCKED: independent PR reviewer provider must be a non-empty string.'')"

definition assuranceBlockers :: "js \<Rightarrow> js \<Rightarrow> string list" where
  "assuranceBlockers review requireHighAssurance =
     (if requireHighAssurance \<noteq> JBool True then []
      else if \<not> isQualifiedHighAssuranceProvider (js_get review ''reviewerProvider'')
      then [''MERGE_BLOCKED: high-risk changes require a qualified high-assurance reviewer (Luna/Codex family).'']
      else failIf (js_get review ''assuranceTier'' \<noteq> JStr ''HIGH'') ''MERGE_BLOCKED: high-assurance review tier is required for this change.'')"

definition candidateBlockers :: "js \<Rightarrow> js \<Rightarrow> string list" where
  "candidateBlockers rc ec =
     failIf (\<not> js_truthy rc \<or> \<not> js_same (js_get rc ''candidateId'') (js_get ec ''candidateId'')
        \<or> \<not> js_same (js_get rc ''revision'') (js_get ec ''revision'') \<or> \<not> js_same (js_get rc ''identityDigest'') (js_get ec ''identityDigest''))
       ''MERGE_BLOCKED: review is not bound to the current CandidateRevision.''"

definition policyBlockers :: "js \<Rightarrow> string list" where
  "policyBlockers input =
     failIf (\<not> js_same (js_get (js_get input ''review'') ''policyDigest'') (js_get input ''expectedPolicyDigest''))
       ''MERGE_BLOCKED: review policy binding is stale.''
   @ failIf (js_get input ''ciGreen'' \<noteq> JBool True) ''MERGE_BLOCKED: required GitHub checks are not green.''
   @ failIf (js_get input ''baseFresh'' \<noteq> JBool True) ''MERGE_BLOCKED: target branch freshness/integration requirement is not satisfied.''
   @ failIf (js_get input ''authoritySatisfied'' \<noteq> JBool True) ''MERGE_BLOCKED: required authority and policy are not satisfied.''
   @ failIf (js_get input ''mergeAllowedByPolicy'' \<noteq> JBool True) ''MERGE_BLOCKED: frozen delivery policy does not authorize merge.''
   @ failIf (js_get input ''mergeMode'' = JStr ''PR_ONLY'')
       ''MERGE_BLOCKED: frozen delivery mode is PR_ONLY; create an accepted PR and stop before merge.''
   @ failIf (js_get input ''mergeMode'' = JStr ''RISK_GATED'' \<and> js_get input ''risk'' = JStr ''high'')
       ''MERGE_BLOCKED: RISK_GATED mode does not auto-merge high-risk changes.''"

definition mergeBlockers :: "js_env \<Rightarrow> js \<Rightarrow> string list option" where
  "mergeBlockers E input =
     (let review = js_get input ''review'' in
      case (blockingFinding (js_get review ''findings''), identityDiffers (js_get review ''pr'') (js_get input ''expectedPr'')) of
        (Some blocking, Some differs) \<Rightarrow> Some (
           (case verifyIndependentPrReviewDigest E review of Some m \<Rightarrow> [m] | None \<Rightarrow> [])
         @ (case assertPullRequestIdentity (js_get input ''expectedPr'') of Some m \<Rightarrow> [m] | None \<Rightarrow> [])
         @ failIf (js_get review ''disposition'' \<noteq> JStr ''ACCEPTED'') ''MERGE_BLOCKED: independent PR review disposition is not ACCEPTED.''
         @ failIf blocking ''MERGE_BLOCKED: unresolved blocking review finding remains.''
         @ reviewerBlockers review (js_get input ''implementerIdentity'')
         @ assuranceBlockers review (js_get input ''requireHighAssurance'')
         @ (if js_get input ''reviewRound'' = JUndefined then []
            else case assertReviewRound (js_get input ''reviewRound'') of Some m \<Rightarrow> [m] | None \<Rightarrow> [])
         @ failIf differs ''MERGE_BLOCKED: review does not cover the exact final PR head/base identity; rebase or repair invalidates prior reviews.''
         @ candidateBlockers (js_get review ''candidate'') (js_get input ''expectedCandidate'')
         @ policyBlockers input)
      | _ \<Rightarrow> None)"

record MergeEligibilityV1 =
  me_eligible :: bool
  me_blockers :: "string list"

definition evaluateMergeEligibility :: "js_env \<Rightarrow> js \<Rightarrow> pr_error + MergeEligibilityV1" where
  "evaluateMergeEligibility E input =
     (case mergeBlockers E input of None \<Rightarrow> Inl PrTypeError
      | Some blockers \<Rightarrow> let ordered = sort (js_uniq blockers) in Inr \<lparr>me_eligible = (ordered = []), me_blockers = ordered\<rparr>)"

definition assertMergeEligible :: "js_env \<Rightarrow> js \<Rightarrow> pr_error option" where
  "assertMergeEligible E input =
     (case evaluateMergeEligibility E input of Inl e \<Rightarrow> Some e
      | Inr result \<Rightarrow> if me_eligible result then None
          else Some (PrRejected (case me_blockers result of b # _ \<Rightarrow> b | [] \<Rightarrow> ''MERGE_BLOCKED: merge eligibility failed.'')))"

subsection \<open>What makes a merge eligible\<close>

text \<open>The conditions of an eligible merge, one definition per party that has to agree.\<close>

definition intactReview :: "js_env \<Rightarrow> js \<Rightarrow> bool" where
  "intactReview E review \<longleftrightarrow> js_is_object review \<and> js_get review ''version'' = jint 1
     \<and> (\<exists>d. sha256Canonical E (JObj (filter (\<lambda>(k, v). k \<noteq> ''digest'') (own_entries review))) = Inr d
          \<and> is_digest d \<and> js_get review ''digest'' = JStr d)"

definition acceptingReview :: "js \<Rightarrow> bool" where
  "acceptingReview review \<longleftrightarrow> js_get review ''disposition'' = JStr ''ACCEPTED''
     \<and> (\<forall>f \<in> set (js_items (js_get review ''findings'')). \<not> js_nullish f \<and> js_get f ''severity'' \<notin> {JStr ''critical'', JStr ''high''})
     \<and> (js_nullish (js_get review ''findings'') \<or> js_is_array (js_get review ''findings''))"

definition independentReview :: "js \<Rightarrow> js \<Rightarrow> bool" where
  "independentReview review implementer \<longleftrightarrow>
     (\<exists>r i. js_get review ''reviewerIdentity'' = JStr r \<and> implementer = JStr i
        \<and> js_trim r \<noteq> [] \<and> js_trim i \<noteq> [] \<and> js_trim r \<noteq> js_trim i)
     \<and> js_get review ''reviewerRole'' = JStr ''Reviewer'' \<and> js_get review ''readOnly'' = JBool True
     \<and> nonEmptyText (js_get review ''reviewerProvider'')"

definition assuredReview :: "js \<Rightarrow> js \<Rightarrow> bool" where
  "assuredReview review required \<longleftrightarrow> (required = JBool True \<longrightarrow>
     isQualifiedHighAssuranceProvider (js_get review ''reviewerProvider'') \<and> js_get review ''assuranceTier'' = JStr ''HIGH'')"

definition roundWithinBound :: "js \<Rightarrow> bool" where
  "roundWithinBound v \<longleftrightarrow> v = JUndefined \<or> (\<exists>n. v = jint n \<and> 1 \<le> n \<and> n \<le> PR_REVIEW_MAX_ROUNDS)"

definition boundToCandidate :: "js \<Rightarrow> js \<Rightarrow> bool" where
  "boundToCandidate rc ec \<longleftrightarrow> js_truthy rc \<and> (\<forall>k \<in> {''candidateId'', ''revision'', ''identityDigest''}. js_same (js_get rc k) (js_get ec k))"

definition policyAgrees :: "js \<Rightarrow> bool" where
  "policyAgrees input \<longleftrightarrow> js_same (js_get (js_get input ''review'') ''policyDigest'') (js_get input ''expectedPolicyDigest'')
     \<and> (\<forall>k \<in> {''ciGreen'', ''baseFresh'', ''authoritySatisfied'', ''mergeAllowedByPolicy''}. js_get input k = JBool True)
     \<and> js_get input ''mergeMode'' \<noteq> JStr ''PR_ONLY''
     \<and> \<not> (js_get input ''mergeMode'' = JStr ''RISK_GATED'' \<and> js_get input ''risk'' = JStr ''high'')"

lemma verify_None: "verifyIndependentPrReviewDigest E review = None \<longleftrightarrow> intactReview E review"
  by (auto simp: verifyIndependentPrReviewDigest_def intactReview_def str_of_def split: sum.splits js.splits)

lemma someBlocking_False:
  "someBlocking fs = Some False \<longleftrightarrow> (\<forall>f \<in> set fs. \<not> js_nullish f \<and> js_get f ''severity'' \<notin> {JStr ''critical'', JStr ''high''})"
  by (induction fs) auto

lemma blockingFinding_False:
  "blockingFinding v = Some False \<longleftrightarrow> (js_nullish v \<or> js_is_array v)
     \<and> (\<forall>f \<in> set (js_items v). \<not> js_nullish f \<and> js_get f ''severity'' \<notin> {JStr ''critical'', JStr ''high''})"
  by (cases v) (simp_all add: blockingFinding_def js_nullish_def js_is_array_def someBlocking_False)

lemma identityText_iff: "identityText v \<noteq> [] \<longleftrightarrow> nonEmptyText v"
  by (auto simp: identityText_def nonEmptyText_def split: js.splits)

lemma reviewerBlockers_Nil: "reviewerBlockers review implementer = [] \<longleftrightarrow> independentReview review implementer"
  by (auto simp: reviewerBlockers_def independentReview_def Let_def identityText_def nonEmptyText_def split: js.splits)

lemma assuranceBlockers_Nil: "assuranceBlockers review required = [] \<longleftrightarrow> assuredReview review required"
  by (auto simp: assuranceBlockers_def assuredReview_def)

lemma candidateBlockers_Nil: "candidateBlockers rc ec = [] \<longleftrightarrow> boundToCandidate rc ec"
  by (auto simp: candidateBlockers_def boundToCandidate_def)

lemma policyBlockers_Nil: "policyBlockers input = [] \<longleftrightarrow> policyAgrees input"
  by (auto simp: policyBlockers_def policyAgrees_def)

lemma assertReviewRound_None: "assertReviewRound v = None \<longleftrightarrow> (\<exists>n. v = jint n \<and> 1 \<le> n \<and> n \<le> PR_REVIEW_MAX_ROUNDS)"
  by (cases v rule: js_int.cases) (auto simp: assertReviewRound_def int_of_def js_safe_at_least_def safe_int_def
      max_safe_integer_def PR_REVIEW_MAX_ROUNDS_def)

lemma message_Nil: "(case x of None \<Rightarrow> [] | Some m \<Rightarrow> [m]) = [] \<longleftrightarrow> x = None"
  by (cases x) auto

lemma mergeBlockers_Nil:
  "mergeBlockers E input = Some [] \<longleftrightarrow>
     (let review = js_get input ''review'' in
      intactReview E review \<and> assertPullRequestIdentity (js_get input ''expectedPr'') = None
      \<and> acceptingReview review \<and> independentReview review (js_get input ''implementerIdentity'')
      \<and> assuredReview review (js_get input ''requireHighAssurance'') \<and> roundWithinBound (js_get input ''reviewRound'')
      \<and> identityDiffers (js_get review ''pr'') (js_get input ''expectedPr'') = Some False
      \<and> boundToCandidate (js_get review ''candidate'') (js_get input ''expectedCandidate'') \<and> policyAgrees input)"
proof -
  let ?r = "js_get input ''review''"
  have "mergeBlockers E input = Some [] \<longleftrightarrow>
      blockingFinding (js_get ?r ''findings'') = Some False \<and> identityDiffers (js_get ?r ''pr'') (js_get input ''expectedPr'') = Some False
      \<and> verifyIndependentPrReviewDigest E ?r = None \<and> assertPullRequestIdentity (js_get input ''expectedPr'') = None
      \<and> js_get ?r ''disposition'' = JStr ''ACCEPTED'' \<and> reviewerBlockers ?r (js_get input ''implementerIdentity'') = []
      \<and> assuranceBlockers ?r (js_get input ''requireHighAssurance'') = []
      \<and> (js_get input ''reviewRound'' = JUndefined \<or> assertReviewRound (js_get input ''reviewRound'') = None)
      \<and> candidateBlockers (js_get ?r ''candidate'') (js_get input ''expectedCandidate'') = [] \<and> policyBlockers input = []"
    unfolding mergeBlockers_def Let_def
    by (cases "blockingFinding (js_get ?r ''findings'')"; cases "identityDiffers (js_get ?r ''pr'') (js_get input ''expectedPr'')";
        simp add: message_Nil; blast)
  then show ?thesis
    unfolding Let_def blockingFinding_False verify_None reviewerBlockers_Nil assuranceBlockers_Nil candidateBlockers_Nil
      policyBlockers_Nil assertReviewRound_None acceptingReview_def roundWithinBound_def
    by blast
qed

lemma evaluateMergeEligibility_blockers:
  "(\<exists>r. evaluateMergeEligibility E input = Inr r \<and> me_eligible r) \<longleftrightarrow> mergeBlockers E input = Some []"
  by (auto simp: evaluateMergeEligibility_def Let_def sort_key_Nil_iff split: option.splits)


subsection \<open>A bound review is accepted by the gate\<close>

lemma lower_char_idem: "lower_char (lower_char c) = lower_char c"
proof -
  have "(of_char c :: nat) < 256" by (rule nat_of_char_less_256)
  then show ?thesis by (auto simp: lower_char_def Let_def of_char_of)
qed

lemma js_lower_idem [simp]: "js_lower (js_lower s) = js_lower s"
  by (simp add: js_lower_def lower_char_idem)

lemma dropWhile_white_hd: "dropWhile js_white s \<noteq> [] \<Longrightarrow> \<not> js_white (hd (dropWhile js_white s))"
  by (rule hd_dropWhile)

lemma js_trim_idem [simp]: "js_trim (js_trim s) = js_trim s"
proof (cases "js_trim s = []")
  case True
  have "js_trim [] = []" by (simp add: js_trim_def)
  with True show ?thesis by simp
next
  case False
  define u where "u = dropWhile js_white (rev (dropWhile js_white s))"
  have u: "js_trim s = rev u" by (simp add: js_trim_def u_def)
  from False u have "u \<noteq> []" by simp
  have "last u = last (rev (dropWhile js_white s))"
    using \<open>u \<noteq> []\<close> unfolding u_def by (metis dropWhile_eq_drop last_drop length_drop length_greater_0_conv zero_less_diff)
  moreover have "dropWhile js_white s \<noteq> []" using \<open>u \<noteq> []\<close> unfolding u_def by force
  ultimately have "\<not> js_white (hd (rev u))" "\<not> js_white (hd u)"
    using \<open>u \<noteq> []\<close> dropWhile_white_hd [of s] dropWhile_white_hd [of "rev (dropWhile js_white s)"]
    by (simp_all add: u_def hd_rev last_rev)
  then have "dropWhile js_white (rev u) = rev u" "dropWhile js_white u = u"
    using \<open>u \<noteq> []\<close> by (metis dropWhile_eq_self_iff rev_is_Nil_conv)+
  then show ?thesis unfolding u by (simp add: js_trim_def)
qed

lemma nonEmpty_iff: "nonEmpty v \<noteq> None \<longleftrightarrow> nonEmptyText v"
  by (auto simp: nonEmpty_def nonEmptyText_def split: js.splits)

lemma nonEmpty_SomeD: "nonEmpty v = Some y \<Longrightarrow> \<exists>s. v = JStr s \<and> js_trim s \<noteq> []"
  by (auto simp: nonEmpty_def split: js.splits if_splits)

lemma assertPullRequestIdentity_None:
  assumes "assertPullRequestIdentity pr = None"
  obtains r n h b f where "js_get pr ''repository'' = JStr r" "js_get pr ''number'' = jint n"
    "js_get pr ''headSha'' = JStr h" "js_get pr ''baseSha'' = JStr b" "js_get pr ''baseRef'' = JStr f"
  using assms
  by (auto simp: assertPullRequestIdentity_def textMatching_def split: if_splits elim!: js_safe_at_leastE dest!: nonEmpty_SomeD)

lemma assertIndependentPrReviewer_None:
  "assertIndependentPrReviewer r i role ro = None \<longleftrightarrow> role = JStr ''Reviewer'' \<and> ro = JBool True
     \<and> (\<exists>s t. r = JStr s \<and> i = JStr t \<and> js_trim s \<noteq> [] \<and> js_trim t \<noteq> [] \<and> js_trim s \<noteq> js_trim t)"
  by (auto simp: assertIndependentPrReviewer_def nonEmpty_def split: option.splits js.splits if_splits)

lemma reviewBody_get:
  fixes digest input :: js and clock :: string
  defines "review \<equiv> JObj (reviewBody clock input @ [(''digest'', digest)])"
  shows "js_get review ''version'' = jint 1" "js_get review ''digest'' = digest"
    "js_get review ''candidate'' = reviewCandidate (js_get input ''candidate'')"
    "js_get review ''reviewerIdentity'' = JStr (js_trim (str_of (js_get input ''reviewerIdentity'')))"
    "js_get review ''reviewerProvider'' = JStr (js_trim (str_of (js_get input ''reviewerProvider'')))"
    "js_get review ''reviewerRole'' = js_get input ''reviewerRole''" "js_get review ''readOnly'' = JBool True"
    "js_get review ''policyDigest'' = js_get input ''policyDigest''"
    "js_get review ''assuranceTier'' = js_coalesce (js_get input ''assuranceTier'') (JStr ''STANDARD'')"
    "js_get review ''findings'' = JArr (sort_key (\<lambda>f. str_of (js_get f ''id'')) (js_items (js_get input ''findings'')))"
    "js_get review ''disposition'' = js_get input ''disposition''"
    "filter (\<lambda>(k, v). k \<noteq> ''digest'') (own_entries review) = reviewBody clock input"
  by (simp_all add: review_def reviewBody_def Let_def own_entries_def)

lemma reviewBody_pr:
  "js_get (JObj (reviewBody clock input @ [(''digest'', digest)])) ''pr'' =
     JObj [(''repository'', js_get (js_get input ''pr'') ''repository''), (''number'', js_get (js_get input ''pr'') ''number''),
       (''headSha'', JStr (js_lower (str_of (js_get (js_get input ''pr'') ''headSha'')))),
       (''baseSha'', JStr (js_lower (str_of (js_get (js_get input ''pr'') ''baseSha'')))),
       (''baseRef'', js_get (js_get input ''pr'') ''baseRef'')]"
  by (simp add: reviewBody_def Let_def)

lemma bindRejection_None:
  assumes "bindRejection E clock input = None"
  shows "assertPullRequestIdentity (js_get input ''pr'') = None"
    and "assertIndependentPrReviewer (js_get input ''reviewerIdentity'') (js_get input ''implementerIdentity'')
        (js_get input ''reviewerRole'') (js_get input ''readOnly'') = None"
    and "\<exists>p. js_get input ''reviewerProvider'' = JStr p \<and> js_trim p \<noteq> []"
    and "\<exists>d. js_get input ''policyDigest'' = JStr d"
    and "\<forall>f \<in> set (js_items (js_get input ''findings'')). js_is_object f"
proof -
  from assms show "assertPullRequestIdentity (js_get input ''pr'') = None"
    and "assertIndependentPrReviewer (js_get input ''reviewerIdentity'') (js_get input ''implementerIdentity'')
        (js_get input ''reviewerRole'') (js_get input ''readOnly'') = None"
    by (simp_all add: bindRejection_def del: not_None_eq split: option.splits)
  from assms have "nonEmpty (js_get input ''reviewerProvider'') \<noteq> None" "textMatching is_digest (js_get input ''policyDigest'')"
      "check_all findingRejection (js_items (js_get input ''findings'')) = None"
    by (simp_all add: bindRejection_def del: not_None_eq split: option.splits if_splits)
  then show "\<exists>p. js_get input ''reviewerProvider'' = JStr p \<and> js_trim p \<noteq> []" "\<exists>d. js_get input ''policyDigest'' = JStr d"
      "\<forall>f \<in> set (js_items (js_get input ''findings'')). js_is_object f"
    by (auto simp: textMatching_def check_all_None findingRejection_def dest!: nonEmpty_SomeD split: if_splits)
qed

lemma object_not_nullish: "js_is_object f \<Longrightarrow> \<not> js_nullish f"
  by (auto simp: js_is_object_def js_nullish_def)

text \<open>
  The review that is bound for a pull request passes the gate for that pull request (round trip). Whenever
  binding succeeds for an accepting review without critical or high findings, the bound review verifies, and
  merging the same pull request and the same valid candidate under the same policy is eligible, as long as the
  checks, freshness, authority, policy, round, assurance and merge mode of the merge allow it.
\<close>

theorem bound_review_merges:
  assumes bound: "bindIndependentPrReview E clock input = Inr review"
    and sha: "\<forall>s. is_digest (sha256 E s)"
    and candidate: "assertCandidateRevisionV1 E (js_get input ''candidate'') = None"
    and accepts: "js_get input ''disposition'' = JStr ''ACCEPTED''"
      "\<forall>f \<in> set (js_items (js_get input ''findings'')). js_get f ''severity'' \<notin> {JStr ''critical'', JStr ''high''}"
    and same: "js_get merge ''review'' = review" "js_get merge ''expectedPr'' = js_get input ''pr''"
      "js_get merge ''expectedCandidate'' = js_get input ''candidate''"
      "js_get merge ''implementerIdentity'' = js_get input ''implementerIdentity''"
      "js_get merge ''expectedPolicyDigest'' = js_get input ''policyDigest''"
    and allowed: "\<forall>k \<in> {''ciGreen'', ''baseFresh'', ''authoritySatisfied'', ''mergeAllowedByPolicy''}. js_get merge k = JBool True"
      "js_get merge ''mergeMode'' = JStr ''AUTO_MERGE''" "roundWithinBound (js_get merge ''reviewRound'')"
      "assuredReview review (js_get merge ''requireHighAssurance'')"
  shows "verifyIndependentPrReviewDigest E review = None \<and> (\<exists>r. evaluateMergeEligibility E merge = Inr r \<and> me_eligible r)"
proof -
  obtain digest where ok: "bindRejection E clock input = None" "sha256Canonical E (JObj (reviewBody clock input)) = Inr digest"
      and review: "review = JObj (reviewBody clock input @ [(''digest'', JStr digest)])"
    using bound by (auto simp: bindIndependentPrReview_def Let_def split: option.splits sum.splits)
  note fields = bindRejection_None [OF ok(1)] 
    and get = reviewBody_get [where digest = "JStr digest" and input = input and clock = clock, folded review]
      reviewBody_pr [where digest = "JStr digest" and input = input and clock = clock, folded review]
  have "is_digest digest" using ok(2) sha
    by (cases "canonicalSerialize (JObj (reviewBody clock input))") (auto simp: sha256Canonical_def sha256Utf8_def)
  then have intact: "intactReview E review"
    unfolding intactReview_def get(1,2,12) using ok(2) by (simp add: review)
  have accepting: "acceptingReview review"
    using accepts fields(5) by (auto simp: acceptingReview_def get js_is_array_def object_not_nullish)
  have independent: "independentReview review (js_get merge ''implementerIdentity'')"
    using fields(2,3) by (auto simp: independentReview_def get same(4) assertIndependentPrReviewer_None str_of_def nonEmptyText_def)
  obtain r n h b f where pr: "js_get (js_get input ''pr'') ''repository'' = JStr r" "js_get (js_get input ''pr'') ''number'' = jint n"
      "js_get (js_get input ''pr'') ''headSha'' = JStr h" "js_get (js_get input ''pr'') ''baseSha'' = JStr b"
      "js_get (js_get input ''pr'') ''baseRef'' = JStr f"
    by (rule assertPullRequestIdentity_None [OF fields(1)])
  have exact: "identityDiffers (js_get review ''pr'') (js_get merge ''expectedPr'') = Some False"
    by (simp add: identityDiffers_def get(13) same(2) lowered_def thenCompare_def js_nullish_def str_of_def pr)
  have bindsC: "boundToCandidate (js_get review ''candidate'') (js_get merge ''expectedCandidate'')"
    using candidate by (auto simp: boundToCandidate_def get same(3) reviewCandidate_def candidateText_def js_coalesce_def
        assertCandidateRevisionV1_None assertCandidateRevisionInputV1_None nonEmptyText_def js_nullish_def
        elim!: js_safe_at_leastE split: js.splits)
  have policy: "policyAgrees merge"
    using allowed(1,2) fields(4) by (auto simp: policyAgrees_def same(1,5) get)
  show ?thesis
    unfolding verify_None evaluateMergeEligibility_blockers mergeBlockers_Nil Let_def same(1)
    using intact accepting independent exact bindsC policy allowed(3,4) fields(1) same(2) by simp
qed

definition sample_pr :: js where
  "sample_pr = JObj [(''repository'', JStr ''o/r''), (''number'', jint 7), (''headSha'', JStr (replicate 40 (CHR ''A''))),
     (''baseSha'', JStr (replicate 40 (CHR ''b''))), (''baseRef'', JStr ''main'')]"

definition sample_review_input :: js where
  "sample_review_input = JObj [(''pr'', sample_pr), (''candidate'', sample_candidate), (''reviewerIdentity'', JStr ''rev''),
     (''reviewerProvider'', JStr ''luna''), (''reviewerRole'', JStr ''Reviewer''), (''readOnly'', JBool True),
     (''implementerIdentity'', JStr ''imp''), (''policyDigest'', JStr (replicate 64 (CHR ''c''))),
     (''evidenceDigest'', JStr (replicate 64 (CHR ''d''))), (''assuranceTier'', JStr ''HIGH''),
     (''findings'', JArr [JObj [(''id'', JStr ''f1''), (''severity'', JStr ''low''), (''statement'', JStr ''s'')]]),
     (''disposition'', JStr ''ACCEPTED'')]"

definition sample_review :: js where
  "sample_review = projr (bindIndependentPrReview sample_env ''now'' sample_review_input)"

definition sample_merge :: js where
  "sample_merge = JObj [(''review'', sample_review), (''expectedPr'', sample_pr), (''expectedCandidate'', sample_candidate),
     (''expectedPolicyDigest'', JStr (replicate 64 (CHR ''c''))), (''implementerIdentity'', JStr ''imp''), (''ciGreen'', JBool True),
     (''baseFresh'', JBool True), (''authoritySatisfied'', JBool True), (''mergeAllowedByPolicy'', JBool True),
     (''mergeMode'', JStr ''AUTO_MERGE''), (''risk'', JStr ''high''), (''requireHighAssurance'', JBool True), (''reviewRound'', jint 2)]"

lemma sample_review_bound: "bindIndependentPrReview sample_env ''now'' sample_review_input = Inr sample_review"
proof -
  have "bindRejection sample_env ''now'' sample_review_input = None" by code_simp
  moreover have "printable (canon (JObj (reviewBody ''now'' sample_review_input)))" by code_simp
  then have "\<exists>d. sha256Canonical sample_env (JObj (reviewBody ''now'' sample_review_input)) = Inr d"
    using printable_serializes [of "JObj (reviewBody ''now'' sample_review_input)" "''$''" False]
    by (auto simp: sha256Canonical_def canonicalSerialize_def)
  ultimately show ?thesis by (auto simp: sample_review_def bindIndependentPrReview_def Let_def)
qed

theorem bound_review_merges_witness:
  "verifyIndependentPrReviewDigest sample_env sample_review = None
   \<and> (\<exists>r. evaluateMergeEligibility sample_env sample_merge = Inr r \<and> me_eligible r)"
proof (rule bound_review_merges [OF sample_review_bound])
  show "\<forall>s. is_digest (sha256 sample_env s)"
    by (simp add: sample_env_def is_digest_def hex_char_def list_all_iff) 
  show "assertCandidateRevisionV1 sample_env (js_get sample_review_input ''candidate'') = None"
    using sample_candidate_valid by (simp add: sample_review_input_def)
  have "js_get sample_review ''reviewerProvider'' = JStr ''luna''" "js_get sample_review ''assuranceTier'' = JStr ''HIGH''"
    by code_simp+
  moreover have "isQualifiedHighAssuranceProvider (JStr ''luna'')" by code_simp
  ultimately show "assuredReview sample_review (js_get sample_merge ''requireHighAssurance'')"
    by (simp add: assuredReview_def)
qed (auto simp: sample_review_input_def sample_merge_def roundWithinBound_def PR_REVIEW_MAX_ROUNDS_def)

end
