(* ===== verification/ReviewerSelection.thy ===== *)
theory ReviewerSelection
  imports CandidateContracts
begin

text \<open>
  The selection of independent reviewers (\<open>src/src/architecture/candidateAssurance.ts\<close>): which candidates are
  eligible, the plain selection of a number of reviewers, and the exact search for a set of reviewers that
  together cover the specializations a route requires. \<open>mm\<close> is the glob matcher of the \<open>minimatch\<close> package.
\<close>

record EligibleReviewerV1 =
  er_identity :: string
  er_provider :: string
  er_specializations :: "string list"

definition specializationSatisfies :: "(string \<Rightarrow> string \<Rightarrow> bool) \<Rightarrow> string list \<Rightarrow> string list \<Rightarrow> bool" where
  "specializationSatisfies mm available requested \<longleftrightarrow>
     (if requested = [] then True else if available = [] then False
      else list_ex (\<lambda>pattern. list_ex (\<lambda>v. pattern = ''*'' \<or> v = ''*'' \<or> mm v pattern \<or> mm pattern v) available) requested)"

subsection \<open>Eligible reviewers\<close>

definition trimmedText :: "js \<Rightarrow> string" where
  "trimmedText v = (case v of JStr s \<Rightarrow> js_trim s | _ \<Rightarrow> [])"

definition reviewerSpecializations :: "js \<Rightarrow> string list" where
  "reviewerSpecializations v = sort (js_uniq (filter (\<lambda>s. s \<noteq> []) (map trimmedText (js_items v))))"

definition addEligible :: "string \<Rightarrow> bool \<Rightarrow> js \<Rightarrow> (string \<times> EligibleReviewerV1) list \<Rightarrow> (string \<times> EligibleReviewerV1) list" where
  "addEligible implementer providerDiversity candidate byIdentity =
     (let identity = trimmedText (js_get candidate ''identity''); provider = trimmedText (js_get candidate ''provider'') in
      if \<not> js_is_object candidate \<or> js_get candidate ''role'' \<noteq> JStr ''Reviewer'' \<or> js_get candidate ''readOnly'' \<noteq> JBool True
        \<or> identity = [] \<or> identity = implementer \<or> (providerDiversity \<and> provider = [])
      then byIdentity
      else if (case map_of byIdentity identity of None \<Rightarrow> True | Some existing \<Rightarrow> provider < er_provider existing)
      then AList.update identity \<lparr>er_identity = identity, er_provider = provider,
             er_specializations = reviewerSpecializations (js_get candidate ''specializations'')\<rparr> byIdentity
      else byIdentity)"

definition eligibleReviewers :: "js \<Rightarrow> js list \<Rightarrow> bool \<Rightarrow> EligibleReviewerV1 list" where
  "eligibleReviewers implementationIdentity candidates providerDiversity =
     sort_key er_identity (sort_key er_provider
       (map snd (fold (addEligible (trimmedText implementationIdentity) providerDiversity) candidates [])))"

subsection \<open>Selecting a number of reviewers\<close>

fun takeDiverse :: "nat \<Rightarrow> string list \<Rightarrow> EligibleReviewerV1 list \<Rightarrow> EligibleReviewerV1 list" where
  "takeDiverse count used [] = []"
| "takeDiverse count used (r # rs) =
     (if count = 0 then []
      else if er_provider r \<in> set used then takeDiverse count used rs
      else r # takeDiverse (count - 1) (er_provider r # used) rs)"

definition distinctProviders :: "EligibleReviewerV1 list \<Rightarrow> nat" where
  "distinctProviders eligible = length (js_uniq (map er_provider eligible))"

definition selectReviewers :: "EligibleReviewerV1 list \<Rightarrow> nat \<Rightarrow> bool \<Rightarrow> EligibleReviewerV1 list \<times> string list" where
  "selectReviewers eligible count providerDiversity =
     (if count = 0 then ([], [])
      else let selected = (if providerDiversity then takeDiverse count [] eligible else take count eligible) in
        if length selected \<ge> count then (selected, [])
        else if providerDiversity \<and> distinctProviders eligible < count
        then ([], [''INDEPENDENT_REVIEW_DIVERSITY_UNSATISFIED: independent reviewer assignments require '' @ nat_text count
                    @ '' distinct providers but only '' @ nat_text (distinctProviders eligible) @ '' are available.''])
        else ([], [''INDEPENDENT_REVIEW_UNSATISFIED: independent reviewer assignments require '' @ nat_text count
                    @ '' eligible configured Reviewer candidate(s) but only '' @ nat_text (length eligible) @ '' are available.'']))"

subsection \<open>The exact covering search\<close>

definition REVIEWER_COVER_SEARCH_POOL_CAP :: nat where
  "REVIEWER_COVER_SEARCH_POOL_CAP = 16"

definition coveringSubsetSatisfiesDiversity :: "EligibleReviewerV1 list \<Rightarrow> bool \<Rightarrow> bool" where
  "coveringSubsetSatisfiesDiversity chosen providerDiversity \<longleftrightarrow>
     \<not> providerDiversity
     \<or> (\<not> list_ex (\<lambda>p. p = []) (map er_provider chosen) \<and> length (js_uniq (map er_provider chosen)) = length chosen)"

definition coversSpec :: "(string \<Rightarrow> string \<Rightarrow> bool) \<Rightarrow> EligibleReviewerV1 list \<Rightarrow> string \<Rightarrow> bool" where
  "coversSpec mm chosen spec \<longleftrightarrow> list_ex (\<lambda>r. specializationSatisfies mm (er_specializations r) [spec]) chosen"

definition coveringSubsetCoversAll :: "(string \<Rightarrow> string \<Rightarrow> bool) \<Rightarrow> EligibleReviewerV1 list \<Rightarrow> string list \<Rightarrow> bool" where
  "coveringSubsetCoversAll mm chosen required \<longleftrightarrow> list_all (coversSpec mm chosen) required"

text \<open>The rightmost position that can still be advanced, and the next combination of indices.\<close>

definition pivotOf :: "nat \<Rightarrow> nat list \<Rightarrow> nat option" where
  "pivotOf pool indices = List.find (\<lambda>p. indices ! p < pool - length indices + p) (rev [0..<length indices])"

definition nextIndices :: "nat \<Rightarrow> nat list \<Rightarrow> nat list option" where
  "nextIndices pool indices = (case pivotOf pool indices of
       None \<Rightarrow> None
     | Some pivot \<Rightarrow> Some (take pivot indices @ map (\<lambda>j. indices ! pivot + 1 + j) [0..<length indices - pivot]))"

text \<open>The loop ends because the distance of the indices from the end of the pool decreases lexicographically.\<close>

fun gapValue :: "nat \<Rightarrow> nat list \<Rightarrow> nat" where
  "gapValue pool [] = 0"
| "gapValue pool (i # is) = (pool - i) * (pool + 1) ^ length is + gapValue pool is"

lemma gapValue_bound: "gapValue pool is < (pool + 1) ^ length is"
proof (induction "is")
  case (Cons i "is")
  have "gapValue pool (i # is) < pool * (pool + 1) ^ length is + (pool + 1) ^ length is"
    using Cons.IH by (simp add: add_le_less_mono mult_le_mono1)
  then show ?case by (simp add: algebra_simps)
qed simp

lemma gapValue_append: "gapValue pool (xs @ ys) = gapValue pool xs * (pool + 1) ^ length ys + gapValue pool ys"
  by (induction xs) (simp_all add: power_add algebra_simps)

lemma gapValue_suffix:
  "length x = length y \<Longrightarrow> gapValue pool x < gapValue pool y \<Longrightarrow> gapValue pool (u @ x) < gapValue pool (u @ y)"
  by (simp add: gapValue_append)

lemma pivotOf_Some:
  "pivotOf pool is = Some p \<Longrightarrow> p < length is \<and> is ! p < pool - length is + p"
  unfolding pivotOf_def find_Some_iff by (auto simp: rev_nth)

lemma gapValue_nextIndices:
  assumes "nextIndices pool is = Some js" "length is \<le> pool"
  shows "gapValue pool js < gapValue pool is"
proof -
  obtain p where p: "pivotOf pool is = Some p"
      "js = take p is @ map (\<lambda>j. is ! p + 1 + j) [0..<length is - p]"
    using assms(1) by (auto simp: nextIndices_def split: option.splits)
  from pivotOf_Some [OF p(1)] have lt: "p < length is" "is ! p < pool" using assms(2) by auto
  obtain k where k: "length is - p = Suc k" using lt(1) by (metis Suc_diff_Suc)
  have js: "js = take p is @ (is ! p + 1) # map (\<lambda>j. is ! p + 2 + j) [0..<k]"
    unfolding p(2) k map_upt_Suc by simp
  have split: "is = take p is @ is ! p # drop (Suc p) is" using lt(1) by (rule id_take_nth_drop)
  have len: "length (drop (Suc p) is) = k" using k lt(1) by simp
  have "gapValue pool ((is ! p + 1) # map (\<lambda>j. is ! p + 2 + j) [0..<k]) < (pool - is ! p) * (pool + 1) ^ k"
  proof -
    have "gapValue pool ((is ! p + 1) # map (\<lambda>j. is ! p + 2 + j) [0..<k])
        < (pool - (is ! p + 1)) * (pool + 1) ^ k + (pool + 1) ^ k"
      using gapValue_bound [of pool "map (\<lambda>j. is ! p + 2 + j) [0..<k]"] by simp
    also have "\<dots> = Suc (pool - (is ! p + 1)) * (pool + 1) ^ k" by simp
    also have "Suc (pool - (is ! p + 1)) = pool - is ! p" using lt(2) by simp
    finally show ?thesis .
  qed
  then have "gapValue pool ((is ! p + 1) # map (\<lambda>j. is ! p + 2 + j) [0..<k]) < gapValue pool (is ! p # drop (Suc p) is)"
    using len by simp
  then have "gapValue pool js < gapValue pool (take p is @ is ! p # drop (Suc p) is)"
    unfolding js by (rule gapValue_suffix [rotated]) (use len in simp)
  then show ?thesis by (simp add: split [symmetric])
qed

text \<open>The endless loop of the code over the combinations, from the given indices on. The caller never asks for more
  indices than there are reviewers; the guard says so.\<close>

function coverLoop ::
  "(string \<Rightarrow> string \<Rightarrow> bool) \<Rightarrow> EligibleReviewerV1 list \<Rightarrow> string list \<Rightarrow> bool \<Rightarrow> nat list \<Rightarrow> EligibleReviewerV1 list option" where
  "coverLoop mm eligible required providerDiversity indices =
     (let chosen = map ((!) eligible) indices in
      if length indices > length eligible then None
      else if coveringSubsetCoversAll mm chosen required \<and> coveringSubsetSatisfiesDiversity chosen providerDiversity then Some chosen
      else (case nextIndices (length eligible) indices of
              None \<Rightarrow> None
            | Some indices' \<Rightarrow> coverLoop mm eligible required providerDiversity indices'))"
  by pat_completeness auto
termination
  by (relation "measure (\<lambda>(mm, eligible, required, providerDiversity, indices). gapValue (length eligible) indices)")
    (auto intro: gapValue_nextIndices)

declare coverLoop.simps [simp del]

definition findCoveringSubsetOfSize ::
  "(string \<Rightarrow> string \<Rightarrow> bool) \<Rightarrow> EligibleReviewerV1 list \<Rightarrow> string list \<Rightarrow> nat \<Rightarrow> bool \<Rightarrow> EligibleReviewerV1 list option" where
  "findCoveringSubsetOfSize mm eligible required count providerDiversity =
     (if count = 0 \<or> count  > length eligible then None
      else coverLoop mm eligible required providerDiversity [0..<count])"

subsection \<open>The search is exact\<close>

text \<open>A combination: strictly increasing indices into a pool. The lists are compared lexicographically.\<close>

definition combination :: "nat \<Rightarrow> nat \<Rightarrow> nat list \<Rightarrow> bool" where
  "combination pool count is \<longleftrightarrow> length is = count \<and> sorted_wrt (<) is \<and> (\<forall>i \<in> set is. i < pool)"

lemma lex_append_less [simp]: "(u @ x < u @ y) \<longleftrightarrow> (x < y)" and lex_append_le [simp]: "(u @ x \<le> u @ y) \<longleftrightarrow> (x \<le> y)"
  for u x y :: "'a::linorder list"
  by (induction u) auto

lemma pointwise_lex_le: "list_all2 (\<le>) xs ys \<Longrightarrow> xs \<le> ys" for xs ys :: "'a::linorder list"
  by (induction rule: list_all2_induct) (auto simp: le_less)

lemma lex_less_split:
  fixes xs ys :: "'a::linorder list"
  assumes "length xs = length ys" "xs < ys"
  obtains u a x b y where "xs = u @ a # x" "ys = u @ b # y" "a < b"
  using assms
proof (induction xs ys arbitrary: thesis rule: list_induct2)
  case (Cons x xs y ys)
  show ?case
  proof (cases "x < y")
    case True
    then show ?thesis using Cons.prems(1) [of "[]"] by simp
  next
    case False
    with Cons.prems(2) have "x = y" "xs < ys" by auto
    show ?thesis
    proof (rule Cons.IH [OF _ \<open>xs < ys\<close>])
      fix u a v b w assume "xs = u @ a # v" "ys = u @ b # w" "a < b"
      then show thesis using Cons.prems(1) [of "x # u" a v b w] \<open>x = y\<close> by simp
    qed
  qed
qed simp

lemma increasing_gap:
  fixes "is" :: "nat list"
  assumes "sorted_wrt (<) is" "i \<le> j" "j < length is"
  shows "is ! i + (j - i) \<le> is ! j"
  using assms(2,3)
proof (induction j rule: dec_induct)
  case (step j)
  then have "is ! j < is ! Suc j" using sorted_wrt_nth_less [OF assms(1), of j "Suc j"] by simp
  with step show ?case by simp
qed simp

lemma combination_bound:
  assumes "combination pool count is" "p < count"
  shows "is ! p \<le> pool - count + p" "count \<le> pool"
proof -
  have "is ! p + (count - 1 - p) \<le> is ! (count - 1)" "is ! 0 + (count - 1) \<le> is ! (count - 1)" "is ! (count - 1) < pool"
    using assms increasing_gap [of "is" p "count - 1"] increasing_gap [of "is" 0 "count - 1"] by (auto simp: combination_def)
  with assms(2) show "is ! p \<le> pool - count + p" "count \<le> pool" by linarith+
qed

lemma find_rev_upt:
  "q < k \<Longrightarrow> P q \<Longrightarrow> \<exists>p. List.find P (rev [0..<k]) = Some p \<and> q \<le> p"
proof (induction k)
  case (Suc k)
  then show ?case by (cases "P k"; cases "q = k") auto
qed simp

lemma gt_nextIndices: "nextIndices pool is = Some js \<Longrightarrow> is < js"
proof -
  assume "nextIndices pool is = Some js"
  then obtain p where p: "pivotOf pool is = Some p" "js = take p is @ map (\<lambda>j. is ! p + 1 + j) [0..<length is - p]"
    by (auto simp: nextIndices_def split: option.splits)
  then have lt: "p < length is" using pivotOf_Some by blast
  then obtain k where "length is - p = Suc k" by (metis Suc_diff_Suc)
  with p(2) have "take p is @ is ! p # drop (Suc p) is < js" by (simp add: map_upt_Suc del: upt_Suc)
  then show "is < js" using id_take_nth_drop [OF lt] by simp
qed

lemma nextIndices_combination:
  assumes "combination pool count is" "nextIndices pool is = Some js"
  shows "combination pool count js"
proof -
  obtain p where p: "pivotOf pool is = Some p"
      "js = take p is @ map (\<lambda>j. is ! p + 1 + j) [0..<length is - p]"
    using assms(2) by (auto simp: nextIndices_def split: option.splits)
  have len: "length is = count" and inc: "sorted_wrt (<) is" and small: "\<forall>i \<in> set is. i < pool"
    using assms(1) by (auto simp: combination_def)
  have lt: "p < count" "is ! p < pool - count + p" using pivotOf_Some [OF p(1)] len by auto
  have before: "i < is ! p" if i: "i \<in> set (take p is)" for i
    using i sorted_wrt_nth_less [OF inc] lt(1) len by (fastforce simp: in_set_conv_nth)
  have "sorted_wrt (<) js"
    unfolding p(2) sorted_wrt_append using sorted_wrt_take [OF inc] by (auto simp: sorted_wrt_map sorted_wrt_upt dest!: before)
  moreover have "\<forall>i \<in> set js. i < pool"
    unfolding p(2) using small lt len combination_bound(2) [OF assms(1) lt(1)] by (auto dest: in_set_takeD)
  moreover have "length js = count" unfolding p(2) using lt(1) len by simp
  ultimately show ?thesis by (simp add: combination_def)
qed

lemma nextIndices_successor:
  assumes "combination pool count is" "combination pool count js" "is < js"
  shows "\<exists>ks. nextIndices pool is = Some ks \<and> is < ks \<and> ks \<le> js"
proof -
  have len: "length is = count" "length js = count" and inc: "sorted_wrt (<) js"
    using assms(1,2) by (auto simp: combination_def)
  obtain u a x b y where split: "is = u @ a # x" "js = u @ b # y" "a < b"
    by (rule lex_less_split [OF _ assms(3)]) (use len in auto)
  define d where "d = length u"
  have d: "d < count" "is ! d = a" "js ! d = b" using len split by (auto simp: d_def)
  have "a < pool - count + d" using combination_bound(1) [OF assms(2) d(1)] split(3) d(3) by linarith
  then obtain p where p: "pivotOf pool is = Some p" "d \<le> p"
    using find_rev_upt [of d count "\<lambda>p. is ! p < pool - count + p"] d len by (auto simp: pivotOf_def)
  have p_len: "p < count" using pivotOf_Some [OF p(1)] len by simp
  then obtain k where k: "count - p = Suc k" by (metis Suc_diff_Suc)
  define ks where "ks = take p is @ (is ! p + 1) # map (\<lambda>j. is ! p + 2 + j) [0..<k]"
  have nxt: "nextIndices pool is = Some ks"
    by (simp add: nextIndices_def p(1) ks_def len(1) k map_upt_Suc del: upt_Suc)
  moreover have "ks \<le> js"
  proof (cases "p = d")
    case False
    then obtain m where "p = d + Suc m" using p(2) less_imp_Suc_add [of d p] by auto
    then have "take p is = u @ a # take m x" by (simp add: split(1) d_def)
    then show ?thesis using split(2,3) by (simp add: ks_def less_imp_le)
  next
    case True
    have y: "y ! j \<ge> b + 1 + j" if "j < length y" for j
      using increasing_gap [OF inc, of d "d + 1 + j"] that d(3) split(2) by (simp add: d_def nth_append)
    have "list_all2 (\<le>) (map (\<lambda>j. a + 2 + j) [0..<k]) y" if "b = a + 1"
      using y that len(2) k True by (auto simp: list_all2_conv_all_nth split(2) d_def)
    then have "map (\<lambda>j. a + 2 + j) [0..<k] \<le> y" if "b = a + 1" using that pointwise_lex_le by blast
    then show ?thesis using split(2,3) d(2) True by (auto simp: ks_def d_def split(1))
  qed
  ultimately show ?thesis using gt_nextIndices by blast
qed

lemma first_combination:
  assumes "combination pool count is"
  shows "combination pool count [0..<count]" "[0..<count] \<le> is"
proof -
  have len: "length is = count" using assms by (simp add: combination_def)
  have ge: "i \<le> is ! i" if "i < count" for i
    using increasing_gap [of "is" 0 i] assms that by (auto simp: combination_def)
  show "[0..<count] \<le> is"
    by (rule pointwise_lex_le) (use ge len in \<open>auto simp: list_all2_conv_all_nth\<close>)
  show "combination pool count [0..<count]"
    using combination_bound(2) [OF assms, of 0] by (cases "count = 0") (auto simp: combination_def)
qed

definition coversWith :: "(string \<Rightarrow> string \<Rightarrow> bool) \<Rightarrow> EligibleReviewerV1 list \<Rightarrow> string list \<Rightarrow> bool \<Rightarrow> nat list \<Rightarrow> bool" where
  "coversWith mm eligible required providerDiversity is \<longleftrightarrow>
     coveringSubsetCoversAll mm (map ((!) eligible) is) required
     \<and> coveringSubsetSatisfiesDiversity (map ((!) eligible) is) providerDiversity"

lemma coverLoop_exact:
  assumes "combination (length eligible) count is"
  shows "case coverLoop mm eligible required dv is of
      None \<Rightarrow> \<forall>js. combination (length eligible) count js \<and> is \<le> js \<longrightarrow> \<not> coversWith mm eligible required dv js
    | Some c \<Rightarrow> \<exists>js. combination (length eligible) count js \<and> is \<le> js \<and> c = map ((!) eligible) js \<and> coversWith mm eligible required dv js
        \<and> (\<forall>js'. combination (length eligible) count js' \<and> is \<le> js' \<and> js' < js \<longrightarrow> \<not> coversWith mm eligible required dv js')"
  using assms
proof (induction mm eligible required dv "is" rule: coverLoop.induct)
  case (1 mm eligible required dv "is")
  let ?C = "combination (length eligible) count" and ?ok = "coversWith mm eligible required dv"
  have small: "\<not> length is > length eligible"
    using "1.prems" combination_bound(2) [of "length eligible" count "is" 0] by (cases count) (auto simp: combination_def)
  consider (hit) "?ok is" | (stop) "\<not> ?ok is" "nextIndices (length eligible) is = None"
    | (step) js where "\<not> ?ok is" "nextIndices (length eligible) is = Some js" by fastforce
  then show ?case
  proof cases
    case hit
    then have "coverLoop mm eligible required dv is = Some (map ((!) eligible) is)"
      using small by (subst coverLoop.simps) (simp add: coversWith_def Let_def)
    then show ?thesis using hit "1.prems" by auto
  next
    case stop
    then have "coverLoop mm eligible required dv is = None"
      using small by (subst coverLoop.simps) (simp add: coversWith_def Let_def)
    moreover have "js = is" if "?C js" "is \<le> js" for js
      using nextIndices_successor [OF "1.prems" that(1)] stop(2) that(2) by (auto simp: le_less)
    ultimately show ?thesis using stop(1) by auto
  next
    case step
    then have loop: "coverLoop mm eligible required dv is = coverLoop mm eligible required dv js"
      using small by (subst coverLoop.simps) (auto simp: coversWith_def Let_def)
    have above: "is < js" using gt_nextIndices [OF step(2)] .
    have later: "js \<le> js'" if "?C js'" "is \<le> js'" "js' \<noteq> is" for js'
      using nextIndices_successor [OF "1.prems" that(1)] step(2) that(2,3) by (auto simp: le_less)
    have missed: "\<not> (coveringSubsetCoversAll mm (map ((!) eligible) is) required
        \<and> coveringSubsetSatisfiesDiversity (map ((!) eligible) is) dv)"
      using step(1) by (simp add: coversWith_def)
    note IH = "1.IH" [OF refl small missed step(2) nextIndices_combination [OF "1.prems" step(2)]]
    show ?thesis
    proof (cases "coverLoop mm eligible required dv js")
      case None
      then show ?thesis using IH step(1) later loop by auto
    next
      case (Some c)
      with IH obtain ks where ks: "?C ks" "js \<le> ks" "c = map ((!) eligible) ks" "?ok ks"
          "\<forall>js'. ?C js' \<and> js \<le> js' \<and> js' < ks \<longrightarrow> \<not> ?ok js'" by auto
      then have "\<forall>js'. ?C js' \<and> is \<le> js' \<and> js' < ks \<longrightarrow> \<not> ?ok js'" using step(1) later by blast
      with ks above Some loop show ?thesis by (auto intro!: exI [of _ ks])
    qed
  qed
qed

lemma findCoveringSubsetOfSize_cases:
  assumes "0 < count"
  shows "case findCoveringSubsetOfSize mm eligible required count dv of
      None \<Rightarrow> \<forall>is. combination (length eligible) count is \<longrightarrow> \<not> coversWith mm eligible required dv is
    | Some c \<Rightarrow> \<exists>is. combination (length eligible) count is \<and> c = map ((!) eligible) is \<and> coversWith mm eligible required dv is
        \<and> (\<forall>js. combination (length eligible) count js \<and> js < is \<longrightarrow> \<not> coversWith mm eligible required dv js)"
proof (cases "count \<le> length eligible")
  case True
  then have "combination (length eligible) count [0..<count]" by (auto simp: combination_def)
  from coverLoop_exact [OF this, of mm required dv] show ?thesis
    using True assms first_combination(2) by (auto simp: findCoveringSubsetOfSize_def split: option.splits)
next
  case False
  then have "\<not> combination (length eligible) count is" for "is" using combination_bound(2) [OF _ assms] by auto
  with False show ?thesis by (simp add: findCoveringSubsetOfSize_def)
qed

subsection \<open>Assigning reviewers\<close>

text \<open>The sizes are tried in order; the first that has a cover is taken.\<close>

fun firstCover ::
  "(string \<Rightarrow> string \<Rightarrow> bool) \<Rightarrow> EligibleReviewerV1 list \<Rightarrow> string list \<Rightarrow> bool \<Rightarrow> nat list \<Rightarrow> EligibleReviewerV1 list option" where
  "firstCover mm eligible required providerDiversity [] = None"
| "firstCover mm eligible required providerDiversity (k # ks) =
     (case findCoveringSubsetOfSize mm eligible required k providerDiversity of
        Some c \<Rightarrow> Some c
      | None \<Rightarrow> firstCover mm eligible required providerDiversity ks)"

definition maskedReviewers :: "EligibleReviewerV1 list \<Rightarrow> nat \<Rightarrow> EligibleReviewerV1 list" where
  "maskedReviewers eligible bits = map snd (filter (\<lambda>(index, r). odd (bits div 2 ^ index)) (enumerate 0 eligible))"

definition betterCover ::
  "(string \<Rightarrow> string \<Rightarrow> bool) \<Rightarrow> EligibleReviewerV1 list \<Rightarrow> string list \<Rightarrow> bool \<Rightarrow> nat \<Rightarrow> string list \<times> nat \<Rightarrow> string list \<times> nat" where
  "betterCover mm eligible required providerDiversity bits best =
     (let chosen = maskedReviewers eligible bits; covered = filter (coversSpec mm chosen) required in
      if \<not> coveringSubsetSatisfiesDiversity chosen providerDiversity then best
      else if length covered > length (fst best) \<or> (length covered = length (fst best) \<and> length chosen < snd best)
      then (covered, length chosen) else best)"

definition uncoveredSpecsForNoDiverseCover ::
  "(string \<Rightarrow> string \<Rightarrow> bool) \<Rightarrow> EligibleReviewerV1 list \<Rightarrow> string list \<Rightarrow> bool \<Rightarrow> string list" where
  "uncoveredSpecsForNoDiverseCover mm eligible required providerDiversity =
     (let best = fold (betterCover mm eligible required providerDiversity) [1..<2 ^ length eligible] ([], nat max_safe_integer);
          uncovered = filter (\<lambda>spec. spec \<notin> set (fst best)) required
      in if uncovered = [] then required else uncovered)"

definition commaList :: "string list \<Rightarrow> string" where
  "commaList xs = js_join '','' xs"

definition specQuoted :: "string \<Rightarrow> string" where
  "specQuoted spec = CHR 0x27 # spec @ [CHR 0x27]"

definition missingSpec :: "string list \<Rightarrow> nat \<Rightarrow> string \<Rightarrow> string" where
  "missingSpec required candidates spec =
     ''MISSING_REQUIRED_REVIEW_SPECIALIZATION: no enabled Reviewer with specialization '' @ specQuoted spec
     @ '' is available for the route-required review (required: '' @ commaList required @ ''; '' @ nat_text candidates @ '' eligible candidate(s)).''"

definition uncoveredSpec :: "string list \<Rightarrow> string list \<Rightarrow> nat \<Rightarrow> string \<Rightarrow> string" where
  "uncoveredSpec required uncovered candidates spec =
     ''MISSING_REQUIRED_REVIEW_SPECIALIZATION: no enabled Reviewer with specialization '' @ specQuoted spec
     @ '' is available for the route-required collective coverage (required: '' @ commaList required @ ''; uncovered: ''
     @ commaList uncovered @ ''; '' @ nat_text candidates @ '' eligible candidate(s)).''"

definition poolTooLarge :: "nat \<Rightarrow> string list \<Rightarrow> string" where
  "poolTooLarge pool required =
     ''REVIEWER_COVER_SEARCH_POOL_TOO_LARGE: route-required collective coverage search requires an exact covering set but the eligible holder pool (''
     @ nat_text pool @ '') exceeds the deterministic cap ('' @ nat_text REVIEWER_COVER_SEARCH_POOL_CAP @ '') for required [''
     @ commaList required @ '']; no greedy fallback is allowed.''"

definition underMinimum :: "EligibleReviewerV1 list \<Rightarrow> string list \<Rightarrow> nat \<Rightarrow> string" where
  "underMinimum chosen required minimum =
     ''INDEPENDENT_REVIEW_UNDER_MINIMUM: route-required collective coverage holds '' @ nat_text (length chosen)
     @ '' reviewer(s) covering ['' @ commaList required @ ''] but the policy minimum requires '' @ nat_text minimum
     @ ''; coverage is preserved (assigned: '' @ commaList (map er_identity chosen)
     @ '') and the AcceptanceOracle count check judges the under-minimum.''"

definition coverReviewers ::
  "(string \<Rightarrow> string \<Rightarrow> bool) \<Rightarrow> EligibleReviewerV1 list \<Rightarrow> string list \<Rightarrow> nat \<Rightarrow> bool \<Rightarrow> EligibleReviewerV1 list \<times> string list" where
  "coverReviewers mm holders required minimum providerDiversity =
     (let startSize = max minimum 1 in
      case firstCover mm holders required providerDiversity [startSize..<Suc (length holders)] of
        Some found \<Rightarrow> (found, [])
      | None \<Rightarrow>
         (case firstCover mm holders required providerDiversity [1..<startSize] of
            Some smaller \<Rightarrow> (smaller, [underMinimum smaller required minimum])
          | None \<Rightarrow> let uncovered = uncoveredSpecsForNoDiverseCover mm holders required providerDiversity in
              ([], map (uncoveredSpec required uncovered (length holders)) uncovered)))"

definition assignReviewers ::
  "(string \<Rightarrow> string \<Rightarrow> bool) \<Rightarrow> EligibleReviewerV1 list \<Rightarrow> string list \<Rightarrow> nat \<Rightarrow> bool \<Rightarrow> EligibleReviewerV1 list \<times> string list" where
  "assignReviewers mm baseEligible required minimum providerDiversity =
     (let missing = filter (\<lambda>spec. \<not> coversSpec mm baseEligible spec) required;
          missingBlockers = map (missingSpec required (length baseEligible)) missing;
          holders = (if missing \<noteq> [] then []
                     else filter (\<lambda>r. specializationSatisfies mm (er_specializations r) required) baseEligible)
      in if required = [] then selectReviewers baseEligible minimum providerDiversity
         else if holders = [] then ([], missingBlockers @ snd (selectReviewers holders minimum providerDiversity))
         else if length holders > REVIEWER_COVER_SEARCH_POOL_CAP then ([], missingBlockers @ [poolTooLarge (length holders) required])
         else (case coverReviewers mm holders required minimum providerDiversity of
                 (selected, blockers) \<Rightarrow> (selected, missingBlockers @ blockers)))"

subsection \<open>What an assignment guarantees\<close>

lemma firstCover_None:
  "0 \<notin> set ks \<Longrightarrow> firstCover mm eligible required dv ks = None \<longleftrightarrow>
     (\<forall>k \<in> set ks. \<forall>is. combination (length eligible) k is \<longrightarrow> \<not> coversWith mm eligible required dv is)"
proof (induction ks)
  case (Cons k ks)
  then have "0 < k" by auto
  with Cons findCoveringSubsetOfSize_cases [OF this, where mm = mm and eligible = eligible and required = required and dv = dv] show ?case by (auto split: option.splits)
qed simp

lemma firstCover_Some:
  "0 \<notin> set ks \<Longrightarrow> firstCover mm eligible required dv ks = Some c \<Longrightarrow>
     \<exists>k \<in> set ks. \<exists>is. combination (length eligible) k is \<and> c = map ((!) eligible) is \<and> coversWith mm eligible required dv is"
proof (induction ks)
  case (Cons k ks)
  then have "0 < k" by auto
  with Cons findCoveringSubsetOfSize_cases [OF this, where mm = mm and eligible = eligible and required = required and dv = dv] show ?case by (auto split: option.splits)
qed simp

lemma length_takeDiverse: "length (takeDiverse count used rs) = min count (card (er_provider ` set rs - set used))"
proof (induction count used rs rule: takeDiverse.induct)
  case (2 count used r rs)
  consider "count = 0" | "er_provider r \<in> set used" "count \<noteq> 0" | "er_provider r \<notin> set used" "count \<noteq> 0" by blast
  then show ?case
  proof cases
    case 2
    then have "er_provider ` set (r # rs) - set used = er_provider ` set rs - set used" by auto
    with 2 "2.IH"(1) show ?thesis by simp
  next
    case 3
    have "er_provider ` set (r # rs) - set used = insert (er_provider r) (er_provider ` set rs - set (er_provider r # used))"
      using 3(1) by auto
    then have "card (er_provider ` set (r # rs) - set used) = Suc (card (er_provider ` set rs - set (er_provider r # used)))"
      by (simp del: list.set) (simp add: card_insert_if)
    with 3 "2.IH"(2) show ?thesis by (cases count) auto
  qed simp
qed simp

lemma takeDiverse_distinct:
  "distinct (map er_provider (takeDiverse count used rs)) \<and> er_provider ` set (takeDiverse count used rs) \<inter> set used = {}"
  by (induction count used rs rule: takeDiverse.induct) auto

lemma set_takeDiverse: "set (takeDiverse count used rs) \<subseteq> set rs"
  by (induction count used rs rule: takeDiverse.induct) auto

text \<open>Reviewers that can be chosen together: as many as asked for, of different providers when diversity is asked for.\<close>

definition enoughReviewers :: "EligibleReviewerV1 list \<Rightarrow> nat \<Rightarrow> bool \<Rightarrow> bool" where
  "enoughReviewers eligible count dv \<longleftrightarrow>
     (if dv then count \<le> card (er_provider ` set eligible) else count \<le> length eligible)"

lemma distinctProviders_card: "distinctProviders eligible = card (er_provider ` set eligible)"
  by (simp add: distinctProviders_def length_js_uniq_card)

lemma selectReviewers_exact:
  "enoughReviewers eligible count dv \<Longrightarrow>
     snd (selectReviewers eligible count dv) = [] \<and> length (fst (selectReviewers eligible count dv)) = count
     \<and> set (fst (selectReviewers eligible count dv)) \<subseteq> set eligible
     \<and> (dv \<longrightarrow> distinct (map er_provider (fst (selectReviewers eligible count dv))))"
  "\<not> enoughReviewers eligible count dv \<Longrightarrow>
     fst (selectReviewers eligible count dv) = [] \<and> snd (selectReviewers eligible count dv) \<noteq> []"
  using takeDiverse_distinct [of count "[]" eligible] set_takeDiverse [of count "[]" eligible] set_take_subset [of count eligible]
  by (auto simp: enoughReviewers_def selectReviewers_def Let_def length_takeDiverse distinctProviders_card split: if_splits)

lemma coversWith_chosen:
  assumes "combination (length eligible) k is" "coversWith mm eligible required dv is"
  defines "chosen \<equiv> map ((!) eligible) is"
  shows "set chosen \<subseteq> set eligible" "length chosen = k" "\<forall>spec \<in> set required. coversSpec mm chosen spec"
    "dv \<longrightarrow> distinct (map er_provider chosen)"
proof -
  show "set chosen \<subseteq> set eligible" "length chosen = k" using assms(1) by (auto simp: chosen_def combination_def)
  show "\<forall>spec \<in> set required. coversSpec mm chosen spec"
    using assms(2) by (auto simp: chosen_def coversWith_def coveringSubsetCoversAll_def list_all_iff)
  show "dv \<longrightarrow> distinct (map er_provider chosen)"
    using assms(2) length_js_uniq_eq [of "map er_provider chosen"]
    by (simp add: chosen_def coversWith_def coveringSubsetSatisfiesDiversity_def)
qed

lemma coversSpec_mono: "coversSpec mm xs spec \<Longrightarrow> set xs \<subseteq> set ys \<Longrightarrow> coversSpec mm ys spec"
  by (auto simp: coversSpec_def list_ex_iff)

lemma uncovered_not_Nil: "required \<noteq> [] \<Longrightarrow> uncoveredSpecsForNoDiverseCover mm eligible required dv \<noteq> []"
  by (auto simp: uncoveredSpecsForNoDiverseCover_def Let_def)

lemma coverReviewers_Nil:
  assumes "required \<noteq> []"
  shows "snd (coverReviewers mm holders required minimum dv) = [] \<longleftrightarrow>
    (\<exists>k is. max minimum 1 \<le> k \<and> combination (length holders) k is \<and> coversWith mm holders required dv is)"
proof -
  have range: "k \<in> set [max minimum 1..<Suc (length holders)]" if "max minimum 1 \<le> k" "combination (length holders) k is" for k "is"
    using that combination_bound(2) [OF that(2), of 0] by auto
  have "snd (coverReviewers mm holders required minimum dv) = []
      \<longleftrightarrow> firstCover mm holders required dv [max minimum 1..<Suc (length holders)] \<noteq> None"
    using uncovered_not_Nil [OF assms] by (auto simp: coverReviewers_def Let_def simp del: upt_Suc split: option.splits)
  also have "\<dots> \<longleftrightarrow> (\<exists>k is. max minimum 1 \<le> k \<and> combination (length holders) k is \<and> coversWith mm holders required dv is)"
  proof -
    define sizes where "sizes = [max minimum 1..<Suc (length holders)]"
    have "0 \<notin> set sizes" "\<forall>k \<in> set sizes. max minimum 1 \<le> k" by (auto simp: sizes_def)
    moreover have "\<forall>k is. max minimum 1 \<le> k \<and> combination (length holders) k is \<longrightarrow> k \<in> set sizes"
      using range by (auto simp only: sizes_def)
    ultimately show ?thesis unfolding sizes_def [symmetric] using firstCover_None [of sizes mm holders required dv] by metis
  qed
  finally show ?thesis .
qed

definition holdersOf :: "(string \<Rightarrow> string \<Rightarrow> bool) \<Rightarrow> EligibleReviewerV1 list \<Rightarrow> string list \<Rightarrow> EligibleReviewerV1 list" where
  "holdersOf mm baseEligible required = filter (\<lambda>r. specializationSatisfies mm (er_specializations r) required) baseEligible"

lemma missing_Nil: "filter (\<lambda>spec. \<not> coversSpec mm base spec) required = [] \<longleftrightarrow> (\<forall>spec \<in> set required. coversSpec mm base spec)"
  by (simp add: filter_empty_conv)

lemma satisfies_any:
  "specializationSatisfies mm available [spec] \<Longrightarrow> spec \<in> set required \<Longrightarrow> specializationSatisfies mm available required"
  by (auto simp: specializationSatisfies_def list_ex_iff split: if_splits)

lemma holders_not_Nil:
  "required \<noteq> [] \<Longrightarrow> \<forall>spec \<in> set required. coversSpec mm base spec \<Longrightarrow> holdersOf mm base required \<noteq> []"
proof -
  assume "required \<noteq> []" "\<forall>spec \<in> set required. coversSpec mm base spec"
  then obtain spec r where r: "spec \<in> set required" "r \<in> set base" "specializationSatisfies mm (er_specializations r) [spec]"
    by (cases required) (auto simp: coversSpec_def list_ex_iff)
  then have "specializationSatisfies mm (er_specializations r) required" using satisfies_any by blast
  with r(2) show ?thesis by (auto simp: holdersOf_def filter_empty_conv)
qed

lemma assignReviewers_blockers:
  assumes "required \<noteq> []"
  shows "snd (assignReviewers mm base required minimum dv) = [] \<longleftrightarrow>
    (\<forall>spec \<in> set required. coversSpec mm base spec) \<and> length (holdersOf mm base required) \<le> REVIEWER_COVER_SEARCH_POOL_CAP
    \<and> snd (coverReviewers mm (holdersOf mm base required) required minimum dv) = []"
proof (cases "\<forall>spec \<in> set required. coversSpec mm base spec")
  case True
  with holders_not_Nil [OF assms True] assms show ?thesis
    by (auto simp: assignReviewers_def Let_def missing_Nil holdersOf_def split: prod.splits)
next
  case False
  then have "filter (\<lambda>spec. \<not> coversSpec mm base spec) required \<noteq> []" using missing_Nil by blast
  with False assms show ?thesis by (simp add: assignReviewers_def Let_def)
qed

text \<open>
  C25: The reviewer assignment of a route that requires specializations is complete. The assignment reports no
  blocker exactly when the pool of holders is within the search cap and some set of holders, at least as large as the
  policy minimum, covers every required specialization and respects provider diversity.
\<close>

theorem assignReviewers_ready_iff:
  assumes "required \<noteq> []"
  shows "snd (assignReviewers mm base required minimum dv) = [] \<longleftrightarrow>
    length (holdersOf mm base required) \<le> REVIEWER_COVER_SEARCH_POOL_CAP
    \<and> (\<exists>k is. max minimum 1 \<le> k \<and> combination (length (holdersOf mm base required)) k is
          \<and> coversWith mm (holdersOf mm base required) required dv is)"
proof -
  have "\<forall>spec \<in> set required. coversSpec mm base spec"
    if "combination (length (holdersOf mm base required)) k is" "coversWith mm (holdersOf mm base required) required dv is" for k "is"
    using coversWith_chosen(1,3) [OF that] coversSpec_mono by (fastforce simp: holdersOf_def)
  then show ?thesis unfolding assignReviewers_blockers [OF assms] coverReviewers_Nil [OF assms] by blast
qed

lemma assignReviewers_facts:
  assumes "assignReviewers mm base required minimum dv = (selected, [])"
  shows "set selected \<subseteq> set base \<and> minimum \<le> length selected
    \<and> (\<forall>spec \<in> set required. coversSpec mm selected spec) \<and> (dv \<longrightarrow> distinct (map er_provider selected))"
proof (cases "required = []")
  case True
  with assms have "selectReviewers base minimum dv = (selected, [])" by (simp add: assignReviewers_def)
  with selectReviewers_exact [of base minimum dv] True show ?thesis by (cases "enoughReviewers base minimum dv") auto
next
  case False
  let ?H = "holdersOf mm base required"
  have none: "snd (assignReviewers mm base required minimum dv) = []" using assms by simp
  note ready = assignReviewers_blockers [OF False, THEN iffD1, OF none]
  have "coverReviewers mm ?H required minimum dv = (selected, [])"
    using assms ready holders_not_Nil [OF False] False
    by (auto simp: assignReviewers_def Let_def missing_Nil holdersOf_def split: prod.splits if_splits)
  then have "firstCover mm ?H required dv [max minimum 1..<Suc (length ?H)] = Some selected"
    using uncovered_not_Nil [OF False] by (auto simp: coverReviewers_def Let_def simp del: upt_Suc split: option.splits)
  moreover have "0 \<notin> set [max minimum 1..<Suc (length ?H)]" "\<forall>k \<in> set [max minimum 1..<Suc (length ?H)]. max minimum 1 \<le> k"
    by auto
  ultimately obtain k "is" where k: "max minimum 1 \<le> k" and c: "combination (length ?H) k is"
      "coversWith mm ?H required dv is" and s: "selected = map ((!) ?H) is"
    using firstCover_Some [of "[max minimum 1..<Suc (length ?H)]" mm ?H required dv selected] by blast
  have "set ?H \<subseteq> set base" by (auto simp: holdersOf_def)
  with coversWith_chosen [OF c] k show ?thesis unfolding s by auto
qed


text \<open>
  C38: The search for a cover of a given size ends and is exact: it returns the first combination of reviewers, in
  the lexicographic order of their positions, that covers the required specializations and respects provider
  diversity, and it returns nothing exactly when there is no such combination.
\<close>

theorem findCoveringSubsetOfSize_first:
  assumes "0 < count"
  shows "(findCoveringSubsetOfSize mm eligible required count dv = None
      \<longleftrightarrow> (\<forall>is. combination (length eligible) count is \<longrightarrow> \<not> coversWith mm eligible required dv is))
    \<and> (\<forall>c. findCoveringSubsetOfSize mm eligible required count dv = Some c \<longrightarrow>
        (\<exists>is. combination (length eligible) count is \<and> c = map ((!) eligible) is \<and> coversWith mm eligible required dv is
          \<and> (\<forall>js. combination (length eligible) count js \<and> js < is \<longrightarrow> \<not> coversWith mm eligible required dv js)))"
  using findCoveringSubsetOfSize_cases [OF assms, where mm = mm and eligible = eligible and required = required and dv = dv]
  by (auto split: option.splits)

definition sample_pool :: "EligibleReviewerV1 list" where
  "sample_pool = [\<lparr>er_identity = ''a'', er_provider = ''p'', er_specializations = [''ts'']\<rparr>,
     \<lparr>er_identity = ''b'', er_provider = ''p'', er_specializations = [''sec'']\<rparr>,
     \<lparr>er_identity = ''c'', er_provider = ''q'', er_specializations = [''sec'']\<rparr>]"

theorem assignReviewers_ready_iff_witness:
  "snd (assignReviewers (=) sample_pool [''sec'', ''ts''] 2 True) = []
   \<and> (\<exists>k is. max 2 1 \<le> k \<and> combination (length (holdersOf (=) sample_pool [''sec'', ''ts''])) k is
        \<and> coversWith (=) (holdersOf (=) sample_pool [''sec'', ''ts'']) [''sec'', ''ts''] True is)"
proof -
  have "snd (assignReviewers (=) sample_pool [''sec'', ''ts''] 2 True) = []" by code_simp
  with assignReviewers_ready_iff [of "[''sec'', ''ts'']" "(=)" sample_pool 2 True] show ?thesis by simp
qed


theorem findCoveringSubsetOfSize_first_witness:
  "\<exists>c is. findCoveringSubsetOfSize (=) sample_pool [''sec'', ''ts''] 2 True = Some c
     \<and> combination 3 2 is \<and> c = map ((!) sample_pool) is"
proof -
  have "findCoveringSubsetOfSize (=) sample_pool [''sec'', ''ts''] 2 True \<noteq> None" by code_simp
  then obtain c where c: "findCoveringSubsetOfSize (=) sample_pool [''sec'', ''ts''] 2 True = Some c" by (auto simp only: not_None_eq)
  have "length sample_pool = 3" by (simp add: sample_pool_def)
  with findCoveringSubsetOfSize_first [of 2 "(=)" sample_pool "[''sec'', ''ts'']" True] c show ?thesis by auto
qed

end
