(* ===== verification/CandidateAssurance.thy ===== *)
theory CandidateAssurance
  imports ReviewerSelection
begin

text \<open>
  The compilation of a candidate's assurance (\<open>src/src/architecture/candidateAssurance.ts\<close>): from the impact of a
  candidate, the frozen policy and the validation resolution to validation requirements, reviewer assignments,
  acceptance assertions and blockers. The parameters are \<open>S\<close>, the verdict of the zod schema of a validation
  requirement, and \<open>mm\<close>, the glob matcher. The input is checked at run time, so it is a run-time value.
\<close>

subsection \<open>Results\<close>

datatype assurance_error =
    AssuranceRejected string
  | AssuranceTypeError
  | AssuranceUnserializable serialize_error
  | AssuranceCandidate contract_error

definition rejectIf :: "bool \<Rightarrow> string \<Rightarrow> assurance_error + unit" where
  "rejectIf b message = (if b then Inl (AssuranceRejected message) else Inr ())"

definition digestOf :: "js_env \<Rightarrow> js \<Rightarrow> assurance_error + string" where
  "digestOf E v = map_sum AssuranceUnserializable id (sha256Canonical E v)"

lemma rejectIf_Inr [simp]: "rejectIf b m = Inr u \<longleftrightarrow> \<not> b"
  by (simp add: rejectIf_def)

subsection \<open>Dimensions and assurance levels\<close>

definition reviewDimensionRules :: "(string \<times> string \<times> string) list" where
  "reviewDimensionRules =
     [(''security'', ''static-security'', ''CRITICAL''),
      (''authentication/authorization'', ''integration-test'', ''CRITICAL''),
      (''public API'', ''contract-test'', ''ELEVATED''),
      (''migration/schema'', ''integration-test'', ''CRITICAL''),
      (''dependency/supply chain'', ''dependency-security'', ''CRITICAL''),
      (''UI/browser'', ''browser-test'', ''ELEVATED''),
      (''UI/visual'', ''visual-test'', ''ELEVATED''),
      (''architecture'', ''architecture'', ''ELEVATED''),
      (''concurrency'', ''integration-test'', ''CRITICAL''),
      (''operations'', ''integration-test'', ''ELEVATED''),
      (''behavior.correctness'', ''unit-test'', ''STANDARD'')]"

definition reviewDimensionRule :: "string \<Rightarrow> string \<times> string" where
  "reviewDimensionRule dimension = (case map_of reviewDimensionRules dimension of
       Some rule \<Rightarrow> rule | None \<Rightarrow> (''unit-test'', ''ELEVATED''))"

abbreviation dimensionKind :: "string \<Rightarrow> string" where
  "dimensionKind d \<equiv> fst (reviewDimensionRule d)"

abbreviation dimensionFloor :: "string \<Rightarrow> string" where
  "dimensionFloor d \<equiv> snd (reviewDimensionRule d)"

text \<open>
  \<open>assuranceRanks[level]\<close>: the table is a plain object, so the names of the members of \<open>Object.prototype\<close> are
  found too; such a member is not \<open>undefined\<close> and compares like NaN.
\<close>

datatype assurance_rank = Rank int | PrototypeMember

definition assuranceRanks :: "(string \<times> int) list" where
  "assuranceRanks = [(''NONE'', 0), (''STANDARD'', 1), (''ELEVATED'', 2), (''CRITICAL'', 3)]"

definition prototypeMembers :: "string list" where
  "prototypeMembers = [''constructor'', ''__defineGetter__'', ''__defineSetter__'', ''hasOwnProperty'', ''__lookupGetter__'',
     ''__lookupSetter__'', ''isPrototypeOf'', ''propertyIsEnumerable'', ''toString'', ''valueOf'', ''__proto__'', ''toLocaleString'']"

definition assuranceRank :: "js \<Rightarrow> assurance_error + assurance_rank" where
  "assuranceRank level = (let key = js_string level in
     case map_of assuranceRanks key of
       Some rank \<Rightarrow> Inr (Rank rank)
     | None \<Rightarrow> if key \<in> set prototypeMembers then Inr PrototypeMember
         else Inl (AssuranceRejected (''assurance level '' @ specQuoted key @ '' is not supported.'')))"

definition rankAbove :: "assurance_rank \<Rightarrow> assurance_rank \<Rightarrow> bool" where
  "rankAbove a b = (case (a, b) of (Rank m, Rank n) \<Rightarrow> m > n | _ \<Rightarrow> False)"

fun maxAssuranceFrom :: "js \<Rightarrow> js list \<Rightarrow> assurance_error + js" where
  "maxAssuranceFrom selected [] = Inr selected"
| "maxAssuranceFrom selected (level # levels) =
     andThen (assuranceRank level) (\<lambda>a. andThen (assuranceRank selected) (\<lambda>b.
       maxAssuranceFrom (if rankAbove a b then level else selected) levels))"

definition maxAssurance :: "js list \<Rightarrow> assurance_error + js" where
  "maxAssurance levels = maxAssuranceFrom (JStr ''NONE'') levels"

definition slugChar :: "char \<Rightarrow> bool" where
  "slugChar c \<longleftrightarrow> (CHR ''a'' \<le> c \<and> c \<le> CHR ''z'') \<or> (CHR ''0'' \<le> c \<and> c \<le> CHR ''9'')"

text \<open>\<open>replace(/[^a-z0-9]+/g, "-")\<close>: a run of other characters becomes one dash.\<close>

fun dashRuns :: "bool \<Rightarrow> string \<Rightarrow> string" where
  "dashRuns inRun [] = []"
| "dashRuns inRun (c # cs) =
     (if slugChar c then c # dashRuns False cs else if inRun then dashRuns True cs else CHR ''-'' # dashRuns True cs)"

definition trimDashes :: "string \<Rightarrow> string" where
  "trimDashes s = (let front = dropWhile (\<lambda>c. c = CHR ''-'') s in rev (dropWhile (\<lambda>c. c = CHR ''-'') (rev front)))"

definition textDigest :: "js_env \<Rightarrow> string \<Rightarrow> string" where
  "textDigest E s = (case sha256Canonical E (JStr s) of Inr d \<Rightarrow> d | Inl _ \<Rightarrow> [])"

definition dimensionSlug :: "js_env \<Rightarrow> string \<Rightarrow> string" where
  "dimensionSlug E dimension =
     (let slug = trimDashes (dashRuns False (js_lower dimension)) in if slug = [] then take 12 (textDigest E dimension) else slug)"

subsection \<open>The impact\<close>

definition impactTexts :: "js \<Rightarrow> string \<Rightarrow> string \<Rightarrow> assurance_error + string list" where
  "impactTexts v field arrayMessage =
     andThen (rejectIf (\<not> js_is_array v) arrayMessage) (\<lambda>_.
     let normalized = map trimmedText (js_items v) in
     andThen (rejectIf ([] \<in> set normalized) (field @ '' must contain only non-empty strings.'')) (\<lambda>_.
     Inr (sort (js_uniq normalized))))"

definition requireReviewDimensions :: "js \<Rightarrow> assurance_error + string list" where
  "requireReviewDimensions impact =
     impactTexts (js_get impact ''reviewDimensions'') ''impact.reviewDimensions'' ''impact.reviewDimensions must be an array.''"

definition requireChangedFiles :: "js \<Rightarrow> assurance_error + string list" where
  "requireChangedFiles impact =
     andThen (impactTexts (js_get impact ''changedFiles'') ''impact.changedFiles'' ''impact.changedFiles must be an array.'')
       (\<lambda>files. Inr (if files = [] then [''**''] else files))"

definition requireUnknowns :: "js \<Rightarrow> assurance_error + string list" where
  "requireUnknowns impact =
     impactTexts (js_coalesce (js_get impact ''unknowns'') (JArr [])) ''impact.unknowns'' ''impact.unknowns must be an array when present.''"

definition dimensionPhrase :: "string \<Rightarrow> string \<Rightarrow> string" where
  "dimensionPhrase d rest = '' dimension '' @ specQuoted d @ rest"

fun requirementIds :: "js_env \<Rightarrow> string list \<Rightarrow> string list \<Rightarrow> string list" where
  "requirementIds E used [] = []"
| "requirementIds E used (d # ds) =
     (let base = ''impact-review-'' @ dimensionSlug E d;
          i = (if base \<in> set used then base @ ''-'' @ take 8 (textDigest E d) else base)
      in i # requirementIds E (i # used) ds)"

definition impactRequirement :: "string list \<Rightarrow> string \<Rightarrow> string \<Rightarrow> js" where
  "impactRequirement changedFiles i d = JObj
     [(''version'', jint 1), (''id'', JStr i),
      (''property'', JStr (''Impact review'' @ dimensionPhrase d '' must be validated before candidate acceptance.'')),
      (''kind'', JStr (dimensionKind d)), (''scope'', JArr (map JStr changedFiles)),
      (''evidenceNeeded'', JArr [JStr (dimensionKind d @ '' evidence for impact review'' @ dimensionPhrase d ''.'')]),
      (''requirementRefs'', JArr []), (''acceptanceRefs'', JArr [])]"

definition buildImpactValidationRequirements :: "js_env \<Rightarrow> string list \<Rightarrow> string list \<Rightarrow> js list" where
  "buildImpactValidationRequirements E dimensions changedFiles =
     map2 (impactRequirement changedFiles) (requirementIds E [] dimensions) dimensions"

definition candidateImpactValidationRequirementsV1 :: "js_env \<Rightarrow> js \<Rightarrow> assurance_error + js list" where
  "candidateImpactValidationRequirementsV1 E impact =
     andThen (rejectIf (\<not> js_is_object impact) ''candidate impact must be an object.'') (\<lambda>_.
     andThen (requireReviewDimensions impact) (\<lambda>dimensions.
     andThen (requireChangedFiles impact) (\<lambda>files.
     Inr (buildImpactValidationRequirements E dimensions files))))"

subsection \<open>Policy, resolution and binding\<close>

definition validationKinds :: "string list" where
  "validationKinds = [''unit-test'', ''integration-test'', ''bdd'', ''contract-test'', ''browser-test'', ''visual-test'',
     ''static-security'', ''dependency-security'', ''architecture'', ''policy'', ''command'']"

definition digestText :: "js \<Rightarrow> bool" where
  "digestText v = (case v of JStr s \<Rightarrow> is_digest s | _ \<Rightarrow> False)"

definition validatedPolicy :: "js \<Rightarrow> assurance_error + unit" where
  "validatedPolicy policy =
     andThen (rejectIf (\<not> js_is_object policy) ''policy must be an object.'') (\<lambda>_.
     andThen (rejectIf (js_get policy ''version'' \<noteq> jint 1) ''policy.version must be 1.'') (\<lambda>_.
     andThen (rejectIf (\<not> digestText (js_get policy ''digest'')) ''policy.digest must be a lowercase SHA-256 digest.'') (\<lambda>_.
     andThen (assuranceRank (js_get policy ''minimumAssurance'')) (\<lambda>_.
     andThen (assuranceRank (js_get policy ''evidenceStrength'')) (\<lambda>_.
     andThen (rejectIf (js_typeof (js_get policy ''independentReviewRequired'') \<noteq> ''boolean'')
       ''policy.independentReviewRequired must be a boolean.'') (\<lambda>_.
     andThen (rejectIf (js_typeof (js_get policy ''providerDiversity'') \<noteq> ''boolean'') ''policy.providerDiversity must be a boolean.'') (\<lambda>_.
     andThen (rejectIf (\<not> js_safe_at_least 0 (js_get policy ''minimumIndependentReviewers''))
       ''policy.minimumIndependentReviewers must be a non-negative integer.'') (\<lambda>_.
     andThen (rejectIf (\<not> js_is_array (js_get policy ''allowedValidationKinds'')) ''policy.allowedValidationKinds must be an array.'') (\<lambda>_.
     rejectIf (list_ex (\<lambda>k. k \<notin> set (map JStr validationKinds)) (js_items (js_get policy ''allowedValidationKinds'')))
       ''policy.allowedValidationKinds contains an unsupported validation kind.'')))))))))"

definition withoutDigest :: "js \<Rightarrow> js" where
  "withoutDigest v = JObj (filter (\<lambda>(k, x). k \<noteq> ''digest'') (own_entries v))"

text \<open>\<open>new Set(xs).size !== xs.length\<close>: two objects read separately are never the same element.\<close>

definition repeatsPrimitive :: "js list \<Rightarrow> bool" where
  "repeatsPrimitive xs \<longleftrightarrow> \<not> distinct (filter (\<lambda>v. case v of JArr _ \<Rightarrow> False | JObj _ \<Rightarrow> False | JExotic _ \<Rightarrow> False | _ \<Rightarrow> True) xs)"

definition validateResolution :: "(js \<Rightarrow> bool) \<Rightarrow> js_env \<Rightarrow> js \<Rightarrow> assurance_error + unit" where
  "validateResolution S E r =
     andThen (rejectIf (\<not> js_is_object r \<or> js_get r ''version'' \<noteq> jint 1 \<or> \<not> js_is_array (js_get r ''requirements'')
       \<or> \<not> js_is_array (js_get r ''actions'') \<or> \<not> js_is_array (js_get r ''blocked''))
       ''validationResolution must be a complete version 1 result.'') (\<lambda>_.
     andThen (rejectIf (\<not> digestText (js_get r ''digest'')) ''validationResolution.digest must be a lowercase SHA-256 digest.'') (\<lambda>_.
     andThen (digestOf E (withoutDigest r)) (\<lambda>d.
     andThen (rejectIf (js_get r ''digest'' \<noteq> JStr d) ''validationResolution digest does not match its content.'') (\<lambda>_.
     andThen (checkEach (\<lambda>q. rejectIf (\<not> S q) (''validationResolution contains an invalid requirement ''
         @ specQuoted (js_string (js_get q ''id'')) @ ''.'')) (js_items (js_get r ''requirements''))) (\<lambda>_.
     rejectIf (repeatsPrimitive (map (\<lambda>a. js_get a ''requirementId'') (js_items (js_get r ''actions''))))
       ''validationResolution contains duplicate actions for a requirement.'')))))"

definition bindingFields :: "string list" where
  "bindingFields = [''candidateId'', ''revision'', ''identityDigest'']"

definition bindingOf :: "js \<Rightarrow> js" where
  "bindingOf candidate = JObj (map (\<lambda>k. (k, js_get candidate k)) bindingFields)"

definition bindsSame :: "js \<Rightarrow> js \<Rightarrow> bool" where
  "bindsSame a b \<longleftrightarrow> list_all (\<lambda>k. js_same (js_get a k) (js_get b k)) bindingFields"

definition revisionText :: "js \<Rightarrow> string" where
  "revisionText v = js_string (js_get v ''candidateId'') @ ''@r'' @ js_string (js_get v ''revision'')"

definition assertCandidateImpactBinding :: "js \<Rightarrow> js \<Rightarrow> assurance_error + js" where
  "assertCandidateImpactBinding candidate impact =
     andThen (rejectIf (\<not> js_is_object candidate) ''candidate revision must be an object.'') (\<lambda>_.
     andThen (rejectIf (\<not> js_is_object impact) ''candidate impact must be an object.'') (\<lambda>_.
     let bound = js_get impact ''candidate'' in
     andThen (rejectIf (\<not> js_is_object bound) ''candidate/impact binding is missing from the impact.'') (\<lambda>_.
     andThen (rejectIf (\<not> bindsSame bound candidate) (''candidate/impact binding mismatch: candidate '' @ revisionText candidate
         @ '' does not match impact candidate '' @ revisionText bound @ ''.'')) (\<lambda>_.
     Inr (bindingOf candidate)))))"

definition assertNoChangeImpactShape :: "js \<Rightarrow> assurance_error + unit" where
  "assertNoChangeImpactShape impact =
     andThen (checkEach (\<lambda>field.
         let v = (if field = ''unknowns'' then js_coalesce (js_get impact field) (JArr []) else js_get impact field) in
         rejectIf (v \<noteq> JArr []) (''NO_CHANGE impact must carry an empty '' @ specQuoted field @ ''.''))
       [''changedFiles'', ''reviewDimensions'', ''changeKinds'', ''unknowns'']) (\<lambda>_.
     rejectIf (\<not> js_truthy (js_get impact ''candidate'') \<or> \<not> js_truthy (js_get impact ''baseCandidate'')
         \<or> \<not> bindsSame (js_get impact ''candidate'') (js_get impact ''baseCandidate''))
       ''NO_CHANGE impact candidate and baseCandidate must bind the identical candidate revision.'')"

definition verifiedImpactDigest :: "js_env \<Rightarrow> js \<Rightarrow> assurance_error + string" where
  "verifiedImpactDigest E impact =
     andThen (rejectIf (js_get impact ''version'' \<noteq> jint 1) ''impact.version must be 1.'') (\<lambda>_.
     andThen (rejectIf (js_get impact ''interpretation'' \<notin> {JStr ''MODEL'', JStr ''BLOCKED'', JStr ''NO_CHANGE''})
       ''impact.interpretation must be MODEL, BLOCKED, or NO_CHANGE.'') (\<lambda>_.
     andThen (rejectIf (js_typeof (js_get impact ''requiresIndependentReview'') \<noteq> ''boolean'')
       ''impact.requiresIndependentReview must be a boolean.'') (\<lambda>_.
     andThen (if js_get impact ''interpretation'' = JStr ''NO_CHANGE'' then assertNoChangeImpactShape impact else Inr ()) (\<lambda>_.
     andThen (rejectIf (\<not> digestText (js_get impact ''digest'')) ''impact digest must be a lowercase SHA-256 digest.'') (\<lambda>_.
     andThen (digestOf E (withoutDigest impact)) (\<lambda>d.
     andThen (rejectIf (js_get impact ''digest'' \<noteq> JStr d) ''impact digest does not match the impact payload.'') (\<lambda>_.
     Inr d)))))))"

subsection \<open>Blockers of the generated requirements\<close>

text \<open>\<open>new Map(xs.map(entry => [entry[key], entry])).get(JStr i)\<close>: the last entry with that key.\<close>

definition lastWith :: "string \<Rightarrow> js list \<Rightarrow> string \<Rightarrow> js option" where
  "lastWith key entries i = List.find (\<lambda>e. js_get e key = JStr i) (rev entries)"

definition differs :: "js_env \<Rightarrow> js \<Rightarrow> js \<Rightarrow> assurance_error + bool" where
  "differs E a b = andThen (digestOf E a) (\<lambda>x. andThen (digestOf E b) (\<lambda>y. Inr (x \<noteq> y)))"

definition eitherHolds :: "bool \<Rightarrow> assurance_error + bool \<Rightarrow> assurance_error + bool" where
  "eitherHolds b rest = (if b then Inr True else rest)"

definition unresolved :: "string \<Rightarrow> string \<Rightarrow> string" where
  "unresolved i rest = ''UNRESOLVED_VALIDATION_REQUIREMENT: '' @ i @ rest"

definition actionBlockers :: "js_env \<Rightarrow> js option \<Rightarrow> js \<Rightarrow> string \<Rightarrow> assurance_error + string list" where
  "actionBlockers E action requirement i =
     (case action of
        None \<Rightarrow> Inr [unresolved i '' has no approved validation action.'']
      | Some a \<Rightarrow>
         andThen (eitherHolds (\<not> js_same (js_get a ''kind'') (js_get requirement ''kind''))
           (andThen (differs E (js_get a ''scope'') (js_get requirement ''scope'')) (\<lambda>scopeDiffers.
            eitherHolds scopeDiffers (differs E (js_get a ''evidenceNeeded'') (js_get requirement ''evidenceNeeded''))))) (\<lambda>changed.
         Inr (failIf changed (unresolved i '' action does not preserve its compiled kind, scope, and evidence needs.''))))"

definition requirementBlockers :: "js_env \<Rightarrow> js \<Rightarrow> js \<Rightarrow> js \<Rightarrow> assurance_error + string list" where
  "requirementBlockers E policy resolution requirement =
     (let i = str_of (js_get requirement ''id'');
          disallowed = failIf (js_get requirement ''kind'' \<notin> set (js_items (js_get policy ''allowedValidationKinds'')))
            (''DISALLOWED_VALIDATION_KIND: '' @ i @ '' requires '' @ specQuoted (str_of (js_get requirement ''kind''))
             @ '' which the frozen policy disallows.'')
      in if JStr i \<in> set (map (\<lambda>b. js_get b ''requirementId'') (js_items (js_get resolution ''blocked'')))
         then Inr (disallowed @ [unresolved i '' is blocked by the validation resolution.''])
         else
           andThen (case lastWith ''id'' (js_items (js_get resolution ''requirements'')) i of
               None \<Rightarrow> Inr True | Some q \<Rightarrow> differs E q requirement) (\<lambda>changed.
           andThen (actionBlockers E (lastWith ''requirementId'' (js_items (js_get resolution ''actions'')) i) requirement i) (\<lambda>actions.
           Inr (disallowed @ failIf changed (unresolved i '' is absent or changed in the validation resolution.'') @ actions))))"

fun collect :: "('a \<Rightarrow> 'e + 'b list) \<Rightarrow> 'a list \<Rightarrow> 'e + 'b list" where
  "collect f [] = Inr []"
| "collect f (x # xs) = andThen (f x) (\<lambda>ys. andThen (collect f xs) (\<lambda>zs. Inr (ys @ zs)))"

subsection \<open>The compilation\<close>

definition assertionInvalid :: "js \<Rightarrow> bool" where
  "assertionInvalid a \<longleftrightarrow> trimmedText (js_get a ''id'') = [] \<or> trimmedText (js_get a ''statement'') = []
     \<or> \<not> js_is_array (js_get a ''requirementRefs'') \<or> list_ex (\<lambda>r. trimmedText r = []) (js_items (js_get a ''requirementRefs''))"

definition clonedFields :: "string list" where
  "clonedFields = [''scope'', ''evidenceNeeded'', ''requirementRefs'', ''acceptanceRefs'']"

definition cloneRequirement :: "js \<Rightarrow> js" where
  "cloneRequirement requirement =
     JObj (fold (\<lambda>k kvs. AList.update k (JArr (js_items (js_get requirement k))) kvs)
       (clonedFields @ (if js_truthy (js_get requirement ''testSelectors'') then [''testSelectors''] else []))
       (own_entries requirement))"

definition checkedInput :: "(js \<Rightarrow> bool) \<Rightarrow> js_env \<Rightarrow> js \<Rightarrow> assurance_error + js \<times> string \<times> string list \<times> string list \<times> string list" where
  "checkedInput S E input =
     andThen (rejectIf (\<not> js_is_object input) ''assurance compilation input must be an object.'') (\<lambda>_.
     andThen (validatedPolicy (js_get input ''policy'')) (\<lambda>_.
     andThen (assertCandidateImpactBinding (js_get input ''candidate'') (js_get input ''impact'')) (\<lambda>binding.
     andThen (case assertCandidateRevisionV1 E (js_get input ''candidate'') of Some e \<Rightarrow> Inl (AssuranceCandidate e) | None \<Rightarrow> Inr ()) (\<lambda>_.
     andThen (verifiedImpactDigest E (js_get input ''impact'')) (\<lambda>impactDigest.
     andThen (requireReviewDimensions (js_get input ''impact'')) (\<lambda>dimensions.
     andThen (requireChangedFiles (js_get input ''impact'')) (\<lambda>changedFiles.
     andThen (requireUnknowns (js_get input ''impact'')) (\<lambda>unknowns.
     andThen (rejectIf (js_get input ''risk'' \<notin> {JStr ''low'', JStr ''medium'', JStr ''high''}) ''risk must be low, medium, or high.'') (\<lambda>_.
     andThen (rejectIf (\<not> js_is_array (js_get input ''baseValidationRequirements'')) ''baseValidationRequirements must be an array.'') (\<lambda>_.
     andThen (rejectIf (\<not> js_is_array (js_get input ''acceptanceAssertions'')) ''acceptanceAssertions must be an array.'') (\<lambda>_.
     andThen (validateResolution S E (js_get input ''validationResolution'')) (\<lambda>_.
     andThen (checkEach (\<lambda>q. rejectIf (\<not> S q) (''base validation requirement '' @ specQuoted (js_string (js_get q ''id'')) @ '' is invalid.''))
       (js_items (js_get input ''baseValidationRequirements''))) (\<lambda>_.
     andThen (checkEach (\<lambda>a. rejectIf (assertionInvalid a)
         ''acceptanceAssertions must contain non-empty ids, statements, and requirement refs.'') (js_items (js_get input ''acceptanceAssertions''))) (\<lambda>_.
     Inr (binding, impactDigest, dimensions, changedFiles, unknowns)))))))))))))))"

definition highRiskBlockers :: "js \<Rightarrow> string list \<Rightarrow> string list" where
  "highRiskBlockers input unknowns =
     failIf (js_get input ''risk'' = JStr ''high''
         \<and> (js_get (js_get input ''impact'') ''interpretation'' = JStr ''BLOCKED'' \<or> unknowns \<noteq> []))
       ''UNRESOLVED_HIGH_RISK_IMPACT: high-risk candidate impact is BLOCKED or retains unresolved unknowns.''"

definition minimumReviewers :: "js \<Rightarrow> js \<Rightarrow> string list \<Rightarrow> nat" where
  "minimumReviewers policy impact dimensions =
     (let independentReviewRequired = js_truthy (js_get policy ''independentReviewRequired'') \<or> js_truthy (js_get impact ''requiresIndependentReview'')
      in max (nat (int_of (js_get policy ''minimumIndependentReviewers'')))
           (max (if independentReviewRequired then 1 else 0) (if dimensions \<noteq> [] then 1 else 0)))"

definition requiredSpecializations :: "js \<Rightarrow> string list" where
  "requiredSpecializations input = sort (js_uniq (map str_of (js_items (js_get input ''requiredReviewSpecializations''))))"

definition levelsFor :: "js \<Rightarrow> string list \<Rightarrow> js list" where
  "levelsFor policy dimensions =
     js_get policy ''minimumAssurance'' # js_get policy ''evidenceStrength'' # map (\<lambda>d. JStr (dimensionFloor d)) dimensions"

definition reviewAssignment :: "(string \<Rightarrow> string \<Rightarrow> bool) \<Rightarrow> js \<Rightarrow> string \<Rightarrow> js \<Rightarrow> string list \<Rightarrow> string list \<Rightarrow> EligibleReviewerV1 \<Rightarrow> js" where
  "reviewAssignment mm binding impactDigest policy dimensions required r = JObj
     [(''reviewerIdentity'', JStr (er_identity r)), (''provider'', JStr (er_provider r)), (''dimensions'', JArr (map JStr dimensions)),
      (''candidate'', binding), (''impactDigest'', JStr impactDigest), (''policyDigest'', js_get policy ''digest''),
      (''satisfiedSpecializations'', JArr (map JStr (filter (\<lambda>spec. specializationSatisfies mm (er_specializations r) [spec]) required)))]"

definition acceptanceAssertion :: "js \<Rightarrow> string \<Rightarrow> js \<Rightarrow> js \<Rightarrow> js \<Rightarrow> js \<Rightarrow> string list \<Rightarrow> assurance_error + js list" where
  "acceptanceAssertion binding impactDigest policy i statement refs dimensions =
     andThen (maxAssurance (levelsFor policy dimensions)) (\<lambda>level. Inr [JObj
       [(''version'', jint 1), (''id'', i), (''statement'', statement), (''requirementRefs'', refs), (''candidate'', binding),
        (''impactDigest'', JStr impactDigest), (''policyDigest'', js_get policy ''digest''), (''dimensions'', JArr (map JStr dimensions)),
        (''evidenceStrength'', level)]])"

definition boundBaseAssertion :: "js \<Rightarrow> string \<Rightarrow> js \<Rightarrow> (string \<times> string) list \<Rightarrow> js \<Rightarrow> assurance_error + js list" where
  "boundBaseAssertion binding impactDigest policy dimensionById a =
     (let refs = map str_of (js_items (js_get a ''requirementRefs'')) in
      acceptanceAssertion binding impactDigest policy (js_get a ''id'') (js_get a ''statement'') (JArr (map JStr (sort (js_uniq refs))))
        (sort (js_uniq (List.map_filter (map_of (rev dimensionById)) refs))))"

definition generatedAssertion :: "js \<Rightarrow> string \<Rightarrow> js \<Rightarrow> string \<times> string \<Rightarrow> assurance_error + js list" where
  "generatedAssertion binding impactDigest policy idAndDimension =
     (case idAndDimension of (i, d) \<Rightarrow>
      acceptanceAssertion binding impactDigest policy
        (JStr (''impact-acceptance-'' @ (if starts_with ''impact-review-'' i then drop (length ''impact-review-'') i else i)))
        (JStr (''Impact review'' @ dimensionPhrase d ('' requires '' @ dimensionKind d @ '' evidence before candidate acceptance.'')))
        (JArr [JStr i]) [d])"

definition compiledBody ::
  "js \<Rightarrow> string \<Rightarrow> js \<Rightarrow> js \<Rightarrow> js list \<Rightarrow> js list \<Rightarrow> js list \<Rightarrow> nat \<Rightarrow> string list \<Rightarrow> string list \<Rightarrow> js_entries" where
  "compiledBody binding impactDigest policy level assignments requirements assertions minimum dimensions blockers =
     (let ordered = sort (js_uniq blockers) in
      [(''version'', jint 1), (''candidate'', binding), (''impactDigest'', JStr impactDigest), (''policyDigest'', js_get policy ''digest''),
       (''minimumAssurance'', level), (''reviewAssignments'', JArr assignments), (''validationRequirements'', JArr requirements),
       (''acceptanceAssertions'', JArr assertions),
       (''evidenceStrength'', JObj [(''minimumAssurance'', level), (''minimumIndependentReviewers'', jint (int minimum)),
          (''providerDiversity'', js_get policy ''providerDiversity''), (''requiredDimensions'', JArr (map JStr dimensions))]),
       (''blockers'', JArr (map JStr ordered)), (''status'', JStr (if ordered = [] then ''READY'' else ''BLOCKED''))])"

text \<open>The maps over blocked entries and actions read a field of every entry, which fails on null.\<close>

definition rejectTypeError :: "js \<Rightarrow> assurance_error + unit" where
  "rejectTypeError resolution =
     (if list_ex js_nullish (js_items (js_get resolution ''blocked'') @ js_items (js_get resolution ''actions'')) then Inl AssuranceTypeError
      else Inr ())"

definition compileCandidateAssuranceV1 ::
  "(js \<Rightarrow> bool) \<Rightarrow> (string \<Rightarrow> string \<Rightarrow> bool) \<Rightarrow> js_env \<Rightarrow> js \<Rightarrow> assurance_error + js" where
  "compileCandidateAssuranceV1 S mm E input =
     andThen (checkedInput S E input) (\<lambda>(binding, impactDigest, dimensions, changedFiles, unknowns).
     let policy = js_get input ''policy'';
         ids = requirementIds E [] dimensions;
         generated = buildImpactValidationRequirements E dimensions changedFiles;
         requirements = map cloneRequirement (js_items (js_get input ''baseValidationRequirements'')) @ generated;
         required = requiredSpecializations input;
         diversity = js_truthy (js_get policy ''providerDiversity'');
         minimum = minimumReviewers policy (js_get input ''impact'') dimensions
     in
     andThen (rejectTypeError (js_get input ''validationResolution'')) (\<lambda>_.
     andThen (collect (requirementBlockers E policy (js_get input ''validationResolution'')) generated) (\<lambda>resolutionBlockers.
     andThen (rejectIf (\<not> js_is_array (js_get input ''reviewerCandidates'')) ''reviewerCandidates must be an array.'') (\<lambda>_.
     let eligible = eligibleReviewers (js_get input ''implementationIdentity'') (js_items (js_get input ''reviewerCandidates'')) diversity;
         assigned = assignReviewers mm eligible required minimum diversity
     in
     andThen (maxAssurance (levelsFor policy dimensions)) (\<lambda>level.
     andThen (collect (boundBaseAssertion binding impactDigest policy (zip ids dimensions)) (js_items (js_get input ''acceptanceAssertions''))) (\<lambda>base.
     andThen (collect (generatedAssertion binding impactDigest policy) (zip ids dimensions)) (\<lambda>generatedAssertions.
     let body = compiledBody binding impactDigest policy level (map (reviewAssignment mm binding impactDigest policy dimensions required) (fst assigned))
           requirements (base @ generatedAssertions) minimum dimensions (highRiskBlockers input unknowns @ resolutionBlockers @ snd assigned)
     in andThen (digestOf E (JObj body)) (\<lambda>digest. Inr (JObj (body @ [(''digest'', JStr digest)]))))))))))"

subsection \<open>What a ready compilation guarantees\<close>

text \<open>A reviewer is independent when it stems from a read-only Reviewer candidate other than the implementer.\<close>

definition independentReviewer :: "js \<Rightarrow> js list \<Rightarrow> string \<Rightarrow> bool" where
  "independentReviewer implementer candidates identity \<longleftrightarrow> identity \<noteq> [] \<and> identity \<noteq> trimmedText implementer
     \<and> (\<exists>c \<in> set candidates. js_is_object c \<and> js_get c ''role'' = JStr ''Reviewer'' \<and> js_get c ''readOnly'' = JBool True
          \<and> trimmedText (js_get c ''identity'') = identity)"

lemma addEligible_independent:
  assumes "\<forall>r \<in> set (map snd m). independentReviewer implementer (pre @ c # post) (er_identity r)"
  shows "\<forall>r \<in> set (map snd (addEligible (trimmedText implementer) dv c m)). independentReviewer implementer (pre @ c # post) (er_identity r)"
proof -
  define new where "new = \<lparr>er_identity = trimmedText (js_get c ''identity''), er_provider = trimmedText (js_get c ''provider''),
      er_specializations = reviewerSpecializations (js_get c ''specializations'')\<rparr>"
  have "addEligible (trimmedText implementer) dv c m = m
      \<or> addEligible (trimmedText implementer) dv c m = AList.update (er_identity new) new m
        \<and> independentReviewer implementer (pre @ c # post) (er_identity new)"
    by (auto simp: addEligible_def Let_def new_def independentReviewer_def)
  then show ?thesis
  proof (elim disjE conjE)
    assume e: "addEligible (trimmedText implementer) dv c m = AList.update (er_identity new) new m"
      and n: "independentReviewer implementer (pre @ c # post) (er_identity new)"
    show ?thesis unfolding e using n assms set_update_subset [of "er_identity new" new m] by blast
  qed (use assms in simp)
qed

lemma eligible_independent:
  assumes "r \<in> set (eligibleReviewers implementer candidates dv)"
  shows "independentReviewer implementer candidates (er_identity r)"
proof -
  have "\<forall>r \<in> set (map snd (fold (addEligible (trimmedText implementer) dv) cs m)). independentReviewer implementer (pre @ cs) (er_identity r)"
    if "\<forall>r \<in> set (map snd m). independentReviewer implementer (pre @ cs) (er_identity r)" for pre cs m
    using that
  proof (induction cs arbitrary: pre m)
    case (Cons c cs)
    from Cons.IH [of "addEligible (trimmedText implementer) dv c m" "pre @ [c]"] addEligible_independent [OF Cons.prems]
    show ?case by simp
  qed simp
  from this [of "[]" "[]" candidates] assms show ?thesis by (auto simp: eligibleReviewers_def)
qed

lemma compile_Inr:
  assumes "compileCandidateAssuranceV1 S mm E input = Inr c"
  obtains binding impactDigest dimensions changedFiles unknowns assigned resolutionBlockers level assertions digest where
    "checkedInput S E input = Inr (binding, impactDigest, dimensions, changedFiles, unknowns)"
    "collect (requirementBlockers E (js_get input ''policy'') (js_get input ''validationResolution''))
       (buildImpactValidationRequirements E dimensions changedFiles) = Inr resolutionBlockers"
    "assignReviewers mm (eligibleReviewers (js_get input ''implementationIdentity'') (js_items (js_get input ''reviewerCandidates''))
         (js_truthy (js_get (js_get input ''policy'') ''providerDiversity'')))
       (requiredSpecializations input) (minimumReviewers (js_get input ''policy'') (js_get input ''impact'') dimensions)
       (js_truthy (js_get (js_get input ''policy'') ''providerDiversity'')) = assigned"
    "maxAssurance (levelsFor (js_get input ''policy'') dimensions) = Inr level"
    "c = JObj (compiledBody binding impactDigest (js_get input ''policy'') level
         (map (reviewAssignment mm binding impactDigest (js_get input ''policy'') dimensions (requiredSpecializations input)) (fst assigned))
         (map cloneRequirement (js_items (js_get input ''baseValidationRequirements'')) @ buildImpactValidationRequirements E dimensions changedFiles)
         assertions (minimumReviewers (js_get input ''policy'') (js_get input ''impact'') dimensions) dimensions
         (highRiskBlockers input unknowns @ resolutionBlockers @ snd assigned) @ [(''digest'', JStr digest)])"
proof -
  from assms obtain binding impactDigest dimensions changedFiles unknowns where
      checked: "checkedInput S E input = Inr (binding, impactDigest, dimensions, changedFiles, unknowns)"
    unfolding compileCandidateAssuranceV1_def by (auto simp only: andThen_Inr split_paired_Ex)
  let ?policy = "js_get input ''policy''"
  let ?dv = "js_truthy (js_get ?policy ''providerDiversity'')"
  let ?assigned = "assignReviewers mm (eligibleReviewers (js_get input ''implementationIdentity'')
      (js_items (js_get input ''reviewerCandidates'')) ?dv)
    (requiredSpecializations input) (minimumReviewers ?policy (js_get input ''impact'') dimensions) ?dv"
  let ?generated = "buildImpactValidationRequirements E dimensions changedFiles"
  from assms obtain resolutionBlockers level base more digest where
      r: "collect (requirementBlockers E ?policy (js_get input ''validationResolution'')) ?generated = Inr resolutionBlockers"
      and l: "maxAssurance (levelsFor ?policy dimensions) = Inr level"
      and c: "JObj (compiledBody binding impactDigest ?policy level
         (map (reviewAssignment mm binding impactDigest ?policy dimensions (requiredSpecializations input)) (fst ?assigned))
         (map cloneRequirement (js_items (js_get input ''baseValidationRequirements'')) @ ?generated)
         (base @ more) (minimumReviewers ?policy (js_get input ''impact'') dimensions) dimensions
         (highRiskBlockers input unknowns @ resolutionBlockers @ snd ?assigned) @ [(''digest'', JStr digest)]) = c"
    unfolding compileCandidateAssuranceV1_def checked Let_def
    by (simp only: andThen_Inr prod.case sum.inject ex_simps simp_thms) (elim exE conjE, rule that, assumption, assumption, assumption)
  show thesis using that [OF checked r refl l c [symmetric]] .
qed

lemma compiledBody_get:
  fixes binding policy level :: js and assignments requirements assertions :: "js list" and rest :: js_entries
    and dimensions blockers :: "string list" and minimum :: nat and impactDigest :: string
  defines "c \<equiv> JObj (compiledBody binding impactDigest policy level assignments requirements assertions minimum dimensions blockers @ rest)"
  shows "js_get c ''status'' = JStr ''READY'' \<longleftrightarrow> blockers = []" "js_get c ''reviewAssignments'' = JArr assignments"
    "js_get c ''validationRequirements'' = JArr requirements" "js_get c ''minimumAssurance'' = level"
    "js_get c ''blockers'' = JArr (map JStr (sort (js_uniq blockers)))"
  by (simp_all add: c_def compiledBody_def Let_def sort_key_Nil_iff)

lemma collect_Nil: "collect f xs = Inr [] \<Longrightarrow> x \<in> set xs \<Longrightarrow> f x = Inr []"
  by (induction xs) auto

lemma lastWith_Some: "lastWith key entries i = Some e \<Longrightarrow> e \<in> set entries \<and> js_get e key = JStr i"
  unfolding lastWith_def by (drule find_SomeD) simp

lemma requirementBlockers_Nil:
  assumes "requirementBlockers E policy resolution q = Inr []"
  shows "js_get q ''kind'' \<in> set (js_items (js_get policy ''allowedValidationKinds''))"
    and "\<exists>a \<in> set (js_items (js_get resolution ''actions'')). js_get a ''requirementId'' = JStr (str_of (js_get q ''id''))
           \<and> js_get a ''kind'' = js_get q ''kind''"
  using assms
  by (auto simp: requirementBlockers_def actionBlockers_def eitherHolds_def Let_def split: if_splits option.splits
      dest!: lastWith_Some js_same_eq)

lemma length_requirementIds [simp]: "length (requirementIds E used ds) = length ds"
  by (induction E used ds rule: requirementIds.induct) (simp_all add: Let_def)

lemma requirement_of_dimension:
  "d \<in> set dimensions \<Longrightarrow> \<exists>i. impactRequirement files i d \<in> set (buildImpactValidationRequirements E dimensions files)"
  unfolding buildImpactValidationRequirements_def by (force simp: in_set_conv_nth set_zip)

lemma impactRequirement_get:
  "js_get (impactRequirement files i d) ''kind'' = JStr (dimensionKind d)" "js_get (impactRequirement files i d) ''id'' = JStr i"
  by (simp_all add: impactRequirement_def)

lemma checkedInput_dimensions:
  "checkedInput S E input = Inr (binding, impactDigest, dimensions, changedFiles, unknowns) \<Longrightarrow>
     requireReviewDimensions (js_get input ''impact'') = Inr dimensions"
  unfolding checkedInput_def by (simp only: andThen_Inr prod.inject sum.inject) blast

lemma reviewAssignment_get:
  "js_get (reviewAssignment mm b i p ds required r) ''reviewerIdentity'' = JStr (er_identity r)"
  "js_items (js_get (reviewAssignment mm b i p ds required r) ''satisfiedSpecializations'')
     = map JStr (filter (\<lambda>spec. specializationSatisfies mm (er_specializations r) [spec]) required)"
  by (simp_all add: reviewAssignment_def)

text \<open>The obligations of a dimension: a requirement of its kind, which the policy allows and an action answers.\<close>

definition dimensionAnswered :: "js \<Rightarrow> js \<Rightarrow> string \<Rightarrow> bool" where
  "dimensionAnswered input c d \<longleftrightarrow>
     JStr (dimensionKind d) \<in> set (js_items (js_get (js_get input ''policy'') ''allowedValidationKinds''))
     \<and> (\<exists>q \<in> set (js_items (js_get c ''validationRequirements'')). js_get q ''kind'' = JStr (dimensionKind d)
          \<and> (\<exists>a \<in> set (js_items (js_get (js_get input ''validationResolution'') ''actions'')).
                js_get a ''requirementId'' = js_get q ''id'' \<and> js_get a ''kind'' = js_get q ''kind''))"

text \<open>
  C18: A compilation that reports READY is backed by what it promises: every assigned reviewer is a read-only Reviewer
  other than the implementer, there are at least as many as policy and impact ask for, every specialization the
  route requires is recorded on some assignment, every review dimension of the impact has a validation requirement
  of its kind that the policy allows and an approved action answers, and a high-risk candidate is not BLOCKED.
\<close>

theorem compile_ready_sound:
  assumes "compileCandidateAssuranceV1 S mm E input = Inr c" "js_get c ''status'' = JStr ''READY''"
  defines "assignments \<equiv> js_items (js_get c ''reviewAssignments'')"
  shows "\<exists>dimensions. requireReviewDimensions (js_get input ''impact'') = Inr dimensions
    \<and> (\<forall>a \<in> set assignments. \<exists>i. js_get a ''reviewerIdentity'' = JStr i
         \<and> independentReviewer (js_get input ''implementationIdentity'') (js_items (js_get input ''reviewerCandidates'')) i)
    \<and> minimumReviewers (js_get input ''policy'') (js_get input ''impact'') dimensions \<le> length assignments
    \<and> (\<forall>spec \<in> set (requiredSpecializations input). \<exists>a \<in> set assignments. JStr spec \<in> set (js_items (js_get a ''satisfiedSpecializations'')))
    \<and> (\<forall>d \<in> set dimensions. dimensionAnswered input c d)
    \<and> \<not> (js_get input ''risk'' = JStr ''high'' \<and> js_get (js_get input ''impact'') ''interpretation'' = JStr ''BLOCKED'')"
proof -
  let ?policy = "js_get input ''policy''" and ?dv = "js_truthy (js_get (js_get input ''policy'') ''providerDiversity'')"
  let ?eligible = "eligibleReviewers (js_get input ''implementationIdentity'') (js_items (js_get input ''reviewerCandidates'')) ?dv"
  obtain binding impactDigest dimensions changedFiles unknowns assigned resolutionBlockers level assertions digest where
    checked: "checkedInput S E input = Inr (binding, impactDigest, dimensions, changedFiles, unknowns)" and
    blocked: "collect (requirementBlockers E ?policy (js_get input ''validationResolution''))
       (buildImpactValidationRequirements E dimensions changedFiles) = Inr resolutionBlockers" and
    reviewers: "assignReviewers mm ?eligible (requiredSpecializations input) (minimumReviewers ?policy (js_get input ''impact'') dimensions) ?dv
       = assigned" and
    c: "c = JObj (compiledBody binding impactDigest ?policy level
         (map (reviewAssignment mm binding impactDigest ?policy dimensions (requiredSpecializations input)) (fst assigned))
         (map cloneRequirement (js_items (js_get input ''baseValidationRequirements'')) @ buildImpactValidationRequirements E dimensions changedFiles)
         assertions (minimumReviewers ?policy (js_get input ''impact'') dimensions) dimensions
         (highRiskBlockers input unknowns @ resolutionBlockers @ snd assigned) @ [(''digest'', JStr digest)])"
    by (rule compile_Inr [OF assms(1)])
  have none: "highRiskBlockers input unknowns = []" "resolutionBlockers = []" "snd assigned = []"
    using assms(2) unfolding c compiledBody_get(1) by auto
  have assignments: "assignments = map (reviewAssignment mm binding impactDigest ?policy dimensions (requiredSpecializations input)) (fst assigned)"
    unfolding assignments_def c compiledBody_get(2) by simp
  have "assignReviewers mm ?eligible (requiredSpecializations input) (minimumReviewers ?policy (js_get input ''impact'') dimensions) ?dv
      = (fst assigned, [])" unfolding reviewers by (metis none(3) prod.collapse)
  note sound = assignReviewers_facts [OF this]
  have "dimensionAnswered input c d" if d: "d \<in> set dimensions" for d
  proof -
    obtain i where i: "impactRequirement changedFiles i d \<in> set (buildImpactValidationRequirements E dimensions changedFiles)"
      using requirement_of_dimension [OF d] by blast
    note answered = requirementBlockers_Nil [OF collect_Nil [OF blocked [unfolded none] i], unfolded impactRequirement_get str_of_def js.case]
    then obtain a where a: "a \<in> set (js_items (js_get (js_get input ''validationResolution'') ''actions''))"
      "js_get a ''requirementId'' = JStr i" "js_get a ''kind'' = JStr (dimensionKind d)" by blast
    have "impactRequirement changedFiles i d \<in> set (js_items (js_get c ''validationRequirements''))"
      unfolding c compiledBody_get(3) using i by simp
    then show ?thesis
      unfolding dimensionAnswered_def
      by (intro conjI answered(1) bexI [of _ "impactRequirement changedFiles i d"] bexI [of _ a])
        (simp_all add: a impactRequirement_get)
  qed
  moreover have "\<exists>a \<in> set assignments. JStr spec \<in> set (js_items (js_get a ''satisfiedSpecializations''))"
    if spec: "spec \<in> set (requiredSpecializations input)" for spec
  proof -
    from sound spec obtain r where "r \<in> set (fst assigned)" "specializationSatisfies mm (er_specializations r) [spec]"
      by (auto simp: coversSpec_def list_ex_iff)
    with spec show ?thesis by (auto simp: assignments reviewAssignment_get)
  qed
  moreover have "\<exists>i. js_get a ''reviewerIdentity'' = JStr i
      \<and> independentReviewer (js_get input ''implementationIdentity'') (js_items (js_get input ''reviewerCandidates'')) i"
    if "a \<in> set assignments" for a
    using that sound by (auto simp: assignments reviewAssignment_get intro!: eligible_independent)
  moreover have "minimumReviewers ?policy (js_get input ''impact'') dimensions \<le> length assignments"
    using sound by (simp add: assignments)
  moreover have "\<not> (js_get input ''risk'' = JStr ''high'' \<and> js_get (js_get input ''impact'') ''interpretation'' = JStr ''BLOCKED'')"
    using none(1) by (auto simp: highRiskBlockers_def)
  ultimately show ?thesis using checkedInput_dimensions [OF checked] by (intro exI [of _ dimensions] conjI ballI)
qed


text \<open>A candidate that touches a security-relevant file, one reviewer and an approved action for the generated requirement.\<close>

definition sample_digest :: js where
  "sample_digest = JStr (replicate 64 (CHR ''a''))"

definition sample_impact :: js where
  "sample_impact = JObj [(''version'', jint 1), (''interpretation'', JStr ''MODEL''), (''requiresIndependentReview'', JBool True),
     (''candidate'', bindingOf sample_candidate), (''reviewDimensions'', JArr [JStr ''security'']),
     (''changedFiles'', JArr [JStr ''a'']), (''digest'', sample_digest)]"

definition sample_resolution :: js where
  "sample_resolution = (let q = impactRequirement [''a''] ''impact-review-security'' ''security'' in JObj
     [(''version'', jint 1), (''requirements'', JArr [q]), (''blocked'', JArr []), (''digest'', sample_digest),
      (''actions'', JArr [JObj [(''requirementId'', js_get q ''id''), (''kind'', js_get q ''kind''), (''scope'', js_get q ''scope''),
         (''evidenceNeeded'', js_get q ''evidenceNeeded'')]])])"

definition sample_assurance_input :: js where
  "sample_assurance_input = JObj
     [(''policy'', JObj [(''version'', jint 1), (''digest'', sample_digest), (''minimumAssurance'', JStr ''STANDARD''),
         (''evidenceStrength'', JStr ''NONE''), (''independentReviewRequired'', JBool True), (''providerDiversity'', JBool False),
         (''minimumIndependentReviewers'', jint 1), (''allowedValidationKinds'', JArr [JStr ''static-security''])]),
      (''candidate'', sample_candidate), (''impact'', sample_impact), (''risk'', JStr ''high''),
      (''baseValidationRequirements'', JArr []), (''acceptanceAssertions'', JArr []), (''validationResolution'', sample_resolution),
      (''implementationIdentity'', JStr ''i''), (''requiredReviewSpecializations'', JArr [JStr ''s'']),
      (''reviewerCandidates'', JArr [JObj [(''role'', JStr ''Reviewer''), (''readOnly'', JBool True), (''identity'', JStr ''r''),
         (''provider'', JStr ''p''), (''specializations'', JArr [JStr ''s''])]])]"

definition sample_compiled :: js where
  "sample_compiled = projr (compileCandidateAssuranceV1 (\<lambda>_. True) (=) sample_env sample_assurance_input)"

lemma sample_compiles:
  "compileCandidateAssuranceV1 (\<lambda>_. True) (=) sample_env sample_assurance_input = Inr sample_compiled"
proof -
  have "\<not> isl (compileCandidateAssuranceV1 (\<lambda>_. True) (=) sample_env sample_assurance_input)" by code_simp
  then show ?thesis by (simp add: sample_compiled_def)
qed

theorem compile_ready_sound_witness:
  "length (js_items (js_get sample_compiled ''reviewAssignments'')) \<ge> 1 \<and> dimensionAnswered sample_assurance_input sample_compiled ''security''"
proof -
  have ready: "js_get sample_compiled ''status'' = JStr ''READY''"
    and dims: "requireReviewDimensions (js_get sample_assurance_input ''impact'') = Inr [''security'']"
    and minimum: "minimumReviewers (js_get sample_assurance_input ''policy'') (js_get sample_assurance_input ''impact'') [''security''] = 1"
    by code_simp+
  from compile_ready_sound [OF sample_compiles ready] show ?thesis by (auto simp: dims minimum)
qed


subsection \<open>The compiled assurance level\<close>

lemma maxAssuranceFrom_max:
  assumes "maxAssuranceFrom selected levels = Inr level" "assuranceRank selected = Inr (Rank k)"
  shows "\<exists>n. assuranceRank level = Inr (Rank n) \<and> level \<in> set (selected # levels) \<and> k \<le> n
    \<and> (\<forall>l \<in> set levels. \<forall>m. assuranceRank l = Inr (Rank m) \<longrightarrow> m \<le> n)"
  using assms
proof (induction levels arbitrary: selected k)
  case (Cons l levels)
  from Cons.prems obtain a where a: "assuranceRank l = Inr a"
    and rest: "maxAssuranceFrom (if rankAbove a (Rank k) then l else selected) levels = Inr level" by auto
  show ?case
  proof (cases "rankAbove a (Rank k)")
    case True
    then obtain m where "a = Rank m" "k < m" by (cases a) (auto simp: rankAbove_def)
    with Cons.IH [of l m] a rest True show ?thesis by auto
  next
    case False
    then have "a = Rank m \<Longrightarrow> m \<le> k" for m by (auto simp: rankAbove_def)
    with Cons.IH [of selected k] a rest False Cons.prems(2) show ?thesis by auto
  qed
qed simp

text \<open>
  The assurance level of a compilation is exactly the maximum of what was asked: it ranks at least as high as the policy's
  minimum, the policy's evidence strength and the floor of every review dimension, and it is one of these or NONE.
\<close>

theorem compiled_assurance_maximal:
  assumes "compileCandidateAssuranceV1 S mm E input = Inr c"
  defines "level \<equiv> js_get c ''minimumAssurance''" and "policy \<equiv> js_get input ''policy''"
  shows "\<exists>dimensions n. requireReviewDimensions (js_get input ''impact'') = Inr dimensions \<and> assuranceRank level = Inr (Rank n)
    \<and> level \<in> {JStr ''NONE'', js_get policy ''minimumAssurance'', js_get policy ''evidenceStrength''} \<union> (\<lambda>d. JStr (dimensionFloor d)) ` set dimensions
    \<and> (\<forall>l \<in> {js_get policy ''minimumAssurance'', js_get policy ''evidenceStrength''} \<union> (\<lambda>d. JStr (dimensionFloor d)) ` set dimensions.
         \<forall>m. assuranceRank l = Inr (Rank m) \<longrightarrow> m \<le> n)"
proof -
  obtain binding impactDigest dimensions changedFiles unknowns assigned resolutionBlockers max assertions digest where
    checked: "checkedInput S E input = Inr (binding, impactDigest, dimensions, changedFiles, unknowns)" and
    most: "maxAssurance (levelsFor policy dimensions) = Inr max" and
    c: "c = JObj (compiledBody binding impactDigest policy max
         (map (reviewAssignment mm binding impactDigest policy dimensions (requiredSpecializations input)) (fst assigned))
         (map cloneRequirement (js_items (js_get input ''baseValidationRequirements'')) @ buildImpactValidationRequirements E dimensions changedFiles)
         assertions (minimumReviewers policy (js_get input ''impact'') dimensions) dimensions
         (highRiskBlockers input unknowns @ resolutionBlockers @ snd assigned) @ [(''digest'', JStr digest)])"
    unfolding policy_def by (rule compile_Inr [OF assms(1)])
  have "assuranceRank (JStr ''NONE'') = Inr (Rank 0)" by code_simp
  from maxAssuranceFrom_max [OF most [unfolded maxAssurance_def] this] obtain n where
    "assuranceRank max = Inr (Rank n)" "max \<in> set (JStr ''NONE'' # levelsFor policy dimensions)"
    "\<forall>l \<in> set (levelsFor policy dimensions). \<forall>m. assuranceRank l = Inr (Rank m) \<longrightarrow> m \<le> n" by blast
  moreover have "level = max" unfolding level_def c compiledBody_get(4) ..
  ultimately show ?thesis
    using checkedInput_dimensions [OF checked] by (intro exI [of _ dimensions] exI [of _ n]) (auto simp: levelsFor_def)
qed

theorem compiled_assurance_maximal_witness:
  "\<exists>n. assuranceRank (js_get sample_compiled ''minimumAssurance'') = Inr (Rank n) \<and> 3 \<le> n"
proof -
  have "requireReviewDimensions (js_get sample_assurance_input ''impact'') = Inr [''security'']"
    "assuranceRank (JStr (dimensionFloor ''security'')) = Inr (Rank 3)" by code_simp+
  with compiled_assurance_maximal [OF sample_compiles] show ?thesis by auto
qed

text \<open>
  C39: The check of the policy does not reject every unsupported level: a level named like a member of
  \<^verbatim>\<open>Object.prototype\<close> passes it, because the rank table is an object literal, and then counts for nothing.
\<close>

theorem prototype_level_accepted:
  assumes "validatedPolicy (JObj kvs) = Inr ()" "name \<in> set prototypeMembers"
  defines "policy \<equiv> JObj (AList.update ''minimumAssurance'' (JStr name) kvs)"
  shows "validatedPolicy policy = Inr () \<and> name \<notin> fst ` set assuranceRanks
    \<and> maxAssurance (levelsFor policy dimensions) = maxAssurance (tl (levelsFor policy dimensions))"
proof -
  have rank: "assuranceRank (JStr name) = Inr PrototypeMember" and fresh: "name \<notin> fst ` set assuranceRanks"
    using assms(2) by (auto simp: prototypeMembers_def assuranceRank_def assuranceRanks_def)
  have get: "js_get policy ''minimumAssurance'' = JStr name"
    and other: "k \<noteq> ''minimumAssurance'' \<Longrightarrow> js_get policy k = js_get (JObj kvs) k" for k
    by (auto simp: policy_def update_conv')
  have "validatedPolicy policy = Inr ()"
    using assms(1) unfolding validatedPolicy_def by (simp add: get other rank) (simp add: policy_def)
  moreover have "assuranceRank (JStr ''NONE'') = Inr (Rank 0)" by code_simp
  then have "maxAssuranceFrom (JStr ''NONE'') (JStr name # levels) = maxAssuranceFrom (JStr ''NONE'') levels" for levels
    by (simp add: rank rankAbove_def andThen_def)
  then have "maxAssurance (levelsFor policy dimensions) = maxAssurance (tl (levelsFor policy dimensions))"
    unfolding maxAssurance_def levelsFor_def get list.sel .
  ultimately show ?thesis using fresh by blast
qed

theorem prototype_level_accepted_witness:
  "validatedPolicy (JObj (AList.update ''minimumAssurance'' (JStr ''constructor'') (own_entries (js_get sample_assurance_input ''policy'')))) = Inr ()"
proof -
  have "validatedPolicy (JObj (own_entries (js_get sample_assurance_input ''policy''))) = Inr ()"
    "''constructor'' \<in> set prototypeMembers" by code_simp+
  from prototype_level_accepted [OF this] show ?thesis by blast
qed

end
