(* ===== verification/OwnerExemption.thy ===== *)
theory OwnerExemption
  imports CandidateLineage
begin

text \<open>
  Owner exemption grants (\<open>src/src/security/ownerExemption.ts\<close>): the structural check of a grant, its message
  authentication code, the stable digest of the policy it is bound to, and the walk that decides whether the live
  candidate descends from the candidate the grant is anchored to. HMAC-SHA256 is the parameter \<open>hmac\<close> (key, message)
  and \<open>localeCompare\<close> is the parameter \<open>collate\<close>, the order \<open>a.localeCompare(b) <= 0\<close>.
\<close>

subsection \<open>The grant body and its code\<close>

datatype mac_error = TokenRequired | BodyUnserializable serialize_error

definition ownerExemptionGrantBody :: "js \<Rightarrow> js" where
  "ownerExemptionGrantBody grant = JObj (filter (\<lambda>(k, v). k \<noteq> ''mac'') (own_entries grant))"

definition computeOwnerExemptionMac :: "(string \<Rightarrow> string \<Rightarrow> string) \<Rightarrow> string \<Rightarrow> js \<Rightarrow> mac_error + string" where
  "computeOwnerExemptionMac hmac token body =
     (if js_trim token = [] then Inl TokenRequired
      else case canonicalSerialize body of
        Inl e \<Rightarrow> Inl (BodyUnserializable e)
      | Inr text \<Rightarrow> Inr (hmac (js_trim token) text))"

text \<open>
  A MAC that is not a string is refused: an array of one digest passes the pattern, but its buffer has one byte.
\<close>

definition verifyOwnerExemptionMac :: "(string \<Rightarrow> string \<Rightarrow> string) \<Rightarrow> string option \<Rightarrow> js \<Rightarrow> bool" where
  "verifyOwnerExemptionMac hmac token grant =
     (case token of
        None \<Rightarrow> False
      | Some t \<Rightarrow>
         js_trim t \<noteq> [] \<and> digestPattern (js_get grant ''mac'')
         \<and> (case computeOwnerExemptionMac hmac t (ownerExemptionGrantBody grant) of
              Inl _ \<Rightarrow> False
            | Inr expected \<Rightarrow> js_get grant ''mac'' = JStr expected))"

subsection \<open>The stable policy digest\<close>

definition stablePolicyFields :: "string list" where
  "stablePolicyFields = [''version'', ''projectId'', ''operationId'', ''intent'', ''route'', ''minimumAssurance'', ''policyVersions'',
     ''policyDigests'', ''validationPolicy'', ''reviewPolicy'', ''deliveryPolicy'', ''knowledgePolicy'', ''contextPolicy'',
     ''executionLiveness'', ''economicEnvelope'', ''capabilityRegistryDigest'', ''allowedExternalEffects'', ''humanDecisionRequirements'']"

definition stablePolicyBody :: "js \<Rightarrow> js" where
  "stablePolicyBody policy = JObj (map (\<lambda>k. (k, js_get policy k)) stablePolicyFields)"

definition ownerExemptionStablePolicyDigest :: "js_env \<Rightarrow> js \<Rightarrow> serialize_error + string" where
  "ownerExemptionStablePolicyDigest E policy = sha256Canonical E (stablePolicyBody policy)"

subsection \<open>Lineage descendants\<close>

record lineage_question =
  lq_liveCandidate :: js
  lq_anchoredCandidateId :: string
  lq_anchoredRevision :: int
  lq_anchoredIdentityDigest :: string
  lq_expectedOperationId :: string
  lq_assemblies :: js
  lq_hintAssemblies :: js

text \<open>\<open>Array.isArray(v) ? v : Object.values(v ?? {})\<close>.\<close>

definition receiptValues :: "js \<Rightarrow> js list" where
  "receiptValues v = (case v of JArr xs \<Rightarrow> xs | _ \<Rightarrow> map snd (own_entries v))"

definition lineageRoot :: "string \<Rightarrow> js \<Rightarrow> string" where
  "lineageRoot operation revision = ''candidate:'' @ operation @ '':r'' @ js_string revision"

definition anchorCursor :: "lineage_question \<Rightarrow> cursor" where
  "anchorCursor q = \<lparr>cu_candidateId = JStr (lq_anchoredCandidateId q), cu_revision = jint (lq_anchoredRevision q),
     cu_identityDigest = JStr (lq_anchoredIdentityDigest q)\<rparr>"

definition sameCursor :: "cursor \<Rightarrow> cursor \<Rightarrow> bool" where
  "sameCursor c d \<longleftrightarrow> js_same (cu_candidateId c) (cu_candidateId d) \<and> js_same (cu_revision c) (cu_revision d)
     \<and> js_same (cu_identityDigest c) (cu_identityDigest d)"

definition usableReceipt :: "js_env \<Rightarrow> string \<Rightarrow> js \<Rightarrow> bool" where
  "usableReceipt E expected entry \<longleftrightarrow> assertCandidateAssemblyReceiptV1 E entry = None
     \<and> js_get entry ''operationId'' = JStr expected
     \<and> js_get entry ''assemblyId'' = JStr (candidateAssemblyReceiptIdV1 expected (str_of (js_get entry ''candidateId'')))"

abbreviation assemblyIdOf :: "js \<Rightarrow> string" where
  "assemblyIdOf entry \<equiv> str_of (js_get entry ''assemblyId'')"

text \<open>\<open>durableById\<close>, or \<open>None\<close> when two entries of one assembly disagree on the digest.\<close>

fun indexDurable :: "js list \<Rightarrow> (string \<times> js) list \<Rightarrow> (string \<times> js) list option" where
  "indexDurable [] m = Some m"
| "indexDurable (entry # rest) m =
     (case map_of m (assemblyIdOf entry) of
        Some prior \<Rightarrow> if js_same (js_get prior ''digest'') (js_get entry ''digest'') then indexDurable rest m else None
      | None \<Rightarrow> indexDurable rest (m @ [(assemblyIdOf entry, entry)]))"

definition confirmedFields :: "string list" where
  "confirmedFields = [''digest'', ''baseCandidateId'', ''baseRevision'', ''baseIdentityDigest'', ''candidateId'', ''revision'', ''identityDigest'']"

definition hintConfirmed :: "(string \<times> js) list \<Rightarrow> js \<Rightarrow> bool" where
  "hintConfirmed index hint = (case map_of index (assemblyIdOf hint) of
       None \<Rightarrow> True
     | Some truth \<Rightarrow> list_all (\<lambda>k. js_same (js_get truth k) (js_get hint k)) confirmedFields)"

definition hopRefused :: "string \<Rightarrow> cursor \<Rightarrow> js \<Rightarrow> bool" where
  "hopRefused expected c assembly \<longleftrightarrow> js_get assembly ''operationId'' \<noteq> JStr expected
     \<or> int_of (js_get assembly ''revision'') \<noteq> int_of (js_get assembly ''baseRevision'') + 1
     \<or> \<not> js_same (js_get assembly ''revision'') (cu_revision c)
     \<or> int_of (cu_revision c) \<noteq> int_of (js_get assembly ''baseRevision'') + 1"

definition parentRefused :: "js \<Rightarrow> js \<Rightarrow> bool" where
  "parentRefused live assembly = (case js_get live ''parentCandidateId'' of
       JStr parent \<Rightarrow> parent \<noteq> [] \<and> js_get assembly ''baseCandidateId'' \<noteq> JStr parent
     | _ \<Rightarrow> False)"

fun exemptionWalk :: "lineage_question \<Rightarrow> string \<Rightarrow> js list \<Rightarrow> nat \<Rightarrow> bool \<Rightarrow> cursor \<Rightarrow> bool" where
  "exemptionWalk q expected durable 0 firstHop c = False"
| "exemptionWalk q expected durable (Suc hops) firstHop c =
     (if sameCursor c (anchorCursor q) then True
      else if int_of (cu_revision c) \<le> lq_anchoredRevision q then False
      else case assemblyAt durable c of
        None \<Rightarrow> False
      | Some assembly \<Rightarrow>
         if hopRefused expected c assembly then False
         else if firstHop \<and> parentRefused (lq_liveCandidate q) assembly then False
         else exemptionWalk q expected durable hops False (baseCursor assembly))"

definition isOwnerExemptionLineageDescendant :: "js_env \<Rightarrow> lineage_question \<Rightarrow> bool" where
  "isOwnerExemptionLineageDescendant E q =
     (let live = lq_liveCandidate q; anchored = lq_anchoredRevision q; expected = js_trim (lq_expectedOperationId q);
          revision = js_get live ''revision'' in
      if expected = [] then False
      else if lq_anchoredCandidateId q \<noteq> lineageRoot expected (jint anchored) then False
      else if js_get live ''candidateId'' \<noteq> JStr (lineageRoot expected revision) then False
      else if sameCursor (candidateCursor live) (anchorCursor q) then True
      else if \<not> js_is_safe_integer revision \<or> int_of revision < anchored then False
      else if int_of revision = anchored then False
      else let durable = filter (usableReceipt E expected) (receiptValues (lq_assemblies q)) in
      case indexDurable durable [] of
        None \<Rightarrow> False
      | Some index \<Rightarrow>
         if \<not> list_all (hintConfirmed index) (filter (usableReceipt E expected) (receiptValues (lq_hintAssemblies q))) then False
         else exemptionWalk q expected durable (nat (int_of revision - anchored + 1) + length durable + 1) True (candidateCursor live))"

subsection \<open>The structural check of a grant\<close>

definition grantInvalid :: "string \<Rightarrow> string option" where
  "grantInvalid message = Some (''OWNER_EXEMPTION_GRANT_INVALID: '' @ message)"

definition invalidIf :: "bool \<Rightarrow> string \<Rightarrow> string option" where
  "invalidIf b message = (if b then grantInvalid message else None)"

definition requiredText :: "js \<Rightarrow> string \<Rightarrow> nat \<Rightarrow> string option" where
  "requiredText v name maxLength =
     (case v of
        JStr s \<Rightarrow>
          if js_trim s = [] then grantInvalid (name @ '' must not be empty.'')
          else invalidIf (length (js_trim s) > maxLength) (name @ '' exceeds '' @ nat_text maxLength @ '' characters.'')
      | _ \<Rightarrow> grantInvalid (name @ '' must not be empty.''))"

definition instant :: "js_env \<Rightarrow> js \<Rightarrow> string \<Rightarrow> string option" where
  "instant E v name = invalidIf (case v of JStr s \<Rightarrow> date_parse E s = None | _ \<Rightarrow> True) (name @ '' must be a valid instant.'')"

text \<open>\<open>/^<prefix>[0-9a-f-]{36}$/i\<close>.\<close>

definition prefixedUuid :: "string \<Rightarrow> string \<Rightarrow> bool" where
  "prefixedUuid prefix s = (let t = js_lower s in
     starts_with prefix t \<and> length t = length prefix + 36 \<and> list_all (\<lambda>c. hex_char c \<or> c = CHR ''-'') (drop (length prefix) t))"

definition named :: "string \<Rightarrow> string \<Rightarrow> bool" where
  "named prefix s \<longleftrightarrow> starts_with prefix s \<and> length s > length prefix"

definition assertGrantDelegatedProvenance :: "js \<Rightarrow> bool \<Rightarrow> string option" where
  "assertGrantDelegatedProvenance v isDelegate =
     (if \<not> isDelegate then invalidIf (v \<noteq> JUndefined) ''human Owner grants must not carry delegated provenance.''
      else check_all id
        [invalidIf (\<not> js_is_object v \<or> js_is_array v)
           ''delegated Owner grants must carry delegatedFrom provenance (grantor, delegation id, profile).'',
         invalidIf (js_join '','' (sort (map fst (own_entries v))) \<noteq> ''delegationId,grantorOwnerId,profile'')
           ''delegatedFrom provenance must cite exactly grantorOwnerId, delegationId, and profile.'',
         invalidIf (case js_get v ''grantorOwnerId'' of
             JStr g \<Rightarrow> \<not> starts_with ''human:'' g \<or> js_trim (drop (length ''human:'') g) = [] | _ \<Rightarrow> True)
           ''delegatedFrom.grantorOwnerId must be the authenticated human grantor ('human:*').'',
         invalidIf (case js_get v ''delegationId'' of JStr d \<Rightarrow> \<not> prefixedUuid ''delegation:'' d | _ \<Rightarrow> True)
           ''delegatedFrom.delegationId must be 'delegation:<uuid>'.'',
         invalidIf (js_get v ''profile'' \<noteq> JStr ''FULL_PROJECT_OWNER'') ''delegatedFrom.profile must be FULL_PROJECT_OWNER.''])"

definition grantFields :: "string list" where
  "grantFields = [''version'', ''kind'', ''mechanism'', ''exemptionId'', ''operationId'', ''controllerEpoch'', ''anchoredCandidateId'',
     ''candidateRevision'', ''candidateIdentityDigest'', ''policyDigest'', ''policyStableDigest'', ''operationExecutionRevision'', ''paths'',
     ''decisionId'', ''decisionDigest'', ''decidedActor'', ''delegatedFrom'', ''decisionReason'', ''createdAt'', ''expiresAt'', ''mac'']"

definition trimmed :: "js \<Rightarrow> string" where
  "trimmed v = js_trim (str_of v)"

definition digestCheck :: "js \<Rightarrow> string \<Rightarrow> string option" where
  "digestCheck grant field = invalidIf (\<not> digestPattern (js_get grant field)) (field @ '' must be a lowercase SHA-256 digest.'')"

definition grantIdentityChecks :: "js \<Rightarrow> string option list" where
  "grantIdentityChecks grant =
     [invalidIf (js_get grant ''version'' \<noteq> jint 1 \<or> js_get grant ''kind'' \<noteq> JStr ''OWNER_HARD_PROTECTION_EXEMPTION''
          \<or> js_get grant ''mechanism'' \<noteq> JStr ''DETERMINISTIC'') ''grant requires version 1 with DETERMINISTIC mechanism.'',
      requiredText (js_get grant ''exemptionId'') ''exemptionId'' 64,
      invalidIf (\<not> prefixedUuid ''exemption:'' (trimmed (js_get grant ''exemptionId''))) ''exemptionId must be 'exemption:<uuid>'.'',
      requiredText (js_get grant ''operationId'') ''operationId'' 200,
      invalidIf (\<not> js_safe_at_least 0 (js_get grant ''controllerEpoch'')) ''controllerEpoch must be a non-negative safe integer.'',
      requiredText (js_get grant ''anchoredCandidateId'') ''anchoredCandidateId'' 200,
      invalidIf (\<not> js_safe_at_least 1 (js_get grant ''candidateRevision'')) ''candidateRevision must be a positive safe integer.'',
      digestCheck grant ''candidateIdentityDigest'', digestCheck grant ''policyDigest'', digestCheck grant ''policyStableDigest'',
      invalidIf (\<not> js_safe_at_least 1 (js_get grant ''operationExecutionRevision''))
        ''operationExecutionRevision must be a positive safe integer.'']"

definition grantPathChecks :: "(string \<Rightarrow> string \<Rightarrow> bool) \<Rightarrow> js \<Rightarrow> string option list" where
  "grantPathChecks collate paths =
     [invalidIf (\<not> js_is_array paths \<or> length (js_items paths) < 1 \<or> length (js_items paths) > 8)
        ''grant paths must contain 1 to 8 exact files.'']
     @ map (\<lambda>entry. requiredText entry ''grant path'' 500) (js_items paths)
     @ [invalidIf (sortBy collate (js_uniq (map str_of (js_items paths))) \<noteq> map str_of (js_items paths))
          ''grant paths must be sorted and unique.'']"

definition grantDecisionChecks :: "js_env \<Rightarrow> js \<Rightarrow> string option list" where
  "grantDecisionChecks E grant =
     (let actor = trimmed (js_get grant ''decidedActor'') in
     [requiredText (js_get grant ''decisionId'') ''decisionId'' 64,
      invalidIf (\<not> prefixedUuid ''decision:'' (trimmed (js_get grant ''decisionId''))) ''decisionId must be the ledger HumanDecision id.'',
      digestCheck grant ''decisionDigest'',
      requiredText (js_get grant ''decidedActor'') ''decidedActor'' 200,
      invalidIf (\<not> named ''human:'' actor \<and> \<not> named ''delegate:'' actor)
        ''decidedActor must be the ledger Owner authority ('human:*' or 'delegate:*').'',
      assertGrantDelegatedProvenance (js_get grant ''delegatedFrom'') (named ''delegate:'' actor),
      requiredText (js_get grant ''decisionReason'') ''decisionReason'' 2000,
      instant E (js_get grant ''createdAt'') ''createdAt'']
     @ (if js_get grant ''expiresAt'' = JUndefined then [] else
         [instant E (js_get grant ''expiresAt'') ''expiresAt'',
          invalidIf (the (date_parse E (str_of (js_get grant ''expiresAt''))) \<le> the (date_parse E (str_of (js_get grant ''createdAt''))))
            ''expiresAt must be after createdAt.''])
     @ [invalidIf (\<not> digestPattern (js_get grant ''mac'')) ''mac must be a lowercase SHA-256 hex digest.''])"

definition assertOwnerHardProtectionExemptionGrant :: "js_env \<Rightarrow> (string \<Rightarrow> string \<Rightarrow> bool) \<Rightarrow> js \<Rightarrow> string option" where
  "assertOwnerHardProtectionExemptionGrant E collate grant =
     (if \<not> js_is_object grant \<or> js_is_array grant then grantInvalid ''grant must be an object.''
      else let extra = filter (\<lambda>k. k \<notin> set grantFields) (map fst (own_entries grant)) in
      if extra \<noteq> [] then grantInvalid (''unsupported fields: '' @ js_join '', '' extra @ ''.'')
      else check_all id (grantIdentityChecks grant @ grantPathChecks collate (js_get grant ''paths'') @ grantDecisionChecks E grant))"


subsection \<open>What the lineage walk decides\<close>

text \<open>One hop: the usable receipt that assembled the candidate at the cursor, back to its base.\<close>

definition hop :: "js list \<Rightarrow> cursor \<Rightarrow> cursor \<Rightarrow> bool" where
  "hop durable c d \<longleftrightarrow> (\<exists>a. assemblyAt durable c = Some a \<and> d = baseCursor a)"

lemma sameCursor_eq: "sameCursor c d \<Longrightarrow> c = d"
  by (cases c, cases d) (auto simp: sameCursor_def dest!: js_same_eq)

lemma sameCursor_anchor [simp]: "sameCursor (anchorCursor q) (anchorCursor q)"
  by (simp add: sameCursor_def anchorCursor_def)

lemma sameCursor_anchor_iff: "sameCursor c (anchorCursor q) \<longleftrightarrow> c = anchorCursor q"
  using sameCursor_eq by (auto simp: sameCursor_def anchorCursor_def)

lemma hop_revision:
  assumes "\<forall>a \<in> set durable. usableReceipt E expected a" "assemblyAt durable c = Some a"
  obtains b where "cu_revision c = jint (b + 1)" "cu_revision (baseCursor a) = jint b"
    "js_get a ''revision'' = jint (b + 1)" "js_get a ''baseRevision'' = jint b"
proof -
  from assms have "assertCandidateAssemblyReceiptV1 E a = None"
    by (auto simp: usableReceipt_def dest!: assemblyAt_SomeD(1))
  then obtain b where b: "js_get a ''baseRevision'' = jint b" "js_get a ''revision'' = jint (b + 1)" "0 \<le> b"
    by (rule valid_assembly_revision)
  moreover from assemblyAt_SomeD(2) [OF assms(2)] b have "cu_revision c = jint (b + 1)" by (simp add: js_same_jint)
  ultimately show thesis by (intro that) (simp_all add: baseCursor_def)
qed

lemma hops_not_up:
  assumes "\<forall>a \<in> set durable. usableReceipt E expected a" "(hop durable)\<^sup>*\<^sup>* c d"
  shows "c = d \<or> (\<exists>m n. cu_revision c = jint m \<and> cu_revision d = jint n \<and> n < m)"
  using assms(2)
proof (induction rule: rtranclp_induct)
  case (step d e)
  then obtain a where a: "assemblyAt durable d = Some a" "e = baseCursor a" by (auto simp: hop_def)
  obtain b where "cu_revision d = jint (b + 1)" "cu_revision e = jint b"
    using hop_revision [OF assms(1) a(1)] a(2) by metis
  with step.IH show ?case by force
qed simp

lemma hopRefused_usable:
  assumes "\<forall>a \<in> set durable. usableReceipt E expected a" "assemblyAt durable c = Some a"
  shows "\<not> hopRefused expected c a"
proof -
  obtain b where "cu_revision c = jint (b + 1)" "js_get a ''revision'' = jint (b + 1)" "js_get a ''baseRevision'' = jint b"
    using hop_revision [OF assms] by metis
  moreover have "js_get a ''operationId'' = JStr expected"
    using assms by (auto simp: usableReceipt_def dest!: assemblyAt_SomeD(1))
  ultimately show ?thesis by (simp add: hopRefused_def int_of_def)
qed

lemma exemptionWalk_iff_hops:
  assumes usable: "\<forall>a \<in> set durable. usableReceipt E expected a"
    and "cu_revision c = jint r" "r - lq_anchoredRevision q < int hops" "0 < hops"
  shows "exemptionWalk q expected durable hops False c \<longleftrightarrow> (hop durable)\<^sup>*\<^sup>* c (anchorCursor q)"
  using assms(2-4)
proof (induction hops arbitrary: c r)
  case (Suc hops)
  consider (anchor) "c = anchorCursor q" | (below) "c \<noteq> anchorCursor q" "r \<le> lq_anchoredRevision q"
    | (above) "c \<noteq> anchorCursor q" "lq_anchoredRevision q < r" by linarith
  then show ?case
  proof cases
    case below
    have "\<not> (hop durable)\<^sup>*\<^sup>* c (anchorCursor q)"
      using hops_not_up [OF usable, of c "anchorCursor q"] below Suc.prems(1) by (auto simp: anchorCursor_def)
    with below Suc.prems(1) show ?thesis by (simp add: sameCursor_anchor_iff int_of_def)
  next
    case above
    have walk: "(hop durable)\<^sup>*\<^sup>* c (anchorCursor q) \<longleftrightarrow> (\<exists>d. hop durable c d \<and> (hop durable)\<^sup>*\<^sup>* d (anchorCursor q))"
      using above(1) by (metis converse_rtranclpE converse_rtranclp_into_rtranclp)
    show ?thesis
    proof (cases "assemblyAt durable c")
      case None
      then have "\<not> hop durable c d" for d by (simp add: hop_def)
      with above Suc.prems(1) walk None show ?thesis by (simp add: sameCursor_anchor_iff int_of_def)
    next
      case (Some a)
      then have only: "hop durable c d \<longleftrightarrow> d = baseCursor a" for d by (simp add: hop_def)
      obtain b where "cu_revision c = jint (b + 1)" "cu_revision (baseCursor a) = jint b"
        by (rule hop_revision [OF usable Some])
      with Suc.prems above have "exemptionWalk q expected durable hops False (baseCursor a) \<longleftrightarrow> (hop durable)\<^sup>*\<^sup>* (baseCursor a) (anchorCursor q)"
        by (intro Suc.IH [of _ b]) (auto simp:)
      with above Suc.prems(1) walk Some hopRefused_usable [OF usable Some] show ?thesis
        by (simp add: sameCursor_anchor_iff only int_of_def)
    qed
  qed simp
qed simp


text \<open>The durable index: the first receipt of every assembly, when no two receipts of one assembly disagree.\<close>

definition firstEntry :: "(string \<times> js) list \<Rightarrow> js list \<Rightarrow> string \<Rightarrow> js option" where
  "firstEntry m es i = (case map_of m i of Some e \<Rightarrow> Some e | None \<Rightarrow> List.find (\<lambda>e. assemblyIdOf e = i) es)"

lemma indexDurable_map: "indexDurable es m = Some idx \<Longrightarrow> map_of idx i = firstEntry m es i"
proof (induction es m rule: indexDurable.induct)
  case (2 entry rest m)
  then show ?case by (auto simp: firstEntry_def map_add_def split: option.splits if_splits)
qed (simp add: firstEntry_def split: option.splits)

lemma indexDurable_Some_iff:
  assumes "\<forall>e \<in> set es. \<exists>d. js_get e ''digest'' = JStr d" "\<forall>e \<in> ran (map_of m). \<exists>d. js_get e ''digest'' = JStr d"
  shows "(\<exists>idx. indexDurable es m = Some idx) \<longleftrightarrow>
    (\<forall>e \<in> set es. \<forall>p. firstEntry m es (assemblyIdOf e) = Some p \<longrightarrow> js_get p ''digest'' = js_get e ''digest'')"
  using assms
proof (induction es m rule: indexDurable.induct)
  case (2 entry rest m)
  show ?case
  proof (cases "map_of m (assemblyIdOf entry)")
    case None
    have first: "firstEntry (m @ [(assemblyIdOf entry, entry)]) rest i = firstEntry m (entry # rest) i" for i
      by (auto simp: firstEntry_def map_add_def split: option.splits)
    have "firstEntry m (entry # rest) (assemblyIdOf entry) = Some entry" using None by (simp add: firstEntry_def)
    moreover have "\<forall>e \<in> ran (map_of (m @ [(assemblyIdOf entry, entry)])). \<exists>d. js_get e ''digest'' = JStr d"
      using 2(4,3) by (auto simp: ran_def map_add_def split: option.splits if_splits)
    ultimately show ?thesis using 2(1) [OF None] 2(3) None by (simp add: first)
  next
    case (Some prior)
    have first: "firstEntry m (entry # rest) i = firstEntry m rest i" for i
      using Some by (auto simp: firstEntry_def split: option.splits)
    have self: "firstEntry m rest (assemblyIdOf entry) = Some prior" using Some by (simp add: firstEntry_def)
    obtain d where "js_get entry ''digest'' = JStr d" using 2(3) by auto
    then have "js_same (js_get prior ''digest'') (js_get entry ''digest'') \<longleftrightarrow> js_get prior ''digest'' = js_get entry ''digest''" by simp
    then show ?thesis using 2(2) [OF Some] 2(3,4) Some self by (auto simp: first)
  qed
qed simp

definition consistentReceipts :: "js list \<Rightarrow> bool" where
  "consistentReceipts es \<longleftrightarrow> (\<forall>e \<in> set es. \<forall>e' \<in> set es. assemblyIdOf e = assemblyIdOf e' \<longrightarrow> js_get e ''digest'' = js_get e' ''digest'')"

definition hintsConfirmed :: "js list \<Rightarrow> js list \<Rightarrow> bool" where
  "hintsConfirmed durable hints \<longleftrightarrow> (\<forall>hint \<in> set hints. \<forall>truth. List.find (\<lambda>e. assemblyIdOf e = assemblyIdOf hint) durable = Some truth \<longrightarrow>
     (\<forall>k \<in> set confirmedFields. js_same (js_get truth k) (js_get hint k)))"

lemma indexDurable_consistent:
  assumes "\<forall>a \<in> set es. usableReceipt E expected a"
  shows "(\<exists>idx. indexDurable es [] = Some idx) \<longleftrightarrow> consistentReceipts es"
proof -
  have "\<forall>e \<in> set es. \<exists>d. js_get e ''digest'' = JStr d"
    using assms by (auto simp: usableReceipt_def elim!: assertCandidateAssemblyReceiptV1_digest)
  from indexDurable_Some_iff [OF this, of "[]"] have
    "(\<exists>idx. indexDurable es [] = Some idx) \<longleftrightarrow> (\<forall>e \<in> set es. \<forall>p. List.find (\<lambda>x. assemblyIdOf x = assemblyIdOf e) es = Some p \<longrightarrow>
       js_get p ''digest'' = js_get e ''digest'')" by (simp add: firstEntry_def)
  also have "\<dots> \<longleftrightarrow> consistentReceipts es"
  proof
    assume first: "\<forall>e \<in> set es. \<forall>p. List.find (\<lambda>x. assemblyIdOf x = assemblyIdOf e) es = Some p \<longrightarrow> js_get p ''digest'' = js_get e ''digest''"
    show "consistentReceipts es" unfolding consistentReceipts_def
    proof (intro ballI impI)
      fix e e' assume e: "e \<in> set es" "e' \<in> set es" "assemblyIdOf e = assemblyIdOf e'"
      then obtain p where p: "List.find (\<lambda>x. assemblyIdOf x = assemblyIdOf e) es = Some p"
        by (cases "List.find (\<lambda>x. assemblyIdOf x = assemblyIdOf e) es") (auto simp: find_None_iff)
      show "js_get e ''digest'' = js_get e' ''digest''"
        using first [rule_format, OF e(1) p] first [rule_format, OF e(2) p [unfolded e(3)]] by simp
    qed
  next
    assume "consistentReceipts es"
    note agree = this [unfolded consistentReceipts_def, rule_format]
    show "\<forall>e \<in> set es. \<forall>p. List.find (\<lambda>x. assemblyIdOf x = assemblyIdOf e) es = Some p \<longrightarrow> js_get p ''digest'' = js_get e ''digest''"
      by (intro ballI allI impI agree) (drule find_SomeD, simp)+
  qed
  finally show ?thesis .
qed

lemma hintConfirmed_index:
  assumes "indexDurable es [] = Some idx"
  shows "list_all (hintConfirmed idx) hints \<longleftrightarrow> hintsConfirmed es hints"
  by (auto simp: hintConfirmed_def hintsConfirmed_def list_all_iff indexDurable_map [OF assms] firstEntry_def split: option.splits)




subsection \<open>What a code and a stable digest bind\<close>

lemma canonicalSerialize_same_content:
  assumes "canon v = canon w" shows "canonicalSerialize v = canonicalSerialize w"
  unfolding canonicalSerialize_def by (metis assms canon_undefined_iff serialize_canon)

lemma canonicalSerialize_inject:
  assumes "canonicalSerialize v = Inr s" "canonicalSerialize w = Inr s" "nums_ok v" "nums_ok w"
  shows "canon v = canon w"
  using assms serialize_content canonicalSerialize_not_undefined unfolding canonicalSerialize_def by blast

text \<open>
  A code minted for a grant body verifies, under the same controller token, exactly for the bodies with the same content:
  a changed, added or removed field is refused, a different order of the fields is not. HMAC-SHA256 is assumed to be
  64 lowercase hex digits and not to collide on the two serialized bodies under this token.
\<close>

theorem owner_exemption_mac_iff:
  assumes mint: "computeOwnerExemptionMac hmac token (JObj body) = Inr m"
    and hex: "is_digest m"
    and no_mac: "''mac'' \<notin> fst ` set body" "''mac'' \<notin> fst ` set body'"
    and no_collision: "\<And>x y. canonicalSerialize (JObj body) = Inr x \<Longrightarrow> canonicalSerialize (JObj body') = Inr y \<Longrightarrow>
       hmac (js_trim token) x = hmac (js_trim token) y \<Longrightarrow> x = y"
    and nums: "nums_ok (JObj body)" "nums_ok (JObj body')"
  shows "verifyOwnerExemptionMac hmac (Some token) (JObj (body' @ [(''mac'', JStr m)])) \<longleftrightarrow> canon (JObj body') = canon (JObj body)"
proof -
  have grant: "ownerExemptionGrantBody (JObj (body' @ [(''mac'', JStr m)])) = JObj body'"
    using no_mac(2) by (force simp: ownerExemptionGrantBody_def own_entries_def intro!: filter_True)
  have mac: "js_get (JObj (body' @ [(''mac'', JStr m)])) ''mac'' = JStr m"
    using no_mac(2) by (simp add: map_of_eq_None_iff [symmetric] map_add_def)
  from mint obtain x where x: "canonicalSerialize (JObj body) = Inr x" "m = hmac (js_trim token) x" "js_trim token \<noteq> []"
    unfolding computeOwnerExemptionMac_def by (auto split: if_splits sum.splits)
  have "verifyOwnerExemptionMac hmac (Some token) (JObj (body' @ [(''mac'', JStr m)]))
      \<longleftrightarrow> (\<exists>y. canonicalSerialize (JObj body') = Inr y \<and> hmac (js_trim token) x = hmac (js_trim token) y)"
    unfolding verifyOwnerExemptionMac_def computeOwnerExemptionMac_def grant mac using x hex by (auto split: sum.splits)
  also have "\<dots> \<longleftrightarrow> canon (JObj body') = canon (JObj body)"
    using no_collision x(1) nums canonicalSerialize_inject canonicalSerialize_same_content by metis
  finally show ?thesis .
qed

theorem owner_exemption_mac_iff_witness:
  "verifyOwnerExemptionMac (\<lambda>k s. replicate 64 (CHR ''a'')) (Some ''token'')
     (JObj ([(''b'', jint 2), (''a'', jint 1)] @ [(''mac'', JStr (replicate 64 (CHR ''a'')))]))"
proof -
  let ?hmac = "\<lambda>k s :: string. replicate 64 (CHR ''a'')"
  have "computeOwnerExemptionMac ?hmac ''token'' (JObj [(''a'', jint 1), (''b'', jint 2)]) = Inr (replicate 64 (CHR ''a''))"
    "is_digest (replicate 64 (CHR ''a''))" "nums_ok (JObj [(''a'', jint 1), (''b'', jint 2)])" "nums_ok (JObj [(''b'', jint 2), (''a'', jint 1)])"
    "canon (JObj [(''b'', jint 2), (''a'', jint 1)]) = canon (JObj [(''a'', jint 1), (''b'', jint 2)])"
    "canonicalSerialize (JObj [(''a'', jint 1), (''b'', jint 2)]) = canonicalSerialize (JObj [(''b'', jint 2), (''a'', jint 1)])"
    by code_simp+
  then show ?thesis
    using owner_exemption_mac_iff [of ?hmac "''token''" "[(''a'', jint 1), (''b'', jint 2)]" "replicate 64 (CHR ''a'')"
        "[(''b'', jint 2), (''a'', jint 1)]"] by simp
qed

lemma sorted_entries_map_canon:
  "map (\<lambda>(k, v). (k, canon v)) (sorted_entries kvs) = sorted_entries (map (\<lambda>(k, v). (k, canon v)) kvs)"
proof -
  have "filter (\<lambda>(k, v). v \<noteq> JUndefined) (map (\<lambda>(k, v). (k, canon v)) kvs)
      = map (\<lambda>(k, v). (k, canon v)) (filter (\<lambda>(k, v). v \<noteq> JUndefined) kvs)"
    by (induction kvs) auto
  then show ?thesis unfolding sorted_entries_def by (simp add: sort_key_map_fst)
qed

lemma stable_content_iff:
  "canon (stablePolicyBody p) = canon (stablePolicyBody p') \<longleftrightarrow> (\<forall>k \<in> set stablePolicyFields. canon (js_get p k) = canon (js_get p' k))"
proof
  have d: "distinct (map fst (map (\<lambda>k. (k, js_get v k)) stablePolicyFields))" for v
    by (simp add: comp_def) code_simp
  have get: "js_get (stablePolicyBody v) k = js_get v k" if "k \<in> set stablePolicyFields" for v k
    unfolding stablePolicyBody_def using that by (simp add: map_of_map_restrict)
  assume eq: "canon (stablePolicyBody p) = canon (stablePolicyBody p')"
  show "\<forall>k \<in> set stablePolicyFields. canon (js_get p k) = canon (js_get p' k)"
  proof
    fix k assume k: "k \<in> set stablePolicyFields"
    have "js_get (canon (stablePolicyBody v)) k = canon (js_get v k)" for v
      using canon_get [OF d, of v k] get [OF k, of v] by (simp only: stablePolicyBody_def)
    with eq show "canon (js_get p k) = canon (js_get p' k)" by metis
  qed
next
  assume "\<forall>k \<in> set stablePolicyFields. canon (js_get p k) = canon (js_get p' k)"
  then show "canon (stablePolicyBody p) = canon (stablePolicyBody p')"
    unfolding stablePolicyBody_def canon.simps sorted_entries_map_canon by (simp cong: map_cong)
qed

end
