(* ===== verification/Roles.thy ===== *)
theory Roles
  imports Js
begin

text \<open>
  The canonical participant roles (\<open>src/src/participants/roles.ts\<close>, with the types of \<open>types.ts\<close>): the profile of each
  role, its tool pack, its delegation and authority, and the lookup of a profile. The \<open>version\<close> fields are the constant 1
  and are left out. The properties of the table that the execution identity relies on are proved here by evaluation.
\<close>

record ToolPackV1 =
  tp_required :: "string list"
  tp_optional :: "string list"
  tp_forbidden :: "string list"

record ContextMetadataV1 =
  cm_requiredKinds :: "string list"
  cm_retrieval :: string
  cm_preservation :: string
  cm_budgetClass :: string

record DelegationMetadataV1 =
  dm_allowed :: bool
  dm_allowedRoles :: "string list"
  dm_maxChildren :: nat
  dm_requiresSupervisorApproval :: bool

record AuthorityMetadataV1 =
  au_canRead :: bool
  au_canWrite :: bool
  au_canExecute :: bool
  au_canApprove :: bool
  au_canSelfAccept :: bool
  au_leaseRequired :: bool

record RoleProfileV1 =
  rp_role :: string
  rp_purpose :: string
  rp_validRoutes :: "string list"
  rp_validAssurance :: "string list"
  rp_baseCapabilities :: "string list"
  rp_maxCapabilities :: "string list"
  rp_specializations :: "string list"
  rp_toolPack :: ToolPackV1
  rp_context :: ContextMetadataV1
  rp_delegation :: DelegationMetadataV1
  rp_authority :: AuthorityMetadataV1
  rp_defaultSkills :: "string list"
  rp_inputContract :: string
  rp_outputContract :: string
  rp_invocationConditions :: "string list"

definition canonicalRoleValues :: "string list" where
  "canonicalRoleValues = [''Lead/Director'', ''Operation Supervisor'', ''Explorer'', ''Librarian'', ''Planner'', ''Spec Manager'',
     ''Implementer'', ''Reviewer'', ''Repairer'']"

definition isCanonicalRole :: "js \<Rightarrow> bool" where
  "isCanonicalRole v = (case v of JStr r \<Rightarrow> r \<in> set canonicalRoleValues | _ \<Rightarrow> False)"

definition readOnlyTools :: "string list" where
  "readOnlyTools = [''repository-read'', ''context-read'']"

definition implementationTools :: "string list" where
  "implementationTools = [''repository-read'', ''repository-write'', ''command-execute'', ''context-read'']"

definition coordinationTools :: "string list" where
  "coordinationTools = [''repository-read'', ''context-read'', ''task-coordination'']"

definition allRoutes :: "string list" where
  "allRoutes = [''NO_AGENT'', ''DIRECT'', ''DELEGATED'', ''FORMAL_SDD'']"

definition changeRoutes :: "string list" where
  "changeRoutes = [''DIRECT'', ''DELEGATED'', ''FORMAL_SDD'']"

definition orchestrationRoutes :: "string list" where
  "orchestrationRoutes = [''DELEGATED'', ''FORMAL_SDD'']"

definition allAssurance :: "string list" where
  "allAssurance = [''NONE'', ''STANDARD'', ''ELEVATED'', ''CRITICAL'']"

definition changeAssurance :: "string list" where
  "changeAssurance = [''STANDARD'', ''ELEVATED'', ''CRITICAL'']"

definition leadDirectorProfile :: RoleProfileV1 where
  "leadDirectorProfile = \<lparr>rp_role = ''Lead/Director'',
     rp_purpose = ''Own the bounded operation decision, preserve intent, and coordinate canonical participants.'',
     rp_validRoutes = allRoutes, rp_validAssurance = allAssurance,
     rp_baseCapabilities = [''read'', ''plan'', ''supervise'', ''delegate''],
     rp_maxCapabilities = [''read'', ''plan'', ''specify'', ''review'', ''validate'', ''supervise'', ''delegate''],
     rp_specializations = [''cross-cutting''],
     rp_toolPack = \<lparr>tp_required = coordinationTools, tp_optional = [''validation-read'', ''operation-control''],
       tp_forbidden = [''repository-write'', ''agent-spawn-by-name'']\<rparr>,
     rp_context = \<lparr>cm_requiredKinds = [''instruction'', ''normative'', ''operation'', ''repository-map''],
       cm_retrieval = ''authorized'', cm_preservation = ''verbatim'', cm_budgetClass = ''large''\<rparr>,
     rp_delegation = \<lparr>dm_allowed = True,
       dm_allowedRoles = [''Operation Supervisor'', ''Explorer'', ''Librarian'', ''Planner'', ''Spec Manager'', ''Implementer'', ''Reviewer'', ''Repairer''],
       dm_maxChildren = 32, dm_requiresSupervisorApproval = False\<rparr>,
     rp_authority = \<lparr>au_canRead = True, au_canWrite = False, au_canExecute = False,
       au_canApprove = True, au_canSelfAccept = False, au_leaseRequired = True\<rparr>,
     rp_defaultSkills = [''intent-analysis'', ''semantic-decision'', ''human-exception-handling'', ''acceptance-reasoning''],
     rp_inputContract = ''user-intent-and-operation-state'', rp_outputContract = ''semantic-decision'',
     rp_invocationConditions = [''top-level-operation'', ''human-exception'']\<rparr>"

definition operationSupervisorProfile :: RoleProfileV1 where
  "operationSupervisorProfile = \<lparr>rp_role = ''Operation Supervisor'',
     rp_purpose = ''Supervise lifecycle, budgets, barriers, leases, and participant evidence for one operation.'',
     rp_validRoutes = orchestrationRoutes, rp_validAssurance = changeAssurance,
     rp_baseCapabilities = [''read'', ''supervise'', ''validate''],
     rp_maxCapabilities = [''read'', ''supervise'', ''validate'', ''delegate''],
     rp_specializations = [''cross-cutting''],
     rp_toolPack = \<lparr>tp_required = coordinationTools, tp_optional = [''validation-read''],
       tp_forbidden = [''repository-write'', ''command-execute'', ''agent-spawn-by-name'']\<rparr>,
     rp_context = \<lparr>cm_requiredKinds = [''normative'', ''operation'', ''validation'', ''handoff''],
       cm_retrieval = ''authorized'', cm_preservation = ''verbatim'', cm_budgetClass = ''large''\<rparr>,
     rp_delegation = \<lparr>dm_allowed = True,
       dm_allowedRoles = [''Explorer'', ''Librarian'', ''Planner'', ''Spec Manager'', ''Implementer'', ''Reviewer'', ''Repairer''],
       dm_maxChildren = 32, dm_requiresSupervisorApproval = False\<rparr>,
     rp_authority = \<lparr>au_canRead = True, au_canWrite = False, au_canExecute = False,
       au_canApprove = False, au_canSelfAccept = False, au_leaseRequired = True\<rparr>,
     rp_defaultSkills = [''operation-coordination'', ''progress-reconciliation'', ''conflict-consolidation'', ''bounded-replanning''],
     rp_inputContract = ''operation-state-and-participant-evidence'', rp_outputContract = ''operation-supervision'',
     rp_invocationConditions = [''managed-operation'']\<rparr>"

definition explorerProfile :: RoleProfileV1 where
  "explorerProfile = \<lparr>rp_role = ''Explorer'',
     rp_purpose = ''Build bounded repository and change-scope evidence without proposing implementation identity.'',
     rp_validRoutes = orchestrationRoutes, rp_validAssurance = changeAssurance,
     rp_baseCapabilities = [''read'', ''research''],
     rp_maxCapabilities = [''read'', ''research'', ''validate''],
     rp_specializations = [''cross-cutting''],
     rp_toolPack = \<lparr>tp_required = readOnlyTools, tp_optional = [''repository-map''],
       tp_forbidden = [''repository-write'', ''command-execute'', ''agent-spawn-by-name'']\<rparr>,
     rp_context = \<lparr>cm_requiredKinds = [''instruction'', ''repository-map'', ''source''],
       cm_retrieval = ''authorized'', cm_preservation = ''projectable'', cm_budgetClass = ''standard''\<rparr>,
     rp_delegation = \<lparr>dm_allowed = False,
       dm_allowedRoles = [],
       dm_maxChildren = 0, dm_requiresSupervisorApproval = True\<rparr>,
     rp_authority = \<lparr>au_canRead = True, au_canWrite = False, au_canExecute = False,
       au_canApprove = False, au_canSelfAccept = False, au_leaseRequired = False\<rparr>,
     rp_defaultSkills = [''repository-discovery'', ''symbol-impact-analysis'', ''repository-evidence-grounding''],
     rp_inputContract = ''repository-discovery-request'', rp_outputContract = ''exploration-evidence'',
     rp_invocationConditions = [''discovery-needed'']\<rparr>"

definition librarianProfile :: RoleProfileV1 where
  "librarianProfile = \<lparr>rp_role = ''Librarian'',
     rp_purpose = ''Locate and summarize trusted external or repository knowledge after a deterministic knowledge gap.'',
     rp_validRoutes = orchestrationRoutes, rp_validAssurance = changeAssurance,
     rp_baseCapabilities = [''read'', ''research''],
     rp_maxCapabilities = [''read'', ''research'', ''validate''],
     rp_specializations = [''cross-cutting''],
     rp_toolPack = \<lparr>tp_required = [''context-read''], tp_optional = [''approved-research''],
       tp_forbidden = [''repository-write'', ''agent-spawn-by-name'']\<rparr>,
     rp_context = \<lparr>cm_requiredKinds = [''instruction'', ''normative'', ''raw-evidence''],
       cm_retrieval = ''authorized'', cm_preservation = ''retrievable'', cm_budgetClass = ''standard''\<rparr>,
     rp_delegation = \<lparr>dm_allowed = False,
       dm_allowedRoles = [],
       dm_maxChildren = 0, dm_requiresSupervisorApproval = True\<rparr>,
     rp_authority = \<lparr>au_canRead = True, au_canWrite = False, au_canExecute = False,
       au_canApprove = False, au_canSelfAccept = False, au_leaseRequired = False\<rparr>,
     rp_defaultSkills = [''authoritative-research'', ''source-quality-ranking'', ''version-aware-research'', ''public-code-research'', ''knowledge-pack-authoring''],
     rp_inputContract = ''knowledge-gap-request'', rp_outputContract = ''knowledge-pack'',
     rp_invocationConditions = [''knowledge-gap'']\<rparr>"

definition plannerProfile :: RoleProfileV1 where
  "plannerProfile = \<lparr>rp_role = ''Planner'',
     rp_purpose = ''Decompose a frozen objective into dependency-aware bounded work units.'',
     rp_validRoutes = orchestrationRoutes, rp_validAssurance = changeAssurance,
     rp_baseCapabilities = [''read'', ''plan''],
     rp_maxCapabilities = [''read'', ''plan'', ''validate''],
     rp_specializations = [''cross-cutting''],
     rp_toolPack = \<lparr>tp_required = coordinationTools, tp_optional = [''repository-map''],
       tp_forbidden = [''repository-write'', ''command-execute'', ''agent-spawn-by-name'']\<rparr>,
     rp_context = \<lparr>cm_requiredKinds = [''instruction'', ''normative'', ''repository-map'', ''operation''],
       cm_retrieval = ''authorized'', cm_preservation = ''projectable'', cm_budgetClass = ''large''\<rparr>,
     rp_delegation = \<lparr>dm_allowed = False,
       dm_allowedRoles = [],
       dm_maxChildren = 0, dm_requiresSupervisorApproval = True\<rparr>,
     rp_authority = \<lparr>au_canRead = True, au_canWrite = False, au_canExecute = False,
       au_canApprove = False, au_canSelfAccept = False, au_leaseRequired = False\<rparr>,
     rp_defaultSkills = [''work-decomposition'', ''dependency-analysis'', ''competency-identification'', ''resource-conflict-analysis''],
     rp_inputContract = ''frozen-objective-and-discovery-evidence'', rp_outputContract = ''work-graph'',
     rp_invocationConditions = [''non-trivial-decomposition'']\<rparr>"

definition specManagerProfile :: RoleProfileV1 where
  "specManagerProfile = \<lparr>rp_role = ''Spec Manager'',
     rp_purpose = ''Author and validate formal requirements, design, tasks, and traceability before freeze.'',
     rp_validRoutes = [''FORMAL_SDD''], rp_validAssurance = [''ELEVATED'', ''CRITICAL''],
     rp_baseCapabilities = [''read'', ''specify'', ''validate''],
     rp_maxCapabilities = [''read'', ''specify'', ''validate''],
     rp_specializations = [''cross-cutting''],
     rp_toolPack = \<lparr>tp_required = [''repository-read'', ''context-read'', ''spec-authoring''], tp_optional = [''validation-read''],
       tp_forbidden = [''repository-write'', ''command-execute'', ''agent-spawn-by-name'']\<rparr>,
     rp_context = \<lparr>cm_requiredKinds = [''instruction'', ''normative'', ''operation'', ''validation''],
       cm_retrieval = ''authorized'', cm_preservation = ''verbatim'', cm_budgetClass = ''large''\<rparr>,
     rp_delegation = \<lparr>dm_allowed = False,
       dm_allowedRoles = [],
       dm_maxChildren = 0, dm_requiresSupervisorApproval = True\<rparr>,
     rp_authority = \<lparr>au_canRead = True, au_canWrite = False, au_canExecute = False,
       au_canApprove = False, au_canSelfAccept = False, au_leaseRequired = False\<rparr>,
     rp_defaultSkills = [''requirement-authoring'', ''semantic-consistency'', ''acceptance-traceability'', ''openspec-authoring''],
     rp_inputContract = ''change-intent-and-authoring-evidence'', rp_outputContract = ''compiled-formal-contract'',
     rp_invocationConditions = [''formal-sdd-route'']\<rparr>"

definition implementerProfile :: RoleProfileV1 where
  "implementerProfile = \<lparr>rp_role = ''Implementer'',
     rp_purpose = ''Make only the frozen, task-scoped product changes and return reproducible evidence.'',
     rp_validRoutes = changeRoutes, rp_validAssurance = changeAssurance,
     rp_baseCapabilities = [''read'', ''write'', ''execute'', ''implement''],
     rp_maxCapabilities = [''read'', ''write'', ''execute'', ''implement'', ''validate''],
     rp_specializations = [''cross-cutting'', ''typescript-node'', ''dotnet-csharp'', ''postgresql''],
     rp_toolPack = \<lparr>tp_required = implementationTools, tp_optional = [''test-runner'', ''database-client''],
       tp_forbidden = [''agent-spawn-by-name'']\<rparr>,
     rp_context = \<lparr>cm_requiredKinds = [''instruction'', ''normative'', ''source'', ''diff'', ''validation''],
       cm_retrieval = ''authorized'', cm_preservation = ''projectable'', cm_budgetClass = ''standard''\<rparr>,
     rp_delegation = \<lparr>dm_allowed = False,
       dm_allowedRoles = [],
       dm_maxChildren = 0, dm_requiresSupervisorApproval = True\<rparr>,
     rp_authority = \<lparr>au_canRead = True, au_canWrite = True, au_canExecute = True,
       au_canApprove = False, au_canSelfAccept = False, au_leaseRequired = True\<rparr>,
     rp_defaultSkills = [''implementation-discipline'', ''scope-discipline'', ''focused-regression-testing'', ''implementation-evidence''],
     rp_inputContract = ''assigned-work-units-and-frozen-blueprint'', rp_outputContract = ''work-unit-result'',
     rp_invocationConditions = [''direct-or-delegated-change'']\<rparr>"

definition reviewerProfile :: RoleProfileV1 where
  "reviewerProfile = \<lparr>rp_role = ''Reviewer'',
     rp_purpose = ''Independently assess scope, correctness, security, and evidence without changing the candidate.'',
     rp_validRoutes = changeRoutes, rp_validAssurance = changeAssurance,
     rp_baseCapabilities = [''read'', ''review'', ''validate''],
     rp_maxCapabilities = [''read'', ''review'', ''validate'', ''research''],
     rp_specializations = [''cross-cutting'', ''high-assurance'', ''typescript-node'', ''dotnet-csharp'', ''postgresql''],
     rp_toolPack = \<lparr>tp_required = readOnlyTools, tp_optional = [''test-runner'', ''validation-read''],
       tp_forbidden = [''repository-write'', ''command-execute'', ''agent-spawn-by-name'']\<rparr>,
     rp_context = \<lparr>cm_requiredKinds = [''instruction'', ''normative'', ''source'', ''diff'', ''validation'', ''evidence''],
       cm_retrieval = ''authorized'', cm_preservation = ''verbatim'', cm_budgetClass = ''standard''\<rparr>,
     rp_delegation = \<lparr>dm_allowed = False,
       dm_allowedRoles = [],
       dm_maxChildren = 0, dm_requiresSupervisorApproval = True\<rparr>,
     rp_authority = \<lparr>au_canRead = True, au_canWrite = False, au_canExecute = False,
       au_canApprove = False, au_canSelfAccept = False, au_leaseRequired = False\<rparr>,
     rp_defaultSkills = [''independent-review'', ''evidence-based-findings'', ''review-scope-discipline'', ''finding-quality''],
     rp_inputContract = ''candidate-and-review-dimensions'', rp_outputContract = ''review-result'',
     rp_invocationConditions = [''independent-review-required'']\<rparr>"

definition repairerProfile :: RoleProfileV1 where
  "repairerProfile = \<lparr>rp_role = ''Repairer'',
     rp_purpose = ''Apply bounded repairs to a failed candidate while preserving frozen scope and independent re-validation.'',
     rp_validRoutes = changeRoutes, rp_validAssurance = changeAssurance,
     rp_baseCapabilities = [''read'', ''write'', ''execute'', ''repair''],
     rp_maxCapabilities = [''read'', ''write'', ''execute'', ''repair'', ''validate''],
     rp_specializations = [''cross-cutting'', ''typescript-node'', ''dotnet-csharp'', ''postgresql''],
     rp_toolPack = \<lparr>tp_required = implementationTools, tp_optional = [''test-runner'', ''database-client''],
       tp_forbidden = [''agent-spawn-by-name'']\<rparr>,
     rp_context = \<lparr>cm_requiredKinds = [''instruction'', ''normative'', ''failure-packet'', ''diff'', ''validation''],
       cm_retrieval = ''authorized'', cm_preservation = ''projectable'', cm_budgetClass = ''standard''\<rparr>,
     rp_delegation = \<lparr>dm_allowed = False,
       dm_allowedRoles = [],
       dm_maxChildren = 0, dm_requiresSupervisorApproval = True\<rparr>,
     rp_authority = \<lparr>au_canRead = True, au_canWrite = True, au_canExecute = True,
       au_canApprove = False, au_canSelfAccept = False, au_leaseRequired = True\<rparr>,
     rp_defaultSkills = [''root-cause-remediation'', ''minimal-repair'', ''regression-preservation'', ''failure-classification''],
     rp_inputContract = ''failure-packet-and-frozen-scope'', rp_outputContract = ''repair-result'',
     rp_invocationConditions = [''repair-required'']\<rparr>"

definition DEFAULT_ROLE_PROFILES_V1 :: "RoleProfileV1 list" where
  "DEFAULT_ROLE_PROFILES_V1 = [leadDirectorProfile, operationSupervisorProfile, explorerProfile, librarianProfile,
     plannerProfile, specManagerProfile, implementerProfile, reviewerProfile, repairerProfile]"

text \<open>\<open>roleProfile\<close>, \<open>None\<close> where the code throws because no profile has the role.\<close>

definition roleProfile :: "string \<Rightarrow> RoleProfileV1 option" where
  "roleProfile role = List.find (\<lambda>candidate. rp_role candidate = role) DEFAULT_ROLE_PROFILES_V1"

subsection \<open>The table\<close>

definition ceilingTools :: "RoleProfileV1 \<Rightarrow> string list" where
  "ceilingTools p = filter (\<lambda>t. t \<notin> set (tp_forbidden (rp_toolPack p))) (tp_required (rp_toolPack p) @ tp_optional (rp_toolPack p))"

definition mutatingTools :: "string list" where
  "mutatingTools = [''repository-write'', ''command-execute'']"

lemma roles_complete: "map rp_role DEFAULT_ROLE_PROFILES_V1 = canonicalRoleValues"
  by code_simp

lemma mutating_tools_need_write:
  "list_all (\<lambda>p. au_canWrite (rp_authority p) \<or> list_all (\<lambda>t. t \<notin> set mutatingTools) (ceilingTools p)) DEFAULT_ROLE_PROFILES_V1"
  by code_simp

lemma nobody_accepts_own_work: "list_all (\<lambda>p. \<not> au_canSelfAccept (rp_authority p)) DEFAULT_ROLE_PROFILES_V1"
  by code_simp

lemma roleProfile_SomeD:
  assumes "roleProfile role = Some p"
  shows "p \<in> set DEFAULT_ROLE_PROFILES_V1" "rp_role p = role"
  using find_SomeD [OF assms [unfolded roleProfile_def]] by simp_all

lemma roleProfile_Some_iff: "(\<exists>p. roleProfile role = Some p) \<longleftrightarrow> role \<in> set canonicalRoleValues"
proof (cases "List.find (\<lambda>candidate. rp_role candidate = role) DEFAULT_ROLE_PROFILES_V1")
  case None
  with find_None_iff [of "\<lambda>candidate. rp_role candidate = role" DEFAULT_ROLE_PROFILES_V1] show ?thesis
    unfolding roles_complete [symmetric] roleProfile_def by auto
next
  case (Some p)
  then show ?thesis unfolding roles_complete [symmetric] roleProfile_def using find_SomeD [OF Some] by auto
qed

lemma ceiling_of_reader:
  assumes "roleProfile role = Some p" "\<not> au_canWrite (rp_authority p)" "t \<in> set mutatingTools"
  shows "t \<notin> set (ceilingTools p)"
  using mutating_tools_need_write roleProfile_SomeD(1) [OF assms(1)] assms(2,3) unfolding list_all_iff by blast

end
