(* ===== verification/ExecutionIdentity.thy ===== *)
theory ExecutionIdentity
  imports OwnerExemption Roles
begin

text \<open>
  Frozen execution identity (\<open>src/src/architecture/executionIdentity.ts\<close>): the resolved operation policy, role invocation
  policies, execution blueprints and the digests that bind them to each other. Compiled objects are run-time values, as
  the code reads them back from disk and checks them again. The order of \<open>localeCompare\<close> is the parameter \<open>collate\<close>.
  \<open>deepFreeze\<close> has no effect on values and is the identity here.
\<close>

subsection \<open>Checks\<close>

datatype identity_error =
    IdentityRejected string
  | IdentityTypeError
  | IdentityUnserializable serialize_error

definition failWhen :: "bool \<Rightarrow> string \<Rightarrow> identity_error + unit" where
  "failWhen b message = (if b then Inl (IdentityRejected message) else Inr ())"

definition canonicalDigest :: "js_env \<Rightarrow> js \<Rightarrow> identity_error + string" where
  "canonicalDigest E v = map_sum IdentityUnserializable id (sha256Canonical E v)"

definition digestBody :: "js \<Rightarrow> js" where
  "digestBody v = JObj (filter (\<lambda>(k, x). k \<noteq> ''digest'') (own_entries v))"

text \<open>\<open>required\<close>: the optional chain stops at null and undefined; any other value without \<open>trim\<close> is a TypeError.\<close>

definition required :: "js \<Rightarrow> string \<Rightarrow> identity_error + unit" where
  "required v name =
     (case v of
        JStr s \<Rightarrow> failWhen (js_trim s = []) (''EXECUTION_IDENTITY_INVALID: '' @ name @ '' is required.'')
      | _ \<Rightarrow> if js_nullish v then Inl (IdentityRejected (''EXECUTION_IDENTITY_INVALID: '' @ name @ '' is required.'')) else Inl IdentityTypeError)"

definition requiredDigest :: "js \<Rightarrow> string \<Rightarrow> identity_error + unit" where
  "requiredDigest v name = failWhen (\<not> digestPattern v) (''EXECUTION_IDENTITY_INVALID: '' @ name @ '' must be a SHA-256 digest.'')"

definition assertRevision :: "js \<Rightarrow> string \<Rightarrow> identity_error + unit" where
  "assertRevision v name = failWhen (\<not> js_safe_at_least 0 v) (''EXECUTION_IDENTITY_INVALID: '' @ name @ '' must be a non-negative integer.'')"

text \<open>The check that ends every assertion: the recorded digest is the digest of the other entries.\<close>

definition assertDigest :: "js_env \<Rightarrow> js \<Rightarrow> string \<Rightarrow> identity_error + unit" where
  "assertDigest E v message =
     andThen (failWhen (\<not> digestPattern (js_get v ''digest'')) message) (\<lambda>_.
     andThen (canonicalDigest E (digestBody v)) (\<lambda>d. failWhen (js_get v ''digest'' \<noteq> JStr d) message))"

definition versioned :: "js \<Rightarrow> int \<Rightarrow> bool" where
  "versioned v n \<longleftrightarrow> js_is_object v \<and> js_get v ''version'' = jint n"

text \<open>\<open>{ ...base, ...v }\<close> and \<open>{ ...body, digest: sha256Canonical(body) }\<close>.\<close>

definition spread :: "js_entries \<Rightarrow> js \<Rightarrow> js_entries" where
  "spread base v = fold (\<lambda>(k, x). AList.update k x) (own_entries v) base"

definition override :: "js_entries \<Rightarrow> js_entries \<Rightarrow> js_entries" where
  "override overrides base = fold (\<lambda>(k, x). AList.update k x) overrides base"

definition sealed :: "js_env \<Rightarrow> js_entries \<Rightarrow> identity_error + js" where
  "sealed E body = andThen (canonicalDigest E (JObj body)) (\<lambda>d. Inr (JObj (AList.update ''digest'' (JStr d) body)))"

subsection \<open>Liveness policy and economic envelope\<close>

text \<open>
  \<open>Number.isFinite(v) && v > 0 && v < 1\<close>. Such a number is no integer; its text begins with \<open>0.\<close>, or it has a
  negative exponent and no sign.
\<close>

definition properFraction :: "js \<Rightarrow> bool" where
  "properFraction v = (case v of
       JNum (NText t) \<Rightarrow> starts_with ''0.'' t \<or> (\<not> starts_with ''-'' t \<and> (\<exists>i < length t. starts_with ''e-'' (drop i t)))
     | _ \<Rightarrow> False)"

text \<open>\<open>Number.isFinite(v) && v >= 0\<close>.\<close>

definition finiteNonNegative :: "js \<Rightarrow> bool" where
  "finiteNonNegative v = (case v of JNum (NInt n) \<Rightarrow> 0 \<le> n | JNum (NText t) \<Rightarrow> \<not> starts_with ''-'' t | _ \<Rightarrow> False)"

definition livenessIntegers :: "string list" where
  "livenessIntegers = [''hardDeadlineMs'', ''progressLeaseMs'', ''stallWindowMs'', ''providerTurnDeadlineMs'', ''defaultToolDeadlineMs'',
     ''maxNoProgressRenewals'', ''maxParticipantRestarts'', ''maxLocalRetriesPerFailure'']"

definition assertExecutionLivenessPolicy :: "js \<Rightarrow> identity_error + unit" where
  "assertExecutionLivenessPolicy v =
     andThen (failWhen (\<not> js_truthy v \<or> js_get v ''version'' \<noteq> jint 1)
       ''UNSUPPORTED_EXECUTION_LIVENESS_POLICY_VERSION: expected version 1.'') (\<lambda>_.
     andThen (checkEach (\<lambda>k. failWhen (\<not> js_safe_at_least 1 (js_get v k))
       (''EXECUTION_LIVENESS_POLICY_INVALID: '' @ k @ '' must be a positive safe integer.'')) livenessIntegers) (\<lambda>_.
     andThen (failWhen (\<not> properFraction (js_get v ''softBudgetThreshold''))
       ''EXECUTION_LIVENESS_POLICY_INVALID: softBudgetThreshold must be between 0 and 1.'') (\<lambda>_.
     failWhen (\<not> js_truthy (js_get v ''toolDeadlinesMs'')
         \<or> list_ex (\<lambda>ms. \<not> js_safe_at_least 1 ms) (receiptValues (js_get v ''toolDeadlinesMs'')))
       ''EXECUTION_LIVENESS_POLICY_INVALID: tool deadlines must be positive integers.'')))"

definition livenessDefaults :: js_entries where
  "livenessDefaults = [(''version'', jint 1), (''hardDeadlineMs'', jint (8 * 60 * 60000)), (''progressLeaseMs'', jint (15 * 60000)),
     (''stallWindowMs'', jint (15 * 60000)), (''providerTurnDeadlineMs'', jint (30 * 60000)), (''defaultToolDeadlineMs'', jint (30 * 60000)),
     (''maxNoProgressRenewals'', jint 2), (''maxParticipantRestarts'', jint 2), (''maxLocalRetriesPerFailure'', jint 1),
     (''softBudgetThreshold'', JNum (NText ''0.8'')), (''toolDeadlinesMs'', JObj [])]"

definition normalizeExecutionLivenessPolicy :: "js \<Rightarrow> identity_error + js" where
  "normalizeExecutionLivenessPolicy input =
     (let v = JObj (override [(''toolDeadlinesMs'', JObj (spread [] (js_get input ''toolDeadlinesMs'')))] (spread livenessDefaults input))
      in andThen (assertExecutionLivenessPolicy v) (\<lambda>_. Inr v))"

definition envelopeIntegers :: "string list" where
  "envelopeIntegers = [''initialProviderTurns'', ''supervisorProviderTurns'', ''hardProviderTurns'', ''maxLocalRetries'', ''maxParticipantRestarts'']"

definition assertEconomicEnvelope :: "js_env \<Rightarrow> js \<Rightarrow> identity_error + unit" where
  "assertEconomicEnvelope E v =
     andThen (failWhen (\<not> js_truthy v \<or> js_get v ''version'' \<noteq> jint 1) ''UNSUPPORTED_ECONOMIC_ENVELOPE_VERSION: expected version 1.'') (\<lambda>_.
     andThen (checkEach (\<lambda>k. failWhen (\<not> js_safe_at_least 0 (js_get v k))
       (''ECONOMIC_ENVELOPE_INVALID: '' @ k @ '' must be a non-negative safe integer.'')) envelopeIntegers) (\<lambda>_.
     andThen (failWhen (int_of (js_get v ''initialProviderTurns'') > int_of (js_get v ''supervisorProviderTurns'')
         \<or> int_of (js_get v ''supervisorProviderTurns'') > int_of (js_get v ''hardProviderTurns''))
       ''ECONOMIC_ENVELOPE_INVALID: provider turn budgets must be ordered initial <= supervisor <= Owner hard limit.'') (\<lambda>_.
     andThen (checkEach (\<lambda>k. failWhen (js_get v k \<noteq> JUndefined \<and> \<not> js_safe_at_least 0 (js_get v k))
       (''ECONOMIC_ENVELOPE_INVALID: '' @ k @ '' must be a non-negative safe integer.'')) [''hardToolCalls'', ''hardTotalTokens'']) (\<lambda>_.
     andThen (failWhen (js_get v ''hardCostUsd'' \<noteq> JUndefined \<and> \<not> finiteNonNegative (js_get v ''hardCostUsd''))
       ''ECONOMIC_ENVELOPE_INVALID: hardCostUsd must be a non-negative finite number.'') (\<lambda>_.
     andThen (failWhen (\<not> properFraction (js_get v ''softThreshold'')) ''ECONOMIC_ENVELOPE_INVALID: softThreshold must be between 0 and 1.'') (\<lambda>_.
     failWhen (js_truthy (js_get v ''hardDeadlineAt'') \<and> date_parse E (js_string (js_get v ''hardDeadlineAt'')) = None)
       ''ECONOMIC_ENVELOPE_INVALID: hardDeadlineAt must be an ISO timestamp.''))))))"

definition envelopeValue :: "js \<Rightarrow> js" where
  "envelopeValue input = JObj (
     [(''version'', jint 1),
      (''initialProviderTurns'', js_coalesce (js_get input ''initialProviderTurns'') (jint 8)),
      (''supervisorProviderTurns'', js_coalesce (js_get input ''supervisorProviderTurns'') (jint 12)),
      (''hardProviderTurns'', js_coalesce (js_get input ''hardProviderTurns'') (jint 16)),
      (''maxLocalRetries'', js_coalesce (js_get input ''maxLocalRetries'') (jint 1)),
      (''maxParticipantRestarts'', js_coalesce (js_get input ''maxParticipantRestarts'') (jint 2)),
      (''softThreshold'', js_coalesce (js_get input ''softThreshold'') (JNum (NText ''0.8'')))]
     @ concat (map (\<lambda>k. if js_get input k = JUndefined then [] else [(k, js_get input k)]) [''hardToolCalls'', ''hardTotalTokens'', ''hardCostUsd''])
     @ optEntry input ''hardDeadlineAt'')"

definition normalizeEconomicEnvelope :: "js_env \<Rightarrow> js \<Rightarrow> identity_error + js" where
  "normalizeEconomicEnvelope E input = andThen (assertEconomicEnvelope E (envelopeValue input)) (\<lambda>_. Inr (envelopeValue input))"


subsection \<open>The resolved operation policy\<close>

definition TOOL_ACTION_KINDS_V1 :: "string list" where
  "TOOL_ACTION_KINDS_V1 = [''git.branch.create'', ''git.commit'', ''git.push'', ''github.issue.create'', ''github.branch.create'',
     ''github.pull-request.create'', ''github.pull-request.merge'', ''paseo.workspace.create'']"

definition sortRecord :: "(string \<Rightarrow> string \<Rightarrow> bool) \<Rightarrow> js \<Rightarrow> js" where
  "sortRecord collate v = JObj (sortBy (\<lambda>a b. collate (fst a) (fst b)) (own_entries v))"

definition canonicalArray :: "js_env \<Rightarrow> (string \<Rightarrow> string \<Rightarrow> bool) \<Rightarrow> js \<Rightarrow> identity_error + js" where
  "canonicalArray E collate v =
     andThen (sequence_results (map (canonicalDigest E) (js_items v))) (\<lambda>ds.
     Inr (JArr (map snd (sortBy (\<lambda>a b. collate (fst a) (fst b)) (zip ds (js_items v))))))"

definition sortedTexts :: "js \<Rightarrow> js" where
  "sortedTexts v = JArr (map JStr (sort (js_uniq (map str_of (js_items v)))))"

definition compileResolvedOperationPolicy :: "js_env \<Rightarrow> (string \<Rightarrow> string \<Rightarrow> bool) \<Rightarrow> js \<Rightarrow> identity_error + js" where
  "compileResolvedOperationPolicy E collate input =
     andThen (checkEach (\<lambda>k. assertRevision (js_get input k) k) [''operationExecutionRevision'', ''candidateRevision'', ''controllerEpoch'']) (\<lambda>_.
     andThen (checkEach (\<lambda>k. required (js_get input k) k) [''projectId'', ''operationId'', ''intent'']) (\<lambda>_.
     andThen (requiredDigest (js_get input ''candidateDigest'') ''candidateDigest'') (\<lambda>_.
     andThen (normalizeExecutionLivenessPolicy (js_get input ''executionLiveness'')) (\<lambda>liveness.
     andThen (normalizeEconomicEnvelope E (js_get input ''economicEnvelope'')) (\<lambda>envelope.
     andThen (canonicalArray E collate (js_get input ''humanDecisionRequirements'')) (\<lambda>decisions.
     sealed E (override
       [(''executionLiveness'', liveness), (''economicEnvelope'', envelope),
        (''policyVersions'', sortRecord collate (js_get input ''policyVersions'')),
        (''policyDigests'', sortRecord collate (js_get input ''policyDigests'')),
        (''allowedExternalEffects'', sortedTexts (js_get input ''allowedExternalEffects'')),
        (''humanDecisionRequirements'', decisions)]
       (spread [(''version'', jint 2)] input))))))))"

definition registeredAction :: "js \<Rightarrow> bool" where
  "registeredAction v \<longleftrightarrow> v \<in> JStr ` set TOOL_ACTION_KINDS_V1"

definition typedDecision :: "js \<Rightarrow> bool" where
  "typedDecision r \<longleftrightarrow> js_truthy r \<and> js_get r ''kind'' = JStr ''ACTION_AUTHORIZATION'' \<and> registeredAction (js_get r ''action'')"

definition assertResolvedOperationPolicyV2 :: "js_env \<Rightarrow> js \<Rightarrow> identity_error + unit" where
  "assertResolvedOperationPolicyV2 E policy =
     andThen (failWhen (\<not> versioned policy 2)
       ''UNSUPPORTED_RESOLVED_OPERATION_POLICY_VERSION: expected version 2; recompile the operation policy.'') (\<lambda>_.
     andThen (failWhen (\<not> js_truthy (js_get policy ''projectId'') \<or> \<not> js_truthy (js_get policy ''operationId'') \<or> \<not> js_truthy (js_get policy ''intent'')
         \<or> \<not> js_safe_at_least 1 (js_get policy ''operationExecutionRevision'') \<or> \<not> js_safe_at_least 1 (js_get policy ''candidateRevision'')
         \<or> \<not> js_safe_at_least 0 (js_get policy ''controllerEpoch''))
       ''RESOLVED_OPERATION_POLICY_INVALID: frozen policy identity is incomplete.'') (\<lambda>_.
     andThen (requiredDigest (js_get policy ''candidateDigest'') ''candidateDigest'') (\<lambda>_.
     andThen (assertExecutionLivenessPolicy (js_get policy ''executionLiveness'')) (\<lambda>_.
     andThen (assertEconomicEnvelope E (js_get policy ''economicEnvelope'')) (\<lambda>_.
     andThen (failWhen (\<not> js_is_array (js_get policy ''allowedExternalEffects'')
         \<or> list_ex (\<lambda>a. \<not> registeredAction a) (js_items (js_get policy ''allowedExternalEffects'')))
       ''RESOLVED_OPERATION_POLICY_INVALID: allowedExternalEffects must contain only registered tool action kinds.'') (\<lambda>_.
     andThen (failWhen (\<not> js_is_array (js_get policy ''humanDecisionRequirements'')
         \<or> list_ex (\<lambda>r. \<not> typedDecision r) (js_items (js_get policy ''humanDecisionRequirements'')))
       ''RESOLVED_OPERATION_POLICY_INVALID: humanDecisionRequirements must be typed exact action authorizations.'') (\<lambda>_.
     assertDigest E policy ''RESOLVED_OPERATION_POLICY_INVALID: frozen policy digest is inconsistent.'')))))))"

subsection \<open>Role invocation policies\<close>

text \<open>The elements a spread reads, \<open>None\<close> where the value is not iterable.\<close>

definition js_iterate :: "js \<Rightarrow> js list option" where
  "js_iterate v = (case v of JArr xs \<Rightarrow> Some xs | JStr s \<Rightarrow> Some (map (\<lambda>c. JStr [c]) s) | _ \<Rightarrow> None)"

definition toolsOf :: "js \<Rightarrow> identity_error + js list" where
  "toolsOf pack = (case (js_iterate (js_get pack ''required''), js_iterate (js_get pack ''optional'')) of
       (Some rs, Some os) \<Rightarrow> Inr (js_uniq (rs @ os))
     | _ \<Rightarrow> Inl IdentityTypeError)"

definition assertRoleToolCeiling :: "js \<Rightarrow> js \<Rightarrow> identity_error + unit" where
  "assertRoleToolCeiling role toolPack =
     (case (case role of JStr r \<Rightarrow> roleProfile r | _ \<Rightarrow> None) of
        None \<Rightarrow> Inl (IdentityRejected (''No default profile exists for canonical role: '' @ js_string role))
      | Some p \<Rightarrow>
         if js_nullish toolPack then Inl IdentityTypeError
         else andThen (toolsOf toolPack) (\<lambda>requested.
           let denied = filter (\<lambda>t. t \<notin> JStr ` set (tp_required (rp_toolPack p) @ tp_optional (rp_toolPack p))
                 \<or> t \<in> JStr ` set (tp_forbidden (rp_toolPack p))) requested
           in failWhen (denied \<noteq> []) (''ROLE_INVOCATION_POLICY_VIOLATION: '' @ js_string role @ '' ToolPack exceeds its compiled role ceiling: ''
                @ js_join '', '' (sort (map js_string denied)) @ ''.'')))"

definition textsAt :: "js \<Rightarrow> string \<Rightarrow> string list" where
  "textsAt v k = map str_of (js_items (js_get v k))"

definition normalizeToolPack :: "js \<Rightarrow> js" where
  "normalizeToolPack pack =
     (let requiredTools = sort (js_uniq (textsAt pack ''required''));
          opt = sort (filter (\<lambda>t. t \<notin> set requiredTools) (js_uniq (textsAt pack ''optional'')));
          forbidden = sort (filter (\<lambda>t. t \<notin> set requiredTools \<and> t \<notin> set opt) (js_uniq (textsAt pack ''forbidden'')))
      in JObj [(''version'', jint 1), (''required'', JArr (map JStr requiredTools)), (''optional'', JArr (map JStr opt)),
           (''forbidden'', JArr (map JStr forbidden))])"

definition claimBefore :: "(string \<Rightarrow> string \<Rightarrow> bool) \<Rightarrow> js \<Rightarrow> js \<Rightarrow> bool" where
  "claimBefore collate a b =
     (let wa = str_of (js_get a ''workUnitId''); wb = str_of (js_get b ''workUnitId'') in
      collate wa wb \<and> (collate wb wa \<longrightarrow>
        collate (str_of (js_get (js_get a ''claim'') ''resource'')) (str_of (js_get (js_get b ''claim'') ''resource''))))"

definition compileRoleInvocationPolicy :: "js_env \<Rightarrow> (string \<Rightarrow> string \<Rightarrow> bool) \<Rightarrow> js \<Rightarrow> identity_error + js" where
  "compileRoleInvocationPolicy E collate input =
     andThen (checkEach (\<lambda>k. required (js_get input k) k) [''operationId'', ''participantId'', ''outputContract'']) (\<lambda>_.
     andThen (requiredDigest (js_get input ''operationPolicyDigest'') ''operationPolicyDigest'') (\<lambda>_.
     andThen (assertRoleToolCeiling (js_get input ''role'') (js_get input ''toolPack'')) (\<lambda>_.
     sealed E (override
       [(''workUnitIds'', sortedTexts (js_get input ''workUnitIds'')), (''scope'', sortedTexts (js_get input ''scope'')),
        (''competencies'', sortedTexts (js_get input ''competencies'')), (''toolPack'', normalizeToolPack (js_get input ''toolPack'')),
        (''resourceClaims'', JArr (sortBy (claimBefore collate) (js_items (js_get input ''resourceClaims'')))),
        (''constraints'', sortRecord collate (js_get input ''constraints''))]
       (spread [(''version'', jint 1)] input)))))"

definition assertRoleInvocationPolicyV1 :: "js_env \<Rightarrow> js \<Rightarrow> identity_error + unit" where
  "assertRoleInvocationPolicyV1 E policy =
     andThen (failWhen (\<not> versioned policy 1)
       ''UNSUPPORTED_ROLE_INVOCATION_POLICY_VERSION: expected version 1; recompile the participant role policy.'') (\<lambda>_.
     andThen (failWhen (\<not> js_truthy (js_get policy ''operationId'') \<or> \<not> js_truthy (js_get policy ''participantId'')
         \<or> \<not> js_truthy (js_get policy ''outputContract''))
       ''ROLE_INVOCATION_POLICY_INVALID: role policy identity is incomplete.'') (\<lambda>_.
     andThen (assertRoleToolCeiling (js_get policy ''role'') (js_get policy ''toolPack'')) (\<lambda>_.
     andThen (requiredDigest (js_get policy ''operationPolicyDigest'') ''operationPolicyDigest'') (\<lambda>_.
     assertDigest E policy ''ROLE_INVOCATION_POLICY_INVALID: role policy digest is inconsistent.''))))"


subsection \<open>Participant scratch\<close>

definition scratchPrefix :: string where
  "scratchPrefix = ''aeh-participant-scratch:''"

definition participantScratchResourceName :: "js_env \<Rightarrow> js \<Rightarrow> js \<Rightarrow> js \<Rightarrow> identity_error + string option" where
  "participantScratchResourceName E role participantId toolPack =
     (if role = JStr ''Semantic Assessor'' then Inr None
      else case (case role of JStr r \<Rightarrow> roleProfile r | _ \<Rightarrow> None) of
        None \<Rightarrow> Inl (IdentityRejected (''No default profile exists for canonical role: '' @ js_string role))
      | Some p \<Rightarrow>
         (let tools = (if js_nullish toolPack then tp_required (rp_toolPack p) else textsAt toolPack ''required'') in
          if au_canWrite (rp_authority p) \<and> ''repository-write'' \<in> set tools \<and> ''command-execute'' \<in> set tools
          then andThen (canonicalDigest E (JObj [(''participantId'', participantId)])) (\<lambda>d. Inr (Some (scratchPrefix @ take 24 d)))
          else Inr None))"

definition participantScratchClaim :: "js_env \<Rightarrow> js \<Rightarrow> js \<Rightarrow> js \<Rightarrow> js \<Rightarrow> identity_error + js option" where
  "participantScratchClaim E role participantId workUnitId toolPack =
     andThen (participantScratchResourceName E role participantId toolPack) (\<lambda>resource. Inr (map_option (\<lambda>name.
       JObj [(''workUnitId'', workUnitId), (''claim'', JObj [(''version'', jint 1), (''resource'', JStr name), (''mode'', JStr ''EXCLUSIVE_WRITE'')])])
       resource))"

definition nul :: string where
  "nul = [char_of (0 :: nat)]"

definition scratchScope :: "string \<Rightarrow> string list" where
  "scratchScope path = sort [path, path @ ''/*'', path @ ''/**'']"

definition scratchResourceId :: "js_env \<Rightarrow> js \<Rightarrow> string" where
  "scratchResourceId E lease = ''resource:'' @ take 24 (sha256Utf8 E (js_string (js_get lease ''operationId'') @ nul @ ''staging-root'' @ nul
     @ js_string (js_get lease ''path'')))"

text \<open>Whether a capability lease does not belong to the scratch lease; reading a field of a missing object is a TypeError.\<close>

definition foreignCapability :: "js \<Rightarrow> js \<Rightarrow> identity_error + bool" where
  "foreignCapability lease c =
     (if \<not> js_same (js_get c ''operationId'') (js_get lease ''operationId'') \<or> \<not> js_same (js_get c ''participantId'') (js_get lease ''participantId'')
      then Inr True
      else if js_nullish (js_get c ''candidate'') then Inl IdentityTypeError
      else if \<not> js_same (js_get (js_get c ''candidate'') ''identityDigest'') (js_get lease ''candidateDigest'') then Inr True
      else if js_nullish (js_get c ''envelope'') then Inl IdentityTypeError
      else let sc = js_get (js_get c ''envelope'') ''scope'' in
        if js_nullish sc then Inr True
        else if \<not> js_is_array sc then Inl IdentityTypeError
        else Inr (js_join nul (map (\<lambda>x. if js_nullish x then [] else js_string x) (js_items sc))
                  \<noteq> js_join nul (scratchScope (js_string (js_get lease ''path'')))))"

fun someForeign :: "js \<Rightarrow> js list \<Rightarrow> identity_error + bool" where
  "someForeign lease [] = Inr False"
| "someForeign lease (c # cs) = andThen (foreignCapability lease c) (\<lambda>b. if b then Inr True else someForeign lease cs)"

definition scratchInvalid :: "string \<Rightarrow> string" where
  "scratchInvalid message = ''PARTICIPANT_SCRATCH_LEASE_INVALID: '' @ message"

definition executionIdentityIncomplete :: "js \<Rightarrow> bool" where
  "executionIdentityIncomplete v \<longleftrightarrow> \<not> js_safe_at_least 1 (js_get v ''operationExecutionRevision'')
     \<or> \<not> js_safe_at_least 1 (js_get v ''candidateRevision'') \<or> \<not> js_safe_at_least 0 (js_get v ''controllerEpoch'')"

definition assertParticipantScratchLeaseV1 :: "js_env \<Rightarrow> js \<Rightarrow> identity_error + unit" where
  "assertParticipantScratchLeaseV1 E lease =
     (let caps = js_items (js_get lease ''capabilityLeases'');
          absolute = (case js_get lease ''path'' of JStr p \<Rightarrow> starts_with ''/'' p | _ \<Rightarrow> False) in
     andThen (failWhen (\<not> versioned lease 1) ''UNSUPPORTED_PARTICIPANT_SCRATCH_LEASE_VERSION: expected version 1; relaunch the participant.'') (\<lambda>_.
     andThen (if js_truthy (js_get lease ''resourceId'') \<and> js_typeof (js_get lease ''path'') \<noteq> ''string'' then Inl IdentityTypeError else Inr ()) (\<lambda>_.
     andThen (failWhen (\<not> js_truthy (js_get lease ''resourceId'') \<or> \<not> absolute \<or> \<not> js_truthy (js_get lease ''operationId'')
         \<or> \<not> js_truthy (js_get lease ''participantId'') \<or> \<not> js_truthy (js_get lease ''participantGeneration'')
         \<or> \<not> js_is_array (js_get lease ''capabilityLeases'') \<or> length caps \<noteq> 2)
       (scratchInvalid ''scratch ownership or read/write capability identity is incomplete.'')) (\<lambda>_.
     andThen (failWhen (executionIdentityIncomplete lease) (scratchInvalid ''operation execution identity is incomplete.'')) (\<lambda>_.
     andThen (requiredDigest (js_get lease ''candidateDigest'') ''candidateDigest'') (\<lambda>_.
     andThen (failWhen (js_get lease ''resourceId'' \<noteq> JStr (scratchResourceId E lease))
       (scratchInvalid ''resource ID is not bound to the exact operation-owned path.'')) (\<lambda>_.
     andThen (if list_ex js_nullish caps then Inl IdentityTypeError else Inr ()) (\<lambda>_.
     andThen (if set (map (\<lambda>c. js_get c ''capability'') caps) \<noteq> {JStr ''read'', JStr ''write''} then Inr True else someForeign lease caps) (\<lambda>foreign.
     andThen (failWhen foreign (scratchInvalid ''path-scoped read/write capability leases do not match the owned scratch resource.'')) (\<lambda>_.
     assertDigest E lease (scratchInvalid ''scratch lease digest is inconsistent.'')))))))))))"

definition compileParticipantScratchLease :: "js_env \<Rightarrow> (string \<Rightarrow> string \<Rightarrow> bool) \<Rightarrow> js \<Rightarrow> identity_error + js" where
  "compileParticipantScratchLease E collate input =
     andThen (sealed E (override
       [(''capabilityLeases'', JArr (sortBy (\<lambda>a b. collate (str_of (js_get a ''leaseId'')) (str_of (js_get b ''leaseId'')))
          (js_items (js_get input ''capabilityLeases''))))]
       (spread [(''version'', jint 1)] input))) (\<lambda>lease.
     andThen (assertParticipantScratchLeaseV1 E lease) (\<lambda>_. Inr lease))"

subsection \<open>Blueprints and bindings\<close>

definition blueprintInvalid :: "string \<Rightarrow> string" where
  "blueprintInvalid message = ''EXECUTION_BLUEPRINT_INVALID: '' @ message"

text \<open>The claims of a participant on scratch resources; a claim without a resource name is a TypeError.\<close>

definition scratchClaims :: "js \<Rightarrow> identity_error + js list" where
  "scratchClaims claims =
     (if \<not> js_is_array claims \<or> list_ex (\<lambda>c. js_typeof (js_get (js_get c ''claim'') ''resource'') \<noteq> ''string'') (js_items claims)
      then Inl IdentityTypeError
      else Inr (filter (\<lambda>c. starts_with scratchPrefix (str_of (js_get (js_get c ''claim'') ''resource''))) (js_items claims)))"

definition scratchMismatch :: "string option \<Rightarrow> js list \<Rightarrow> bool" where
  "scratchMismatch expected claims = (case expected of
       Some name \<Rightarrow> length claims \<noteq> 1 \<or> js_get (js_get (hd claims) ''claim'') ''resource'' \<noteq> JStr name
         \<or> js_get (js_get (hd claims) ''claim'') ''mode'' \<noteq> JStr ''EXCLUSIVE_WRITE''
     | None \<Rightarrow> claims \<noteq> [])"

definition digestsDiffer :: "js_env \<Rightarrow> js \<Rightarrow> js \<Rightarrow> identity_error + bool" where
  "digestsDiffer E a b = andThen (canonicalDigest E a) (\<lambda>x. andThen (canonicalDigest E b) (\<lambda>y. Inr (x \<noteq> y)))"

definition orFurther :: "bool \<Rightarrow> identity_error + bool \<Rightarrow> identity_error + bool" where
  "orFurther b rest = (if b then Inr True else rest)"

definition participantInconsistent :: "js_env \<Rightarrow> js \<Rightarrow> js \<Rightarrow> identity_error + bool" where
  "participantInconsistent E blueprint participant =
     (let policy = js_get participant ''roleInvocationPolicy'' in
      orFurther (\<not> js_same (js_get policy ''operationId'') (js_get blueprint ''operationId'')
          \<or> \<not> js_same (js_get policy ''operationPolicyDigest'') (js_get (js_get blueprint ''resolvedOperationPolicy'') ''digest'')
          \<or> \<not> js_same (js_get policy ''participantId'') (js_get participant ''participantId'')
          \<or> \<not> js_same (js_get policy ''role'') (js_get participant ''role''))
        (andThen (digestsDiffer E (js_get participant ''toolPack'') (js_get policy ''toolPack'')) (\<lambda>tools. orFurther tools
        (andThen (digestsDiffer E (js_get participant ''resourceClaims'') (js_get policy ''resourceClaims'')) (\<lambda>claims. orFurther claims
        (Inr (\<not> js_same (js_get participant ''outputContract'') (js_get policy ''outputContract'')
          \<or> \<not> digestPattern (js_get participant ''skillManifestDigest'')
          \<or> js_get participant ''operationalSkillProjectionDigest'' \<noteq> JUndefined
             \<and> \<not> digestPattern (js_get participant ''operationalSkillProjectionDigest''))))))))"

definition assertBlueprintParticipant :: "js_env \<Rightarrow> js \<Rightarrow> js \<Rightarrow> identity_error + unit" where
  "assertBlueprintParticipant E blueprint participant =
     (if js_nullish participant then Inl IdentityTypeError else
     andThen (assertRoleInvocationPolicyV1 E (js_get participant ''roleInvocationPolicy'')) (\<lambda>_.
     andThen (participantInconsistent E blueprint participant) (\<lambda>inconsistent.
     andThen (failWhen inconsistent (blueprintInvalid
       ''participant role, tool/resource ceiling, output, policy, or skill identity is inconsistent.'')) (\<lambda>_.
     andThen (participantScratchResourceName E (js_get participant ''role'') (js_get participant ''participantId'') (js_get participant ''toolPack'')) (\<lambda>expected.
     andThen (scratchClaims (js_get participant ''resourceClaims'')) (\<lambda>claims.
     failWhen (scratchMismatch expected claims)
       (blueprintInvalid ''participant scratch resource claim does not match the controller-compiled role ceiling.'')))))))"

definition boundIdentityFields :: "string list" where
  "boundIdentityFields = [''operationId'', ''projectId'', ''operationExecutionRevision'', ''candidateRevision'', ''candidateDigest'', ''controllerEpoch'']"

definition assertExecutionBlueprintV3 :: "js_env \<Rightarrow> js \<Rightarrow> identity_error + unit" where
  "assertExecutionBlueprintV3 E blueprint =
     (let policy = js_get blueprint ''resolvedOperationPolicy'' in
     andThen (failWhen (\<not> versioned blueprint 3)
       ''UNSUPPORTED_EXECUTION_BLUEPRINT_VERSION: expected version 3; migrate and recompile this blueprint.'') (\<lambda>_.
     andThen (assertResolvedOperationPolicyV2 E policy) (\<lambda>_.
     andThen (failWhen (executionIdentityIncomplete blueprint \<or> \<not> js_truthy (js_get blueprint ''projectId'')
         \<or> \<not> js_truthy (js_get blueprint ''operationId'') \<or> \<not> digestPattern (js_get blueprint ''candidateDigest''))
       (blueprintInvalid ''blueprint execution identity is incomplete.'')) (\<lambda>_.
     andThen (failWhen (list_ex (\<lambda>k. \<not> js_same (js_get policy k) (js_get blueprint k)) boundIdentityFields)
       (blueprintInvalid ''blueprint policy does not bind the same operation, candidate, execution revision, project, and epoch.'')) (\<lambda>_.
     andThen (failWhen (js_truthy (js_get policy ''capabilityRegistryDigest'')
         \<and> \<not> js_same (js_get policy ''capabilityRegistryDigest'') (js_get blueprint ''capabilityRegistryDigest''))
       ''EXECUTION_BLUEPRINT_CAPABILITY_REGISTRY_MISMATCH: blueprint registry digest differs from the frozen operation policy.'') (\<lambda>_.
     andThen (failWhen (\<not> js_is_array (js_get blueprint ''participants'') \<or> js_items (js_get blueprint ''participants'') = []
         \<or> \<not> digestPattern (js_get blueprint ''capabilityRegistryDigest'') \<or> \<not> digestPattern (js_get blueprint ''skillProjectionDigest''))
       (blueprintInvalid ''blueprint must bind participants and current capability/skill projection digests.'')) (\<lambda>_.
     andThen (checkEach (assertBlueprintParticipant E blueprint) (js_items (js_get blueprint ''participants''))) (\<lambda>_.
     assertDigest E blueprint (blueprintInvalid ''blueprint digest is inconsistent.'')))))))))"


text \<open>\<open>a ?? b\<close> where evaluating \<open>b\<close> may fail.\<close>

definition coalesceWith :: "js \<Rightarrow> identity_error + js \<Rightarrow> identity_error + js" where
  "coalesceWith v rest = (if js_nullish v then rest else Inr v)"

definition createExecutionBlueprintV3 :: "js_env \<Rightarrow> js \<Rightarrow> identity_error + js" where
  "createExecutionBlueprintV3 E input =
     (let policy = js_get input ''resolvedOperationPolicy''; participants = js_items (js_get input ''participants'') in
     andThen (assertResolvedOperationPolicyV2 E policy) (\<lambda>_.
     andThen (checkEach (\<lambda>p. if js_nullish p then Inl IdentityTypeError else assertRoleInvocationPolicyV1 E (js_get p ''roleInvocationPolicy'')) participants) (\<lambda>_.
     andThen (coalesceWith (js_get input ''capabilityRegistryDigest'') (coalesceWith (js_get policy ''capabilityRegistryDigest'')
       (map_sum id JStr (canonicalDigest E (js_get input ''executionCatalog''))))) (\<lambda>registry.
     andThen (coalesceWith (js_get input ''skillProjectionDigest'')
       (map_sum id JStr (canonicalDigest E (JArr (map JStr (sort (map (\<lambda>p. str_of (js_get p ''skillManifestDigest'')) participants))))))) (\<lambda>skills.
     sealed E (override [(''capabilityRegistryDigest'', registry), (''skillProjectionDigest'', skills)] (spread [(''version'', jint 3)] input)))))))"

definition isActualSessionIdentity :: "js \<Rightarrow> bool" where
  "isActualSessionIdentity v = (case v of JStr s \<Rightarrow> js_trim s \<noteq> [] \<and> \<not> starts_with ''launch:'' s | _ \<Rightarrow> False)"

definition runtimeIncomplete :: "js \<Rightarrow> bool" where
  "runtimeIncomplete runtime \<longleftrightarrow> list_ex (\<lambda>k. \<not> js_truthy (js_get runtime k)) [''runtimeId'', ''provider'', ''modelId'', ''model'']
     \<or> \<not> isActualSessionIdentity (js_get runtime ''sessionId'')"

definition bindingDigestFields :: "string list" where
  "bindingDigestFields = [''executionBlueprintDigest'', ''operationPolicyDigest'', ''roleInvocationPolicyDigest'', ''skillManifestDigest'',
     ''contextManifestDigest'', ''promptManifestDigest'']"

definition compileExecutionBinding :: "js_env \<Rightarrow> js \<Rightarrow> identity_error + js" where
  "compileExecutionBinding E input =
     andThen (checkEach (\<lambda>k. requiredDigest (js_get input k) k) bindingDigestFields) (\<lambda>_.
     andThen (checkEach (\<lambda>k. assertRevision (js_get input k) k) [''operationExecutionRevision'', ''candidateRevision'', ''controllerEpoch'']) (\<lambda>_.
     andThen (checkEach (\<lambda>k. required (js_get input k) k) [''operationId'', ''participantId'', ''participantGeneration'', ''outputContract'']) (\<lambda>_.
     andThen (if js_nullish (js_get input ''runtime'') then Inl IdentityTypeError else Inr ()) (\<lambda>_.
     andThen (failWhen (runtimeIncomplete (js_get input ''runtime''))
       ''EXECUTION_BINDING_SESSION_REQUIRED: approved runtime, model, and actual durable session identity are required; synthetic launch identities are unsupported.'') (\<lambda>_.
     sealed E (override [(''leaseIdentities'', sortedTexts (js_get input ''leaseIdentities''))] (spread [(''version'', jint 3)] input)))))))"

definition scratchBindingFields :: "string list" where
  "scratchBindingFields = [''operationId'', ''operationExecutionRevision'', ''candidateRevision'', ''candidateDigest'', ''controllerEpoch'',
     ''participantId'', ''participantGeneration'']"

definition scratchLeaseForeign :: "js \<Rightarrow> bool" where
  "scratchLeaseForeign binding = (let lease = js_get binding ''scratchLease'' in
     list_ex (\<lambda>k. \<not> js_same (js_get lease k) (js_get binding k)) scratchBindingFields
     \<or> list_ex (\<lambda>c. js_get c ''leaseId'' \<notin> set (js_items (js_get binding ''leaseIdentities''))) (js_items (js_get lease ''capabilityLeases'')))"

definition assertExecutionBindingV3 :: "js_env \<Rightarrow> js \<Rightarrow> identity_error + unit" where
  "assertExecutionBindingV3 E binding =
     andThen (failWhen (\<not> versioned binding 3)
       ''UNSUPPORTED_EXECUTION_BINDING_VERSION: expected version 3; relaunch this participant with a current binding.'') (\<lambda>_.
     andThen (failWhen (executionIdentityIncomplete binding
         \<or> list_ex (\<lambda>k. \<not> js_truthy (js_get binding k)) [''operationId'', ''participantId'', ''participantGeneration'', ''outputContract''])
       ''EXECUTION_BINDING_INVALID: binding identity is incomplete.'') (\<lambda>_.
     andThen (checkEach (\<lambda>k. requiredDigest (js_get binding k) ''binding identity digest'') (''candidateDigest'' # bindingDigestFields)) (\<lambda>_.
     andThen (failWhen (runtimeIncomplete (js_get binding ''runtime'') \<or> \<not> js_is_array (js_get binding ''leaseIdentities'')
         \<or> list_ex (\<lambda>i. case i of JStr s \<Rightarrow> js_trim s = [] | _ \<Rightarrow> True) (js_items (js_get binding ''leaseIdentities'')))
       ''EXECUTION_BINDING_SESSION_REQUIRED: approved runtime/model, actual durable session identity, and lease identity list are required.'') (\<lambda>_.
     andThen (if js_truthy (js_get binding ''scratchLease'')
       then andThen (assertParticipantScratchLeaseV1 E (js_get binding ''scratchLease'')) (\<lambda>_.
         failWhen (scratchLeaseForeign binding) ''EXECUTION_BINDING_SCRATCH_MISMATCH: scratch lease belongs to a different operation, participant, generation, candidate, or controller epoch.'')
       else Inr ()) (\<lambda>_.
     assertDigest E binding ''EXECUTION_BINDING_INVALID: binding digest is inconsistent.'')))))"

subsection \<open>Sealed objects\<close>

lemma failWhen_Inr [simp]: "failWhen b m = Inr u \<longleftrightarrow> \<not> b"
  by (simp add: failWhen_def)

lemma map_of_fold_update:
  "distinct (map fst kvs) \<Longrightarrow> map_of (fold (\<lambda>(k, x). AList.update k x) kvs base) = map_of base ++ map_of kvs"
proof (induction kvs arbitrary: base)
  case (Cons kv kvs)
  then have "map_of kvs (fst kv) = None" by (simp add: map_of_eq_None_iff)
  with Cons show ?case by (cases kv) (auto simp: fun_eq_iff map_add_def split: option.splits)
qed simp


lemma distinct_fold_update:
  "distinct (map fst base) \<Longrightarrow> distinct (map fst (fold (\<lambda>(k, x). AList.update k x) kvs base))"
  by (induction kvs arbitrary: base) (auto simp: distinct_update)

lemma keys_fold_update:
  "fst ` set (fold (\<lambda>(k, x). AList.update k x) kvs base) = fst ` set base \<union> fst ` set kvs"
proof (induction kvs arbitrary: base)
  case (Cons kv kvs)
  then show ?case by (cases kv) (auto simp: dom_update)
qed simp

lemma update_fresh: "k \<notin> fst ` set kvs \<Longrightarrow> AList.update k v kvs = kvs @ [(k, v)]"
  by (induction kvs) auto

text \<open>The body of a compiled object: the version, the entries of the input, then the normalized entries.\<close>

definition compiledEntries :: "js_entries \<Rightarrow> js_entries \<Rightarrow> js_entries \<Rightarrow> js_entries" where
  "compiledEntries version kvs overrides = override overrides (spread version (JObj kvs))"

lemma map_of_compiled:
  assumes "distinct (map fst kvs)" "distinct (map fst overrides)"
  shows "map_of (compiledEntries version kvs overrides) = map_of version ++ map_of kvs ++ map_of overrides"
  using assms by (simp add: compiledEntries_def override_def spread_def own_entries_def map_of_fold_update)

lemma keys_compiled: "fst ` set (compiledEntries version kvs overrides) = fst ` set version \<union> fst ` set kvs \<union> fst ` set overrides"
  by (simp add: compiledEntries_def override_def spread_def own_entries_def keys_fold_update)

lemma distinct_compiled: "distinct (map fst version) \<Longrightarrow> distinct (map fst (compiledEntries version kvs overrides))"
  unfolding compiledEntries_def override_def spread_def by (intro distinct_fold_update)

lemma sealed_Inr:
  assumes "sealed E body = Inr p" "''digest'' \<notin> fst ` set body"
  obtains d where "digestBody p = JObj body" "canonicalDigest E (digestBody p) = Inr d" "js_get p ''digest'' = JStr d"
    "\<forall>k. k \<noteq> ''digest'' \<longrightarrow> js_get p k = js_get (digestBody p) k" "js_is_object p"
proof -
  from assms obtain d where d: "canonicalDigest E (JObj body) = Inr d" and p: "p = JObj (body @ [(''digest'', JStr d)])"
    unfolding sealed_def by (auto simp: update_fresh)
  from assms(2) have "filter (\<lambda>(k, x). k \<noteq> ''digest'') body = body" by (force intro!: filter_True)
  then have b: "digestBody p = JObj body" by (simp add: p digestBody_def own_entries_def)
  have "map_of body ''digest'' = None" using assms(2) by (simp add: map_of_eq_None_iff)
  then have g: "js_get p ''digest'' = JStr d" by (simp add: p map_add_def)
  have "js_get p k = js_get (digestBody p) k" if "k \<noteq> ''digest''" for k
    unfolding b using that by (simp add: p map_add_def split: option.splits)
  moreover have "js_is_object p" by (simp add: p js_is_object_def)
  ultimately show thesis using that b d g by simp
qed

lemma canonicalDigest_Inr: "canonicalDigest E v = Inr d \<longleftrightarrow> (\<exists>s. canonicalSerialize v = Inr s \<and> d = sha256 E s)"
  by (cases "canonicalSerialize v") (auto simp: canonicalDigest_def sha256Canonical_def sha256Utf8_def)

lemma assertDigest_sealed:
  assumes "canonicalDigest E (digestBody p) = Inr d" "js_get p ''digest'' = JStr d" "\<And>s. is_digest (sha256 E s)"
  shows "assertDigest E p m = Inr ()"
proof -
  have "is_digest d" using assms(1,3) by (auto simp: canonicalDigest_Inr)
  with assms show ?thesis by (simp add: assertDigest_def)
qed

subsection \<open>Compiled policies\<close>

definition policyOverrides :: "(string \<Rightarrow> string \<Rightarrow> bool) \<Rightarrow> js \<Rightarrow> js \<Rightarrow> js \<Rightarrow> js \<Rightarrow> js_entries" where
  "policyOverrides collate input liveness envelope decisions =
     [(''executionLiveness'', liveness), (''economicEnvelope'', envelope),
      (''policyVersions'', sortRecord collate (js_get input ''policyVersions'')),
      (''policyDigests'', sortRecord collate (js_get input ''policyDigests'')),
      (''allowedExternalEffects'', sortedTexts (js_get input ''allowedExternalEffects'')),
      (''humanDecisionRequirements'', decisions)]"

lemma compilePolicy_Inr:
  assumes "compileResolvedOperationPolicy E collate (JObj kvs) = Inr p" "''digest'' \<notin> fst ` set kvs"
  obtains liveness envelope decisions d where
    "normalizeExecutionLivenessPolicy (js_get (JObj kvs) ''executionLiveness'') = Inr liveness"
    "normalizeEconomicEnvelope E (js_get (JObj kvs) ''economicEnvelope'') = Inr envelope"
    "canonicalArray E collate (js_get (JObj kvs) ''humanDecisionRequirements'') = Inr decisions"
    "digestBody p = JObj (compiledEntries [(''version'', jint 2)] kvs (policyOverrides collate (JObj kvs) liveness envelope decisions))"
    "canonicalDigest E (digestBody p) = Inr d" "js_get p ''digest'' = JStr d"
    "\<forall>k. k \<noteq> ''digest'' \<longrightarrow> js_get p k = js_get (digestBody p) k" "js_is_object p"
proof -
  from assms(1) obtain liveness envelope decisions where parts:
    "normalizeExecutionLivenessPolicy (js_get (JObj kvs) ''executionLiveness'') = Inr liveness"
    "normalizeEconomicEnvelope E (js_get (JObj kvs) ''economicEnvelope'') = Inr envelope"
    "canonicalArray E collate (js_get (JObj kvs) ''humanDecisionRequirements'') = Inr decisions"
    and s: "sealed E (compiledEntries [(''version'', jint 2)] kvs (policyOverrides collate (JObj kvs) liveness envelope decisions)) = Inr p"
    unfolding compileResolvedOperationPolicy_def compiledEntries_def policyOverrides_def by (simp only: andThen_Inr) blast
  have "''digest'' \<notin> fst ` set (compiledEntries [(''version'', jint 2)] kvs (policyOverrides collate (JObj kvs) liveness envelope decisions))"
    unfolding keys_compiled using assms(2) by (simp add: policyOverrides_def)
  with s show thesis
  proof (rule sealed_Inr)
    fix d
    assume "digestBody p = JObj (compiledEntries [(''version'', jint 2)] kvs (policyOverrides collate (JObj kvs) liveness envelope decisions))"
      "canonicalDigest E (digestBody p) = Inr d" "js_get p ''digest'' = JStr d"
      "\<forall>k. k \<noteq> ''digest'' \<longrightarrow> js_get p k = js_get (digestBody p) k" "js_is_object p"
    then show thesis by (rule that [OF parts])
  qed
qed


lemma policyOverrides_keys: "map fst (policyOverrides collate input liveness envelope decisions) =
    [''executionLiveness'', ''economicEnvelope'', ''policyVersions'', ''policyDigests'', ''allowedExternalEffects'', ''humanDecisionRequirements'']"
  by (simp add: policyOverrides_def)

definition policyField :: "js_entries \<Rightarrow> js_entries \<Rightarrow> string \<Rightarrow> js" where
  "policyField kvs overrides k = (case (map_of [(''version'', jint 2)] ++ map_of kvs ++ map_of overrides) k of None \<Rightarrow> JUndefined | Some v \<Rightarrow> v)"

lemma compiled_policy_get:
  assumes "compileResolvedOperationPolicy E collate (JObj kvs) = Inr p" "''digest'' \<notin> fst ` set kvs" "distinct (map fst kvs)"
  obtains liveness envelope decisions where
    "normalizeExecutionLivenessPolicy (js_get (JObj kvs) ''executionLiveness'') = Inr liveness"
    "normalizeEconomicEnvelope E (js_get (JObj kvs) ''economicEnvelope'') = Inr envelope"
    "canonicalArray E collate (js_get (JObj kvs) ''humanDecisionRequirements'') = Inr decisions"
    "\<forall>k. k \<noteq> ''digest'' \<longrightarrow> js_get p k = policyField kvs (policyOverrides collate (JObj kvs) liveness envelope decisions) k"
    "digestBody p = JObj (compiledEntries [(''version'', jint 2)] kvs (policyOverrides collate (JObj kvs) liveness envelope decisions))"
proof (rule compilePolicy_Inr [OF assms(1,2)])
  fix liveness envelope decisions d
  assume parts: "normalizeExecutionLivenessPolicy (js_get (JObj kvs) ''executionLiveness'') = Inr liveness"
    "normalizeEconomicEnvelope E (js_get (JObj kvs) ''economicEnvelope'') = Inr envelope"
    "canonicalArray E collate (js_get (JObj kvs) ''humanDecisionRequirements'') = Inr decisions"
    and body: "digestBody p = JObj (compiledEntries [(''version'', jint 2)] kvs (policyOverrides collate (JObj kvs) liveness envelope decisions))"
    and get: "\<forall>k. k \<noteq> ''digest'' \<longrightarrow> js_get p k = js_get (digestBody p) k"
  have "distinct (map fst (policyOverrides collate (JObj kvs) liveness envelope decisions))"
    unfolding policyOverrides_keys by simp
  then have "js_get (digestBody p) k = policyField kvs (policyOverrides collate (JObj kvs) liveness envelope decisions) k" for k
    by (simp only: body js_get.simps map_of_compiled [OF assms(3)] policyField_def)
  with get show thesis by (intro that [OF parts _ body]) simp
qed

definition revisionFields :: "string list" where
  "revisionFields = [''operationExecutionRevision'', ''candidateRevision'', ''candidateDigest'', ''controllerEpoch'']"

text \<open>
  Recompiling the policy of an operation after its candidate, execution revision or controller epoch changed keeps the
  stable digest an exemption grant is bound to, and changes the exact digest whenever the content of one of these
  fields changed. The digest is assumed not to collide on the two serialized policies.
\<close>

theorem rebind_keeps_stable_digest:
  assumes compiled: "compileResolvedOperationPolicy E collate (JObj kvs) = Inr p" "compileResolvedOperationPolicy E collate (JObj kvs') = Inr p'"
    and keys: "''digest'' \<notin> fst ` set kvs" "''digest'' \<notin> fst ` set kvs'" "distinct (map fst kvs)" "distinct (map fst kvs')"
    and same: "\<And>k. k \<notin> set revisionFields \<Longrightarrow> map_of kvs k = map_of kvs' k"
    and nums: "nums_ok (digestBody p)" "nums_ok (digestBody p')"
    and no_collision: "\<And>x y. canonicalSerialize (digestBody p) = Inr x \<Longrightarrow> canonicalSerialize (digestBody p') = Inr y \<Longrightarrow>
       sha256 E x = sha256 E y \<Longrightarrow> x = y"
  shows "ownerExemptionStablePolicyDigest E p = ownerExemptionStablePolicyDigest E p'
    \<and> (js_get p ''digest'' = js_get p' ''digest'' \<longrightarrow>
         (\<forall>k \<in> set revisionFields. canon (js_get (JObj kvs) k) = canon (js_get (JObj kvs') k)))"
proof
  have same_get: "js_get (JObj kvs) k = js_get (JObj kvs') k" if "k \<notin> set revisionFields" for k using same [OF that] by simp
  obtain l e ds where parts: "normalizeExecutionLivenessPolicy (js_get (JObj kvs) ''executionLiveness'') = Inr l"
    "normalizeEconomicEnvelope E (js_get (JObj kvs) ''economicEnvelope'') = Inr e"
    "canonicalArray E collate (js_get (JObj kvs) ''humanDecisionRequirements'') = Inr ds"
    and get: "\<forall>k. k \<noteq> ''digest'' \<longrightarrow> js_get p k = policyField kvs (policyOverrides collate (JObj kvs) l e ds) k"
    and body: "digestBody p = JObj (compiledEntries [(''version'', jint 2)] kvs (policyOverrides collate (JObj kvs) l e ds))"
    by (rule compiled_policy_get [OF compiled(1) keys(1,3)])
  obtain l' e' ds' where parts': "normalizeExecutionLivenessPolicy (js_get (JObj kvs') ''executionLiveness'') = Inr l'"
    "normalizeEconomicEnvelope E (js_get (JObj kvs') ''economicEnvelope'') = Inr e'"
    "canonicalArray E collate (js_get (JObj kvs') ''humanDecisionRequirements'') = Inr ds'"
    and get': "\<forall>k. k \<noteq> ''digest'' \<longrightarrow> js_get p' k = policyField kvs' (policyOverrides collate (JObj kvs') l' e' ds') k"
    and body': "digestBody p' = JObj (compiledEntries [(''version'', jint 2)] kvs' (policyOverrides collate (JObj kvs') l' e' ds'))"
    by (rule compiled_policy_get [OF compiled(2) keys(2,4)])
  have inputs: "js_get (JObj kvs) ''executionLiveness'' = js_get (JObj kvs') ''executionLiveness''"
    "js_get (JObj kvs) ''economicEnvelope'' = js_get (JObj kvs') ''economicEnvelope''"
    "js_get (JObj kvs) ''humanDecisionRequirements'' = js_get (JObj kvs') ''humanDecisionRequirements''"
    "js_get (JObj kvs) ''policyVersions'' = js_get (JObj kvs') ''policyVersions''"
    "js_get (JObj kvs) ''policyDigests'' = js_get (JObj kvs') ''policyDigests''"
    "js_get (JObj kvs) ''allowedExternalEffects'' = js_get (JObj kvs') ''allowedExternalEffects''"
    by (rule same_get, simp add: revisionFields_def)+
  have same_parts: "l = l'" "e = e'" "ds = ds'"
    using parts parts' unfolding inputs(1-3) by simp_all
  have overrides: "policyOverrides collate (JObj kvs) l e ds = policyOverrides collate (JObj kvs') l' e' ds'"
    unfolding policyOverrides_def same_parts inputs(4-6) ..
  have stable: "k \<noteq> ''digest''" "k \<notin> set revisionFields" if "k \<in> set stablePolicyFields" for k
    using that by (auto simp: stablePolicyFields_def revisionFields_def)
  have fields: "js_get p k = js_get p' k" if "k \<in> set stablePolicyFields" for k
  proof -
    have "policyField kvs os k = policyField kvs' os k" for os
      by (simp only: policyField_def map_add_def same [OF stable(2) [OF that]])
    with get get' stable(1) [OF that] show ?thesis by (simp add: overrides)
  qed
  then have "map (\<lambda>k. (k, js_get p k)) stablePolicyFields = map (\<lambda>k. (k, js_get p' k)) stablePolicyFields" by (intro map_cong) simp_all
  then show "ownerExemptionStablePolicyDigest E p = ownerExemptionStablePolicyDigest E p'"
    unfolding ownerExemptionStablePolicyDigest_def stablePolicyBody_def by (simp only:)
  show "js_get p ''digest'' = js_get p' ''digest'' \<longrightarrow> (\<forall>k \<in> set revisionFields. canon (js_get (JObj kvs) k) = canon (js_get (JObj kvs') k))"
  proof (intro impI ballI)
    fix k assume digests: "js_get p ''digest'' = js_get p' ''digest''" and k: "k \<in> set revisionFields"
    obtain d where d: "canonicalDigest E (digestBody p) = Inr d" "js_get p ''digest'' = JStr d" by (rule compilePolicy_Inr [OF compiled(1) keys(1)])
    obtain d' where d': "canonicalDigest E (digestBody p') = Inr d'" "js_get p' ''digest'' = JStr d'" by (rule compilePolicy_Inr [OF compiled(2) keys(2)])
    from d d' digests no_collision obtain x where "canonicalSerialize (digestBody p) = Inr x" "canonicalSerialize (digestBody p') = Inr x"
      unfolding canonicalDigest_Inr by (metis js.inject(3))
    then have content: "canon (digestBody p) = canon (digestBody p')" using canonicalSerialize_inject nums by blast
    have dist: "distinct (map fst (compiledEntries [(''version'', jint 2)] m os))" for m os by (rule distinct_compiled) simp
    from k have nk: "k \<noteq> ''digest''" by (auto simp: revisionFields_def)
    have "canon (js_get (digestBody p) k) = canon (js_get (digestBody p') k)"
      using arg_cong [OF content, where f = "\<lambda>v. js_get v k"] unfolding body body' canon_get [OF dist] .
    moreover have over: "map_of (policyOverrides collate i a b c) k = None" "map_of [(''version'', jint 2)] k = None" for i a b c
      using k by (auto simp: map_of_eq_None_iff policyOverrides_def revisionFields_def)
    have "distinct (map fst (policyOverrides collate i a b c))" for i a b c unfolding policyOverrides_keys by simp
    then have "js_get (digestBody p) k = js_get (JObj kvs) k" "js_get (digestBody p') k = js_get (JObj kvs') k"
      unfolding body body' js_get.simps by (simp_all add: map_of_compiled keys over map_add_def del: map_of.simps split: option.splits)
    ultimately show "canon (js_get (JObj kvs) k) = canon (js_get (JObj kvs') k)" by simp
  qed
qed


text \<open>A compilation of the smallest policy, at two execution revisions.\<close>

definition sample_policy_input :: "int \<Rightarrow> js_entries" where
  "sample_policy_input revision = [(''projectId'', JStr ''p''), (''operationId'', JStr ''o''), (''intent'', JStr ''i''),
     (''candidateDigest'', JStr (replicate 64 (CHR ''a''))), (''operationExecutionRevision'', jint revision), (''candidateRevision'', jint 1),
     (''controllerEpoch'', jint 0), (''allowedExternalEffects'', JArr [JStr ''git.push'']), (''humanDecisionRequirements'', JArr [])]"

definition echo_env :: js_env where
  "echo_env = sample_env\<lparr>sha256 := (\<lambda>s. s)\<rparr>"


definition sample_policy_body :: "int \<Rightarrow> js_entries" where
  "sample_policy_body revision = compiledEntries [(''version'', jint 2)] (sample_policy_input revision)
     (policyOverrides (\<le>) (JObj (sample_policy_input revision)) (JObj livenessDefaults) (envelopeValue JUndefined) (JArr []))"

lemma compilePolicy_succeeds:
  assumes "checkEach (\<lambda>k. assertRevision (js_get (JObj kvs) k) k) [''operationExecutionRevision'', ''candidateRevision'', ''controllerEpoch''] = Inr ()"
    "checkEach (\<lambda>k. required (js_get (JObj kvs) k) k) [''projectId'', ''operationId'', ''intent''] = Inr ()"
    "requiredDigest (js_get (JObj kvs) ''candidateDigest'') ''candidateDigest'' = Inr ()"
    "normalizeExecutionLivenessPolicy (js_get (JObj kvs) ''executionLiveness'') = Inr liveness"
    "normalizeEconomicEnvelope E (js_get (JObj kvs) ''economicEnvelope'') = Inr envelope"
    "canonicalArray E collate (js_get (JObj kvs) ''humanDecisionRequirements'') = Inr decisions"
    "printable (canon (JObj (compiledEntries [(''version'', jint 2)] kvs (policyOverrides collate (JObj kvs) liveness envelope decisions))))"
  shows "\<exists>p. compileResolvedOperationPolicy E collate (JObj kvs) = Inr p"
proof -
  obtain s where "canonicalSerialize (JObj (compiledEntries [(''version'', jint 2)] kvs (policyOverrides collate (JObj kvs) liveness envelope decisions))) = Inr s"
    unfolding canonicalSerialize_def using printable_serializes [OF assms(7)] by blast
  then have "sealed E (compiledEntries [(''version'', jint 2)] kvs (policyOverrides collate (JObj kvs) liveness envelope decisions))
    = Inr (JObj (AList.update ''digest'' (JStr (sha256 E s)) (compiledEntries [(''version'', jint 2)] kvs (policyOverrides collate (JObj kvs) liveness envelope decisions))))"
    by (simp add: sealed_def canonicalDigest_def sha256Canonical_def sha256Utf8_def andThen_def)
  then show ?thesis
    unfolding compileResolvedOperationPolicy_def andThen_def assms(1-6) sum.case compiledEntries_def policyOverrides_def by (rule exI)
qed

lemma sample_policy_compiles:
  assumes "r \<in> {1, 2}"
  shows "\<exists>p. compileResolvedOperationPolicy E (\<le>) (JObj (sample_policy_input r)) = Inr p"
proof (rule compilePolicy_succeeds)
  show "checkEach (\<lambda>k. assertRevision (js_get (JObj (sample_policy_input r)) k) k) [''operationExecutionRevision'', ''candidateRevision'', ''controllerEpoch''] = Inr ()"
    using assms by (auto simp: sample_policy_input_def assertRevision_def js_safe_at_least_def safe_int_def max_safe_integer_def)
  show "checkEach (\<lambda>k. required (js_get (JObj (sample_policy_input r)) k) k) [''projectId'', ''operationId'', ''intent''] = Inr ()"
    by (simp add: sample_policy_input_def required_def js_trim_def js_white_def)
  show "requiredDigest (js_get (JObj (sample_policy_input r)) ''candidateDigest'') ''candidateDigest'' = Inr ()"
    by (simp add: sample_policy_input_def requiredDigest_def is_digest_def hex_char_def list_all_iff)
  have u: "js_get (JObj (sample_policy_input r)) ''executionLiveness'' = JUndefined" "js_get (JObj (sample_policy_input r)) ''economicEnvelope'' = JUndefined"
    "js_get (JObj (sample_policy_input r)) ''humanDecisionRequirements'' = JArr []" by (simp_all add: sample_policy_input_def)
  show "normalizeExecutionLivenessPolicy (js_get (JObj (sample_policy_input r)) ''executionLiveness'') = Inr (JObj livenessDefaults)"
    unfolding u by code_simp
  show "normalizeEconomicEnvelope E (js_get (JObj (sample_policy_input r)) ''economicEnvelope'') = Inr (envelopeValue JUndefined)"
    unfolding u by code_simp
  show "canonicalArray E (\<le>) (js_get (JObj (sample_policy_input r)) ''humanDecisionRequirements'') = Inr (JArr [])"
    unfolding u by (simp add: canonicalArray_def sortBy_def)
  have "printable (canon (JObj (sample_policy_body 1)))" "printable (canon (JObj (sample_policy_body 2)))" by code_simp+
  with assms show "printable (canon (JObj (compiledEntries [(''version'', jint 2)] (sample_policy_input r)
     (policyOverrides (\<le>) (JObj (sample_policy_input r)) (JObj livenessDefaults) (envelopeValue JUndefined) (JArr [])))))"
    unfolding sample_policy_body_def by auto
qed

theorem rebind_keeps_stable_digest_witness:
  "\<exists>p p'. compileResolvedOperationPolicy echo_env (\<le>) (JObj (sample_policy_input 1)) = Inr p
   \<and> compileResolvedOperationPolicy echo_env (\<le>) (JObj (sample_policy_input 2)) = Inr p'
   \<and> ownerExemptionStablePolicyDigest echo_env p = ownerExemptionStablePolicyDigest echo_env p'
   \<and> js_get p ''digest'' \<noteq> js_get p' ''digest''"
proof -
  obtain p p' where compiled: "compileResolvedOperationPolicy echo_env (\<le>) (JObj (sample_policy_input 1)) = Inr p"
    "compileResolvedOperationPolicy echo_env (\<le>) (JObj (sample_policy_input 2)) = Inr p'"
    using sample_policy_compiles [of 1 echo_env] sample_policy_compiles [of 2 echo_env] by auto
  have keys: "''digest'' \<notin> fst ` set (sample_policy_input r)" "distinct (map fst (sample_policy_input r))" for r
    by (simp_all add: sample_policy_input_def)
  have same: "map_of (sample_policy_input 1) k = map_of (sample_policy_input 2) k" if "k \<notin> set revisionFields" for k
    using that by (simp add: sample_policy_input_def revisionFields_def)
  have u: "normalizeExecutionLivenessPolicy JUndefined = Inr (JObj livenessDefaults)" "normalizeEconomicEnvelope echo_env JUndefined = Inr (envelopeValue JUndefined)"
    "canonicalArray echo_env (\<le>) (JArr []) = Inr (JArr [])"
    "nums_ok (JObj (sample_policy_body 1))" "nums_ok (JObj (sample_policy_body 2))" by code_simp+
  have body: "digestBody q = JObj (sample_policy_body r)"
    if q: "compileResolvedOperationPolicy echo_env (\<le>) (JObj (sample_policy_input r)) = Inr q" for q r
    by (rule compilePolicy_Inr [OF q keys(1)]) (simp add: u(1-3) sample_policy_input_def sample_policy_body_def)
  have nums: "nums_ok (digestBody p)" "nums_ok (digestBody p')" unfolding body [OF compiled(1)] body [OF compiled(2)] by (fact u)+
  have "canon (js_get (JObj (sample_policy_input 1)) ''operationExecutionRevision'')
      \<noteq> canon (js_get (JObj (sample_policy_input 2)) ''operationExecutionRevision'')"
    by (simp add: sample_policy_input_def)
  moreover have "''operationExecutionRevision'' \<in> set revisionFields" by (simp add: revisionFields_def)
  ultimately show ?thesis
    using rebind_keeps_stable_digest [OF compiled keys(1) keys(1) keys(2) keys(2) same nums] compiled by (auto simp: echo_env_def)
qed


subsection \<open>What an accepted blueprint confines\<close>

lemma andThen_unit: "andThen r f = Inr y \<longleftrightarrow> r = Inr () \<and> f () = Inr y" for r :: "'e + unit"
  by auto

lemma assertRoleToolCeiling_Inr:
  assumes "assertRoleToolCeiling role toolPack = Inr ()"
  obtains r p requested where "role = JStr r" "roleProfile r = Some p" "toolsOf toolPack = Inr requested"
    "set requested \<subseteq> JStr ` set (ceilingTools p)"
proof -
  from assms obtain r p where r: "role = JStr r" "roleProfile r = Some p"
    unfolding assertRoleToolCeiling_def by (cases role) (auto split: option.splits)
  from assms obtain requested where t: "toolsOf toolPack = Inr requested"
    and "filter (\<lambda>t. t \<notin> JStr ` set (tp_required (rp_toolPack p) @ tp_optional (rp_toolPack p))
       \<or> t \<in> JStr ` set (tp_forbidden (rp_toolPack p))) requested = []"
    unfolding assertRoleToolCeiling_def r by (auto simp: r Let_def split: if_splits)
  then have "set requested \<subseteq> JStr ` set (ceilingTools p)"
    by (fastforce simp: filter_empty_conv ceilingTools_def)
  with that r t show thesis by blast
qed

lemma toolsOf_arrays:
  assumes "toolsOf pack = Inr requested"
  shows "set (js_items (js_get pack ''required'')) \<union> set (js_items (js_get pack ''optional'')) \<subseteq> set requested"
  using assms by (auto simp: toolsOf_def js_iterate_def split: option.splits js.splits)

lemma blueprint_participant:
  assumes "assertBlueprintParticipant E blueprint participant = Inr ()"
  obtains expected claims where "assertRoleInvocationPolicyV1 E (js_get participant ''roleInvocationPolicy'') = Inr ()"
    "participantInconsistent E blueprint participant = Inr False"
    "participantScratchResourceName E (js_get participant ''role'') (js_get participant ''participantId'') (js_get participant ''toolPack'') = Inr expected"
    "scratchClaims (js_get participant ''resourceClaims'') = Inr claims" "\<not> scratchMismatch expected claims"
  using assms unfolding assertBlueprintParticipant_def
  by (auto simp only: andThen_unit andThen_Inr failWhen_Inr not_True_eq_False simp_thms split: if_splits)

lemma orFurther_False [simp]: "orFurther b rest = Inr False \<longleftrightarrow> \<not> b \<and> rest = Inr False"
  by (simp add: orFurther_def)

lemma participant_consistent:
  assumes "participantInconsistent E blueprint participant = Inr False"
  shows "js_get (js_get participant ''roleInvocationPolicy'') ''role'' = js_get participant ''role''"
    "js_get (js_get participant ''roleInvocationPolicy'') ''operationPolicyDigest'' = js_get (js_get blueprint ''resolvedOperationPolicy'') ''digest''"
    "digestsDiffer E (js_get participant ''toolPack'') (js_get (js_get participant ''roleInvocationPolicy'') ''toolPack'') = Inr False"
  using assms unfolding participantInconsistent_def Let_def
  by (auto simp only: orFurther_False andThen_Inr de_Morgan_disj not_not dest!: js_same_eq)

text \<open>
  C17: In an accepted execution blueprint every participant has a canonical role, its role policy is bound to the digest of the
  frozen operation policy, and the tools of that policy lie within the ceiling of the role. A participant whose role
  may not write has neither repository writes nor command execution among its tools and claims no scratch resource.
\<close>

theorem blueprint_confines_participants:
  assumes "assertExecutionBlueprintV3 E blueprint = Inr ()" "participant \<in> set (js_items (js_get blueprint ''participants''))"
  defines "policy \<equiv> js_get participant ''roleInvocationPolicy''"
  defines "tools \<equiv> set (js_items (js_get (js_get policy ''toolPack'') ''required'')) \<union> set (js_items (js_get (js_get policy ''toolPack'') ''optional''))"
  shows "\<exists>r p. js_get participant ''role'' = JStr r \<and> roleProfile r = Some p \<and> tools \<subseteq> JStr ` set (ceilingTools p)
    \<and> js_get policy ''operationPolicyDigest'' = js_get (js_get blueprint ''resolvedOperationPolicy'') ''digest''
    \<and> (\<not> au_canWrite (rp_authority p) \<longrightarrow> tools \<inter> JStr ` set mutatingTools = {}
         \<and> scratchClaims (js_get participant ''resourceClaims'') = Inr [])"
proof -
  from assms(1) have "checkEach (assertBlueprintParticipant E blueprint) (js_items (js_get blueprint ''participants'')) = Inr ()"
    unfolding assertExecutionBlueprintV3_def Let_def andThen_unit by (elim conjE)
  with assms(2) have "assertBlueprintParticipant E blueprint participant = Inr ()" by (simp add: checkEach_Inr)
  then obtain expected claims where policy: "assertRoleInvocationPolicyV1 E policy = Inr ()"
    and consistent: "participantInconsistent E blueprint participant = Inr False"
    and scratch: "participantScratchResourceName E (js_get participant ''role'') (js_get participant ''participantId'') (js_get participant ''toolPack'') = Inr expected"
    and claims: "scratchClaims (js_get participant ''resourceClaims'') = Inr claims" "\<not> scratchMismatch expected claims"
    unfolding policy_def by (rule blueprint_participant)
  note bound = participant_consistent [OF consistent, folded policy_def]
  from policy have "assertRoleToolCeiling (js_get policy ''role'') (js_get policy ''toolPack'') = Inr ()"
    unfolding assertRoleInvocationPolicyV1_def andThen_unit by (elim conjE)
  then obtain r p requested where r: "js_get policy ''role'' = JStr r" "roleProfile r = Some p"
    and tools: "toolsOf (js_get policy ''toolPack'') = Inr requested" "set requested \<subseteq> JStr ` set (ceilingTools p)"
    by (rule assertRoleToolCeiling_Inr)
  have within: "tools \<subseteq> JStr ` set (ceilingTools p)" unfolding tools_def using toolsOf_arrays [OF tools(1)] tools(2) by blast
  have "tools \<inter> JStr ` set mutatingTools = {}" "claims = []" if reader: "\<not> au_canWrite (rp_authority p)"
  proof -
    show "tools \<inter> JStr ` set mutatingTools = {}" using within ceiling_of_reader [OF r(2) reader] by blast
    have "expected = None"
      using scratch reader r unfolding bound(1) [symmetric] participantScratchResourceName_def by (auto simp: Let_def split: if_splits)
    with claims(2) show "claims = []" by (simp add: scratchMismatch_def)
  qed
  with r bound claims(1) within show ?thesis by auto
qed


text \<open>A blueprint with one reviewer.\<close>

definition sample_hash :: js where
  "sample_hash = JStr (replicate 64 (CHR ''a''))"

definition sample_pack :: js where
  "sample_pack = JObj [(''version'', jint 1), (''required'', JArr [JStr ''context-read'', JStr ''repository-read'']), (''optional'', JArr []), (''forbidden'', JArr [])]"

definition sample_participant :: js where
  "sample_participant = JObj [(''participantId'', JStr ''w''), (''role'', JStr ''Reviewer''), (''toolPack'', sample_pack), (''resourceClaims'', JArr []),
     (''outputContract'', JStr ''c''), (''skillManifestDigest'', sample_hash),
     (''roleInvocationPolicy'', JObj [(''version'', jint 1), (''operationId'', JStr ''o''), (''participantId'', JStr ''w''), (''outputContract'', JStr ''c''),
        (''operationPolicyDigest'', sample_hash), (''role'', JStr ''Reviewer''), (''toolPack'', sample_pack), (''resourceClaims'', JArr []),
        (''digest'', sample_hash)])]"

definition sample_resolved_policy :: js where
  "sample_resolved_policy = JObj [(''version'', jint 2), (''projectId'', JStr ''p''), (''operationId'', JStr ''o''), (''intent'', JStr ''i''),
     (''operationExecutionRevision'', jint 1), (''candidateRevision'', jint 1), (''candidateDigest'', sample_hash), (''controllerEpoch'', jint 0),
     (''executionLiveness'', JObj livenessDefaults), (''economicEnvelope'', envelopeValue JUndefined),
     (''allowedExternalEffects'', JArr [JStr ''git.push'']), (''humanDecisionRequirements'', JArr []), (''digest'', sample_hash)]"

definition sample_blueprint :: js where
  "sample_blueprint = JObj [(''version'', jint 3), (''resolvedOperationPolicy'', sample_resolved_policy), (''projectId'', JStr ''p''), (''operationId'', JStr ''o''),
     (''operationExecutionRevision'', jint 1), (''candidateRevision'', jint 1), (''candidateDigest'', sample_hash), (''controllerEpoch'', jint 0),
     (''participants'', JArr [sample_participant]), (''capabilityRegistryDigest'', sample_hash), (''skillProjectionDigest'', sample_hash), (''digest'', sample_hash)]"

lemma assertDigest_sample:
  assumes "printable (canon (digestBody v))" "js_get v ''digest'' = sample_hash"
  shows "assertDigest sample_env v m = Inr ()"
proof -
  obtain s where "canonicalSerialize (digestBody v) = Inr s"
    unfolding canonicalSerialize_def using printable_serializes [OF assms(1)] by blast
  then have d: "canonicalDigest sample_env (digestBody v) = Inr (replicate 64 (CHR ''a''))"
    by (simp add: canonicalDigest_def sha256Canonical_def sha256Utf8_def sample_env_def)
  show ?thesis by (rule assertDigest_sealed [OF d]) (simp_all add: assms(2) sample_hash_def sample_env_def is_digest_def hex_char_def list_all_iff)
qed

lemma sample_participant_accepted: "assertBlueprintParticipant sample_env sample_blueprint sample_participant = Inr ()"
  by code_simp

lemma sample_policy_sealed: "assertDigest sample_env sample_resolved_policy m = Inr ()"
  by (rule assertDigest_sample) code_simp+

lemma sample_blueprint_sealed: "assertDigest sample_env sample_blueprint m = Inr ()"
  by (rule assertDigest_sample) code_simp+

lemma sample_resolved_policy_accepted: "assertResolvedOperationPolicyV2 sample_env sample_resolved_policy = Inr ()"
  unfolding assertResolvedOperationPolicyV2_def andThen_unit
proof (intro conjI sample_policy_sealed)
  show "assertExecutionLivenessPolicy (js_get sample_resolved_policy ''executionLiveness'') = Inr ()" by code_simp
  show "assertEconomicEnvelope sample_env (js_get sample_resolved_policy ''economicEnvelope'') = Inr ()" by code_simp
qed code_simp+

lemma sample_blueprint_accepted: "assertExecutionBlueprintV3 sample_env sample_blueprint = Inr ()"
proof -
  have get: "js_get sample_blueprint ''resolvedOperationPolicy'' = sample_resolved_policy"
    "js_items (js_get sample_blueprint ''participants'') = [sample_participant]" by (simp_all add: sample_blueprint_def)
  show ?thesis
    unfolding assertExecutionBlueprintV3_def Let_def andThen_unit get
    by (intro conjI sample_blueprint_sealed sample_resolved_policy_accepted)
      (simp_all add: checkEach_Inr sample_participant_accepted, code_simp+)
qed

theorem blueprint_confines_participants_witness:
  "set (js_items (js_get (js_get (js_get sample_participant ''roleInvocationPolicy'') ''toolPack'') ''required'')) \<inter> JStr ` set mutatingTools = {}
   \<and> scratchClaims (js_get sample_participant ''resourceClaims'') = Inr []"
proof -
  have member: "sample_participant \<in> set (js_items (js_get sample_blueprint ''participants''))" by (simp add: sample_blueprint_def)
  have "js_get sample_participant ''role'' = JStr ''Reviewer''" by (simp add: sample_participant_def)
  moreover have "map_option (\<lambda>p. au_canWrite (rp_authority p)) (roleProfile ''Reviewer'') = Some False" by code_simp
  ultimately show ?thesis using blueprint_confines_participants [OF sample_blueprint_accepted member] by auto
qed


subsection \<open>A compiled policy is accepted\<close>

lemma set_insertBy [simp]: "set (insertBy le x xs) = insert x (set xs)"
  by (induction xs) auto

lemma set_sortBy [simp]: "set (sortBy le xs) = set xs"
  by (induction xs) (auto simp: sortBy_def)

lemma canonicalArray_items:
  assumes "canonicalArray E collate v = Inr w"
  shows "js_is_array w" "set (js_items w) = set (js_items v)"
proof -
  from assms obtain ds where ds: "map (canonicalDigest E) (js_items v) = map Inr ds"
    and w: "w = JArr (map snd (sortBy (\<lambda>a b. collate (fst a) (fst b)) (zip ds (js_items v))))"
    unfolding canonicalArray_def by (auto simp: sequence_results_Inr)
  from ds have len: "length ds = length (js_items v)" by (metis length_map)
  have "snd ` set (zip ds (js_items v)) = set (js_items v)"
    using map_snd_zip [OF len] by (metis set_map)
  then show "js_is_array w" "set (js_items w) = set (js_items v)" by (simp_all add: w js_is_array_def)
qed

lemma required_truthy: "required v k = Inr u \<Longrightarrow> js_truthy v"
  by (cases v) (auto simp: required_def js_trim_def split: if_splits)

lemma compile_checks:
  assumes "compileResolvedOperationPolicy E collate (JObj kvs) = Inr p"
  shows "js_truthy (js_get (JObj kvs) ''projectId'')" "js_truthy (js_get (JObj kvs) ''operationId'')" "js_truthy (js_get (JObj kvs) ''intent'')"
    "js_safe_at_least 0 (js_get (JObj kvs) ''controllerEpoch'')" "requiredDigest (js_get (JObj kvs) ''candidateDigest'') ''candidateDigest'' = Inr ()"
proof -
  note checks = assms [unfolded compileResolvedOperationPolicy_def andThen_unit checkEach_Inr]
  have "required (js_get (JObj kvs) k) k = Inr ()" if "k \<in> set [''projectId'', ''operationId'', ''intent'']" for k
    using bspec [OF checks [THEN conjunct2, THEN conjunct1] that] .
  then show "js_truthy (js_get (JObj kvs) ''projectId'')" "js_truthy (js_get (JObj kvs) ''operationId'')" "js_truthy (js_get (JObj kvs) ''intent'')"
    by (rule required_truthy, simp)+
  have "assertRevision (js_get (JObj kvs) ''controllerEpoch'') ''controllerEpoch'' = Inr ()"
    by (rule bspec [OF checks [THEN conjunct1]]) simp
  then show "js_safe_at_least 0 (js_get (JObj kvs) ''controllerEpoch'')" unfolding assertRevision_def failWhen_Inr not_not .
  show "requiredDigest (js_get (JObj kvs) ''candidateDigest'') ''candidateDigest'' = Inr ()"
    by (rule checks [THEN conjunct2, THEN conjunct2, THEN conjunct1])
qed

text \<open>
  A policy compiled from an input with positive revisions, registered external effects and typed human decisions is
  accepted when it is read back: its digest, its liveness policy and its economic envelope pass the checks. SHA-256 is
  assumed to be 64 lowercase hex digits.
\<close>

theorem compiled_policy_accepted:
  assumes compiled: "compileResolvedOperationPolicy E collate (JObj kvs) = Inr p"
    and keys: "''digest'' \<notin> fst ` set kvs" "''version'' \<notin> fst ` set kvs" "distinct (map fst kvs)"
    and revisions: "js_safe_at_least 1 (js_get (JObj kvs) ''operationExecutionRevision'')" "js_safe_at_least 1 (js_get (JObj kvs) ''candidateRevision'')"
    and effects: "\<forall>a \<in> set (js_items (js_get (JObj kvs) ''allowedExternalEffects'')). registeredAction a"
    and decisions: "\<forall>r \<in> set (js_items (js_get (JObj kvs) ''humanDecisionRequirements'')). typedDecision r"
    and hex: "\<And>s. is_digest (sha256 E s)"
  shows "assertResolvedOperationPolicyV2 E p = Inr ()"
proof -
  obtain l e ds where parts: "normalizeExecutionLivenessPolicy (js_get (JObj kvs) ''executionLiveness'') = Inr l"
    "normalizeEconomicEnvelope E (js_get (JObj kvs) ''economicEnvelope'') = Inr e"
    "canonicalArray E collate (js_get (JObj kvs) ''humanDecisionRequirements'') = Inr ds"
    and get: "\<forall>k. k \<noteq> ''digest'' \<longrightarrow> js_get p k = policyField kvs (policyOverrides collate (JObj kvs) l e ds) k"
    by (rule compiled_policy_get [OF compiled keys(1,3)])
  obtain d where sealed: "canonicalDigest E (digestBody p) = Inr d" "js_get p ''digest'' = JStr d" "js_is_object p"
    by (rule compilePolicy_Inr [OF compiled keys(1)])
  have plain: "js_get p k = js_get (JObj kvs) k"
    if "k \<in> {''projectId'', ''operationId'', ''intent'', ''operationExecutionRevision'', ''candidateRevision'', ''controllerEpoch'', ''candidateDigest''}" for k
  proof -
    have "k \<noteq> ''digest''" "map_of (policyOverrides collate (JObj kvs) l e ds) k = None" "map_of [(''version'', jint 2)] k = None"
      using that by (auto simp: policyOverrides_def)
    then show ?thesis using get by (simp add: policyField_def map_add_def split: option.splits)
  qed
  have field: "js_get p k = v" if "k \<noteq> ''digest''" "map_of (policyOverrides collate (JObj kvs) l e ds) k = Some v" for k v
    using get that by (simp add: policyField_def map_add_def)
  have fields: "js_get p ''executionLiveness'' = l" "js_get p ''economicEnvelope'' = e" "js_get p ''humanDecisionRequirements'' = ds"
    "js_get p ''allowedExternalEffects'' = sortedTexts (js_get (JObj kvs) ''allowedExternalEffects'')"
    by (rule field; simp add: policyOverrides_def)+
  have "map_of kvs ''version'' = None" using keys(2) by (simp add: map_of_eq_None_iff)
  then have version: "js_get p ''version'' = jint 2" using get by (simp add: policyField_def map_add_def policyOverrides_def)
  have "assertExecutionLivenessPolicy l = Inr ()" "assertEconomicEnvelope E e = Inr ()"
    using parts unfolding normalizeExecutionLivenessPolicy_def normalizeEconomicEnvelope_def Let_def andThen_unit by auto
  moreover have "registeredAction a" if "a \<in> set (js_items (sortedTexts (js_get (JObj kvs) ''allowedExternalEffects'')))" for a
    using that effects by (auto simp: sortedTexts_def registeredAction_def str_of_def)
  moreover have "typedDecision r" if "r \<in> set (js_items ds)" for r
    using that decisions canonicalArray_items(2) [OF parts(3)] by blast
  ultimately show ?thesis
    unfolding assertResolvedOperationPolicyV2_def andThen_unit
    using compile_checks [OF compiled] revisions sealed(3) version canonicalArray_items(1) [OF parts(3)] assertDigest_sealed [OF sealed(1,2) hex]
    by (simp add: plain fields versioned_def list_ex_iff sortedTexts_def js_is_array_def del: js_get.simps)
qed

theorem compiled_policy_accepted_witness:
  "\<exists>p. compileResolvedOperationPolicy sample_env (\<le>) (JObj (sample_policy_input 1)) = Inr p \<and> assertResolvedOperationPolicyV2 sample_env p = Inr ()"
proof -
  obtain p where p: "compileResolvedOperationPolicy sample_env (\<le>) (JObj (sample_policy_input 1)) = Inr p"
    using sample_policy_compiles [of 1 sample_env] by auto
  have "assertResolvedOperationPolicyV2 sample_env p = Inr ()"
    by (rule compiled_policy_accepted [OF p])
      (simp_all add: sample_policy_input_def js_safe_at_least_def safe_int_def max_safe_integer_def registeredAction_def TOOL_ACTION_KINDS_V1_def
        sample_env_def is_digest_def hex_char_def list_all_iff)
  with p show ?thesis by blast
qed

end
