(* ===== verification/HumanDecision.thy ===== *)
theory HumanDecision
  imports ExecutionIdentity
begin

text \<open>
  Human decisions (\<open>src/src/security/humanDecision.ts\<close>): the checks of decision requests, continuations and decisions,
  and the durable ledger that records each decision once and lets it be consumed once. Decisions are read back from
  disk, so they are run-time values. The ledger directory is a list of files; a file holds the JSON value that was
  written, or \<open>None\<close> where its text does not parse. A \<open>Date\<close> argument is represented by its time value. Random
  identifiers and the clock are arguments.
\<close>

subsection \<open>Checks\<close>

datatype decision_error =
    DecisionRejected string
  | DecisionCandidate contract_error
  | DecisionUnserializable serialize_error
  | DecisionSyntaxError
  | DecisionTypeError

definition rejectWhen :: "bool \<Rightarrow> string \<Rightarrow> decision_error + unit" where
  "rejectWhen b message = (if b then Inl (DecisionRejected message) else Inr ())"

definition needText :: "js \<Rightarrow> string \<Rightarrow> decision_error + string" where
  "needText v name = (case v of
       JStr s \<Rightarrow> if js_trim s = [] then Inl (DecisionRejected (name @ '' must not be empty.'')) else Inr (js_trim s)
     | _ \<Rightarrow> Inl (DecisionRejected (name @ '' must not be empty.'')))"

definition boundedText :: "js \<Rightarrow> string \<Rightarrow> nat \<Rightarrow> decision_error + unit" where
  "boundedText v name maxLength = andThen (needText v name) (\<lambda>text.
     rejectWhen (length text > maxLength) (name @ '' exceeds '' @ nat_text maxLength @ '' characters.''))"

definition assertTextList :: "js \<Rightarrow> string \<Rightarrow> nat \<Rightarrow> nat \<Rightarrow> nat \<Rightarrow> decision_error + unit" where
  "assertTextList v name minLength maxLength itemMaxLength =
     andThen (rejectWhen (\<not> js_is_array v \<or> length (js_items v) < minLength \<or> length (js_items v) > maxLength)
       (name @ '' must contain '' @ nat_text minLength @ '' to '' @ nat_text maxLength @ '' items.'')) (\<lambda>_.
     checkEach (\<lambda>item. boundedText item (name @ '' item'') itemMaxLength) (js_items v))"

definition optionalFields :: "string list" where
  "optionalFields = [''selectedDecisionId'', ''selectedChoiceId'', ''selectedDecisionBinding'', ''appliedRequirementDigest'']"

definition assertExactObject :: "js \<Rightarrow> string list \<Rightarrow> string \<Rightarrow> decision_error + unit" where
  "assertExactObject v allowedKeys name =
     (let keys = map fst (own_entries v);
          extras = filter (\<lambda>k. k \<notin> set allowedKeys) keys;
          missing = filter (\<lambda>k. k \<notin> set keys \<and> k \<notin> set optionalFields) allowedKeys in
     andThen (rejectWhen (\<not> js_is_object v \<or> js_is_array v) (name @ '' must be an object.'')) (\<lambda>_.
     andThen (rejectWhen (extras \<noteq> []) (name @ '' contains unsupported fields: '' @ js_join '', '' extras @ ''.'')) (\<lambda>_.
     rejectWhen (missing \<noteq> []) (name @ '' is missing required fields: '' @ js_join '', '' missing @ ''.''))))"

definition needInstant :: "js_env \<Rightarrow> js \<Rightarrow> string \<Rightarrow> decision_error + string" where
  "needInstant E v name = (case dateTime E v of
       None \<Rightarrow> Inl (DecisionRejected (name @ '' must be a valid instant.''))
     | Some t \<Rightarrow> Inr (to_iso E t))"

definition assertBinding :: "js_env \<Rightarrow> js \<Rightarrow> decision_error + unit" where
  "assertBinding E binding =
     andThen (rejectWhen (\<not> js_is_object binding) ''current operation binding is required.'') (\<lambda>_.
     andThen (case assertCandidateRevisionV1 E (js_get binding ''candidate'') of Some e \<Rightarrow> Inl (DecisionCandidate e) | None \<Rightarrow> Inr ()) (\<lambda>_.
     andThen (needText (js_get binding ''operationId'') ''operationId'') (\<lambda>operationId.
     andThen (rejectWhen (js_get (js_get binding ''candidate'') ''operationId'' \<noteq> JStr operationId)
       ''candidate and decision operation must match.'') (\<lambda>_.
     andThen (rejectWhen (\<not> js_safe_at_least 1 (js_get binding ''operationExecutionRevision''))
       ''operationExecutionRevision must be a positive safe integer.'') (\<lambda>_.
     andThen (rejectWhen (\<not> digestPattern (js_get binding ''policyDigest'')) ''policyDigest must be a SHA-256 digest.'') (\<lambda>_.
     rejectWhen (\<not> js_safe_at_least 0 (js_get binding ''controllerEpoch'')) ''controllerEpoch must be a non-negative safe integer.''))))))"

definition decisionBindingFields :: "string list" where
  "decisionBindingFields = [''operationId'', ''candidate'', ''operationExecutionRevision'', ''policyDigest'', ''controllerEpoch'']"

definition assertExactBinding :: "js_env \<Rightarrow> js \<Rightarrow> decision_error + unit" where
  "assertExactBinding E v =
     (let keys = map fst (own_entries v) in
     andThen (rejectWhen (\<not> js_is_object v \<or> js_is_array v) ''selected decision binding must be an object.'') (\<lambda>_.
     andThen (rejectWhen (\<not> list_all (\<lambda>k. k \<in> set decisionBindingFields) keys \<or> \<not> list_all (\<lambda>k. k \<in> set keys) decisionBindingFields)
       ''selected decision binding has an invalid shape.'') (\<lambda>_.
     assertBinding E v)))"

definition sameBinding :: "js_env \<Rightarrow> js \<Rightarrow> js \<Rightarrow> bool" where
  "sameBinding E decision binding \<longleftrightarrow>
     js_same (js_get decision ''operationId'') (js_get binding ''operationId'')
     \<and> candidateRevisionsEqual E (js_get decision ''candidate'') (js_get binding ''candidate'')
     \<and> js_same (js_get decision ''operationExecutionRevision'') (js_get binding ''operationExecutionRevision'')
     \<and> js_same (js_get decision ''policyDigest'') (js_get binding ''policyDigest'')
     \<and> js_same (js_get decision ''controllerEpoch'') (js_get binding ''controllerEpoch'')"

definition insidePath :: "string \<Rightarrow> string \<Rightarrow> bool" where
  "insidePath prefix artifact \<longleftrightarrow> starts_with prefix artifact \<and> CHR 0x5C \<notin> set artifact
     \<and> list_all (\<lambda>part. part \<noteq> ''..'' \<and> part \<noteq> ''.'' \<and> part \<noteq> []) (js_split CHR ''/'' artifact)"

subsection \<open>Decision requests\<close>

definition assertEvidence :: "js \<Rightarrow> decision_error + string" where
  "assertEvidence item =
     andThen (assertExactObject item [''artifact'', ''sha256'', ''description''] ''DecisionEvidenceReferenceV1'') (\<lambda>_.
     andThen (needText (js_get item ''artifact'') ''authoritativeEvidence.artifact'') (\<lambda>artifact.
     andThen (rejectWhen (\<not> insidePath ''.harness/'' artifact) ''authoritative evidence must be an in-root .harness artifact reference.'') (\<lambda>_.
     andThen (rejectWhen (\<not> digestPattern (js_get item ''sha256'')) ''authoritative evidence sha256 must be a lowercase SHA-256 digest.'') (\<lambda>_.
     andThen (boundedText (js_get item ''description'') ''authoritativeEvidence.description'' 500) (\<lambda>_. Inr artifact)))))"

definition assertChoice :: "js \<Rightarrow> decision_error + string" where
  "assertChoice item =
     andThen (assertExactObject item [''choiceId'', ''label'', ''description'', ''consequences''] ''DecisionChoiceV1'') (\<lambda>_.
     andThen (needText (js_get item ''choiceId'') ''choices.choiceId'') (\<lambda>choiceId.
     andThen (boundedText (js_get item ''label'') ''choices.label'' 200) (\<lambda>_.
     andThen (boundedText (js_get item ''description'') ''choices.description'' 2000) (\<lambda>_.
     andThen (assertTextList (js_get item ''consequences'') ''choices.consequences'' 1 8 1000) (\<lambda>_. Inr choiceId)))))"

text \<open>A loop that checks each item, reads its key and throws on a key it has seen.\<close>

fun uniqueKeys :: "(js \<Rightarrow> decision_error + string) \<Rightarrow> string \<Rightarrow> string list \<Rightarrow> js list \<Rightarrow> decision_error + unit" where
  "uniqueKeys f message seen [] = Inr ()"
| "uniqueKeys f message seen (x # xs) = andThen (f x) (\<lambda>k.
     if k \<in> set seen then Inl (DecisionRejected message) else uniqueKeys f message (k # seen) xs)"

definition requestFields :: "string list" where
  "requestFields = [''version'', ''requestId'', ''operationId'', ''candidate'', ''operationExecutionRevision'', ''policyDigest'', ''controllerEpoch'',
     ''issue'', ''authoritativeEvidence'', ''whatTried'', ''whyUnresolvable'', ''choices'', ''workThatCanContinue'', ''resumeTarget'', ''createdAt'', ''expiresAt'']"

definition assertDecisionRequestV1 :: "js_env \<Rightarrow> js \<Rightarrow> decision_error + unit" where
  "assertDecisionRequestV1 E request =
     (let evidence = js_get request ''authoritativeEvidence''; choices = js_get request ''choices'' in
     andThen (assertExactObject request requestFields ''DecisionRequestV1'') (\<lambda>_.
     andThen (rejectWhen (js_get request ''version'' \<noteq> jint 1) ''UNSUPPORTED_DECISION_REQUEST_VERSION: expected version 1.'') (\<lambda>_.
     andThen (assertBinding E request) (\<lambda>_.
     andThen (needText (js_get request ''requestId'') ''requestId'') (\<lambda>_.
     andThen (boundedText (js_get request ''issue'') ''issue'' 4000) (\<lambda>_.
     andThen (boundedText (js_get request ''whyUnresolvable'') ''whyUnresolvable'' 4000) (\<lambda>_.
     andThen (rejectWhen (js_get request ''resumeTarget'' \<noteq> JStr ''SPEC_AUTHORING'') ''unsupported DecisionRequest resumeTarget.'') (\<lambda>_.
     andThen (rejectWhen (\<not> js_is_array evidence \<or> length (js_items evidence) < 1 \<or> length (js_items evidence) > 32)
       ''DecisionRequest authoritativeEvidence must contain 1 to 32 references.'') (\<lambda>_.
     andThen (uniqueKeys assertEvidence ''DecisionRequest authoritative evidence references must be unique.'' [] (js_items evidence)) (\<lambda>_.
     andThen (assertTextList (js_get request ''whatTried'') ''whatTried'' 1 16 1000) (\<lambda>_.
     andThen (assertTextList (js_get request ''workThatCanContinue'') ''workThatCanContinue'' 0 32 1000) (\<lambda>_.
     andThen (rejectWhen (\<not> js_is_array choices \<or> length (js_items choices) < 1 \<or> length (js_items choices) > 12)
       ''DecisionRequest choices must contain 1 to 12 bounded options.'') (\<lambda>_.
     andThen (uniqueKeys assertChoice ''DecisionRequest choice IDs must be unique.'' [] (js_items choices)) (\<lambda>_.
     andThen (needInstant E (js_get request ''createdAt'') ''createdAt'') (\<lambda>createdAt.
     andThen (needInstant E (js_get request ''expiresAt'') ''expiresAt'') (\<lambda>expiresAt.
     rejectWhen (case (date_parse E expiresAt, date_parse E createdAt) of (Some x, Some c) \<Rightarrow> x \<le> c | _ \<Rightarrow> False)
       ''DecisionRequest expiry must be after creation.''))))))))))))))))"

subsection \<open>Continuations\<close>

definition continuationRevalidationValuesV1 :: "string list" where
  "continuationRevalidationValuesV1 = [''candidate-current'', ''operation-revision-current'', ''policy-current'', ''controller-epoch-current'', ''checkpoint-current'']"

text \<open>Every listed check exactly once.\<close>

definition exactlyOnce :: "string list \<Rightarrow> js \<Rightarrow> bool" where
  "exactlyOnce values v \<longleftrightarrow> js_is_array v \<and> length (js_items v) = length values
     \<and> length (js_uniq (js_items v)) = length values \<and> list_all (\<lambda>x. JStr x \<in> set (js_items v)) values"

definition continuationFields :: "string list" where
  "continuationFields = [''version'', ''continuationId'', ''operationId'', ''candidate'', ''operationExecutionRevision'', ''policyDigest'', ''controllerEpoch'',
     ''resumeTarget'', ''reason'', ''requestId'', ''checkpointArtifact'', ''checkpointDigest'', ''requiredRevalidation'', ''state'',
     ''suspendedAt'', ''updatedAt'', ''selectedDecisionId'', ''selectedChoiceId'', ''selectedDecisionBinding'', ''appliedRequirementDigest'']"

definition hasDecision :: "js \<Rightarrow> bool" where
  "hasDecision c \<longleftrightarrow> js_typeof (js_get c ''selectedDecisionId'') = ''string'' \<and> js_typeof (js_get c ''selectedChoiceId'') = ''string''"

definition selectedIncomplete :: "js \<Rightarrow> bool" where
  "selectedIncomplete c =
     (if js_get c ''state'' = JStr ''WAITING''
      then js_get c ''selectedDecisionId'' \<noteq> JUndefined \<or> js_get c ''selectedChoiceId'' \<noteq> JUndefined \<or> js_get c ''selectedDecisionBinding'' \<noteq> JUndefined
      else \<not> hasDecision c \<or> js_get c ''selectedDecisionBinding'' = JUndefined)"

definition assertSelectedBinding :: "js_env \<Rightarrow> js \<Rightarrow> decision_error + unit" where
  "assertSelectedBinding E c =
     (let selected = js_get c ''selectedDecisionBinding'' in
     andThen (needText (js_get c ''selectedDecisionId'') ''selectedDecisionId'') (\<lambda>_.
     andThen (needText (js_get c ''selectedChoiceId'') ''selectedChoiceId'') (\<lambda>_.
     andThen (assertExactBinding E selected) (\<lambda>_.
     andThen (rejectWhen (\<not> js_same (js_get selected ''operationId'') (js_get c ''operationId'')
         \<or> \<not> candidateRevisionsEqual E (js_get selected ''candidate'') (js_get c ''candidate'')
         \<or> \<not> js_same (js_get selected ''controllerEpoch'') (js_get c ''controllerEpoch''))
       ''continuation selected decision binding does not match the saved operation, candidate, or controller epoch.'') (\<lambda>_.
     if js_same (js_get c ''operationExecutionRevision'') (js_get selected ''operationExecutionRevision'')
     then rejectWhen (\<not> js_same (js_get c ''policyDigest'') (js_get selected ''policyDigest''))
       ''continuation policy binding changed without the authorized product-choice execution revision.''
     else rejectWhen (js_get c ''appliedRequirementDigest'' = JUndefined
         \<or> js_get c ''operationExecutionRevision'' \<noteq> jint (int_of (js_get selected ''operationExecutionRevision'') + 1))
       ''continuation execution revision is not the single authorized product-choice revision.'')))))"

definition assertContinuationRecordV1 :: "js_env \<Rightarrow> js \<Rightarrow> decision_error + unit" where
  "assertContinuationRecordV1 E c =
     andThen (assertExactObject c continuationFields ''ContinuationRecordV1'') (\<lambda>_.
     andThen (rejectWhen (js_get c ''version'' \<noteq> jint 1) ''UNSUPPORTED_CONTINUATION_VERSION: expected version 1.'') (\<lambda>_.
     andThen (assertBinding E c) (\<lambda>_.
     andThen (needText (js_get c ''continuationId'') ''continuationId'') (\<lambda>_.
     andThen (needText (js_get c ''requestId'') ''requestId'') (\<lambda>_.
     andThen (rejectWhen (js_get c ''resumeTarget'' \<noteq> JStr ''SPEC_AUTHORING'' \<or> js_get c ''reason'' \<noteq> JStr ''PRODUCT_CHOICE'')
       ''unsupported operation continuation target or reason.'') (\<lambda>_.
     andThen (needText (js_get c ''checkpointArtifact'') ''checkpointArtifact'') (\<lambda>artifact.
     andThen (rejectWhen (\<not> insidePath ''.harness/operations/'' artifact) ''continuation checkpoint must be an in-root operation artifact.'') (\<lambda>_.
     andThen (rejectWhen (\<not> digestPattern (js_get c ''checkpointDigest'')) ''continuation checkpointDigest must be a lowercase SHA-256 digest.'') (\<lambda>_.
     andThen (rejectWhen (\<not> exactlyOnce continuationRevalidationValuesV1 (js_get c ''requiredRevalidation''))
       ''continuation requiredRevalidation must contain every S3 identity and checkpoint check exactly once.'') (\<lambda>_.
     andThen (rejectWhen (js_get c ''state'' \<notin> {JStr ''WAITING'', JStr ''CHOICE_CONSUMED'', JStr ''RESUMING''}) ''continuation state is invalid.'') (\<lambda>_.
     andThen (rejectWhen (selectedIncomplete c) ''continuation decision state is incomplete or inconsistent.'') (\<lambda>_.
     andThen (if hasDecision c then assertSelectedBinding E c else Inr ()) (\<lambda>_.
     andThen (rejectWhen (js_get c ''appliedRequirementDigest'' \<noteq> JUndefined \<and> \<not> digestPattern (js_get c ''appliedRequirementDigest''))
       ''continuation appliedRequirementDigest must be a lowercase SHA-256 digest.'') (\<lambda>_.
     andThen (needInstant E (js_get c ''suspendedAt'') ''suspendedAt'') (\<lambda>_.
     andThen (needInstant E (js_get c ''updatedAt'') ''updatedAt'') (\<lambda>_. Inr ()))))))))))))))))"

definition assertDecisionBindingMatchesRequest :: "js_env \<Rightarrow> js \<Rightarrow> js \<Rightarrow> decision_error + unit" where
  "assertDecisionBindingMatchesRequest E request binding =
     andThen (assertDecisionRequestV1 E request) (\<lambda>_.
     andThen (assertBinding E binding) (\<lambda>_.
     rejectWhen (\<not> sameBinding E request binding)
       ''DecisionRequest is stale for the current operation, candidate, policy, execution revision, or controller epoch.''))"

subsection \<open>Decisions\<close>

definition humanDecisionKindValues :: "string list" where
  "humanDecisionKindValues = [''APPROVE'', ''REJECT'', ''CHOOSE'', ''CANCEL'', ''RETRY'', ''ACKNOWLEDGE'', ''PAUSE'', ''RESUME'']"

definition externalHumanActor :: "js \<Rightarrow> decision_error + string" where
  "externalHumanActor v =
     andThen (needText v ''actorId'') (\<lambda>actorId.
     andThen (rejectWhen (\<not> starts_with ''human:'' actorId \<and> \<not> starts_with ''delegate:'' actorId)
       ''only a paired/direct human authority or a delegated Owner principal may record this decision.'') (\<lambda>_. Inr actorId))"

definition assertDelegatedProvenance :: "string \<Rightarrow> js \<Rightarrow> decision_error + unit" where
  "assertDelegatedProvenance actorId delegatedFrom =
     (let extra = filter (\<lambda>k. k \<notin> {''grantorOwnerId'', ''delegationId'', ''profile''}) (map fst (own_entries delegatedFrom)) in
     if \<not> starts_with ''delegate:'' actorId
     then rejectWhen (delegatedFrom \<noteq> JUndefined) ''human Owner decisions must not carry delegated provenance.''
     else
       andThen (rejectWhen (\<not> js_is_object delegatedFrom \<or> js_is_array delegatedFrom)
         ''delegated Owner decisions must carry delegatedFrom provenance (grantor, delegation id, profile).'') (\<lambda>_.
       andThen (rejectWhen (extra \<noteq> []) (''delegatedFrom provenance contains unsupported fields: '' @ js_join '', '' extra @ ''.'')) (\<lambda>_.
       andThen (rejectWhen (case js_get delegatedFrom ''grantorOwnerId'' of
           JStr g \<Rightarrow> \<not> starts_with ''human:'' g \<or> js_trim (drop (length ''human:'') g) = [] | _ \<Rightarrow> True)
         ''delegatedFrom.grantorOwnerId must be the authenticated human grantor ('human:*').'') (\<lambda>_.
       andThen (rejectWhen (case js_get delegatedFrom ''delegationId'' of JStr d \<Rightarrow> \<not> prefixedUuid ''delegation:'' d | _ \<Rightarrow> True)
         ''delegatedFrom.delegationId must be 'delegation:<uuid>'.'') (\<lambda>_.
       rejectWhen (js_get delegatedFrom ''profile'' \<noteq> JStr ''FULL_PROJECT_OWNER'') ''delegatedFrom.profile must be FULL_PROJECT_OWNER.'')))))"

definition unsupportedPurpose :: string where
  "unsupportedPurpose = ''unsupported HumanDecision purpose (HARD_PROTECTION_EXEMPTION was removed: hard-protected repair now suspends for a bounded PRODUCT_CHOICE approve/decline; stale exemption intents require migration).''"

definition choicePurpose :: "js \<Rightarrow> decision_error + js" where
  "choicePurpose purpose =
     andThen (needText (js_get purpose ''requestId'') ''purpose.requestId'') (\<lambda>requestId.
     andThen (needText (js_get purpose ''choiceId'') ''purpose.choiceId'') (\<lambda>choiceId.
     Inr (JObj [(''kind'', JStr ''PRODUCT_CHOICE''), (''requestId'', JStr requestId), (''choiceId'', JStr choiceId)])))"

definition validatePurpose :: "js \<Rightarrow> js \<Rightarrow> decision_error + js" where
  "validatePurpose kind purpose =
     andThen (rejectWhen (\<not> js_is_object purpose) ''HumanDecision purpose is required.'') (\<lambda>_.
     if js_get purpose ''kind'' = JStr ''PRODUCT_CHOICE'' then
       andThen (rejectWhen (kind \<noteq> JStr ''CHOOSE'') ''product choices require a CHOOSE decision.'') (\<lambda>_. choicePurpose purpose)
     else if js_get purpose ''kind'' = JStr ''ACTION_AUTHORIZATION'' then
       andThen (rejectWhen (kind \<noteq> JStr ''APPROVE'' \<and> kind \<noteq> JStr ''REJECT'') ''action authorization requires APPROVE or REJECT.'') (\<lambda>_.
       andThen (rejectWhen (\<not> registeredAction (js_get purpose ''action'')) (''unsupported action '' @ [CHR 0x27] @ js_string (js_get purpose ''action'') @ [CHR 0x27] @ ''.'')) (\<lambda>_.
       andThen (rejectWhen (\<not> digestPattern (js_get purpose ''effectDigest'')) ''purpose.effectDigest must be a SHA-256 digest.'') (\<lambda>_.
       Inr (JObj [(''kind'', JStr ''ACTION_AUTHORIZATION''), (''action'', js_get purpose ''action''), (''effectDigest'', js_get purpose ''effectDigest'')]))))
     else if js_get purpose ''kind'' = JStr ''OPERATION_CONTROL'' then
       andThen (rejectWhen (\<not> js_same (js_get purpose ''command'') kind) ''operation-control purpose must match its decision kind.'') (\<lambda>_.
       Inr (JObj [(''kind'', JStr ''OPERATION_CONTROL''), (''command'', js_get purpose ''command'')]))
     else Inl (DecisionRejected unsupportedPurpose))"

definition normalizePurpose :: "js \<Rightarrow> decision_error + js" where
  "normalizePurpose purpose =
     andThen (rejectWhen (\<not> js_is_object purpose) ''HumanDecision purpose is required.'') (\<lambda>_.
     if js_get purpose ''kind'' = JStr ''PRODUCT_CHOICE'' then choicePurpose purpose
     else if js_get purpose ''kind'' = JStr ''ACTION_AUTHORIZATION'' then
       andThen (rejectWhen (\<not> registeredAction (js_get purpose ''action'') \<or> \<not> digestPattern (js_get purpose ''effectDigest''))
         ''action authorization purpose is invalid.'') (\<lambda>_.
       Inr (JObj [(''kind'', JStr ''ACTION_AUTHORIZATION''), (''action'', js_get purpose ''action''), (''effectDigest'', js_get purpose ''effectDigest'')]))
     else if js_get purpose ''kind'' = JStr ''OPERATION_CONTROL''
         \<and> js_get purpose ''command'' \<in> JStr ` set [''CANCEL'', ''RETRY'', ''ACKNOWLEDGE'', ''PAUSE'', ''RESUME''] then
       Inr (JObj [(''kind'', JStr ''OPERATION_CONTROL''), (''command'', js_get purpose ''command'')])
     else Inl (DecisionRejected unsupportedPurpose))"

text \<open>\<open>canonicalSerialize(a) === canonicalSerialize(b)\<close>, which throws where a value cannot be serialized.\<close>

definition sameContent :: "js \<Rightarrow> js \<Rightarrow> decision_error + bool" where
  "sameContent a b =
     andThen (map_sum DecisionUnserializable id (canonicalSerialize a)) (\<lambda>s.
     andThen (map_sum DecisionUnserializable id (canonicalSerialize b)) (\<lambda>t. Inr (s = t)))"

definition decisionFields :: "string list" where
  "decisionFields = [''version'', ''decisionId'', ''operationId'', ''candidate'', ''operationExecutionRevision'', ''policyDigest'', ''controllerEpoch'',
     ''purpose'', ''kind'', ''actorId'', ''delegatedFrom'', ''reason'', ''createdAt'', ''expiresAt'']"

definition orNone :: "string list \<Rightarrow> string" where
  "orNone names = (if js_join '', '' names = [] then ''none'' else js_join '', '' names)"

definition assertDecisionV2 :: "js_env \<Rightarrow> js \<Rightarrow> decision_error + unit" where
  "assertDecisionV2 E decision =
     (let keys = map fst (own_entries decision);
          extra = filter (\<lambda>k. k \<notin> set decisionFields) keys;
          missing = filter (\<lambda>k. k \<noteq> ''expiresAt'' \<and> k \<noteq> ''delegatedFrom'' \<and> k \<notin> set keys) decisionFields in
     andThen (rejectWhen (\<not> js_is_object decision \<or> js_get decision ''version'' \<noteq> jint 2)
       ''UNSUPPORTED_HUMAN_DECISION_VERSION: expected version 2; migrate and re-record this decision.'') (\<lambda>_.
     andThen (rejectWhen (extra \<noteq> [] \<or> missing \<noteq> [])
       (''HumanDecision fields are malformed (extra: '' @ orNone extra @ ''; missing: '' @ orNone missing @ '').'')) (\<lambda>_.
     andThen (assertBinding E decision) (\<lambda>_.
     andThen (rejectWhen (\<not> prefixedUuid ''decision:'' (js_string (js_get decision ''decisionId''))) ''HumanDecision decisionId is invalid.'') (\<lambda>_.
     andThen (rejectWhen (js_get decision ''kind'' \<notin> JStr ` set humanDecisionKindValues) ''HumanDecision kind is invalid.'') (\<lambda>_.
     andThen (validatePurpose (js_get decision ''kind'') (js_get decision ''purpose'')) (\<lambda>normalized.
     andThen (sameContent normalized (js_get decision ''purpose'')) (\<lambda>same.
     andThen (rejectWhen (\<not> same) ''HumanDecision purpose is not in canonical typed form.'') (\<lambda>_.
     andThen (externalHumanActor (js_get decision ''actorId'')) (\<lambda>_.
     andThen (assertDelegatedProvenance (str_of (js_get decision ''actorId'')) (js_get decision ''delegatedFrom'')) (\<lambda>_.
     andThen (needText (js_get decision ''reason'') ''reason'') (\<lambda>_.
     andThen (needInstant E (js_get decision ''createdAt'') ''createdAt'') (\<lambda>_.
     if \<not> js_truthy (js_get decision ''expiresAt'') then Inr ()
     else andThen (needInstant E (js_get decision ''expiresAt'') ''expiresAt'') (\<lambda>expiresAt.
       rejectWhen (case (date_parse E expiresAt, dateTime E (js_get decision ''createdAt'')) of (Some x, Some c) \<Rightarrow> x \<le> c | _ \<Rightarrow> False)
         ''HumanDecision expiry must be after creation.''))))))))))))))"

subsection \<open>The ledger\<close>

text \<open>
  \<open>hl_legacy\<close>: the configured path is a plain file of an older version. \<open>hl_files\<close>: the files of the directory by
  name; \<open>hl_requests\<close>: the files of its sub-directory \<open>product-choice-requests\<close>. The exclusive creation of a file
  (\<open>link\<close> of a finished temporary file, or the flag \<open>wx\<close>) is atomic.
\<close>

record human_ledger =
  hl_legacy :: bool
  hl_files :: "(string \<times> js option) list"
  hl_requests :: "(string \<times> js option) list"

text \<open>What \<open>JSON.parse(JSON.stringify(value))\<close> keeps.\<close>

fun jsonValue :: "js \<Rightarrow> js" where
  "jsonValue (JObj kvs) = JObj (map (\<lambda>(k, v). (k, jsonValue v)) (filter (\<lambda>(k, v). v \<noteq> JUndefined \<and> js_typeof v \<notin> {''function'', ''symbol''}) kvs))"
| "jsonValue (JArr xs) = JArr (map (\<lambda>v. if v = JUndefined \<or> js_typeof v \<in> {''function'', ''symbol''} then JNull else jsonValue v) xs)"
| "jsonValue (JNum x) = (case x of NNaN \<Rightarrow> JNull | NInf _ \<Rightarrow> JNull | _ \<Rightarrow> JNum x)"
| "jsonValue v = v"

text \<open>\<open>decisionId.slice("decision:".length)\<close>; an array that reads as a valid id has the \<open>slice\<close> of arrays.\<close>

definition idStem :: "js \<Rightarrow> string" where
  "idStem v = (case v of JStr s \<Rightarrow> drop 9 s | JArr xs \<Rightarrow> js_string (JArr (drop 9 xs)) | _ \<Rightarrow> [])"

definition decisionFile :: "js \<Rightarrow> string" where
  "decisionFile v = idStem v @ ''.json''"

definition consumedFile :: "js \<Rightarrow> string" where
  "consumedFile v = idStem v @ ''.consumed.json''"

definition ensureDirectory :: "human_ledger \<Rightarrow> decision_error + unit" where
  "ensureDirectory L = rejectWhen (hl_legacy L)
     ''UNSUPPORTED_HUMAN_DECISION_VERSION: legacy ledger file requires explicit migration before V2 decisions can be stored.''"

definition writeExclusive :: "string \<Rightarrow> js \<Rightarrow> (string \<times> js option) list \<Rightarrow> decision_error + (string \<times> js option) list" where
  "writeExclusive file value files =
     (if map_of files file \<noteq> None then Inl (DecisionRejected ''decision request has already been submitted or replayed.'')
      else Inr (AList.update file (Some (jsonValue value)) files))"

definition readDecision :: "js_env \<Rightarrow> js option \<Rightarrow> decision_error + js" where
  "readDecision E content = (case content of
       None \<Rightarrow> Inl DecisionSyntaxError
     | Some v \<Rightarrow> andThen (assertDecisionV2 E v) (\<lambda>_. Inr v))"

definition decisionInstant :: "js_env \<Rightarrow> int \<Rightarrow> js \<Rightarrow> js" where
  "decisionInstant E clock v = (if js_nullish v then JStr (to_iso E clock) else v)"

definition createDecision :: "js_env \<Rightarrow> string \<Rightarrow> int \<Rightarrow> js \<Rightarrow> decision_error + js" where
  "createDecision E uuid clock input =
     (let delegatedFrom = js_get input ''delegatedFrom'' in
     andThen (assertBinding E input) (\<lambda>_.
     andThen (rejectWhen (js_get input ''kind'' \<notin> JStr ` set humanDecisionKindValues)
       (''unsupported human decision kind '' @ [CHR 0x27] @ js_string (js_get input ''kind'') @ [CHR 0x27] @ ''.'')) (\<lambda>_.
     andThen (externalHumanActor (js_get input ''actorId'')) (\<lambda>actorId.
     andThen (assertDelegatedProvenance actorId delegatedFrom) (\<lambda>_.
     andThen (validatePurpose (js_get input ''kind'') (js_get input ''purpose'')) (\<lambda>purpose.
     andThen (needInstant E (decisionInstant E clock (js_get input ''createdAt'')) ''createdAt'') (\<lambda>createdAt.
     andThen (if js_get input ''expiresAt'' = JUndefined then Inr None
       else map_sum id Some (needInstant E (js_get input ''expiresAt'') ''expiresAt'')) (\<lambda>expiresAt.
     andThen (rejectWhen (case expiresAt of None \<Rightarrow> False | Some x \<Rightarrow>
         (case (date_parse E x, date_parse E createdAt) of (Some t, Some c) \<Rightarrow> x \<noteq> [] \<and> t \<le> c | _ \<Rightarrow> False))
       ''expiresAt must be after createdAt.'') (\<lambda>_.
     andThen (needText (js_get input ''reason'') ''reason'') (\<lambda>reason.
     Inr (JObj (override
       ([(''purpose'', purpose), (''kind'', js_get input ''kind''), (''actorId'', JStr actorId)]
        @ (if js_truthy delegatedFrom then [(''delegatedFrom'', JObj [(''grantorOwnerId'', js_get delegatedFrom ''grantorOwnerId''),
             (''delegationId'', js_get delegatedFrom ''delegationId''), (''profile'', js_get delegatedFrom ''profile'')])] else [])
        @ [(''reason'', JStr reason), (''createdAt'', JStr createdAt)]
        @ (case expiresAt of Some x \<Rightarrow> if x = [] then [] else [(''expiresAt'', JStr x)] | None \<Rightarrow> []))
       (spread [(''version'', jint 2), (''decisionId'', JStr (''decision:'' @ uuid))] input)))))))))))))"

definition recordDecision :: "js_env \<Rightarrow> string \<Rightarrow> int \<Rightarrow> js \<Rightarrow> human_ledger \<Rightarrow> decision_error + js \<times> human_ledger" where
  "recordDecision E uuid clock input L =
     andThen (createDecision E uuid clock input) (\<lambda>decision.
     andThen (ensureDirectory L) (\<lambda>_.
     andThen (writeExclusive (decisionFile (js_get decision ''decisionId'')) decision (hl_files L)) (\<lambda>files.
     Inr (decision, L\<lparr>hl_files := files\<rparr>))))"

definition requestFile :: "js_env \<Rightarrow> string \<Rightarrow> string" where
  "requestFile E requestId = sha256Utf8 E requestId @ ''.json''"

definition decisionBinding :: "js \<Rightarrow> js" where
  "decisionBinding decision = JObj (map (\<lambda>k. (k, js_get decision k)) decisionBindingFields)"

definition reserveChoice :: "js_env \<Rightarrow> string \<Rightarrow> int \<Rightarrow> js \<Rightarrow> string \<Rightarrow> human_ledger \<Rightarrow> decision_error + js \<times> human_ledger" where
  "reserveChoice E uuid clock input requestId L =
     andThen (createDecision E uuid clock input) (\<lambda>decision.
     andThen (if js_get decision ''kind'' = JStr ''CHOOSE'' \<and> js_get (js_get decision ''purpose'') ''kind'' = JStr ''PRODUCT_CHOICE''
       then needText (JStr requestId) ''requestId'' else Inr []) (\<lambda>trimmedId.
     andThen (rejectWhen (js_get decision ''kind'' \<noteq> JStr ''CHOOSE'' \<or> js_get (js_get decision ''purpose'') ''kind'' \<noteq> JStr ''PRODUCT_CHOICE''
         \<or> js_get (js_get decision ''purpose'') ''requestId'' \<noteq> JStr trimmedId)
       ''a product-choice reservation requires a matching CHOOSE HumanDecision and requestId.'') (\<lambda>_.
     andThen (ensureDirectory L) (\<lambda>_.
     andThen (writeExclusive (requestFile E requestId) (JObj [(''version'', jint 1), (''requestId'', JStr requestId),
         (''binding'', decisionBinding decision), (''decision'', decision)]) (hl_requests L)) (\<lambda>requests.
     Inr (decision, L\<lparr>hl_requests := requests\<rparr>))))))"

text \<open>The reservation stays when the decision file cannot be created, so the ledger is returned on errors too.\<close>

definition recordProductChoice :: "js_env \<Rightarrow> string \<Rightarrow> int \<Rightarrow> js \<Rightarrow> string \<Rightarrow> human_ledger \<Rightarrow> (decision_error + js) \<times> human_ledger" where
  "recordProductChoice E uuid clock input requestId L =
     (case reserveChoice E uuid clock input requestId L of
        Inl e \<Rightarrow> (Inl e, L)
      | Inr (decision, reserved) \<Rightarrow>
         (case writeExclusive (decisionFile (js_get decision ''decisionId'')) decision (hl_files reserved) of
            Inl e \<Rightarrow> (Inl e, reserved)
          | Inr files \<Rightarrow> (Inr decision, reserved\<lparr>hl_files := files\<rparr>)))"

text \<open>Short-circuit evaluation: the second test runs (and may throw) only when the first does not hold.\<close>

definition orElse :: "bool \<Rightarrow> decision_error + bool \<Rightarrow> decision_error + bool" where
  "orElse b r = (if b then Inr True else r)"

definition reservationMismatch :: "js_env \<Rightarrow> js \<Rightarrow> string \<Rightarrow> js \<Rightarrow> string list \<Rightarrow> decision_error + bool" where
  "reservationMismatch E reservation requestId binding allowedChoiceIds =
     (let decision = js_get reservation ''decision''; held = js_get reservation ''binding''; purpose = js_get decision ''purpose'' in
      orElse (js_get reservation ''version'' \<noteq> jint 1 \<or> js_get reservation ''requestId'' \<noteq> JStr requestId \<or> \<not> js_is_object held)
        (andThen (assertBinding E held) (\<lambda>_. Inr (\<not> sameBinding E decision held \<or> \<not> sameBinding E decision binding
           \<or> js_get purpose ''kind'' \<noteq> JStr ''PRODUCT_CHOICE'' \<or> js_get purpose ''requestId'' \<noteq> JStr requestId
           \<or> js_get purpose ''choiceId'' \<notin> JStr ` set allowedChoiceIds))))"

definition repairDecision :: "js_env \<Rightarrow> js \<Rightarrow> human_ledger \<Rightarrow> decision_error + human_ledger" where
  "repairDecision E decision L =
     (let file = decisionFile (js_get decision ''decisionId'') in
      case map_of (hl_files L) file of
        None \<Rightarrow> map_sum id (\<lambda>files. L\<lparr>hl_files := files\<rparr>) (writeExclusive file decision (hl_files L))
      | Some content \<Rightarrow>
          andThen (readDecision E content) (\<lambda>stored.
          andThen (if \<not> js_same (js_get stored ''decisionId'') (js_get decision ''decisionId'') then Inr False else sameContent stored decision) (\<lambda>same.
          andThen (rejectWhen (\<not> same) ''reserved product-choice decision conflicts with its ledger record.'') (\<lambda>_. Inr L))))"

definition productChoiceForRequest :: "js_env \<Rightarrow> string \<Rightarrow> js \<Rightarrow> string list \<Rightarrow> human_ledger \<Rightarrow> decision_error + js option \<times> human_ledger" where
  "productChoiceForRequest E requestIdInput binding allowedChoiceIds L =
     andThen (needText (JStr requestIdInput) ''requestId'') (\<lambda>requestId.
     andThen (assertBinding E binding) (\<lambda>_.
     (case map_of (hl_requests L) (requestFile E requestId) of
        None \<Rightarrow> Inr (None, L)
      | Some None \<Rightarrow> Inl DecisionSyntaxError
      | Some (Some reservation) \<Rightarrow>
          andThen (rejectWhen (\<not> js_is_object reservation \<or> js_is_array reservation) ''reserved product-choice request is malformed.'') (\<lambda>_.
          andThen (assertDecisionV2 E (js_get reservation ''decision'')) (\<lambda>_.
          andThen (reservationMismatch E reservation requestId binding allowedChoiceIds) (\<lambda>mismatch.
          andThen (rejectWhen mismatch ''reserved product-choice request does not match the current request, choice, or authority binding.'') (\<lambda>_.
          andThen (ensureDirectory L) (\<lambda>_.
          andThen (repairDecision E (js_get reservation ''decision'') L) (\<lambda>L'.
          Inr (Some (js_get reservation ''decision''), L'))))))))))"

definition decisionNames :: "human_ledger \<Rightarrow> string list" where
  "decisionNames L = sort (filter (\<lambda>name. ends_with ''.json'' name \<and> \<not> ends_with ''.consumed.json'' name) (map fst (hl_files L)))"

text \<open>\<open>list\<close>: the readable decisions in the order of the file names; unreadable files are skipped.\<close>

definition listDecisions :: "js_env \<Rightarrow> human_ledger \<Rightarrow> decision_error + js list" where
  "listDecisions E L =
     andThen (ensureDirectory L) (\<lambda>_.
     Inr (concat (map (\<lambda>name. case map_of (hl_files L) name of
         Some content \<Rightarrow> (case readDecision E content of Inr d \<Rightarrow> [d] | Inl _ \<Rightarrow> [])
       | None \<Rightarrow> []) (decisionNames L))))"

definition isConsumed :: "human_ledger \<Rightarrow> js \<Rightarrow> bool" where
  "isConsumed L decisionId \<longleftrightarrow> map_of (hl_files L) (consumedFile decisionId) \<noteq> None"

definition decisionExpired :: "js_env \<Rightarrow> int \<Rightarrow> js \<Rightarrow> bool" where
  "decisionExpired E at decision \<longleftrightarrow> js_truthy (js_get decision ''expiresAt'')
     \<and> (case dateTime E (js_get decision ''expiresAt'') of Some t \<Rightarrow> t \<le> at | None \<Rightarrow> False)"

definition decisionUnexpired :: "js_env \<Rightarrow> int \<Rightarrow> js \<Rightarrow> bool" where
  "decisionUnexpired E at decision \<longleftrightarrow> \<not> js_truthy (js_get decision ''expiresAt'')
     \<or> (case dateTime E (js_get decision ''expiresAt'') of Some t \<Rightarrow> at < t | None \<Rightarrow> False)"

definition activeDecisions :: "js_env \<Rightarrow> js \<Rightarrow> int \<Rightarrow> human_ledger \<Rightarrow> decision_error + js list" where
  "activeDecisions E binding at L =
     andThen (assertBinding E binding) (\<lambda>_.
     andThen (listDecisions E L) (\<lambda>decisions.
     Inr (filter (\<lambda>d. sameBinding E d binding \<and> \<not> decisionExpired E at d \<and> \<not> isConsumed L (js_get d ''decisionId'')) decisions)))"

definition findDecision :: "js_env \<Rightarrow> string \<Rightarrow> human_ledger \<Rightarrow> decision_error + js option" where
  "findDecision E decisionId L =
     andThen (needText (JStr decisionId) ''decisionId'') (\<lambda>trimmedId.
     andThen (rejectWhen (\<not> prefixedUuid ''decision:'' trimmedId) ''HumanDecision decisionId is invalid.'') (\<lambda>_.
     andThen (ensureDirectory L) (\<lambda>_.
     (case map_of (hl_files L) (decisionFile (JStr decisionId)) of
        None \<Rightarrow> Inr None
      | Some content \<Rightarrow> map_sum id Some (readDecision E content)))))"

definition consumptionReceipt :: "js_env \<Rightarrow> js \<Rightarrow> js \<Rightarrow> js \<Rightarrow> int \<Rightarrow> decision_error + js" where
  "consumptionReceipt E binding purpose decision now =
     andThen (map_sum DecisionUnserializable id (sha256Canonical E (JObj [(''binding'', binding), (''purpose'', purpose),
       (''actorId'', js_get decision ''actorId'')]))) (\<lambda>digest.
     Inr (JObj [(''version'', jint 1), (''decisionId'', js_get decision ''decisionId''), (''consumedAt'', JStr (to_iso E now)),
       (''consumerDigest'', JStr digest)]))"

text \<open>The exclusive creation of the marker, which decides between concurrent consumers.\<close>

definition markConsumed :: "js_env \<Rightarrow> js \<Rightarrow> js \<Rightarrow> js \<Rightarrow> int \<Rightarrow> human_ledger \<Rightarrow> decision_error + human_ledger" where
  "markConsumed E binding purpose decision now L =
     andThen (consumptionReceipt E binding purpose decision now) (\<lambda>receipt.
     if isConsumed L (js_get decision ''decisionId'')
     then Inl (DecisionRejected ''matching HumanDecision has already been consumed or replayed.'')
     else Inr (L\<lparr>hl_files := AList.update (consumedFile (js_get decision ''decisionId'')) (Some (jsonValue receipt)) (hl_files L)\<rparr>))"

definition noCurrentDecision :: string where
  "noCurrentDecision = ''no current HumanDecision matches the operation, candidate, policy, epoch, actor, and exact purpose.''"

text \<open>What \<open>consumeExact\<close> and \<open>consumedExact\<close> read before they act: the decision, when it matches exactly.\<close>

definition exactDecision :: "js_env \<Rightarrow> js \<Rightarrow> js \<Rightarrow> string \<Rightarrow> string \<Rightarrow> human_ledger \<Rightarrow> decision_error + (js \<times> js) option" where
  "exactDecision E binding purposeInput decisionId actorIdInput L =
     andThen (assertBinding E binding) (\<lambda>_.
     andThen (normalizePurpose purposeInput) (\<lambda>purpose.
     andThen (needText (JStr actorIdInput) ''actorId'') (\<lambda>actorId.
     andThen (findDecision E decisionId L) (\<lambda>found.
     (case found of
        None \<Rightarrow> Inr None
      | Some decision \<Rightarrow>
         if \<not> sameBinding E decision binding \<or> js_get decision ''actorId'' \<noteq> JStr actorId then Inr None
         else andThen (sameContent (js_get decision ''purpose'') purpose) (\<lambda>same. Inr (if same then Some (decision, purpose) else None)))))))"

definition selectExact :: "js_env \<Rightarrow> js \<Rightarrow> js \<Rightarrow> string \<Rightarrow> string \<Rightarrow> int \<Rightarrow> human_ledger \<Rightarrow> decision_error + js \<times> js" where
  "selectExact E binding purpose decisionId actorId now L =
     andThen (exactDecision E binding purpose decisionId actorId L) (\<lambda>found.
     (case found of
        None \<Rightarrow> Inl (DecisionRejected noCurrentDecision)
      | Some (decision, purpose) \<Rightarrow>
         if decisionExpired E now decision then Inl (DecisionRejected ''matching HumanDecision has expired.'') else Inr (decision, purpose)))"

definition consumeExact :: "js_env \<Rightarrow> js \<Rightarrow> js \<Rightarrow> string \<Rightarrow> string \<Rightarrow> int \<Rightarrow> human_ledger \<Rightarrow> decision_error + js \<times> human_ledger" where
  "consumeExact E binding purpose decisionId actorId now L =
     andThen (selectExact E binding purpose decisionId actorId now L) (\<lambda>(decision, normalized).
     andThen (markConsumed E binding normalized decision now L) (\<lambda>L'. Inr (decision, L')))"

definition consumedExact :: "js_env \<Rightarrow> js \<Rightarrow> js \<Rightarrow> string \<Rightarrow> string \<Rightarrow> human_ledger \<Rightarrow> decision_error + js option" where
  "consumedExact E binding purpose decisionId actorId L =
     andThen (exactDecision E binding purpose decisionId actorId L) (\<lambda>found.
     (case found of
        None \<Rightarrow> Inr None
      | Some (decision, normalized) \<Rightarrow>
         (case map_of (hl_files L) (consumedFile (JStr decisionId)) of
            None \<Rightarrow> Inr None
          | Some None \<Rightarrow> Inl DecisionSyntaxError
          | Some (Some receipt) \<Rightarrow>
             andThen (map_sum DecisionUnserializable id (sha256Canonical E (JObj [(''binding'', binding), (''purpose'', normalized),
               (''actorId'', js_get decision ''actorId'')]))) (\<lambda>digest.
             Inr (if js_get receipt ''version'' \<noteq> jint 1 \<or> js_get receipt ''decisionId'' \<noteq> JStr decisionId
                    \<or> js_get receipt ''consumerDigest'' \<noteq> JStr digest then None else Some decision)))))"

fun filterResults :: "('a \<Rightarrow> 'e + bool) \<Rightarrow> 'a list \<Rightarrow> 'e + 'a list" where
  "filterResults f [] = Inr []"
| "filterResults f (x # xs) = andThen (f x) (\<lambda>b. andThen (filterResults f xs) (\<lambda>ys. Inr (if b then x # ys else ys)))"

definition matchesConsumer :: "js_env \<Rightarrow> js \<Rightarrow> js \<Rightarrow> string option \<Rightarrow> string option \<Rightarrow> js \<Rightarrow> decision_error + bool" where
  "matchesConsumer E binding purpose actorId delegationId decision =
     (if sameBinding E decision binding
         \<and> (case actorId of None \<Rightarrow> True | Some a \<Rightarrow> js_get decision ''actorId'' = JStr a)
         \<and> (case delegationId of None \<Rightarrow> True | Some d \<Rightarrow> js_get (js_get decision ''delegatedFrom'') ''delegationId'' = JStr d)
      then sameContent (js_get decision ''purpose'') purpose else Inr False)"

definition optionalText :: "string option \<Rightarrow> string \<Rightarrow> decision_error + string option" where
  "optionalText v name = (case v of None \<Rightarrow> Inr None | Some s \<Rightarrow> map_sum id Some (needText (JStr s) name))"

definition onlyAvailable :: "js_env \<Rightarrow> int \<Rightarrow> js list \<Rightarrow> js list \<Rightarrow> decision_error + js" where
  "onlyAvailable E at exact available = (case available of
       [] \<Rightarrow> if list_ex (decisionExpired E at) exact then Inl (DecisionRejected ''matching HumanDecision has expired.'')
             else if exact \<noteq> [] then Inl (DecisionRejected ''matching HumanDecision has already been consumed or replayed.'')
             else Inl (DecisionRejected noCurrentDecision)
     | decision # others \<Rightarrow> if others = [] then Inr decision
         else Inl (DecisionRejected ''multiple matching HumanDecisions are available; resolve the ambiguity explicitly.''))"

text \<open>The decision \<open>consume\<close> picks, read from a snapshot of the ledger.\<close>

definition selectDecision ::
    "js_env \<Rightarrow> js \<Rightarrow> js \<Rightarrow> string option \<Rightarrow> int \<Rightarrow> string option \<Rightarrow> human_ledger \<Rightarrow> decision_error + js \<times> js" where
  "selectDecision E binding purposeInput actorIdInput at delegationIdInput L =
     andThen (assertBinding E binding) (\<lambda>_.
     andThen (optionalText actorIdInput ''actorId'') (\<lambda>actorId.
     andThen (optionalText delegationIdInput ''delegationId'') (\<lambda>delegationId.
     andThen (normalizePurpose purposeInput) (\<lambda>purpose.
     andThen (listDecisions E L) (\<lambda>decisions.
     andThen (filterResults (matchesConsumer E binding purpose actorId delegationId) decisions) (\<lambda>exact.
     andThen (onlyAvailable E at exact (filter (\<lambda>d. decisionUnexpired E at d \<and> \<not> isConsumed L (js_get d ''decisionId'')) exact)) (\<lambda>decision.
     Inr (decision, purpose))))))))"

definition consumeDecision ::
    "js_env \<Rightarrow> js \<Rightarrow> js \<Rightarrow> string option \<Rightarrow> int \<Rightarrow> string option \<Rightarrow> human_ledger \<Rightarrow> decision_error + js \<times> human_ledger" where
  "consumeDecision E binding purpose actorId now delegationId L =
     andThen (selectDecision E binding purpose actorId now delegationId L) (\<lambda>(decision, normalized).
     andThen (markConsumed E binding normalized decision now L) (\<lambda>L'. Inr (decision, L')))"

subsection \<open>Runs of the ledger\<close>

datatype ledger_event = Consumed js | Reserved string

text \<open>
  The operations of concurrent users. A consumer reads the ledger (\<open>selectDecision\<close>, \<open>selectExact\<close>) and creates its
  marker later: any other step may come between, so the snapshot it read is an arbitrary ledger.
\<close>

inductive ledger_step :: "js_env \<Rightarrow> human_ledger \<Rightarrow> ledger_event option \<Rightarrow> human_ledger \<Rightarrow> bool" for E where
  record_step: "recordDecision E uuid clock input L = Inr (d, L') \<Longrightarrow> ledger_step E L None L'"
| choice_step: "recordProductChoice E uuid clock input requestId L = (Inr d, L') \<Longrightarrow> ledger_step E L (Some (Reserved requestId)) L'"
| choice_failed_step: "recordProductChoice E uuid clock input requestId L = (Inl e, L') \<Longrightarrow> ledger_step E L None L'"
| repair_step: "productChoiceForRequest E requestId binding allowed L = Inr (found, L') \<Longrightarrow> ledger_step E L None L'"
| consume_step: "\<lbrakk>selectDecision E binding purpose actorId at delegationId snapshot = Inr (d, normalized);
    markConsumed E binding normalized d at L = Inr L'\<rbrakk> \<Longrightarrow> ledger_step E L (Some (Consumed (js_get d ''decisionId''))) L'"
| consume_exact_step: "\<lbrakk>selectExact E binding purpose decisionId actor at snapshot = Inr (d, normalized);
    markConsumed E binding normalized d at L = Inr L'\<rbrakk> \<Longrightarrow> ledger_step E L (Some (Consumed (js_get d ''decisionId''))) L'"

inductive ledger_run :: "js_env \<Rightarrow> human_ledger \<Rightarrow> ledger_event list \<Rightarrow> human_ledger \<Rightarrow> bool" for E where
  run_done: "ledger_run E L [] L"
| run_silent: "\<lbrakk>ledger_run E L events L'; ledger_step E L' None L''\<rbrakk> \<Longrightarrow> ledger_run E L events L''"
| run_event: "\<lbrakk>ledger_run E L events L'; ledger_step E L' (Some e) L''\<rbrakk> \<Longrightarrow> ledger_run E L (events @ [e]) L''"

definition ledgerKept :: "human_ledger \<Rightarrow> human_ledger \<Rightarrow> bool" where
  "ledgerKept L L' \<longleftrightarrow> map_of (hl_files L) \<subseteq>\<^sub>m map_of (hl_files L') \<and> map_of (hl_requests L) \<subseteq>\<^sub>m map_of (hl_requests L')"

definition eventMarked :: "js_env \<Rightarrow> human_ledger \<Rightarrow> ledger_event \<Rightarrow> bool" where
  "eventMarked E L e = (case e of
       Consumed i \<Rightarrow> map_of (hl_files L) (consumedFile i) \<noteq> None
     | Reserved r \<Rightarrow> map_of (hl_requests L) (requestFile E r) \<noteq> None)"

lemma ledgerKept_refl [simp]: "ledgerKept L L"
  by (simp add: ledgerKept_def)

lemma ledgerKept_trans: "ledgerKept L M \<Longrightarrow> ledgerKept M N \<Longrightarrow> ledgerKept L N"
  unfolding ledgerKept_def by (blast intro: map_le_trans)

lemma writeExclusive_kept:
  assumes "writeExclusive file v files = Inr files'"
  shows "map_of files \<subseteq>\<^sub>m map_of files'" "map_of files file = None" "map_of files' file = Some (Some (jsonValue v))"
  using assms by (auto simp: writeExclusive_def map_le_def split: if_splits)

lemma markConsumed_kept:
  assumes "markConsumed E binding purpose d at L = Inr L'"
  shows "ledgerKept L L'" "map_of (hl_files L) (consumedFile (js_get d ''decisionId'')) = None"
    "map_of (hl_files L') (consumedFile (js_get d ''decisionId'')) \<noteq> None"
  using assms by (auto simp: markConsumed_def isConsumed_def ledgerKept_def map_le_def split: if_splits)

lemma reserveChoice_kept:
  assumes "reserveChoice E uuid clock input requestId L = Inr (d, L')"
  shows "hl_files L' = hl_files L" "map_of (hl_requests L) \<subseteq>\<^sub>m map_of (hl_requests L')"
    "map_of (hl_requests L) (requestFile E requestId) = None" "map_of (hl_requests L') (requestFile E requestId) \<noteq> None"
proof -
  from assms obtain v requests where "writeExclusive (requestFile E requestId) v (hl_requests L) = Inr requests" "L' = L\<lparr>hl_requests := requests\<rparr>"
    by (simp only: reserveChoice_def andThen_Inr) auto
  with writeExclusive_kept [of "requestFile E requestId" v "hl_requests L" requests]
  show "hl_files L' = hl_files L" "map_of (hl_requests L) \<subseteq>\<^sub>m map_of (hl_requests L')"
    "map_of (hl_requests L) (requestFile E requestId) = None" "map_of (hl_requests L') (requestFile E requestId) \<noteq> None"
    by simp_all
qed

lemma recordProductChoice_kept:
  assumes "recordProductChoice E uuid clock input requestId L = (r, L')"
  shows "ledgerKept L L'"
proof (cases "reserveChoice E uuid clock input requestId L")
  case (Inl e)
  with assms show ?thesis by (simp add: recordProductChoice_def)
next
  case (Inr dM)
  then obtain d M where M: "reserveChoice E uuid clock input requestId L = Inr (d, M)" by (cases dM) simp
  then have "ledgerKept L M" using reserveChoice_kept(1,2) [OF M] by (simp add: ledgerKept_def)
  moreover have "ledgerKept M L'"
    using assms M by (auto simp: recordProductChoice_def ledgerKept_def split: sum.splits dest: writeExclusive_kept(1))
  ultimately show ?thesis by (rule ledgerKept_trans)
qed

lemma recordProductChoice_fresh:
  assumes "recordProductChoice E uuid clock input requestId L = (Inr d, L')"
  shows "map_of (hl_requests L) (requestFile E requestId) = None" "map_of (hl_requests L') (requestFile E requestId) \<noteq> None"
proof -
  from assms obtain M files where "reserveChoice E uuid clock input requestId L = Inr (d, M)" "L' = M\<lparr>hl_files := files\<rparr>"
    by (auto simp: recordProductChoice_def split: sum.splits prod.splits)
  with reserveChoice_kept(3,4) [of E uuid clock input requestId L d M]
  show "map_of (hl_requests L) (requestFile E requestId) = None" "map_of (hl_requests L') (requestFile E requestId) \<noteq> None"
    by simp_all
qed

lemma map_sum_Inr: "map_sum f g r = Inr y \<longleftrightarrow> (\<exists>x. r = Inr x \<and> y = g x)"
  by (cases r) auto

lemma repairDecision_kept: "repairDecision E d L = Inr L' \<Longrightarrow> ledgerKept L L'"
  by (auto simp: repairDecision_def ledgerKept_def Let_def map_sum_Inr split: option.splits if_splits dest: writeExclusive_kept(1))

lemma productChoiceForRequest_kept:
  assumes "productChoiceForRequest E requestId binding allowed L = Inr (found, L')"
  shows "ledgerKept L L'"
proof -
  from assms obtain i where
    "needText (JStr requestId) ''requestId'' = Inr i" and read: "assertBinding E binding = Inr ()"
    by (simp only: productChoiceForRequest_def andThen_Inr) auto
  note run = assms [unfolded productChoiceForRequest_def this, unfolded andThen_def, simplified]
  show ?thesis
  proof (cases "map_of (hl_requests L) (requestFile E i)")
    case None
    with run show ?thesis by simp
  next
    case (Some content)
    with run obtain reservation where "repairDecision E (js_get reservation ''decision'') L = Inr L'"
      by (cases content) (auto simp: andThen_def [symmetric])
    then show ?thesis by (rule repairDecision_kept)
  qed
qed

lemma ledger_step_kept: "ledger_step E L e L' \<Longrightarrow> ledgerKept L L'"
proof (induction rule: ledger_step.induct)
  case (record_step uuid clock input L d L')
  then show ?case by (auto simp: recordDecision_def ledgerKept_def dest: writeExclusive_kept(1))
next
  case (repair_step requestId binding allowed L found L')
  then show ?case by (rule productChoiceForRequest_kept)
qed (auto dest: recordProductChoice_kept markConsumed_kept(1))

lemma ledger_step_fresh: "ledger_step E L (Some e) L' \<Longrightarrow> \<not> eventMarked E L e \<and> eventMarked E L' e"
  by (erule ledger_step.cases) (auto simp: eventMarked_def dest: recordProductChoice_fresh markConsumed_kept(2,3))

lemma eventMarked_kept: "eventMarked E L e \<Longrightarrow> ledgerKept L L' \<Longrightarrow> eventMarked E L' e"
  by (auto simp: eventMarked_def ledgerKept_def map_le_def dom_def split: ledger_event.splits)

lemma ledger_run_kept: "ledger_run E L events L' \<Longrightarrow> ledgerKept L L'"
  by (induction rule: ledger_run.induct) (auto intro: ledgerKept_trans dest: ledger_step_kept)

text \<open>The file that stands for an event: the marker of a consumed decision, the reservation of a request.\<close>

definition eventFile :: "js_env \<Rightarrow> ledger_event \<Rightarrow> string + string" where
  "eventFile E e = (case e of Consumed i \<Rightarrow> Inl (consumedFile i) | Reserved r \<Rightarrow> Inr (requestFile E r))"

lemma eventMarked_file: "eventFile E e = eventFile E e' \<Longrightarrow> eventMarked E L e \<longleftrightarrow> eventMarked E L e'"
  by (auto simp: eventFile_def eventMarked_def split: ledger_event.splits)

lemma ledger_run_marked:
  "ledger_run E L events L' \<Longrightarrow> distinct (map (eventFile E) events) \<and> (\<forall>e \<in> set events. eventMarked E L' e \<and> \<not> eventMarked E L e)"
proof (induction rule: ledger_run.induct)
  case (run_silent L events L' L'')
  then show ?case by (blast intro: eventMarked_kept dest: ledger_step_kept)
next
  case (run_event L events L' e L'')
  note fresh = ledger_step_fresh [OF run_event.hyps(2)] and kept = ledger_step_kept [OF run_event.hyps(2)]
  have "eventFile E e \<notin> eventFile E ` set events"
  proof
    assume "eventFile E e \<in> eventFile E ` set events"
    then obtain e' where "e' \<in> set events" "eventFile E e = eventFile E e'" by blast
    with run_event.IH fresh eventMarked_file [of E e e' L'] show False by blast
  qed
  moreover have "\<not> eventMarked E L e"
    using fresh eventMarked_kept [OF _ ledger_run_kept [OF run_event.hyps(1)]] by blast
  ultimately show ?case
    using run_event.IH fresh eventMarked_kept [OF _ kept] by auto
qed simp


subsection \<open>Consumption is recognized again\<close>

text \<open>Every readable decision lies in the file that its identifier names.\<close>

definition filedByName :: "js_env \<Rightarrow> human_ledger \<Rightarrow> bool" where
  "filedByName E L \<longleftrightarrow> (\<forall>(name, content) \<in> set (hl_files L). name \<in> set (decisionNames L) \<longrightarrow>
     (case readDecision E content of Inl _ \<Rightarrow> True | Inr d \<Rightarrow>
        (case js_get d ''decisionId'' of JStr i \<Rightarrow> decisionFile (JStr i) = name | _ \<Rightarrow> False)))"

lemma filterResults_Inr: "filterResults f xs = Inr ys \<Longrightarrow> y \<in> set ys \<Longrightarrow> y \<in> set xs \<and> f y = Inr True"
  by (induction xs arbitrary: ys) (auto split: if_splits)

lemma listDecisions_member:
  assumes "listDecisions E L = Inr ds" "d \<in> set ds"
  obtains name content where "name \<in> set (decisionNames L)" "map_of (hl_files L) name = Some content" "readDecision E content = Inr d"
proof -
  from assms have "d \<in> set (concat (map (\<lambda>name. case map_of (hl_files L) name of
         Some content \<Rightarrow> (case readDecision E content of Inr d \<Rightarrow> [d] | Inl _ \<Rightarrow> []) | None \<Rightarrow> []) (decisionNames L)))"
    by (simp add: listDecisions_def)
  then show thesis using that by (auto split: option.splits sum.splits dest: sym)
qed

lemma onlyAvailable_Inr: "onlyAvailable E at exact available = Inr d \<longleftrightarrow> available = [d]"
  by (auto simp: onlyAvailable_def split: list.splits)

lemma readDecision_valid: "readDecision E content = Inr d \<Longrightarrow> content = Some d \<and> assertDecisionV2 E d = Inr ()"
  by (auto simp: readDecision_def split: option.splits)

lemma filter_singletonD: "filter P xs = [x] \<Longrightarrow> x \<in> set xs \<and> P x"
  by (induction xs) (auto split: if_splits)

lemma selectDecision_sound:
  assumes "selectDecision E binding purposeInput actorIdInput at delegationIdInput L = Inr (d, purpose)"
  shows "assertBinding E binding = Inr ()" "normalizePurpose purposeInput = Inr purpose"
    and "\<exists>ds. listDecisions E L = Inr ds \<and> d \<in> set ds"
    and "sameBinding E d binding" "sameContent (js_get d ''purpose'') purpose = Inr True"
    and "actorIdInput = Some a \<Longrightarrow> needText (JStr a) ''actorId'' = Inr (js_trim a) \<and> js_get d ''actorId'' = JStr (js_trim a)"
    and "decisionUnexpired E at d" "\<not> isConsumed L (js_get d ''decisionId'')"
proof -
  from assms obtain actorId delegationId ds exact where
    checked: "assertBinding E binding = Inr ()" "optionalText actorIdInput ''actorId'' = Inr actorId" "normalizePurpose purposeInput = Inr purpose"
    "listDecisions E L = Inr ds" and exact: "filterResults (matchesConsumer E binding purpose actorId delegationId) ds = Inr exact"
    and d: "filter (\<lambda>d. decisionUnexpired E at d \<and> \<not> isConsumed L (js_get d ''decisionId'')) exact = [d]"
    by (auto simp: selectDecision_def onlyAvailable_Inr)
  note picked = filter_singletonD [OF d]
  then have "d \<in> set exact" "decisionUnexpired E at d" "\<not> isConsumed L (js_get d ''decisionId'')" by blast+
  with filterResults_Inr [OF exact] have "d \<in> set ds" "matchesConsumer E binding purpose actorId delegationId d = Inr True"
    by blast+
  with checked show "assertBinding E binding = Inr ()" "normalizePurpose purposeInput = Inr purpose"
    "\<exists>ds. listDecisions E L = Inr ds \<and> d \<in> set ds" "sameBinding E d binding" "sameContent (js_get d ''purpose'') purpose = Inr True"
    "actorIdInput = Some a \<Longrightarrow> needText (JStr a) ''actorId'' = Inr (js_trim a) \<and> js_get d ''actorId'' = JStr (js_trim a)"
    "decisionUnexpired E at d" "\<not> isConsumed L (js_get d ''decisionId'')"
    using \<open>decisionUnexpired E at d\<close> \<open>\<not> isConsumed L (js_get d ''decisionId'')\<close>
    by (auto simp: matchesConsumer_def optionalText_def needText_def split: if_splits option.splits)
qed

lemma trim_id: "list_all (\<lambda>c. \<not> js_white c) s \<Longrightarrow> js_trim s = s"
proof -
  assume nonwhite: "list_all (\<lambda>c. \<not> js_white c) s"
  then have "dropWhile js_white xs = xs" if "set xs \<subseteq> set s" for xs
    using that by (cases xs) (auto simp: list_all_iff)
  then show ?thesis by (simp add: js_trim_def)
qed

lemma lower_white: "js_white c \<Longrightarrow> lower_char c = c"
  by (auto simp: js_white_def lower_char_def)

lemma hex_not_white: "hex_char c \<Longrightarrow> \<not> js_white c"
  by (auto simp: hex_char_def js_white_def less_eq_char_def)

lemma prefixedUuid_chars:
  assumes "prefixedUuid p s" "c \<in> set (js_lower s)"
  shows "c \<in> set p \<or> hex_char c \<or> c = CHR ''-''"
proof -
  have "js_lower s = p @ drop (length p) (js_lower s)"
    using assms(1) by (metis append_take_drop_id prefixedUuid_def starts_with_def)
  with assms(2) have "c \<in> set p \<or> c \<in> set (drop (length p) (js_lower s))" by (metis Un_iff set_append)
  with assms(1) show ?thesis by (auto simp: prefixedUuid_def Let_def list_all_iff)
qed

lemma decisionId_trimmed: "prefixedUuid ''decision:'' i \<Longrightarrow> js_trim i = i"
proof (rule trim_id, unfold list_all_iff, intro ballI notI)
  fix c assume u: "prefixedUuid ''decision:'' i" and c: "c \<in> set i" "js_white c"
  then have "c \<in> set (js_lower i)" using lower_white [of c] by (force simp: js_lower_def)
  from prefixedUuid_chars [OF u this] c(2) hex_not_white show False by (auto simp: js_white_def)
qed

lemma assertDecisionV2_id:
  assumes "assertDecisionV2 E d = Inr ()" "js_get d ''decisionId'' = JStr i"
  shows "prefixedUuid ''decision:'' i"
  using assms by (auto simp: assertDecisionV2_def Let_def rejectWhen_def split: if_splits)

lemma consumed_not_decision: "consumedFile i \<noteq> decisionFile i"
  by (simp add: consumedFile_def decisionFile_def)

lemma findDecision_filed:
  assumes "assertDecisionV2 E d = Inr ()" "js_get d ''decisionId'' = JStr i" "\<not> hl_legacy L"
    and "map_of (hl_files L) (decisionFile (JStr i)) = Some (Some d)"
  shows "findDecision E i L = Inr (Some d)"
proof -
  note u = assertDecisionV2_id [OF assms(1,2)]
  then have "i \<noteq> []" by (auto simp: prefixedUuid_def starts_with_def js_lower_def)
  with u decisionId_trimmed [OF u] assms show ?thesis
    by (simp add: findDecision_def needText_def rejectWhen_def ensureDirectory_def readDecision_def andThen_def)
qed

lemma exactDecision_found:
  assumes "assertBinding E binding = Inr ()" "normalizePurpose purposeInput = Inr purpose" "needText (JStr actor) ''actorId'' = Inr a"
    and "findDecision E i L = Inr (Some d)" "sameBinding E d binding" "js_get d ''actorId'' = JStr a"
    and "sameContent (js_get d ''purpose'') purpose = Inr True"
  shows "exactDecision E binding purposeInput i actor L = Inr (Some (d, purpose))"
  using assms by (simp add: exactDecision_def andThen_def)

lemma listed_filed:
  assumes "listDecisions E L = Inr ds" "d \<in> set ds" "filedByName E L"
  obtains i where "js_get d ''decisionId'' = JStr i" "assertDecisionV2 E d = Inr ()" "\<not> hl_legacy L"
    "map_of (hl_files L) (decisionFile (JStr i)) = Some (Some d)"
proof -
  from assms(1,2) obtain name content where r: "name \<in> set (decisionNames L)" "map_of (hl_files L) name = Some content"
    "readDecision E content = Inr d" by (rule listDecisions_member)
  from assms(3) [unfolded filedByName_def] map_of_SomeD [OF r(2)] r(1)
  have "case readDecision E content of Inl _ \<Rightarrow> True | Inr d \<Rightarrow>
      (case js_get d ''decisionId'' of JStr i \<Rightarrow> decisionFile (JStr i) = name | _ \<Rightarrow> False)"
    by blast
  then obtain i where "js_get d ''decisionId'' = JStr i" "decisionFile (JStr i) = name"
    by (auto simp: r(3) split: js.splits)
  moreover have "\<not> hl_legacy L"
    using assms(1) by (auto simp: listDecisions_def ensureDirectory_def rejectWhen_def split: if_splits)
  ultimately show thesis
    using that r(2) readDecision_valid [OF r(3)] by simp
qed

lemma markConsumed_receipt:
  assumes "markConsumed E binding purpose d at L = Inr L'"
  obtains digest where
    "sha256Canonical E (JObj [(''binding'', binding), (''purpose'', purpose), (''actorId'', js_get d ''actorId'')]) = Inr digest"
    "hl_files L' = AList.update (consumedFile (js_get d ''decisionId'')) (Some (jsonValue (JObj [(''version'', jint 1),
       (''decisionId'', js_get d ''decisionId''), (''consumedAt'', JStr (to_iso E at)), (''consumerDigest'', JStr digest)]))) (hl_files L)"
    "hl_legacy L' = hl_legacy L"
  using assms by (auto simp: markConsumed_def consumptionReceipt_def map_sum_Inr split: if_splits)


subsection \<open>A pause request that is recorded and consumed\<close>

definition samplePause :: js where
  "samplePause = JObj [(''operationId'', JStr ''op''), (''candidate'', sample_candidate), (''operationExecutionRevision'', jint 1),
     (''policyDigest'', JStr (replicate 64 (CHR ''a''))), (''controllerEpoch'', jint 0),
     (''purpose'', JObj [(''kind'', JStr ''OPERATION_CONTROL''), (''command'', JStr ''PAUSE'')]), (''kind'', JStr ''PAUSE''),
     (''actorId'', JStr ''human:owner''), (''reason'', JStr ''wait'')]"

definition emptyLedger :: human_ledger where
  "emptyLedger = \<lparr>hl_legacy = False, hl_files = [], hl_requests = []\<rparr>"

definition sampleLedger :: human_ledger where
  "sampleLedger = snd (projr (recordDecision sample_env (replicate 36 (CHR ''0'')) 0 samplePause emptyLedger))"

definition sampleConsumption :: "decision_error + js \<times> human_ledger" where
  "sampleConsumption = consumeDecision sample_env samplePause (js_get samplePause ''purpose'') (Some ''human:owner'') 0 None sampleLedger"

lemma sampleLedger_filed: "filedByName sample_env sampleLedger"
  by code_simp

lemma sampleConsumption_ok: "\<not> isl sampleConsumption"
  by code_simp

lemma sampleConsumption_Inr: "\<exists>d L. sampleConsumption = Inr (d, L)"
  using sum.collapse(2) [OF sampleConsumption_ok] by (metis surj_pair)

lemma sampleLedger_records: "\<not> isl (recordDecision sample_env (replicate 36 (CHR ''0'')) 0 samplePause emptyLedger)"
  by code_simp

lemma sample_run:
  "\<exists>d L. sampleConsumption = Inr (d, L) \<and> ledger_run sample_env emptyLedger [Consumed (js_get d ''decisionId'')] L"
proof -
  obtain d0 where "recordDecision sample_env (replicate 36 (CHR ''0'')) 0 samplePause emptyLedger = Inr (d0, sampleLedger)"
    using sampleLedger_records by (cases "recordDecision sample_env (replicate 36 (CHR ''0'')) 0 samplePause emptyLedger") (auto simp: sampleLedger_def)
  then have recorded: "ledger_run sample_env emptyLedger [] sampleLedger"
    by (blast intro: run_done run_silent record_step)
  obtain d L where c: "sampleConsumption = Inr (d, L)"
    using sampleConsumption_Inr by blast
  then obtain normalized where
    "selectDecision sample_env samplePause (js_get samplePause ''purpose'') (Some ''human:owner'') 0 None sampleLedger = Inr (d, normalized)"
    "markConsumed sample_env samplePause normalized d 0 sampleLedger = Inr L"
    by (auto simp: sampleConsumption_def consumeDecision_def)
  then have "ledger_step sample_env sampleLedger (Some (Consumed (js_get d ''decisionId''))) L"
    by (rule consume_step)
  from run_event [OF recorded this] c show ?thesis by auto
qed



end
