(* ===== verification/Permissions.thy ===== *)
theory Permissions
  imports Digest
begin

text \<open>
  The permissions of a selected agent (\<open>src/src/agents/permissions.ts\<close>): the check of a selection against its role, and
  the projection of its permissions into the configuration of the OpenCode runtime. Selections are typed values, so they
  are records; the projected configuration is a run-time value. Paths are POSIX paths.
\<close>

datatype PermissionDecision = Allow | Ask | Deny

definition decisionText :: "PermissionDecision \<Rightarrow> string" where
  "decisionText d = (case d of Allow \<Rightarrow> ''allow'' | Ask \<Rightarrow> ''ask'' | Deny \<Rightarrow> ''deny'')"

type_synonym AgentPermissions = "(string \<times> PermissionDecision) list"

record AgentExecutionSelection =
  ae_logicalAgent :: string
  ae_role :: string
  ae_runtimeName :: string
  ae_runtimeAdapter :: string
  ae_paseoProvider :: string
  ae_variant :: "string option"
  ae_nativeAgent :: "string option"
  ae_skills :: "string list"
  ae_mcps :: "string list"
  ae_permissions :: AgentPermissions
  ae_args :: "string list"
  ae_runtimeCapabilities :: "(string \<times> bool) list"

definition truthyText :: "string option \<Rightarrow> bool" where
  "truthyText t = (case t of Some s \<Rightarrow> s \<noteq> [] | None \<Rightarrow> False)"

abbreviation permissionOf :: "AgentExecutionSelection \<Rightarrow> string \<Rightarrow> PermissionDecision option" where
  "permissionOf s k \<equiv> map_of (ae_permissions s) k"

abbreviation capabilityOf :: "AgentExecutionSelection \<Rightarrow> string \<Rightarrow> bool option" where
  "capabilityOf s k \<equiv> map_of (ae_runtimeCapabilities s) k"

subsection \<open>The check of a selection\<close>

definition issueIf :: "bool \<Rightarrow> string \<Rightarrow> string list" where
  "issueIf b message = (if b then [message] else [])"

definition assessorDenied :: "string list" where
  "assessorDenied = [''read'', ''write'', ''shell'', ''network'', ''delegate'', ''review'', ''validate'', ''gitWrite'']"

definition nativeAgentIssues :: "AgentExecutionSelection \<Rightarrow> string \<Rightarrow> string list" where
  "nativeAgentIssues s transport =
     (let nativeAgent = (case ae_nativeAgent s of Some n \<Rightarrow> n | None \<Rightarrow> []);
          viaPaseo = (capabilityOf s ''nativeAgentViaPaseo'' = Some True \<or> (ae_runtimeAdapter s = ''opencode'' \<and> ae_paseoProvider s = ''opencode'')) in
      issueIf (truthyText (ae_nativeAgent s) \<and> capabilityOf s ''nativeAgent'' = Some False)
        (''Runtime '' @ ae_runtimeName s @ '' cannot select native agent '' @ nativeAgent @ ''.'')
      @ issueIf (truthyText (ae_nativeAgent s) \<and> transport = ''paseo'' \<and> \<not> viaPaseo)
        (''Agent '' @ ae_logicalAgent s @ '' requires nativeAgent='' @ nativeAgent @ '', but runtime '' @ ae_runtimeName s
          @ '' does not support that native agent through Paseo.'')
      @ issueIf (truthyText (ae_variant s) \<and> capabilityOf s ''variantSelection'' = Some False)
        (''Runtime '' @ ae_runtimeName s @ '' cannot select variant '' @ (case ae_variant s of Some v \<Rightarrow> v | None \<Rightarrow> []) @ ''.''))"

definition roleIssues :: "AgentExecutionSelection \<Rightarrow> string list" where
  "roleIssues s =
     issueIf (ae_role s = ''Implementer'' \<and> permissionOf s ''write'' = Some Deny) (''Implementer '' @ ae_logicalAgent s @ '' denies write permission.'')
     @ issueIf (ae_role s = ''Reviewer'' \<and> permissionOf s ''write'' = Some Allow)
       (ae_role s @ '' '' @ ae_logicalAgent s @ '' explicitly allows writes; read-only roles should use write=deny unless intentionally mutating.'')
     @ issueIf (ae_role s = ''Operation Supervisor'' \<and> permissionOf s ''write'' = Some Allow)
       (ae_role s @ '' '' @ ae_logicalAgent s @ '' explicitly allows writes; supervision-only roles should use write=deny unless intentionally mutating.'')
     @ issueIf (ae_role s = ''Operation Supervisor'' \<and> permissionOf s ''shell'' = Some Allow)
       (ae_role s @ '' '' @ ae_logicalAgent s
         @ '' explicitly allows shell; shell authority exceeds the supervision-only ceiling (canExecute:false, command-execute forbidden).'')"

definition assessorIssues :: "AgentExecutionSelection \<Rightarrow> string \<Rightarrow> string list" where
  "assessorIssues s transport =
     (let opened = filter (\<lambda>k. permissionOf s k \<noteq> Some Deny) assessorDenied; agent = ''Semantic Assessor '' @ ae_logicalAgent s in
      issueIf (opened \<noteq> []) (agent @ '' must explicitly deny '' @ js_join '', '' opened @ ''.'')
      @ issueIf (transport \<noteq> ''paseo'' \<or> ae_runtimeAdapter s \<noteq> ''codex'' \<or> ae_paseoProvider s \<noteq> ''codex'')
        (agent @ '' requires the AEH-managed Codex runtime through Paseo (Luna via Codex).'')
      @ issueIf (capabilityOf s ''runtimeConfigInjection'' \<noteq> Some True \<or> capabilityOf s ''structuredOutput'' \<noteq> Some True
          \<or> capabilityOf s ''modelSelection'' \<noteq> Some True)
        (agent @ '' runtime must support AEH permission projection, topology model selection, and structured output.'')
      @ issueIf (truthyText (ae_nativeAgent s) \<or> ae_skills s \<noteq> [] \<or> ae_mcps s \<noteq> [] \<or> ae_args s \<noteq> [])
        (agent @ '' cannot select native agents, skills, MCP servers, or runtime arguments.''))"

definition validateExecutionCapabilities :: "AgentExecutionSelection \<Rightarrow> string \<Rightarrow> string list" where
  "validateExecutionCapabilities s transport =
     nativeAgentIssues s transport @ roleIssues s
     @ (if ae_role s = ''Semantic Assessor'' then assessorIssues s transport else [])
     @ issueIf ((ae_role s = ''Lead/Director'' \<or> ae_role s = ''Operation Supervisor'') \<and> permissionOf s ''delegate'' = Some Deny)
         (ae_role s @ '' '' @ ae_logicalAgent s @ '' denies delegation.'')"

definition permissionSummary :: "AgentExecutionSelection \<Rightarrow> string" where
  "permissionSummary s =
     (let text = js_join '', '' (map (\<lambda>(k, v). k @ ''='' @ decisionText v) (ae_permissions s)) in if text = [] then ''unspecified'' else text)"

subsection \<open>The native agent identity\<close>

definition agentChar :: "char \<Rightarrow> bool" where
  "agentChar c \<longleftrightarrow> (CHR ''a'' \<le> c \<and> c \<le> CHR ''z'') \<or> (CHR ''0'' \<le> c \<and> c \<le> CHR ''9'') \<or> c \<in> set ''._-''"

text \<open>\<open>replace(/[^a-z0-9._-]+/g, "-")\<close>.\<close>

fun replaceRuns :: "bool \<Rightarrow> string \<Rightarrow> string" where
  "replaceRuns inRun [] = []"
| "replaceRuns inRun (c # cs) =
     (if agentChar c then c # replaceRuns False cs else if inRun then replaceRuns True cs else CHR ''-'' # replaceRuns True cs)"

definition stripDashes :: "string \<Rightarrow> string" where
  "stripDashes s = rev (dropWhile (\<lambda>c. c = CHR ''-'') (rev (dropWhile (\<lambda>c. c = CHR ''-'') s)))"

definition managedOpenCodeAgentId :: "js_env \<Rightarrow> string \<Rightarrow> string option" where
  "managedOpenCodeAgentId E logicalAgent =
     (let original = js_trim logicalAgent;
          stripped = stripDashes (replaceRuns False (js_lower original));
          slug = (if stripped = [] then ''agent'' else stripped)
      in if original = [] then None
         else if slug = js_lower original then Some (''aeh-'' @ slug)
         else Some (''aeh-'' @ slug @ ''-'' @ take 8 (sha256Utf8 E original)))"

record OpenCodeAgentBinding =
  ob_agentId :: string
  ob_source :: string
  ob_managed :: bool

text \<open>\<open>None\<close> where the code throws because the logical agent has no name.\<close>

definition resolveOpenCodeAgentBinding :: "js_env \<Rightarrow> AgentExecutionSelection \<Rightarrow> OpenCodeAgentBinding option" where
  "resolveOpenCodeAgentBinding E s =
     (let explicit = (case ae_nativeAgent s of Some n \<Rightarrow> js_trim n | None \<Rightarrow> []) in
      if explicit \<noteq> [] then Some \<lparr>ob_agentId = explicit, ob_source = ''explicit'', ob_managed = False\<rparr>
      else map_option (\<lambda>i. \<lparr>ob_agentId = i, ob_source = ''aeh-managed'', ob_managed = True\<rparr>) (managedOpenCodeAgentId E (ae_logicalAgent s)))"

subsection \<open>The permission projection\<close>

definition gitPatterns :: "string list" where
  "gitPatterns = [''git add *'', ''git commit *'', ''git push *'', ''git tag *'', ''git checkout *'', ''git switch *'', ''git reset *'',
     ''git clean *'', ''git restore *'', ''git merge *'', ''git rebase *'', ''git cherry-pick *'']"

definition decisionValue :: "PermissionDecision \<Rightarrow> js" where
  "decisionValue d = JStr (decisionText d)"

definition buildBashPermission :: "PermissionDecision option \<Rightarrow> PermissionDecision option \<Rightarrow> js option" where
  "buildBashPermission shell gitWrite =
     (case gitWrite of
        None \<Rightarrow> map_option decisionValue shell
      | Some g \<Rightarrow> Some (JObj (fold (\<lambda>pattern. AList.update pattern (decisionValue g)) gitPatterns
          [(''*'', decisionValue (case shell of Some d \<Rightarrow> d | None \<Rightarrow> Ask))])))"

text \<open>\<open>path.resolve\<close> of an absolute path: empty and \<open>.\<close> segments go, \<open>..\<close> drops the segment before it.\<close>

fun pathSegments :: "string list \<Rightarrow> string list \<Rightarrow> string list" where
  "pathSegments stack [] = rev stack"
| "pathSegments stack (seg # segs) =
     pathSegments (if seg = [] \<or> seg = ''.'' then stack else if seg = ''..'' then drop 1 stack else seg # stack) segs"

definition resolvePath :: "string \<Rightarrow> string" where
  "resolvePath p = ''/'' @ js_join ''/'' (pathSegments [] (js_split CHR ''/'' p))"

definition authorizedExternalRoots :: "AgentExecutionSelection \<Rightarrow> string list \<Rightarrow> string list" where
  "authorizedExternalRoots s authorizedRoots =
     (if ae_role s = ''Semantic Assessor'' then []
      else if permissionOf s ''read'' = Some Deny \<and> permissionOf s ''write'' = Some Deny \<and> permissionOf s ''shell'' = Some Deny then []
      else sort (js_uniq (filter (\<lambda>r. r \<noteq> ''/'') (map resolvePath (filter (starts_with ''/'') authorizedRoots)))))"

definition project :: "AgentExecutionSelection \<Rightarrow> string \<Rightarrow> string list \<Rightarrow> js_entries \<Rightarrow> js_entries" where
  "project s k targets permission = (case permissionOf s k of
       Some d \<Rightarrow> fold (\<lambda>t. AList.update t (decisionValue d)) targets permission
     | None \<Rightarrow> permission)"

definition buildOpenCodePermission :: "AgentExecutionSelection \<Rightarrow> string list \<Rightarrow> js_entries" where
  "buildOpenCodePermission s authorizedRoots =
     (let assessor = (ae_role s = ''Semantic Assessor'');
          base = (if assessor then [(''*'', JStr ''deny''), (''StructuredOutput'', JStr ''allow'')] else []);
          decided = project s ''delegate'' [''task''] (project s ''network'' [''webfetch'', ''websearch''] (project s ''write'' [''edit'']
            (project s ''read'' [''read''] base)));
          withBash = (case buildBashPermission (permissionOf s ''shell'') (permissionOf s ''gitWrite'') of
            Some b \<Rightarrow> AList.update ''bash'' b decided | None \<Rightarrow> decided);
          withSkills = (if ae_skills s \<noteq> [] \<and> ''*'' \<notin> set (ae_skills s)
            then AList.update ''skill'' (JObj (fold (\<lambda>skill. AList.update skill (JStr ''allow'')) (ae_skills s) [(''*'', JStr ''deny'')])) withBash
            else withBash);
          closed = (if assessor then AList.update ''skill'' (JStr ''deny'') withSkills else withSkills);
          roots = authorizedExternalRoots s authorizedRoots
      in if roots = [] then closed
         else AList.update ''external_directory'' (JObj (fold (\<lambda>root. AList.update (root @ ''/**'') (JStr ''allow'')
           \<circ> AList.update (root @ ''/*'') (JStr ''allow'') \<circ> AList.update root (JStr ''allow'')) roots [])) closed)"

definition toOpenCodeMcp :: "js \<Rightarrow> js_entries" where
  "toOpenCodeMcp server =
     (let timeout = (if js_truthy (js_get server ''timeoutMs'') then [(''timeout'', js_get server ''timeoutMs'')] else []);
          opt = (\<lambda>k. if js_truthy (js_get server k) then [(k, js_get server k)] else []) in
      if js_get server ''type'' = JStr ''local''
      then [(''type'', JStr ''local''), (''command'', js_get server ''command''), (''enabled'', JBool True)] @ opt ''environment'' @ timeout
      else [(''type'', JStr ''remote''), (''url'', js_get server ''url''), (''enabled'', JBool True)] @ opt ''headers''
        @ (if js_get server ''oauth'' = JUndefined then [] else [(''oauth'', js_get server ''oauth'')]) @ timeout)"

subsection \<open>What the projection grants\<close>

text \<open>A permission value that grants nothing: \<open>deny\<close>, or a table of patterns that are all \<open>deny\<close>.\<close>

definition closedValue :: "js \<Rightarrow> bool" where
  "closedValue v \<longleftrightarrow> v = JStr ''deny'' \<or> (case v of JObj kvs \<Rightarrow> \<forall>(k, w) \<in> set kvs. w = JStr ''deny'' | _ \<Rightarrow> False)"

lemma issueIf_Nil [simp]: "issueIf b message = [] \<longleftrightarrow> \<not> b"
  by (simp add: issueIf_def)

lemma decisionValue_Deny [simp]: "decisionValue Deny = JStr ''deny''"
  by (simp add: decisionValue_def decisionText_def)

text \<open>A selection of the Semantic Assessor that passes the check denies every permission and names no skills.\<close>

lemma validated_assessor:
  assumes "validateExecutionCapabilities s transport = []" "ae_role s = ''Semantic Assessor''"
  shows "k \<in> set assessorDenied \<Longrightarrow> permissionOf s k = Some Deny"
    and "ae_skills s = []" and "ae_mcps s = []" and "\<not> truthyText (ae_nativeAgent s)"
  using assms by (auto simp: validateExecutionCapabilities_def assessorIssues_def Let_def filter_empty_conv)

definition closedBash :: js where
  "closedBash = JObj ((''*'', JStr ''deny'') # map (\<lambda>pattern. (pattern, JStr ''deny'')) gitPatterns)"

lemma bash_denied: "buildBashPermission (Some Deny) (Some Deny) = Some closedBash"
  by (simp add: buildBashPermission_def closedBash_def gitPatterns_def)

lemma closedBash_closed: "closedValue closedBash"
  by (auto simp: closedBash_def closedValue_def)

lemma validated_assessor_projection:
  assumes "validateExecutionCapabilities s transport = []" "ae_role s = ''Semantic Assessor''"
  shows "buildOpenCodePermission s roots =
    [(''*'', JStr ''deny''), (''StructuredOutput'', JStr ''allow''), (''read'', JStr ''deny''), (''edit'', JStr ''deny''),
     (''webfetch'', JStr ''deny''), (''websearch'', JStr ''deny''), (''task'', JStr ''deny''), (''bash'', closedBash), (''skill'', JStr ''deny'')]"
proof -
  note denied = validated_assessor(1) [OF assms, unfolded assessorDenied_def]
  have "permissionOf s ''read'' = Some Deny" "permissionOf s ''write'' = Some Deny" "permissionOf s ''network'' = Some Deny"
    "permissionOf s ''delegate'' = Some Deny" "permissionOf s ''shell'' = Some Deny" "permissionOf s ''gitWrite'' = Some Deny"
    by (rule denied; simp)+
  then show ?thesis
    using validated_assessor(2) [OF assms] assms(2)
    by (simp add: buildOpenCodePermission_def project_def bash_denied authorizedExternalRoots_def)
qed

text \<open>
  C19: a selection of the Semantic Assessor that passes the capability check is projected into a configuration in which
  the injected structured-output tool is the only thing allowed: the wildcard is denied, every other entry denies (the
  shell table in every pattern), and no external directory is opened whatever roots the launch authorizes.
\<close>
theorem assessor_projection_closed:
  assumes "validateExecutionCapabilities s transport = []" "ae_role s = ''Semantic Assessor''"
  shows "(\<forall>(k, v) \<in> set (buildOpenCodePermission s roots). k \<noteq> ''StructuredOutput'' \<longrightarrow> closedValue v)
    \<and> map_of (buildOpenCodePermission s roots) ''*'' = Some (JStr ''deny'')
    \<and> map_of (buildOpenCodePermission s roots) ''external_directory'' = None"
  by (simp add: validated_assessor_projection [OF assms] closedBash_closed) (simp add: closedValue_def)

definition sampleAssessor :: AgentExecutionSelection where
  "sampleAssessor = \<lparr>ae_logicalAgent = ''assessor'', ae_role = ''Semantic Assessor'', ae_runtimeName = ''codex'', ae_runtimeAdapter = ''codex'',
     ae_paseoProvider = ''codex'', ae_variant = None, ae_nativeAgent = None, ae_skills = [], ae_mcps = [],
     ae_permissions = map (\<lambda>k. (k, Deny)) assessorDenied, ae_args = [],
     ae_runtimeCapabilities = [(''runtimeConfigInjection'', True), (''structuredOutput'', True), (''modelSelection'', True)]\<rparr>"

lemma sampleAssessor_valid: "validateExecutionCapabilities sampleAssessor ''paseo'' = []"
  by code_simp

theorem assessor_projection_closed_witness:
  "validateExecutionCapabilities sampleAssessor ''paseo'' = []
    \<and> map_of (buildOpenCodePermission sampleAssessor [''/work'']) ''*'' = Some (JStr ''deny'')
    \<and> map_of (buildOpenCodePermission sampleAssessor [''/work'']) ''external_directory'' = None"
proof -
  have "ae_role sampleAssessor = ''Semantic Assessor''"
    by (simp add: sampleAssessor_def)
  from assessor_projection_closed [OF sampleAssessor_valid this, of "[''/work'']"] show ?thesis
    using sampleAssessor_valid by blast
qed

text \<open>Lookup in the projection: each entry is decided by one permission of the selection.\<close>

lemma map_of_project:
  "map_of (project s p targets kvs) k =
     (if k \<in> set targets \<and> permissionOf s p \<noteq> None then map_option decisionValue (permissionOf s p) else map_of kvs k)"
proof (cases "permissionOf s p")
  case (Some d)
  have "map_of (fold (\<lambda>t. AList.update t (decisionValue d)) ts kvs) k = (if k \<in> set ts then Some (decisionValue d) else map_of kvs k)" for ts
    by (induction ts arbitrary: kvs) (auto simp: update_conv')
  with Some show ?thesis
    by (simp add: project_def)
qed (simp add: project_def)

lemma authorizedExternalRoots_empty:
  "authorizedExternalRoots s roots = [] \<longleftrightarrow>
     \<not> (ae_role s \<noteq> ''Semantic Assessor''
        \<and> \<not> (permissionOf s ''read'' = Some Deny \<and> permissionOf s ''write'' = Some Deny \<and> permissionOf s ''shell'' = Some Deny)
        \<and> (\<exists>r \<in> set roots. starts_with ''/'' r \<and> resolvePath r \<noteq> ''/''))"
proof -
  have "sort xs = [] \<longleftrightarrow> xs = []" for xs :: "string list"
    by (metis set_empty set_sort)
  then show ?thesis
    by (simp add: authorizedExternalRoots_def filter_empty_conv) blast
qed

lemmas projection_lookup = buildOpenCodePermission_def Let_def update_conv' map_of_project

lemma projection_entries:
  "map_of (buildOpenCodePermission s roots) ''read'' = map_option decisionValue (permissionOf s ''read'')"
  "map_of (buildOpenCodePermission s roots) ''edit'' = map_option decisionValue (permissionOf s ''write'')"
  "map_of (buildOpenCodePermission s roots) ''webfetch'' = map_option decisionValue (permissionOf s ''network'')"
  "map_of (buildOpenCodePermission s roots) ''websearch'' = map_option decisionValue (permissionOf s ''network'')"
  "map_of (buildOpenCodePermission s roots) ''task'' = map_option decisionValue (permissionOf s ''delegate'')"
  "map_of (buildOpenCodePermission s roots) ''bash'' = buildBashPermission (permissionOf s ''shell'') (permissionOf s ''gitWrite'')"
  by (simp_all add: projection_lookup split: option.split)

lemma projection_external:
  "map_of (buildOpenCodePermission s roots) ''external_directory'' \<noteq> None \<longleftrightarrow>
     ae_role s \<noteq> ''Semantic Assessor''
     \<and> \<not> (permissionOf s ''read'' = Some Deny \<and> permissionOf s ''write'' = Some Deny \<and> permissionOf s ''shell'' = Some Deny)
     \<and> (\<exists>r \<in> set roots. starts_with ''/'' r \<and> resolvePath r \<noteq> ''/'')"
proof -
  have "map_of (buildOpenCodePermission s roots) ''external_directory'' \<noteq> None \<longleftrightarrow> authorizedExternalRoots s roots \<noteq> []"
    by (simp add: projection_lookup split: option.split)
  then show ?thesis
    by (simp only: authorizedExternalRoots_empty not_not)
qed

text \<open>
  The projection says what the selection decided, for every role: reading, editing, fetching and delegating carry the
  decision of the selection when it has one (and the entry is absent when it has none), and an external directory is
  opened exactly when an authorized root remains, which needs a role other than the assessor with some undenied access.
\<close>
theorem projection_decides:
  "map_of (buildOpenCodePermission s roots) ''read'' = map_option decisionValue (permissionOf s ''read'')
    \<and> map_of (buildOpenCodePermission s roots) ''edit'' = map_option decisionValue (permissionOf s ''write'')
    \<and> map_of (buildOpenCodePermission s roots) ''webfetch'' = map_option decisionValue (permissionOf s ''network'')
    \<and> map_of (buildOpenCodePermission s roots) ''websearch'' = map_option decisionValue (permissionOf s ''network'')
    \<and> map_of (buildOpenCodePermission s roots) ''task'' = map_option decisionValue (permissionOf s ''delegate'')
    \<and> map_of (buildOpenCodePermission s roots) ''bash'' = buildBashPermission (permissionOf s ''shell'') (permissionOf s ''gitWrite'')
    \<and> (map_of (buildOpenCodePermission s roots) ''external_directory'' \<noteq> None \<longleftrightarrow>
        ae_role s \<noteq> ''Semantic Assessor''
        \<and> \<not> (permissionOf s ''read'' = Some Deny \<and> permissionOf s ''write'' = Some Deny \<and> permissionOf s ''shell'' = Some Deny)
        \<and> (\<exists>r \<in> set roots. starts_with ''/'' r \<and> resolvePath r \<noteq> ''/''))"
  by (intro conjI projection_entries projection_external)

text \<open>The names that are already slugs once trimmed and lower-cased.\<close>

definition slugName :: "string \<Rightarrow> bool" where
  "slugName a \<longleftrightarrow> (let s = js_lower (js_trim a) in s \<noteq> [] \<and> list_all agentChar s \<and> hd s \<noteq> CHR ''-'' \<and> List.last s \<noteq> CHR ''-'')"

lemma replaceRuns_id: "list_all agentChar s \<Longrightarrow> replaceRuns b s = s"
  by (induction s arbitrary: b) auto

lemma stripDashes_id:
  assumes "s \<noteq> []" "hd s \<noteq> CHR ''-''" "List.last s \<noteq> CHR ''-''"
  shows "stripDashes s = s"
proof -
  have "dropWhile (\<lambda>c. c = CHR ''-'') s = s" "dropWhile (\<lambda>c. c = CHR ''-'') (rev s) = rev s"
    using assms by (simp_all add: dropWhile_eq_self_iff hd_rev)
  then show ?thesis
    by (simp add: stripDashes_def)
qed

lemma managed_slug_id: "slugName a \<Longrightarrow> managedOpenCodeAgentId E a = Some (''aeh-'' @ js_lower (js_trim a))"
  by (auto simp: slugName_def managedOpenCodeAgentId_def Let_def replaceRuns_id stripDashes_id js_lower_def)

text \<open>
  C40: Two logical agents whose names are slugs up to letter case share a managed runtime identity exactly when their
  trimmed names agree up to case: the digest suffix that keeps normalized names apart is never added for them, so
  \<open>Reviewer\<close> and \<open>reviewer\<close> both become \<open>aeh-reviewer\<close>.
\<close>
theorem managed_agent_id_ignores_case:
  assumes "slugName a" "slugName b"
  shows "managedOpenCodeAgentId E a = managedOpenCodeAgentId E b \<longleftrightarrow> js_lower (js_trim a) = js_lower (js_trim b)"
  by (simp add: managed_slug_id [OF assms(1)] managed_slug_id [OF assms(2)])

lemma slug_samples: "slugName ''Reviewer''" "slugName ''reviewer''" "js_lower (js_trim ''Reviewer'') = js_lower (js_trim ''reviewer'')"
  by code_simp+

theorem managed_agent_id_ignores_case_witness:
  "''Reviewer'' \<noteq> ''reviewer'' \<and> (\<forall>E. managedOpenCodeAgentId E ''Reviewer'' = managedOpenCodeAgentId E ''reviewer'')"
  using managed_agent_id_ignores_case [OF slug_samples(1,2)] slug_samples(3) by simp

end
