(* ===== verification/OperationRecord.thy ===== *)
theory OperationRecord
  imports HumanDecision
begin

text \<open>
  The durable record of an operation (\<open>src/src/operations/state.ts\<close>) with the liveness of its participants
  (\<open>src/src/operations/executionLiveness.ts\<close>) and its provenance (\<open>src/src/operations/operationProvenance.ts\<close>). The fields
  that the code owns and types are record fields; the frozen documents a record carries (candidate, policy, execution
  bindings, receipts, decision requests, boundaries, grants) are run-time values that are checked whenever the record is
  read or written. Objects keyed by identifiers are lists of entries. Fields that no modelled operation reads
  (workspace warnings, cleanup warnings, preflight, intent) are left out.
\<close>

subsection \<open>Status values\<close>

datatype OperationStatus = QUEUED | RUNNING | SUCCEEDED | FAILED | CANCELLED
datatype OperationStageStatus = StagePending | StageRunning | StageCompleted | StageFailed | StageBlocked | StageSkipped
datatype OperationParticipantStatus = PartRegistered | PartIdle | PartRunning | PartCompleted | PartFailed | PartBlocked | PartCancelled
datatype SupervisorGenerationStatus = GenInitializing | GenActive | GenDraining | GenArchived | GenFailed

definition isTerminal :: "OperationStatus \<Rightarrow> bool" where
  "isTerminal s \<longleftrightarrow> s = SUCCEEDED \<or> s = FAILED \<or> s = CANCELLED"

definition isAllowedOperationStatusTransition :: "OperationStatus \<Rightarrow> OperationStatus \<Rightarrow> bool" where
  "isAllowedOperationStatusTransition a b =
     (if a = b then True
      else if isTerminal a then False
      else if a = QUEUED then b = RUNNING \<or> b = SUCCEEDED \<or> b = FAILED \<or> b = CANCELLED
      else b = SUCCEEDED \<or> b = FAILED \<or> b = CANCELLED)"

definition isParticipantTerminal :: "OperationParticipantStatus \<Rightarrow> bool" where
  "isParticipantTerminal s \<longleftrightarrow> s = PartCompleted \<or> s = PartFailed \<or> s = PartCancelled"

definition terminalStageStatus :: "OperationStatus \<Rightarrow> OperationStageStatus" where
  "terminalStageStatus s = (if s = SUCCEEDED then StageCompleted else if s = CANCELLED then StageSkipped else StageFailed)"

subsection \<open>Liveness of a participant\<close>

datatype ParticipantExecutionState =
    CREATED | READY | ACTIVE | WAITING_TOOL | WAITING_PROVIDER | PROGRESSING | STALL_SUSPECTED | RECOVERING
  | STATE_COMPLETED | STATE_FAILED | STATE_CANCELLED

record ProgressLease =
  le_operationId :: string
  le_operationExecutionRevision :: int
  le_candidateRevision :: int
  le_candidateDigest :: string
  le_policyDigest :: string
  le_controllerEpoch :: int
  le_participantId :: string
  le_participantGeneration :: string
  le_leaseId :: string
  le_issuedAt :: string
  le_expiresAt :: string
  le_renewalCount :: int
  le_noProgressRenewalCount :: int
  le_renewedThroughEvidenceDigest :: "string option"
  le_renewedBy :: "string option"
  le_renewedBySessionId :: "string option"
  le_digest :: string

record ParticipantExecutionLiveness =
  lv_state :: ParticipantExecutionState
  lv_startedAt :: "string option"
  lv_lastActivityAt :: "string option"
  lv_lastMeaningfulProgressAt :: "string option"
  lv_firstToolCallAt :: "string option"
  lv_firstMutationAt :: "string option"
  lv_lastSuccessfulToolCall :: "js option"
  lv_waitingSinceAt :: "string option"
  lv_waitingKind :: "string option"
  lv_waitingToolName :: "string option"
  lv_waitingDeadlineAt :: "string option"
  lv_toolCallsBeforeFirstMutation :: int
  lv_turnsBeforeFirstMutation :: "int option"
  lv_providerTurns :: int
  lv_currentProviderTurnBudget :: int
  lv_toolCallCount :: int
  lv_repositoryMutationCount :: int
  lv_artifactCount :: int
  lv_validationCount :: int
  lv_noProgressRenewals :: int
  lv_localRetryCount :: int
  lv_participantRestarts :: int
  lv_progressLease :: "ProgressLease option"
  lv_lastActivityEventDigest :: "string option"
  lv_lastRecoveryDecision :: "js option"
  lv_sourceBaselineDigest :: "string option"

subsection \<open>The record\<close>

record OperationParticipantRecord =
  pa_id :: string
  pa_logicalAgent :: "string option"
  pa_role :: "string option"
  pa_stage :: "string option"
  pa_phase :: "string option"
  pa_parentSupervisorGeneration :: "int option"
  pa_parentAgentId :: "string option"
  pa_workspaceId :: "string option"
  pa_transport :: "string option"
  pa_status :: OperationParticipantStatus
  pa_registeredAt :: string
  pa_startedAt :: "string option"
  pa_finishedAt :: "string option"
  pa_resultArtifact :: "string option"
  pa_executionBinding :: "js option"
  pa_executionLiveness :: "ParticipantExecutionLiveness option"
  pa_error :: "string option"

record OperationAgentRecord =
  ag_id :: string
  ag_role :: "string option"
  ag_phase :: "string option"
  ag_workspaceId :: "string option"
  ag_transport :: "string option"
  ag_registeredAt :: string
  ag_executionBinding :: "js option"

record OperationLeadBinding =
  ld_agentId :: string
  ld_source :: "string option"
  ld_generation :: int
  ld_boundAt :: string
  ld_acknowledgedRevision :: int
  ld_acknowledgedAt :: "string option"

record OperationSupervisorGeneration =
  sg_generation :: int
  sg_agentId :: "string option"
  sg_status :: SupervisorGenerationStatus
  sg_createdAt :: string
  sg_activatedAt :: "string option"
  sg_drainingAt :: "string option"
  sg_archivedAt :: "string option"
  sg_checkpointArtifact :: "string option"
  sg_initializationAttempt :: "int option"
  sg_error :: "string option"

record OperationSupervisionState =
  su_required :: bool
  su_materialized :: bool
  su_activeGeneration :: "int option"
  su_generations :: "OperationSupervisorGeneration list"

record OperationStageRecord =
  sr_name :: string
  sr_status :: OperationStageStatus
  sr_revision :: int
  sr_startedAt :: "string option"
  sr_finishedAt :: "string option"
  sr_message :: "string option"
  sr_artifact :: "string option"

record OperationProgress =
  pr_expected :: nat
  pr_registered :: nat
  pr_running :: nat
  pr_completed :: nat
  pr_failed :: nat
  pr_blocked :: nat

record OperationNotificationState =
  no_lastLeadWakeRevision :: int
  no_lastLeadWakeAt :: "string option"
  no_lastLeadWakeReason :: "string option"
  no_terminalDelivered :: bool
  no_attempts :: int
  no_lastError :: "string option"

record OperationControllerBinding =
  oc_epoch :: int
  oc_ownerId :: string
  oc_claimedAt :: string
  oc_previousOwnerId :: "string option"
  oc_tokenDigest :: "string option"
  oc_pid :: "int option"

record OperationRecordV2 =
  op_id :: string
  op_kind :: string
  op_payload :: js
  op_status :: OperationStatus
  op_phase :: string
  op_root :: string
  op_workspaceRoot :: "string option"
  op_revision :: int
  op_createdAt :: string
  op_updatedAt :: string
  op_lastProgressAt :: string
  op_startedAt :: "string option"
  op_finishedAt :: "string option"
  op_lead :: "OperationLeadBinding option"
  op_supervision :: OperationSupervisionState
  op_stages :: "(string \<times> OperationStageRecord) list"
  op_participants :: "(string \<times> OperationParticipantRecord) list"
  op_progress :: OperationProgress
  op_notification :: OperationNotificationState
  op_agents :: "OperationAgentRecord list"
  op_result :: "js option"
  op_error :: "string option"
  op_candidateRevision :: "js option"
  op_participantReceipts :: js_entries
  op_candidateAssemblyReceipts :: js_entries
  op_operationExecutionRevision :: "int option"
  op_executionSemanticsDigest :: "string option"
  op_resolvedOperationPolicy :: "js option"
  op_origin :: "js option"
  op_ownerEconomicBoundary :: "js option"
  op_ownerContinuationBoundary :: "js option"
  op_controller :: "OperationControllerBinding option"
  op_decisionRequest :: "js option"
  op_continuation :: "js option"
  op_pause :: "js option"
  op_ownerExemptions :: "js option"

text \<open>A field that may be absent, as the value a check reads.\<close>

definition field :: "js option \<Rightarrow> js" where
  "field d = (case d of Some v \<Rightarrow> v | None \<Rightarrow> JUndefined)"

definition currentControllerEpoch :: "OperationRecordV2 \<Rightarrow> int" where
  "currentControllerEpoch op = (case op_controller op of Some c \<Rightarrow> oc_epoch c | None \<Rightarrow> 0)"

definition deriveProgress :: "(string \<times> OperationParticipantRecord) list \<Rightarrow> OperationProgress" where
  "deriveProgress participants =
     (let count = (\<lambda>P. length (filter P (map (pa_status \<circ> snd) participants))) in
      \<lparr>pr_expected = length participants, pr_registered = count (\<lambda>s. s = PartRegistered \<or> s = PartIdle), pr_running = count (\<lambda>s. s = PartRunning),
       pr_completed = count (\<lambda>s. s = PartCompleted), pr_failed = count (\<lambda>s. s = PartFailed \<or> s = PartCancelled), pr_blocked = count (\<lambda>s. s = PartBlocked)\<rparr>)"

definition activeOperationSupervisor :: "OperationRecordV2 \<Rightarrow> OperationSupervisorGeneration option" where
  "activeOperationSupervisor op = (case su_activeGeneration (op_supervision op) of
       None \<Rightarrow> None
     | Some g \<Rightarrow> List.find (\<lambda>item. sg_generation item = g \<and> sg_status item = GenActive) (su_generations (op_supervision op)))"

definition initializingOperationSupervisor :: "OperationRecordV2 \<Rightarrow> OperationSupervisorGeneration option" where
  "initializingOperationSupervisor op = List.find (\<lambda>item. sg_status item = GenInitializing) (rev (su_generations (op_supervision op)))"

definition recoverableOperationSupervisor :: "OperationRecordV2 \<Rightarrow> OperationSupervisorGeneration option" where
  "recoverableOperationSupervisor op = (case activeOperationSupervisor op of Some g \<Rightarrow> Some g | None \<Rightarrow> initializingOperationSupervisor op)"

subsection \<open>Checks of a record\<close>

text \<open>
  What the store takes from its platform: digests and dates, the order of \<open>localeCompare\<close>, \<open>Number(text)\<close>, the
  \<open>datetime\<close> check of the schema library, whether a process is alive, and the digest of a working tree.
\<close>

record store_env =
  se_js :: js_env
  se_collate :: "string \<Rightarrow> string \<Rightarrow> bool"
  se_number :: "string \<Rightarrow> js"
  se_datetime :: "string \<Rightarrow> bool"
  se_alive :: "int \<Rightarrow> bool"
  se_worktree :: "string \<Rightarrow> string"

datatype store_error =
    StoreRejected string
  | StoreIdentity identity_error
  | StoreDecision decision_error
  | StoreContract contract_error
  | StoreAssembly assembly_error
  | StoreUnserializable serialize_error
  | StoreTypeError

definition storeWhen :: "bool \<Rightarrow> string \<Rightarrow> store_error + unit" where
  "storeWhen b message = (if b then Inl (StoreRejected message) else Inr ())"

definition storeDigest :: "store_env \<Rightarrow> js \<Rightarrow> store_error + string" where
  "storeDigest S v = map_sum StoreUnserializable id (sha256Canonical (se_js S) v)"

text \<open>The schema of an origin without its digest: a strict object, so no other field is accepted.\<close>

definition schemaText :: "js \<Rightarrow> bool" where
  "schemaText v = (case v of JStr s \<Rightarrow> s \<noteq> [] | _ \<Rightarrow> False)"

definition schemaDigest :: "js \<Rightarrow> bool" where
  "schemaDigest v = (case v of JStr s \<Rightarrow> is_digest s | _ \<Rightarrow> False)"

definition schemaOptional :: "(js \<Rightarrow> bool) \<Rightarrow> js \<Rightarrow> bool" where
  "schemaOptional P v \<longleftrightarrow> v = JUndefined \<or> P v"

definition schemaInstant :: "store_env \<Rightarrow> js \<Rightarrow> bool" where
  "schemaInstant S v = (case v of JStr s \<Rightarrow> se_datetime S s | _ \<Rightarrow> False)"

definition schemaStrict :: "string list \<Rightarrow> js \<Rightarrow> bool" where
  "schemaStrict fields_allowed v = (case v of JObj kvs \<Rightarrow> list_all (\<lambda>(k, x). k \<in> set fields_allowed) kvs | _ \<Rightarrow> False)"

definition resolutionRef :: "js \<Rightarrow> bool" where
  "resolutionRef v \<longleftrightarrow> schemaStrict [''kind'', ''operationId'', ''operationRevision'', ''evidenceDigest''] v
     \<and> js_get v ''kind'' \<in> JStr ` {''OWNER_ECONOMIC_BOUNDARY'', ''OWNER_HARD_DEADLINE'', ''FAILED_TASK_CHAIN'', ''CANCELLED_TASK_CHAIN''}
     \<and> schemaText (js_get v ''operationId'') \<and> js_safe_at_least 1 (js_get v ''operationRevision'') \<and> schemaDigest (js_get v ''evidenceDigest'')"

text \<open>\<open>/^<prefix>.+/\<close>: the dot matches no line terminator.\<close>

definition prefixedName :: "string \<Rightarrow> js \<Rightarrow> bool" where
  "prefixedName prefix v = (case v of
       JStr s \<Rightarrow> starts_with prefix s \<and> (case drop (length prefix) s of c # cs \<Rightarrow> c \<noteq> char_of (10 :: nat) \<and> c \<noteq> char_of (13 :: nat) | [] \<Rightarrow> False)
     | _ \<Rightarrow> False)"

definition delegationProvenance :: "js \<Rightarrow> bool" where
  "delegationProvenance v \<longleftrightarrow> schemaStrict [''delegationId'', ''grantorOwnerId'', ''delegatePrincipalId'', ''profile''] v
     \<and> (case js_get v ''delegationId'' of JStr s \<Rightarrow> prefixedUuid ''delegation:'' s | _ \<Rightarrow> False)
     \<and> prefixedName ''human:'' (js_get v ''grantorOwnerId'') \<and> prefixedName ''delegate:'' (js_get v ''delegatePrincipalId'')
     \<and> js_get v ''profile'' = JStr ''FULL_PROJECT_OWNER''"

definition originFields :: "string list" where
  "originFields = [''version'', ''kind'', ''leadAgentId'', ''controllerOwnerId'', ''requestEventId'', ''ownerResolutionRefs'', ''delegationProvenance'',
     ''authorizationDigest'', ''userTurnId'', ''parentOperationId'', ''parentTerminalRevision'', ''triggerEventId'', ''requestDigest'',
     ''inheritedAuthorityDigest'', ''inheritedEconomicUsageDigest'', ''recoveryDepth'', ''rootHardDeadlineAt'', ''reason'', ''createdAt'']"

definition originBodySchema :: "store_env \<Rightarrow> js \<Rightarrow> bool" where
  "originBodySchema S v \<longleftrightarrow> schemaStrict originFields v \<and> js_get v ''version'' = jint 1
     \<and> js_get v ''kind'' \<in> JStr ` {''USER_REQUEST'', ''LEAD_ACTION'', ''FAILED_OPERATION_RECOVERY'', ''EXPLICIT_CLI''}
     \<and> list_all (\<lambda>k. schemaOptional schemaText (js_get v k)) [''leadAgentId'', ''controllerOwnerId'', ''requestEventId'', ''userTurnId'', ''parentOperationId'']
     \<and> schemaOptional (\<lambda>r. js_is_array r \<and> length (js_items r) \<le> 500 \<and> list_all resolutionRef (js_items r)) (js_get v ''ownerResolutionRefs'')
     \<and> schemaOptional delegationProvenance (js_get v ''delegationProvenance'')
     \<and> schemaDigest (js_get v ''authorizationDigest'') \<and> schemaOptional (js_safe_at_least 1) (js_get v ''parentTerminalRevision'')
     \<and> schemaText (js_get v ''triggerEventId'') \<and> schemaDigest (js_get v ''requestDigest'')
     \<and> schemaOptional schemaDigest (js_get v ''inheritedAuthorityDigest'') \<and> schemaOptional schemaDigest (js_get v ''inheritedEconomicUsageDigest'')
     \<and> js_safe_at_least 0 (js_get v ''recoveryDepth'') \<and> schemaInstant S (js_get v ''rootHardDeadlineAt'')
     \<and> (case js_get v ''reason'' of JStr s \<Rightarrow> s \<noteq> [] \<and> length s \<le> 1000 | _ \<Rightarrow> False) \<and> schemaInstant S (js_get v ''createdAt'')"

definition originInvalid :: "string \<Rightarrow> string" where
  "originInvalid message = ''OPERATION_ORIGIN_INVALID: '' @ message"

definition recoveryFields :: "string list" where
  "recoveryFields = [''parentOperationId'', ''parentTerminalRevision'', ''inheritedAuthorityDigest'', ''inheritedEconomicUsageDigest'']"

text \<open>The messages of schema issues are not modelled.\<close>

definition assertOperationOriginV1 :: "store_env \<Rightarrow> js \<Rightarrow> store_error + unit" where
  "assertOperationOriginV1 S v =
     (let body = digestBody v; kind = js_get v ''kind''; refs = js_items (js_get v ''ownerResolutionRefs'') in
     andThen (storeWhen (\<not> js_is_object v \<or> js_is_array v) (originInvalid ''expected an object.'')) (\<lambda>_.
     andThen (storeWhen (\<not> originBodySchema S body) (originInvalid ''schema'')) (\<lambda>_.
     andThen (storeWhen (kind = JStr ''FAILED_OPERATION_RECOVERY'' \<and> \<not> list_all (\<lambda>k. js_truthy (js_get v k)) recoveryFields)
       (originInvalid ''recovery continuations require a terminal parent, inherited authority, and exact parent economic-usage snapshot digest.'')) (\<lambda>_.
     andThen (storeWhen (kind \<noteq> JStr ''FAILED_OPERATION_RECOVERY'' \<and> list_ex (\<lambda>k. js_truthy (js_get v k)) recoveryFields)
       (originInvalid ''only recovery continuations may carry parent authority.'')) (\<lambda>_.
     andThen (storeWhen (refs \<noteq> [] \<and> kind \<noteq> JStr ''EXPLICIT_CLI'')
       (originInvalid ''only an explicit Owner CLI origin may resolve pending Owner boundaries or failed task chains.'')) (\<lambda>_.
     andThen (storeWhen (js_truthy (js_get v ''delegationProvenance'') \<and> kind \<noteq> JStr ''EXPLICIT_CLI'')
       (originInvalid ''only an explicit Owner CLI origin may carry delegated Owner provenance.'')) (\<lambda>_.
     andThen (storeWhen (\<not> distinct (map (\<lambda>r. str_of (js_get r ''kind'') @ '':'' @ str_of (js_get r ''operationId'')) refs))
       (originInvalid ''Owner resolution references must be unique by kind and operation.'')) (\<lambda>_.
     andThen (storeWhen (kind = JStr ''USER_REQUEST'' \<and> \<not> js_truthy (js_get v ''userTurnId''))
       (originInvalid ''USER_REQUEST requires the durable originating userTurnId; use LEAD_ACTION when only a tool event is known.'')) (\<lambda>_.
     andThen (storeWhen (kind = JStr ''LEAD_ACTION'' \<and> (\<not> js_truthy (js_get v ''leadAgentId'') \<or> \<not> js_truthy (js_get v ''requestEventId'')))
       (originInvalid ''LEAD_ACTION requires the bound Lead identity and exact request event id.'')) (\<lambda>_.
     andThen (storeWhen (\<not> digestPattern (js_get v ''digest'')) (originInvalid ''digest is inconsistent.'')) (\<lambda>_.
     andThen (storeDigest S body) (\<lambda>d.
     storeWhen (js_get v ''digest'' \<noteq> JStr d) (originInvalid ''digest is inconsistent.'')))))))))))))"

definition compileOperationOriginV1 :: "store_env \<Rightarrow> js_entries \<Rightarrow> store_error + js" where
  "compileOperationOriginV1 S input =
     (let body = override input [(''version'', jint 1)] in
     andThen (storeDigest S (JObj body)) (\<lambda>d.
     andThen (assertOperationOriginV1 S (JObj (AList.update ''digest'' (JStr d) body))) (\<lambda>_.
     Inr (JObj (AList.update ''digest'' (JStr d) body)))))"

subsection \<open>Owner boundaries\<close>

definition noCandidate :: "store_env \<Rightarrow> OperationRecordV2 \<Rightarrow> store_error + js" where
  "noCandidate S op = (case op_candidateRevision op of
       Some c \<Rightarrow> if js_nullish (js_get c ''identityDigest'') then map_sum id JStr (storeDigest S (JObj [(''operationId'', JStr (op_id op)), (''noCandidate'', JBool True)]))
                 else Inr (js_get c ''identityDigest'')
     | None \<Rightarrow> map_sum id JStr (storeDigest S (JObj [(''operationId'', JStr (op_id op)), (''noCandidate'', JBool True)])))"

definition noPolicy :: "store_env \<Rightarrow> OperationRecordV2 \<Rightarrow> store_error + js" where
  "noPolicy S op = (case op_resolvedOperationPolicy op of
       Some p \<Rightarrow> if js_nullish (js_get p ''digest'') then map_sum id JStr (storeDigest S (JObj [(''operationId'', JStr (op_id op)), (''noPolicy'', JBool True)]))
                 else Inr (js_get p ''digest'')
     | None \<Rightarrow> map_sum id JStr (storeDigest S (JObj [(''operationId'', JStr (op_id op)), (''noPolicy'', JBool True)])))"

definition validInstant :: "store_env \<Rightarrow> js \<Rightarrow> bool" where
  "validInstant S v = (case v of JStr s \<Rightarrow> date_parse (se_js S) s \<noteq> None | _ \<Rightarrow> False)"

definition nonBlank :: "js \<Rightarrow> bool" where
  "nonBlank v = (case v of JStr s \<Rightarrow> js_trim s \<noteq> [] | _ \<Rightarrow> False)"

definition epochWithin :: "OperationRecordV2 \<Rightarrow> js \<Rightarrow> bool" where
  "epochWithin op v \<longleftrightarrow> js_safe_at_least 0 v \<and> int_of v \<le> currentControllerEpoch op"

text \<open>A field of the wrong type, on which the code throws a TypeError, is rejected with the same error here.\<close>

definition assertOwnerEconomicBoundaryRequirementV1 :: "store_env \<Rightarrow> js \<Rightarrow> OperationRecordV2 \<Rightarrow> store_error + unit" where
  "assertOwnerEconomicBoundaryRequirementV1 S r op =
     (let invalid = ''OWNER_ECONOMIC_BOUNDARY_INVALID: request must bind the current operation, participant, candidate, policy, epoch, evidence, and digest.'';
          participantScoped = (js_get r ''scope'' = JStr ''PARTICIPANT'' \<and> map_of (op_participants op) (js_string (js_get r ''participantId'')) \<noteq> None);
          operationScoped = (js_get r ''scope'' = JStr ''OPERATION'' \<and> js_get r ''participantId'' = JStr ''controller:operation''
            \<and> js_get r ''participantGeneration'' = JStr ''controller'') in
     andThen (storeWhen (js_get r ''version'' \<noteq> jint 1 \<or> js_get r ''kind'' \<noteq> JStr ''OWNER_ECONOMIC_BOUNDARY'' \<or> js_get r ''state'' \<noteq> JStr ''WAITING''
         \<or> js_get r ''operationId'' \<noteq> JStr (op_id op) \<or> (op_phase op \<noteq> ''HUMAN_REQUIRED'' \<and> op_status op \<noteq> CANCELLED)
         \<or> (\<not> participantScoped \<and> \<not> operationScoped)
         \<or> js_get (field (op_candidateRevision op)) ''identityDigest'' \<noteq> js_get r ''candidateDigest''
         \<or> \<not> digestPattern (js_get r ''executionBindingDigest'') \<or> \<not> digestPattern (js_get r ''policyDigest'')
         \<or> \<not> epochWithin op (js_get r ''controllerEpoch'')
         \<or> \<not> finiteNonNegative (js_get r ''configuredLimit'')
         \<or> (js_get r ''observed'' \<noteq> JNull \<and> \<not> finiteNonNegative (js_get r ''observed''))
         \<or> js_get r ''usageCoverage'' \<notin> JStr ` {''COMPLETE'', ''PARTIAL'', ''UNKNOWN''}
         \<or> \<not> js_is_array (js_get r ''evidenceRefs'') \<or> js_items (js_get r ''evidenceRefs'') = []
         \<or> \<not> nonBlank (js_get r ''reason'') \<or> \<not> validInstant S (js_get r ''createdAt'')
         \<or> \<not> digestPattern (js_get r ''digest'')) invalid) (\<lambda>_.
     andThen (storeDigest S (digestBody r)) (\<lambda>d. storeWhen (js_get r ''digest'' \<noteq> JStr d) invalid)))"

definition assertOwnerContinuationBoundaryV1 :: "store_env \<Rightarrow> js \<Rightarrow> OperationRecordV2 \<Rightarrow> store_error + unit" where
  "assertOwnerContinuationBoundaryV1 S r op =
     (let invalid = ''OWNER_CONTINUATION_BOUNDARY_INVALID: hard-deadline requirement must bind the failed operation, Owner turn, candidate, policy, epoch, and trigger event.'';
          terminalBoundaryState = (op_status op = FAILED \<and> op_phase op = ''HUMAN_REQUIRED'' \<or> op_status op = CANCELLED \<and> op_phase op = ''cancelled'');
          trigger = (case js_get r ''triggerEventId'' of JStr s \<Rightarrow> s | _ \<Rightarrow> []) in
     andThen (storeWhen (js_get r ''version'' \<noteq> jint 1 \<or> js_get r ''kind'' \<noteq> JStr ''OWNER_CONTINUATION_BOUNDARY''
         \<or> js_get r ''reasonCode'' \<noteq> JStr ''HARD_OPERATION_DEADLINE'' \<or> js_get r ''operationId'' \<noteq> JStr (op_id op) \<or> \<not> terminalBoundaryState
         \<or> js_get r ''state'' \<noteq> JStr ''WAITING'' \<or> \<not> starts_with (''operation.hard-deadline:'' @ op_id op @ '':'') trigger
         \<or> \<not> js_is_safe_integer (se_number S (List.last (js_split CHR '':'' trigger)))) invalid) (\<lambda>_.
     andThen (noCandidate S op) (\<lambda>candidateDigest.
     andThen (storeWhen (js_get r ''candidateDigest'' \<noteq> candidateDigest) invalid) (\<lambda>_.
     andThen (noPolicy S op) (\<lambda>policyDigest.
     andThen (storeWhen (js_get r ''policyDigest'' \<noteq> policyDigest \<or> \<not> epochWithin op (js_get r ''controllerEpoch'')
         \<or> \<not> validInstant S (js_get r ''rootHardDeadlineAt'') \<or> \<not> validInstant S (js_get r ''createdAt'')
         \<or> \<not> nonBlank (js_get r ''reason'') \<or> \<not> digestPattern (js_get r ''digest'')) invalid) (\<lambda>_.
     andThen (storeDigest S (digestBody r)) (\<lambda>d. storeWhen (js_get r ''digest'' \<noteq> JStr d) invalid)))))))"

subsection \<open>Normalization\<close>

definition decisionCheck :: "decision_error + unit \<Rightarrow> store_error + unit" where
  "decisionCheck r = map_sum StoreDecision id r"

definition checkOption :: "(js \<Rightarrow> store_error + unit) \<Rightarrow> js option \<Rightarrow> store_error + unit" where
  "checkOption f d = (case d of None \<Rightarrow> Inr () | Some v \<Rightarrow> f v)"

definition waiting :: "js option \<Rightarrow> bool" where
  "waiting continuation = (case continuation of Some c \<Rightarrow> js_get c ''state'' = JStr ''WAITING'' | None \<Rightarrow> False)"

definition continuationStateInvalid :: "OperationRecordV2 \<Rightarrow> store_error + unit" where
  "continuationStateInvalid op =
     andThen (storeWhen (op_decisionRequest op \<noteq> None \<and> \<not> waiting (op_continuation op))
       ''DECISION_CONTINUATION_STATE_INVALID: only a waiting continuation may expose its DecisionRequest.'') (\<lambda>_.
     andThen (storeWhen (waiting (op_continuation op) \<and> op_decisionRequest op = None)
       ''DECISION_CONTINUATION_STATE_INVALID: a waiting continuation requires its DecisionRequest.'') (\<lambda>_.
     storeWhen (op_phase op = ''HUMAN_REQUIRED'' \<and> op_ownerEconomicBoundary op = None \<and> op_ownerContinuationBoundary op = None
         \<and> (op_decisionRequest op = None \<or> \<not> waiting (op_continuation op)))
       ''DECISION_CONTINUATION_STATE_INVALID: HUMAN_REQUIRED requires a current waiting decision, continuation, or typed Owner boundary.''))"

definition assertStoredGrant :: "store_env \<Rightarrow> OperationRecordV2 \<Rightarrow> string \<times> js \<Rightarrow> store_error + unit" where
  "assertStoredGrant S op = (\<lambda>(key, grant).
     (case assertOwnerHardProtectionExemptionGrant (se_js S) (se_collate S) grant of
        Some message \<Rightarrow> Inl (StoreRejected (''OWNER_EXEMPTION_GRANT_INVALID: stored grant '' @ [CHR 0x27] @ key @ [CHR 0x27] @ '' is malformed: '' @ message))
      | None \<Rightarrow> storeWhen (js_get grant ''exemptionId'' \<noteq> JStr key \<or> js_get grant ''operationId'' \<noteq> JStr (op_id op))
          (''OWNER_EXEMPTION_GRANT_INVALID: stored grant '' @ [CHR 0x27] @ key @ [CHR 0x27] @ '' is not bound to this operation.'')))"

definition assertStoredGrants :: "store_env \<Rightarrow> OperationRecordV2 \<Rightarrow> js \<Rightarrow> store_error + unit" where
  "assertStoredGrants S op grants =
     andThen (storeWhen (\<not> js_is_object grants \<or> js_is_array grants) ''OWNER_EXEMPTION_GRANT_INVALID: ownerExemptions must be a record of exemption grants.'') (\<lambda>_.
     checkEach (assertStoredGrant S op) (own_entries grants))"

definition assertRecord :: "store_env \<Rightarrow> OperationRecordV2 \<Rightarrow> store_error + unit" where
  "assertRecord S op =
     andThen (checkOption (assertOperationOriginV1 S) (op_origin op)) (\<lambda>_.
     andThen (checkOption (decisionCheck \<circ> assertDecisionRequestV1 (se_js S)) (op_decisionRequest op)) (\<lambda>_.
     andThen (checkOption (decisionCheck \<circ> assertContinuationRecordV1 (se_js S)) (op_continuation op)) (\<lambda>_.
     andThen (continuationStateInvalid op) (\<lambda>_.
     andThen (checkOption (\<lambda>r. assertOwnerEconomicBoundaryRequirementV1 S r op) (op_ownerEconomicBoundary op)) (\<lambda>_.
     andThen (checkOption (\<lambda>r. assertOwnerContinuationBoundaryV1 S r op) (op_ownerContinuationBoundary op)) (\<lambda>_.
     checkOption (assertStoredGrants S op) (op_ownerExemptions op)))))))"

definition noController :: "OperationRecordV2 \<Rightarrow> OperationControllerBinding" where
  "noController op = \<lparr>oc_epoch = 0, oc_ownerId = ''controller:none'', oc_claimedAt = op_createdAt op, oc_previousOwnerId = None, oc_tokenDigest = None, oc_pid = None\<rparr>"

definition normalizeOperationRecord :: "store_env \<Rightarrow> OperationRecordV2 \<Rightarrow> store_error + OperationRecordV2" where
  "normalizeOperationRecord S op =
     andThen (assertRecord S op) (\<lambda>_.
     Inr (op\<lparr>op_revision := max 1 (if op_revision op = 0 then 1 else op_revision op),
       op_lastProgressAt := (if op_lastProgressAt op = [] then op_updatedAt op else op_lastProgressAt op),
       op_controller := Some (case op_controller op of Some c \<Rightarrow> c | None \<Rightarrow> noController op)\<rparr>))"

lemma normalizeOperationRecord_fields:
  assumes "normalizeOperationRecord S op = Inr op'"
  shows "assertRecord S op = Inr ()" "op_id op' = op_id op" "op_status op' = op_status op" "op_phase op' = op_phase op" "op_finishedAt op' = op_finishedAt op"
    "op_result op' = op_result op" "op_error op' = op_error op" "op_candidateRevision op' = op_candidateRevision op"
    "op_operationExecutionRevision op' = op_operationExecutionRevision op" "op_executionSemanticsDigest op' = op_executionSemanticsDigest op"
    "op_resolvedOperationPolicy op' = op_resolvedOperationPolicy op" "op_participants op' = op_participants op"
    "op_supervision op' = op_supervision op" "op_agents op' = op_agents op" "op_lead op' = op_lead op"
    "op_candidateAssemblyReceipts op' = op_candidateAssemblyReceipts op" "op_participantReceipts op' = op_participantReceipts op"
    "currentControllerEpoch op' = currentControllerEpoch op"
    "op_controller op' = Some (case op_controller op of Some c \<Rightarrow> c | None \<Rightarrow> noController op)"
    "op_revision op' = max 1 (if op_revision op = 0 then 1 else op_revision op)"
  using assms by (auto simp: normalizeOperationRecord_def currentControllerEpoch_def noController_def split: option.split)

end
