(* ===== verification/OperationStore.thy ===== *)
theory OperationStore
  imports OperationRecord
begin

text \<open>
  The durable store of operations (\<open>src/src/operations/state.ts\<close>): the guarded mutation every lifecycle operation goes
  through, controller ownership, and the operations themselves as functions from the loaded record to the record that
  is committed. \<open>controller_process\<close> is the environment a controller process identifies itself with. A mutation runs
  under the lock of the record file, so it reads one record and writes one; the event log is not modelled.
\<close>

subsection \<open>Controller identity\<close>

record controller_process =
  cp_epoch :: "string option"
  cp_token :: "string option"

definition digitChar :: "char \<Rightarrow> bool" where
  "digitChar c \<longleftrightarrow> CHR ''0'' \<le> c \<and> c \<le> CHR ''9''"

text \<open>\<open>Number.parseInt(text, 10)\<close>, \<open>None\<close> for NaN.\<close>

definition parseInt10 :: "string \<Rightarrow> int option" where
  "parseInt10 text =
     (let t = dropWhile js_white text;
          negative = starts_with ''-'' t;
          ds = takeWhile digitChar (if negative \<or> starts_with ''+'' t then drop 1 t else t)
      in if ds = [] then None else Some (if negative then - digitsValue ds else digitsValue ds))"

definition controllerEpochFromEnvironment :: "controller_process \<Rightarrow> int option" where
  "controllerEpochFromEnvironment cp = (case cp_epoch cp of
       None \<Rightarrow> None
     | Some raw \<Rightarrow> if js_trim raw = [] then None
         else (case parseInt10 (js_trim raw) of None \<Rightarrow> None | Some epoch \<Rightarrow> if safe_int epoch \<and> 0 \<le> epoch then Some epoch else None))"

definition controllerTokenFromEnvironment :: "controller_process \<Rightarrow> string option" where
  "controllerTokenFromEnvironment cp = (case cp_token cp of None \<Rightarrow> None | Some raw \<Rightarrow> if js_trim raw = [] then None else Some (js_trim raw))"

definition fenced :: "string \<Rightarrow> string" where
  "fenced message = ''V2_CONTROLLER_FENCED: '' @ message"

definition assertControllerEpoch :: "OperationRecordV2 \<Rightarrow> int option \<Rightarrow> string \<Rightarrow> store_error + unit" where
  "assertControllerEpoch op expected action = (case expected of
       None \<Rightarrow> Inr ()
     | Some epoch \<Rightarrow> storeWhen (epoch \<noteq> currentControllerEpoch op)
         (fenced (action @ '' was requested by controller epoch '' @ int_text epoch @ '', but the operation is owned by controller epoch ''
           @ int_text (currentControllerEpoch op) @ ''.'')))"

definition tokenDigestOf :: "OperationRecordV2 \<Rightarrow> string option" where
  "tokenDigestOf op = (case op_controller op of
       Some c \<Rightarrow> (case oc_tokenDigest c of Some d \<Rightarrow> if d = [] then None else Some d | None \<Rightarrow> None) | None \<Rightarrow> None)"

definition assertControllerToken :: "store_env \<Rightarrow> controller_process \<Rightarrow> OperationRecordV2 \<Rightarrow> string \<Rightarrow> store_error + unit" where
  "assertControllerToken S cp op action = (case tokenDigestOf op of
       None \<Rightarrow> Inl (StoreRejected (fenced (action @ '' requires a claimed controller token.'')))
     | Some expected \<Rightarrow> storeWhen (map_option (sha256Utf8 (se_js S)) (controllerTokenFromEnvironment cp) \<noteq> Some expected)
         (fenced (action @ '' requires the current controller token.'')))"

definition assertCurrentControllerOwner :: "store_env \<Rightarrow> controller_process \<Rightarrow> OperationRecordV2 \<Rightarrow> string \<Rightarrow> store_error + unit" where
  "assertCurrentControllerOwner S cp op action =
     andThen (storeWhen (controllerEpochFromEnvironment cp = None) (fenced (action @ '' requires the current controller epoch.''))) (\<lambda>_.
     andThen (assertControllerEpoch op (controllerEpochFromEnvironment cp) action) (\<lambda>_.
     assertControllerToken S cp op action))"

subsection \<open>What a mutation may change\<close>

definition canonicalText :: "js \<Rightarrow> store_error + string" where
  "canonicalText v = map_sum StoreUnserializable id (canonicalSerialize v)"

definition canonicalOption :: "js option \<Rightarrow> store_error + string option" where
  "canonicalOption v = (case v of None \<Rightarrow> Inr None | Some x \<Rightarrow> map_sum id Some (canonicalText x))"

definition isProvisionalOperationPolicyV1 :: "js option \<Rightarrow> bool" where
  "isProvisionalOperationPolicyV1 policy = (case policy of
       None \<Rightarrow> False
     | Some p \<Rightarrow> (let k = js_get p ''knowledgePolicy'' in
         js_typeof k = ''object'' \<and> k \<noteq> JNull \<and> \<not> js_is_array k \<and> js_get k ''bootstrap'' = JBool True))"

record identity_snapshot =
  is_operationExecutionRevision :: "int option"
  is_executionSemanticsDigest :: "string option"
  is_policyCanonical :: "string option"
  is_policyProvisional :: bool
  is_bindings :: "(string \<times> string option) list"

definition bindingEntry :: "string \<times> OperationParticipantRecord \<Rightarrow> store_error + string \<times> string option" where
  "bindingEntry = (\<lambda>(i, p). map_sum id (Pair i) (canonicalOption (pa_executionBinding p)))"

definition snapshotExecutionIdentity :: "OperationRecordV2 \<Rightarrow> store_error + identity_snapshot" where
  "snapshotExecutionIdentity op =
     andThen (sequence_results (map bindingEntry (op_participants op))) (\<lambda>bindings.
     andThen (canonicalOption (op_resolvedOperationPolicy op)) (\<lambda>policy.
     Inr \<lparr>is_operationExecutionRevision = op_operationExecutionRevision op, is_executionSemanticsDigest = op_executionSemanticsDigest op,
       is_policyCanonical = policy, is_policyProvisional = isProvisionalOperationPolicyV1 (op_resolvedOperationPolicy op), is_bindings = bindings\<rparr>))"

definition semanticsEvent :: string where
  "semanticsEvent = ''operation.execution-semantics.bound''"

definition choiceSemanticsEvent :: string where
  "choiceSemanticsEvent = ''operation.human-decision.semantics-bound''"

definition candidateEvent :: string where
  "candidateEvent = ''operation.candidate.bound''"

definition claimEvent :: string where
  "claimEvent = ''operation.controller.claimed''"

definition identityCheck :: "identity_error + unit \<Rightarrow> store_error + unit" where
  "identityCheck r = map_sum StoreIdentity id r"

definition assertOperationPolicyTransition :: "store_env \<Rightarrow> string option \<Rightarrow> js option \<Rightarrow> string \<Rightarrow> string list \<Rightarrow> store_error + unit" where
  "assertOperationPolicyTransition S currentCanonical following eventType invalidatingEvents =
     (if eventType = ''operation.policy.bound'' then
        (case following of
           None \<Rightarrow> Inl (StoreRejected ''EXECUTION_POLICY_IMMUTABLE: operation.policy.bound must persist a frozen ResolvedOperationPolicy.'')
         | Some policy \<Rightarrow>
             andThen (identityCheck (assertResolvedOperationPolicyV2 (se_js S) policy)) (\<lambda>_.
             andThen (canonicalText policy) (\<lambda>text.
             storeWhen (currentCanonical \<noteq> None \<and> currentCanonical \<noteq> Some text)
               ''EXECUTION_POLICY_IMMUTABLE: a bound ResolvedOperationPolicy may be rebound only with the complete unchanged canonical value.'')))
      else
        andThen (canonicalOption following) (\<lambda>nextCanonical.
        if currentCanonical = nextCanonical then Inr ()
        else if eventType \<in> set invalidatingEvents then
          storeWhen (following \<noteq> None)
            ''EXECUTION_POLICY_IMMUTABLE: candidate assembly, controller takeover, and execution-semantics recompilation may only clear a frozen ResolvedOperationPolicy.''
        else Inl (StoreRejected
          ''EXECUTION_POLICY_IMMUTABLE: frozen ResolvedOperationPolicy changes require candidate assembly, controller takeover, or execution-semantics recompilation.'')))"

text \<open>Whether the binding of a participant changed, with the binding that follows.\<close>

definition bindingChange :: "identity_snapshot \<Rightarrow> OperationRecordV2 \<Rightarrow> string \<Rightarrow> store_error + js option option" where
  "bindingChange snapshot op i =
     (let previous = (case map_of (is_bindings snapshot) i of Some (Some t) \<Rightarrow> Some t | _ \<Rightarrow> None);
          following = (case map_of (op_participants op) i of Some p \<Rightarrow> pa_executionBinding p | None \<Rightarrow> None) in
     andThen (canonicalOption following) (\<lambda>text. Inr (if previous = text then None else Some following)))"

definition bindingChanges :: "identity_snapshot \<Rightarrow> OperationRecordV2 \<Rightarrow> store_error + js option list" where
  "bindingChanges snapshot op =
     andThen (sequence_results (map (bindingChange snapshot op) (js_uniq (map fst (is_bindings snapshot) @ map fst (op_participants op))))) (\<lambda>changes.
     Inr (List.map_filter id changes))"

definition someBinding :: "OperationRecordV2 \<Rightarrow> bool" where
  "someBinding op \<longleftrightarrow> list_ex (\<lambda>(i, p). pa_executionBinding p \<noteq> None) (op_participants op)"

definition assertOperationExecutionRevisionTransition :: "identity_snapshot \<Rightarrow> OperationRecordV2 \<Rightarrow> string \<Rightarrow> bool \<Rightarrow> store_error + unit" where
  "assertOperationExecutionRevisionTransition snapshot op eventType semanticsChanged =
     (let previous = is_operationExecutionRevision snapshot; following = op_operationExecutionRevision op in
      if eventType = candidateEvent \<or> eventType = semanticsEvent \<or> eventType = choiceSemanticsEvent then
        (case previous of
           Some n \<Rightarrow>
             if \<not> safe_int n \<or> n < 1
             then Inl (StoreRejected ''UNSUPPORTED_OPERATION_EXECUTION_REVISION: migrate this operation record before changing execution identity.'')
             else
               (let advances = eventType = candidateEvent \<or> eventType = choiceSemanticsEvent
                      \<or> eventType = semanticsEvent \<and> (is_executionSemanticsDigest snapshot \<noteq> None \<or> is_policyProvisional snapshot) \<and> semanticsChanged
                in storeWhen (following \<noteq> Some (n + (if advances then 1 else 0)))
                  ''OPERATION_EXECUTION_REVISION_INVALID: operationExecutionRevision may advance exactly once only for candidate binding or changed, previously bound execution semantics.'')
         | None \<Rightarrow> Inl (StoreRejected ''UNSUPPORTED_OPERATION_EXECUTION_REVISION: migrate this operation record before changing execution identity.''))
      else storeWhen (following \<noteq> previous)
        ''OPERATION_EXECUTION_REVISION_INVALID: operationExecutionRevision is initialized only at operation creation and cannot change through generic operation events.'')"

definition assertBindingChanges :: "store_env \<Rightarrow> js option list \<Rightarrow> string \<Rightarrow> string list \<Rightarrow> store_error + unit" where
  "assertBindingChanges S changes eventType canInvalidate =
     (if changes = [] then Inr ()
      else if eventType = ''operation.participant.execution-bound'' then
        (case changes of
           [Some following] \<Rightarrow> identityCheck (assertExecutionBindingV3 (se_js S) following)
         | _ \<Rightarrow> Inl (StoreRejected ''EXECUTION_BINDING_IMMUTABLE: participant binding lifecycle may only create or replace one execution binding.''))
      else if eventType \<in> set canInvalidate then
        storeWhen (\<not> list_all (\<lambda>f. f = None) changes)
          ''EXECUTION_BINDING_IMMUTABLE: candidate assembly, controller takeover, and execution-semantics recompilation may only invalidate execution bindings.''
      else Inl (StoreRejected
        ''EXECUTION_BINDING_IMMUTABLE: execution bindings may change only through participant binding, candidate assembly, controller takeover, or execution-semantics recompilation.''))"

definition isSemanticsEvent :: "string \<Rightarrow> bool" where
  "isSemanticsEvent eventType \<longleftrightarrow> eventType = semanticsEvent \<or> eventType = choiceSemanticsEvent"

definition semanticsRebind :: "identity_snapshot \<Rightarrow> OperationRecordV2 \<Rightarrow> string \<Rightarrow> bool" where
  "semanticsRebind snapshot op eventType \<longleftrightarrow> isSemanticsEvent eventType
     \<and> (is_executionSemanticsDigest snapshot \<noteq> None \<or> is_policyProvisional snapshot) \<and> is_executionSemanticsDigest snapshot \<noteq> op_executionSemanticsDigest op"

text \<open>The events that may clear the policy and the bindings.\<close>

definition canInvalidate :: "identity_snapshot \<Rightarrow> OperationRecordV2 \<Rightarrow> string \<Rightarrow> string list" where
  "canInvalidate snapshot op eventType =
     [candidateEvent, claimEvent] @ (if semanticsRebind snapshot op eventType then [semanticsEvent] else [])
       @ (if eventType = choiceSemanticsEvent then [choiceSemanticsEvent] else [])"

definition assertExecutionIdentityTransition :: "store_env \<Rightarrow> OperationRecordV2 \<Rightarrow> string \<Rightarrow> identity_snapshot \<Rightarrow> store_error + unit" where
  "assertExecutionIdentityTransition S op eventType snapshot =
     (let semanticsChanged = (is_executionSemanticsDigest snapshot \<noteq> op_executionSemanticsDigest op);
          rebind = semanticsRebind snapshot op eventType in
     andThen (storeWhen (semanticsChanged \<and> \<not> isSemanticsEvent eventType)
       ''EXECUTION_SEMANTICS_IMMUTABLE: executionSemanticsDigest may change only through operation.execution-semantics.bound.'') (\<lambda>_.
     andThen (storeWhen (isSemanticsEvent eventType \<and> (case op_executionSemanticsDigest op of Some d \<Rightarrow> \<not> is_digest d | None \<Rightarrow> False))
       ''EXECUTION_SEMANTICS_INVALID: semantics digest must be a lowercase SHA-256 digest.'') (\<lambda>_.
     andThen (assertOperationPolicyTransition S (is_policyCanonical snapshot) (op_resolvedOperationPolicy op) eventType (canInvalidate snapshot op eventType)) (\<lambda>_.
     andThen (bindingChanges snapshot op) (\<lambda>changes.
     andThen (assertBindingChanges S changes eventType (canInvalidate snapshot op eventType)) (\<lambda>_.
     andThen (storeWhen (rebind \<and> op_resolvedOperationPolicy op \<noteq> None)
       ''EXECUTION_POLICY_IMMUTABLE: changed execution semantics must clear the frozen ResolvedOperationPolicy.'') (\<lambda>_.
     andThen (storeWhen (rebind \<and> someBinding op)
       ''EXECUTION_BINDING_IMMUTABLE: changed execution semantics must clear every participant execution binding.'') (\<lambda>_.
     andThen (storeWhen (eventType = choiceSemanticsEvent \<and> (\<not> semanticsChanged
         \<or> is_operationExecutionRevision snapshot = None
         \<or> op_operationExecutionRevision op \<noteq> map_option (\<lambda>n. n + 1) (is_operationExecutionRevision snapshot)
         \<or> op_resolvedOperationPolicy op \<noteq> None \<or> someBinding op))
       ''DECISION_EXECUTION_REBIND_REQUIRED: product-choice semantics must advance the execution revision, clear policy, and invalidate participant bindings.'') (\<lambda>_.
     assertOperationExecutionRevisionTransition snapshot op eventType semanticsChanged)))))))))"

text \<open>The controller binding as it is compared, and what a process binding may change of it.\<close>

definition assertControllerTransition :: "OperationControllerBinding option \<Rightarrow> OperationControllerBinding option \<Rightarrow> string \<Rightarrow> store_error + unit" where
  "assertControllerTransition current following eventType =
     (if eventType = claimEvent \<or> current = following then Inr ()
      else if eventType = ''operation.controller.process-bound'' then
        (case (current, following) of
           (Some c, Some n) \<Rightarrow> storeWhen ((case oc_pid n of Some pid \<Rightarrow> \<not> safe_int pid \<or> pid < 1 | None \<Rightarrow> True) \<or> oc_epoch n \<noteq> oc_epoch c \<or> oc_ownerId n \<noteq> oc_ownerId c
               \<or> oc_tokenDigest n \<noteq> oc_tokenDigest c \<or> oc_claimedAt n \<noteq> oc_claimedAt c \<or> oc_previousOwnerId n \<noteq> oc_previousOwnerId c)
             ''V2_CONTROLLER_BINDING_IMMUTABLE: process binding may update only the current controller pid.''
         | _ \<Rightarrow> Inl (StoreRejected ''V2_CONTROLLER_BINDING_IMMUTABLE: process binding may update only the current controller pid.''))
      else Inl (StoreRejected ''V2_CONTROLLER_BINDING_IMMUTABLE: controller ownership changes require the claim lifecycle.''))"

subsection \<open>The guarded mutation\<close>

text \<open>
  A patch: the five fields a terminal record keeps, and the other fields as the update they make (\<open>None\<close> where the
  patch has no other field).
\<close>

record operation_patch =
  up_status :: "OperationStatus option"
  up_phase :: "string option"
  up_result :: "js option"
  up_error :: "string option"
  up_finishedAt :: "string option"
  up_metadata :: "(OperationRecordV2 \<Rightarrow> OperationRecordV2) option"

definition emptyPatch :: operation_patch where
  "emptyPatch = \<lparr>up_status = None, up_phase = None, up_result = None, up_error = None, up_finishedAt = None, up_metadata = None\<rparr>"

definition guardTerminalTransition :: "OperationRecordV2 \<Rightarrow> operation_patch \<Rightarrow> operation_patch" where
  "guardTerminalTransition current patch =
     (if \<not> isTerminal (op_status current) then patch else emptyPatch\<lparr>up_metadata := up_metadata patch\<rparr>)"

definition orKeep :: "'a option \<Rightarrow> 'a option \<Rightarrow> 'a option" where
  "orKeep new old = (case new of Some x \<Rightarrow> Some x | None \<Rightarrow> old)"

definition applyPatch :: "operation_patch \<Rightarrow> OperationRecordV2 \<Rightarrow> OperationRecordV2" where
  "applyPatch patch op =
     (let r = (case up_metadata patch of Some f \<Rightarrow> f op | None \<Rightarrow> op) in
      r\<lparr>op_status := (case up_status patch of Some s \<Rightarrow> s | None \<Rightarrow> op_status op), op_phase := (case up_phase patch of Some x \<Rightarrow> x | None \<Rightarrow> op_phase op),
        op_result := orKeep (up_result patch) (op_result op), op_error := orKeep (up_error patch) (op_error op),
        op_finishedAt := orKeep (up_finishedAt patch) (op_finishedAt op)\<rparr>)"

definition sameOptionalCandidate :: "store_env \<Rightarrow> js option \<Rightarrow> js option \<Rightarrow> bool" where
  "sameOptionalCandidate S a b = (case (a, b) of
       (Some x, Some y) \<Rightarrow> candidateRevisionsEqual (se_js S) x y | (None, None) \<Rightarrow> True | _ \<Rightarrow> False)"

definition sameCanonicalOptional :: "js option \<Rightarrow> js option \<Rightarrow> store_error + bool" where
  "sameCanonicalOptional a b = (case (a, b) of
       (Some x, Some y) \<Rightarrow> andThen (canonicalText x) (\<lambda>s. andThen (canonicalText y) (\<lambda>t. Inr (s = t)))
     | (None, None) \<Rightarrow> Inr True | _ \<Rightarrow> Inr False)"

definition assertTerminalUnchanged :: "OperationRecordV2 \<Rightarrow> OperationRecordV2 \<Rightarrow> store_error + unit" where
  "assertTerminalUnchanged current op =
     (let immutable = ''V2_TERMINAL_IMMUTABLE: terminal status, result, error, phase, and finish time cannot change through metadata mutation.'' in
      if \<not> isTerminal (op_status current) then Inr ()
      else if op_status op \<noteq> op_status current \<or> op_phase op \<noteq> op_phase current \<or> op_finishedAt op \<noteq> op_finishedAt current
      then Inl (StoreRejected immutable)
      else andThen (sameCanonicalOptional (op_result op) (op_result current)) (\<lambda>same.
        storeWhen (\<not> same \<or> op_error op \<noteq> op_error current) immutable))"

definition revisionOf :: "js option \<Rightarrow> js" where
  "revisionOf candidate = js_get (field candidate) ''revision''"

definition assertCandidateTransition :: "store_env \<Rightarrow> OperationRecordV2 \<Rightarrow> OperationRecordV2 \<Rightarrow> string \<Rightarrow> store_error + unit" where
  "assertCandidateTransition S current op eventType =
     (if sameOptionalCandidate S (op_candidateRevision current) (op_candidateRevision op) then Inr ()
      else
        andThen (storeWhen (eventType \<noteq> candidateEvent) ''V2_CANDIDATE_IMMUTABLE: CandidateRevision changes must use the candidate binding lifecycle.'') (\<lambda>_.
        andThen (storeWhen (op_candidateRevision current \<noteq> None
            \<and> revisionOf (op_candidateRevision op) \<noteq> jint (int_of (revisionOf (op_candidateRevision current)) + 1))
          ''V2_CANDIDATE_IMMUTABLE: CandidateRevision must advance by exactly one revision.'') (\<lambda>_.
        storeWhen (op_candidateRevision current = None \<and> revisionOf (op_candidateRevision op) \<noteq> jint 1)
          ''V2_CANDIDATE_IMMUTABLE: the first CandidateRevision must start at revision 1.'')))"

definition statusText :: "OperationStatus \<Rightarrow> string" where
  "statusText s = (case s of QUEUED \<Rightarrow> ''QUEUED'' | RUNNING \<Rightarrow> ''RUNNING'' | SUCCEEDED \<Rightarrow> ''SUCCEEDED'' | FAILED \<Rightarrow> ''FAILED'' | CANCELLED \<Rightarrow> ''CANCELLED'')"

definition assertPatchStatus :: "OperationRecordV2 \<Rightarrow> operation_patch \<Rightarrow> store_error + unit" where
  "assertPatchStatus current patch = (case up_status patch of
       None \<Rightarrow> Inr ()
     | Some status \<Rightarrow>
         andThen (storeWhen (op_status current = QUEUED \<and> status = SUCCEEDED) ''Invalid operation status transition QUEUED -> SUCCEEDED.'') (\<lambda>_.
         storeWhen (\<not> isTerminal (op_status current) \<and> \<not> isAllowedOperationStatusTransition (op_status current) status)
           (''Invalid operation status transition '' @ statusText (op_status current) @ '' -> '' @ statusText status @ ''.'')))"

type_synonym store_callback = "OperationRecordV2 \<Rightarrow> int \<Rightarrow> store_error + OperationRecordV2"

text \<open>The record a mutation produces before it is checked: by its callback, or by its patch.\<close>

definition producedBy :: "string \<Rightarrow> operation_patch \<Rightarrow> bool \<Rightarrow> store_callback option \<Rightarrow> OperationRecordV2 \<Rightarrow> store_error + OperationRecordV2" where
  "producedBy now patch touchRevision custom current =
     (let revision = (if touchRevision then op_revision current + 1 else op_revision current) in
      case custom of
        Some f \<Rightarrow> f current revision
      | None \<Rightarrow> Inr ((applyPatch (guardTerminalTransition current patch) current)\<lparr>op_id := op_id current, op_kind := op_kind current, op_revision := revision,
          op_updatedAt := now, op_lastProgressAt := (if touchRevision then now else op_lastProgressAt current)\<rparr>))"

text \<open>
  \<open>mutateOperation\<close> on the loaded record. \<open>Inr\<close> holds the record that is current afterwards; it is the loaded record
  itself where the code returns early without a commit.
\<close>

definition returnsEarly :: "OperationRecordV2 \<Rightarrow> operation_patch \<Rightarrow> store_callback option \<Rightarrow> bool \<Rightarrow> bool" where
  "returnsEarly current patch custom allowTerminalCustom \<longleftrightarrow> isTerminal (op_status current) \<and> \<not> allowTerminalCustom
     \<and> (\<not> Option.is_none custom \<or> Option.is_none (up_metadata (guardTerminalTransition current patch)))"

definition ownerFreeEvent :: "string \<Rightarrow> bool" where
  "ownerFreeEvent eventType \<longleftrightarrow> eventType = claimEvent \<or> eventType = ''operation.lead.acknowledged''"

definition mutateOperation ::
    "store_env \<Rightarrow> controller_process \<Rightarrow> string \<Rightarrow> operation_patch \<Rightarrow> bool \<Rightarrow> string \<Rightarrow> store_callback option \<Rightarrow> bool \<Rightarrow>
     OperationRecordV2 \<Rightarrow> store_error + OperationRecordV2" where
  "mutateOperation S cp now patch touchRevision eventType custom allowTerminalCustom current =
     andThen (assertPatchStatus current patch) (\<lambda>_.
     if returnsEarly current patch custom allowTerminalCustom then Inr current
     else
       andThen (if ownerFreeEvent eventType then Inr ()
         else assertCurrentControllerOwner S cp current (''operation mutation '' @ [CHR 0x27] @ eventType @ [CHR 0x27])) (\<lambda>_.
       andThen (snapshotExecutionIdentity current) (\<lambda>snapshot.
       andThen (producedBy now patch touchRevision custom current) (\<lambda>candidate.
       andThen (normalizeOperationRecord S candidate) (\<lambda>op.
       andThen (assertTerminalUnchanged current op) (\<lambda>_.
       andThen (assertCandidateTransition S current op eventType) (\<lambda>_.
       andThen (assertExecutionIdentityTransition S op eventType snapshot) (\<lambda>_.
       andThen (assertControllerTransition (op_controller current) (op_controller op) eventType) (\<lambda>_.
       Inr op)))))))))"

end
