(* ===== verification/OperationLifecycle.thy ===== *)
theory OperationLifecycle
  imports OperationStore
begin

text \<open>
  The lifecycle operations of \<open>src/src/operations/state.ts\<close>: each is the guarded mutation of \<open>OperationStore\<close> with the
  event it commits and the function from the loaded record to the next one. \<open>now\<close> is the instant of the mutation.
\<close>

subsection \<open>Shared steps\<close>

definition touched :: "string \<Rightarrow> int \<Rightarrow> OperationRecordV2 \<Rightarrow> OperationRecordV2" where
  "touched now revision op = op\<lparr>op_revision := revision, op_updatedAt := now, op_lastProgressAt := now\<rparr>"

definition requiredId :: "string \<Rightarrow> store_error + string" where
  "requiredId v = (if js_trim v = [] then Inl (StoreRejected ''agent id is required'') else Inr (js_trim v))"

definition dropBindings :: "(string \<times> OperationParticipantRecord) list \<Rightarrow> (string \<times> OperationParticipantRecord) list" where
  "dropBindings = map (\<lambda>(i, p). (i, p\<lparr>pa_executionBinding := None\<rparr>))"

definition checkContract :: "contract_error option \<Rightarrow> store_error + unit" where
  "checkContract r = (case r of None \<Rightarrow> Inr () | Some e \<Rightarrow> Inl (StoreContract e))"

definition candidateWorkspaceRoot :: "OperationRecordV2 \<Rightarrow> js \<Rightarrow> string" where
  "candidateWorkspaceRoot op candidate = (case js_get candidate ''worktree'' of
       JStr w \<Rightarrow> w | _ \<Rightarrow> (case op_workspaceRoot op of Some w \<Rightarrow> w | None \<Rightarrow> op_root op))"

text \<open>\<open>se_worktree\<close> resolves the path and digests the tree found there.\<close>

definition assertWorkspaceMatchesCandidate :: "store_env \<Rightarrow> string \<Rightarrow> js \<Rightarrow> store_error + unit" where
  "assertWorkspaceMatchesCandidate S root_path candidate =
     storeWhen (js_get candidate ''sourceDigest'' \<noteq> JStr (se_worktree S root_path)) ''CANDIDATE_SOURCE_MISMATCH''"

definition safeRevision :: "OperationRecordV2 \<Rightarrow> bool" where
  "safeRevision op = (case op_operationExecutionRevision op of Some n \<Rightarrow> safe_int n \<and> 1 \<le> n | None \<Rightarrow> False)"

definition executionRevisionOr :: "int \<Rightarrow> OperationRecordV2 \<Rightarrow> int" where
  "executionRevisionOr d op = (case op_operationExecutionRevision op of Some n \<Rightarrow> n | None \<Rightarrow> d)"

subsection \<open>Generic updates and the Lead\<close>

definition patchOperation :: "store_env \<Rightarrow> controller_process \<Rightarrow> string \<Rightarrow> operation_patch \<Rightarrow> OperationRecordV2 \<Rightarrow> store_error + OperationRecordV2" where
  "patchOperation S cp now patch = mutateOperation S cp now patch True ''operation.updated'' None False"

definition patchOperationMetadata :: "store_env \<Rightarrow> controller_process \<Rightarrow> string \<Rightarrow> operation_patch \<Rightarrow> OperationRecordV2 \<Rightarrow> store_error + OperationRecordV2" where
  "patchOperationMetadata S cp now patch = mutateOperation S cp now patch False ''operation.metadata'' None False"

text \<open>The caller's update as a function of the record; \<open>eventType\<close> is \<open>operation.metadata\<close> unless it names another.\<close>

definition updateOperationMetadata ::
    "store_env \<Rightarrow> controller_process \<Rightarrow> string \<Rightarrow> (OperationRecordV2 \<Rightarrow> OperationRecordV2) \<Rightarrow> bool \<Rightarrow> string option \<Rightarrow>
     OperationRecordV2 \<Rightarrow> store_error + OperationRecordV2" where
  "updateOperationMetadata S cp now f touchRevision eventType =
     mutateOperation S cp now emptyPatch touchRevision (case eventType of Some e \<Rightarrow> e | None \<Rightarrow> ''operation.metadata'')
       (Some (\<lambda>current revision. Inr (if touchRevision then touched now revision (f current) else f current))) True"

definition bindOperationLead :: "store_env \<Rightarrow> controller_process \<Rightarrow> string \<Rightarrow> string \<Rightarrow> string option \<Rightarrow> OperationRecordV2 \<Rightarrow> store_error + OperationRecordV2" where
  "bindOperationLead S cp now agentId source =
     mutateOperation S cp now emptyPatch True ''operation.lead.bound''
       (Some (\<lambda>current revision.
          andThen (requiredId agentId) (\<lambda>i.
          Inr ((touched now revision current)\<lparr>
            op_lead := Some \<lparr>ld_agentId = i, ld_source = source, ld_generation = (case op_lead current of Some l \<Rightarrow> ld_generation l | None \<Rightarrow> 0) + 1,
              ld_boundAt = now, ld_acknowledgedRevision = revision, ld_acknowledgedAt = Some now\<rparr>,
            op_notification := (op_notification current)\<lparr>no_lastLeadWakeRevision := revision, no_lastLeadWakeAt := Some now,
              no_lastLeadWakeReason := Some ''operation-started''\<rparr>\<rparr>)))) False"

definition acknowledgeOperationLead ::
    "store_env \<Rightarrow> controller_process \<Rightarrow> string \<Rightarrow> int \<Rightarrow> string \<Rightarrow> int \<Rightarrow> string option \<Rightarrow> OperationRecordV2 \<Rightarrow> store_error + OperationRecordV2" where
  "acknowledgeOperationLead S cp now revision actorId expectedControllerEpoch reason =
     mutateOperation S cp now emptyPatch False ''operation.lead.acknowledged''
       (Some (\<lambda>current _.
          andThen (storeWhen (currentControllerEpoch current \<noteq> expectedControllerEpoch)
            ''AEH_OPERATION_ACK_EPOCH_MISMATCH: controller epoch changed before acknowledgement.'') (\<lambda>_.
          (case op_lead current of
             None \<Rightarrow> Inl (StoreRejected ''AEH_OPERATION_ACK_ACTOR_MISMATCH: only the currently bound lead may acknowledge this operation.'')
           | Some l \<Rightarrow>
               andThen (requiredId actorId) (\<lambda>actor.
               andThen (storeWhen (ld_agentId l \<noteq> actor)
                 ''AEH_OPERATION_ACK_ACTOR_MISMATCH: only the currently bound lead may acknowledge this operation.'') (\<lambda>_.
               andThen (storeWhen (op_revision current \<noteq> revision)
                 (''AEH_OPERATION_ACK_REVISION_MISMATCH: requested revision '' @ int_text revision @ '', current revision '' @ int_text (op_revision current) @ ''.'')) (\<lambda>_.
               Inr (current\<lparr>
                 op_lead := Some (l\<lparr>ld_acknowledgedRevision := max (ld_acknowledgedRevision l) revision, ld_acknowledgedAt := Some now\<rparr>),
                 op_notification := (op_notification current)\<lparr>
                   no_lastLeadWakeRevision := max (no_lastLeadWakeRevision (op_notification current)) revision, no_lastLeadWakeAt := Some now,
                   no_lastLeadWakeReason := orKeep reason (no_lastLeadWakeReason (op_notification current))\<rparr>\<rparr>)))))))) True"

definition deliveredNotification :: "string \<Rightarrow> int \<Rightarrow> string option \<Rightarrow> OperationRecordV2 \<Rightarrow> OperationNotificationState" where
  "deliveredNotification now attempts error current =
     (let n = op_notification current; failed = (error \<noteq> None \<and> error \<noteq> Some []) in
      n\<lparr>no_lastLeadWakeRevision := (if failed then no_lastLeadWakeRevision n else op_revision current),
        no_lastLeadWakeAt := (if failed then no_lastLeadWakeAt n else Some now),
        no_lastLeadWakeReason := (if failed then no_lastLeadWakeReason n else Some ''terminal''),
        no_terminalDelivered := \<not> failed, no_attempts := attempts, no_lastError := error\<rparr>)"

definition markTerminalDelivered :: "store_env \<Rightarrow> controller_process \<Rightarrow> string \<Rightarrow> int \<Rightarrow> string option \<Rightarrow> OperationRecordV2 \<Rightarrow> store_error + OperationRecordV2" where
  "markTerminalDelivered S cp now attempts error =
     updateOperationMetadata S cp now (\<lambda>current. current\<lparr>op_notification := deliveredNotification now attempts error current\<rparr>) False None"

subsection \<open>Controller ownership\<close>

definition isCurrentOwner :: "store_env \<Rightarrow> controller_process \<Rightarrow> OperationRecordV2 \<Rightarrow> bool" where
  "isCurrentOwner S cp op \<longleftrightarrow> controllerEpochFromEnvironment cp = Some (currentControllerEpoch op)
     \<and> (case controllerTokenFromEnvironment cp of
          Some token \<Rightarrow> (case op_controller op of Some c \<Rightarrow> oc_tokenDigest c = Some (sha256Utf8 (se_js S) token) | None \<Rightarrow> False)
        | None \<Rightarrow> False)"

definition unprovenOwner :: "store_env \<Rightarrow> OperationRecordV2 \<Rightarrow> bool" where
  "unprovenOwner S op = (case op_controller op of
       Some c \<Rightarrow> (case oc_pid c of Some pid \<Rightarrow> pid = 0 \<or> se_alive S pid | None \<Rightarrow> True)
     | None \<Rightarrow> True)"

text \<open>
  \<open>token\<close> is the minted token and \<open>cancellation\<close> the outcome of consuming a human cancellation decision, where the claim
  asks for one.
\<close>

definition claimControllerEpoch ::
    "store_env \<Rightarrow> controller_process \<Rightarrow> string \<Rightarrow> string \<Rightarrow> string \<Rightarrow> int option \<Rightarrow> (OperationRecordV2 \<Rightarrow> store_error + unit) option \<Rightarrow>
     OperationRecordV2 \<Rightarrow> store_error + OperationRecordV2" where
  "claimControllerEpoch S cp now ownerId token pid cancellation =
     mutateOperation S cp now emptyPatch True claimEvent
       (Some (\<lambda>current revision.
          andThen (storeWhen (isTerminal (op_status current)) (fenced ''terminal operations cannot acquire controller ownership.'')) (\<lambda>_.
          andThen (case cancellation of Some consume \<Rightarrow> consume current | None \<Rightarrow> Inr ()) (\<lambda>_.
          andThen (storeWhen (tokenDigestOf current \<noteq> None \<and> \<not> isCurrentOwner S cp current \<and> Option.is_none cancellation \<and> unprovenOwner S current)
            (fenced ''a live or unproven controller owner cannot be displaced without an authorized cancellation.'')) (\<lambda>_.
          andThen (requiredId ownerId) (\<lambda>owner.
          Inr ((touched now revision current)\<lparr>
            op_participants := dropBindings (op_participants current), op_resolvedOperationPolicy := None,
            op_controller := Some \<lparr>oc_epoch = currentControllerEpoch current + 1, oc_ownerId = owner, oc_claimedAt = now,
              oc_previousOwnerId = (case op_controller current of Some c \<Rightarrow> if oc_ownerId c = [] then None else Some (oc_ownerId c) | None \<Rightarrow> None),
              oc_tokenDigest = Some (sha256Utf8 (se_js S) token), oc_pid = (if pid = Some 0 then None else pid)\<rparr>\<rparr>)))))))
       False"

text \<open>The environment of the process after its claim.\<close>

definition claimedProcess :: "string \<Rightarrow> OperationRecordV2 \<Rightarrow> controller_process" where
  "claimedProcess token op = \<lparr>cp_epoch = Some (int_text (currentControllerEpoch op)), cp_token = Some token\<rparr>"

definition bindControllerProcess :: "store_env \<Rightarrow> controller_process \<Rightarrow> string \<Rightarrow> int \<Rightarrow> OperationRecordV2 \<Rightarrow> store_error + OperationRecordV2" where
  "bindControllerProcess S cp now pid current =
     andThen (storeWhen (\<not> safe_int pid \<or> pid < 1) ''V2_CONTROLLER_PROCESS_INVALID: controller pid must be a positive safe integer.'') (\<lambda>_.
     mutateOperation S cp now emptyPatch True ''operation.controller.process-bound''
       (Some (\<lambda>current revision.
          andThen (storeWhen (tokenDigestOf current = None) (fenced ''controller process binding requires an owned operation.'')) (\<lambda>_.
          Inr ((touched now revision current)\<lparr>op_controller := map_option (oc_pid_update (\<lambda>_. Some pid)) (op_controller current)\<rparr>))))
       False current)"

subsection \<open>Candidates\<close>

definition unsupportedRevision :: "string \<Rightarrow> string" where
  "unsupportedRevision before = ''UNSUPPORTED_OPERATION_EXECUTION_REVISION: migrate this operation record before '' @ before @ ''.''"

definition bindingRejected :: "string \<Rightarrow> string" where
  "bindingRejected message = ''V2_CANDIDATE_BINDING_REJECTED: '' @ message"

definition assemblyRejected :: "string \<Rightarrow> string" where
  "assemblyRejected message = ''V2_ASSEMBLY_RECEIPT_REJECTED: '' @ message"

text \<open>What both binding operations ask of a candidate that follows \<open>bound\<close>.\<close>

definition followsCandidate :: "store_env \<Rightarrow> js \<Rightarrow> js \<Rightarrow> store_error + unit" where
  "followsCandidate S bound candidate =
     andThen (checkContract (assertCandidateRevisionV1 (se_js S) bound)) (\<lambda>_.
     andThen (storeWhen (js_get bound ''operationId'' \<noteq> js_get candidate ''operationId'')
       (bindingRejected ''candidate operation does not match the current candidate.'')) (\<lambda>_.
     andThen (storeWhen (js_get candidate ''revision'' \<noteq> jint (int_of (js_get bound ''revision'') + 1))
       (bindingRejected ''candidate revision must advance by exactly one revision.'')) (\<lambda>_.
     andThen (storeWhen (js_get candidate ''parentCandidateId'' \<noteq> js_get bound ''candidateId'')
       (bindingRejected ''candidate parent must be the current CandidateRevision.'')) (\<lambda>_.
     storeWhen (js_get candidate ''projectId'' \<noteq> js_get bound ''projectId'' \<or> js_get candidate ''taskId'' \<noteq> js_get bound ''taskId'')
       (bindingRejected ''candidate project and task identity must remain on the current lineage.'')))))"

definition bindOperationCandidate :: "store_env \<Rightarrow> controller_process \<Rightarrow> string \<Rightarrow> js \<Rightarrow> OperationRecordV2 \<Rightarrow> store_error + OperationRecordV2" where
  "bindOperationCandidate S cp now candidate stored =
     andThen (checkContract (assertCandidateRevisionV1 (se_js S) candidate)) (\<lambda>_.
     mutateOperation S cp now emptyPatch True candidateEvent
       (Some (\<lambda>current revision.
          andThen (storeWhen (\<not> safeRevision current) (unsupportedRevision ''candidate assembly'')) (\<lambda>_.
          andThen (storeWhen (isTerminal (op_status current)) (bindingRejected ''terminal operations cannot bind a new CandidateRevision.'')) (\<lambda>_.
          andThen (storeWhen (js_get candidate ''operationId'' \<noteq> JStr (op_id current)) (bindingRejected ''candidate operation does not match the operation record.'')) (\<lambda>_.
          andThen (case op_candidateRevision current of
              None \<Rightarrow> storeWhen (js_get candidate ''revision'' \<noteq> jint 1) (bindingRejected ''the first CandidateRevision must start at revision 1.'')
            | Some bound \<Rightarrow> followsCandidate S bound candidate) (\<lambda>_.
          andThen (assertWorkspaceMatchesCandidate S (candidateWorkspaceRoot current candidate) candidate) (\<lambda>_.
          Inr ((touched now revision current)\<lparr>op_candidateRevision := Some candidate,
            op_operationExecutionRevision := map_option (\<lambda>n. n + 1) (op_operationExecutionRevision current),
            op_resolvedOperationPolicy := None, op_participants := dropBindings (op_participants current)\<rparr>)))))))) True stored)"

subsection \<open>Assembly receipts\<close>

text \<open>\<open>input\<close> holds \<open>baseCandidate\<close>, \<open>candidate\<close> and \<open>changeSet\<close>.\<close>

definition assertAssemblyInput :: "store_env \<Rightarrow> string \<Rightarrow> js \<Rightarrow> store_error + unit" where
  "assertAssemblyInput S operationId input =
     (let base = js_get input ''baseCandidate''; candidate = js_get input ''candidate''; changeSet = js_get input ''changeSet'' in
     andThen (checkContract (assertCandidateRevisionV1 (se_js S) base)) (\<lambda>_.
     andThen (checkContract (assertCandidateRevisionV1 (se_js S) candidate)) (\<lambda>_.
     andThen (storeWhen (js_get base ''operationId'' \<noteq> JStr operationId \<or> js_get candidate ''operationId'' \<noteq> JStr operationId)
       (assemblyRejected ''candidate belongs to a different operation.'')) (\<lambda>_.
     andThen (storeWhen (js_get candidate ''revision'' \<noteq> jint (int_of (js_get base ''revision'') + 1) \<or> js_get candidate ''parentCandidateId'' \<noteq> js_get base ''candidateId'')
       (assemblyRejected ''assembly must advance exactly one candidate from its bound parent.'')) (\<lambda>_.
     storeWhen (js_get changeSet ''operationId'' \<noteq> JStr operationId \<or> js_get changeSet ''baseCandidateRevision'' \<noteq> js_get base ''revision''
         \<or> js_get changeSet ''baseCandidateDigest'' \<noteq> js_get base ''identityDigest'')
       (assemblyRejected ''ChangeSet identity does not bind the assembly base.''))))))"

definition sourceBase :: "js \<Rightarrow> string \<Rightarrow> string \<Rightarrow> js" where
  "sourceBase changeSet original own = js_coalesce (js_get (js_get changeSet ''derivation'') original) (js_get changeSet own)"

definition receiptBefore :: "store_env \<Rightarrow> js \<Rightarrow> js \<Rightarrow> bool" where
  "receiptBefore S a b =
     (let key = (\<lambda>r. (if js_nullish (js_get r ''createdAt'') then [] else js_string (js_get r ''createdAt'')) @ [CHR 0x00] @ js_string (js_get r ''receiptId''))
      in se_collate S (key a) (key b))"

definition assemblySource :: "string \<Rightarrow> js \<Rightarrow> js \<Rightarrow> js \<Rightarrow> bool" where
  "assemblySource participantId sourceBaseRevision sourceBaseIdentityDigest entry \<longleftrightarrow>
     js_get entry ''settled'' = JBool True \<and> js_get entry ''outcome'' = JStr ''SUCCEEDED''
     \<and> (js_get entry ''participantId'' = JStr participantId \<or> js_get entry ''sessionId'' = JStr participantId)
     \<and> js_get entry ''candidate'' \<noteq> JUndefined
     \<and> js_same (js_get (js_get entry ''candidate'') ''revision'') sourceBaseRevision
     \<and> js_same (js_get (js_get entry ''candidate'') ''identityDigest'') sourceBaseIdentityDigest"

fun firstAllowed :: "store_env \<Rightarrow> int \<Rightarrow> string \<Rightarrow> js list \<Rightarrow> store_error + js option" where
  "firstAllowed S clock operationId [] = Inr None"
| "firstAllowed S clock operationId (r # rs) =
     (case evaluateTerminalGate (se_js S) clock r (JObj [(''operationId'', JStr operationId), (''candidate'', js_get r ''candidate'')]) of
        Inl e \<Rightarrow> Inl (StoreContract e)
      | Inr d \<Rightarrow> if td_allowed d then Inr (Some r) else firstAllowed S clock operationId rs)"

definition selectAssemblySourceReceipt :: "store_env \<Rightarrow> int \<Rightarrow> OperationRecordV2 \<Rightarrow> string \<Rightarrow> js \<Rightarrow> js \<Rightarrow> store_error + js option" where
  "selectAssemblySourceReceipt S clock op participantId sourceBaseRevision sourceBaseIdentityDigest =
     firstAllowed S clock (op_id op)
       (rev (sortBy (receiptBefore S) (filter (assemblySource participantId sourceBaseRevision sourceBaseIdentityDigest) (map snd (op_participantReceipts op)))))"

definition buildAssembly :: "store_env \<Rightarrow> int \<Rightarrow> OperationRecordV2 \<Rightarrow> js \<Rightarrow> int \<Rightarrow> js \<Rightarrow> store_error + js" where
  "buildAssembly S clock op input operationExecutionRevision createdAt =
     (let base = js_get input ''baseCandidate''; candidate = js_get input ''candidate''; changeSet = js_get input ''changeSet'';
          sourceBaseRevision = sourceBase changeSet ''originalBaseCandidateRevision'' ''baseCandidateRevision'';
          sourceBaseIdentityDigest = sourceBase changeSet ''originalBaseCandidateDigest'' ''baseCandidateDigest'' in
     andThen (storeDigest S changeSet) (\<lambda>effective.
     andThen (selectAssemblySourceReceipt S clock op (str_of (js_get changeSet ''participantId'')) sourceBaseRevision sourceBaseIdentityDigest) (\<lambda>source.
     andThen (case source of
         None \<Rightarrow> Inr []
       | Some r \<Rightarrow> andThen (storeDigest S r) (\<lambda>d. Inr [(''sourceReceiptId'', js_get r ''receiptId''), (''sourceReceiptDigest'', JStr d)])) (\<lambda>sourceEntries.
     map_sum StoreAssembly id (createCandidateAssemblyReceiptV1 (se_js S) (JObj (
       [(''operationId'', js_get changeSet ''operationId''), (''taskId'', js_get changeSet ''taskId''), (''workUnitId'', js_get changeSet ''workUnitId''),
        (''participantId'', js_get changeSet ''participantId''), (''baseCandidateId'', js_get base ''candidateId''),
        (''baseRevision'', js_get base ''revision''), (''baseIdentityDigest'', js_get base ''identityDigest''),
        (''sourceBaseRevision'', sourceBaseRevision), (''sourceBaseIdentityDigest'', sourceBaseIdentityDigest)]
       @ sourceEntries @
       [(''sourceChangeSetDigest'', js_coalesce (js_get (js_get changeSet ''derivation'') ''originalChangeSetDigest'') (JStr effective)),
        (''candidateId'', js_get candidate ''candidateId''), (''revision'', js_get candidate ''revision''),
        (''identityDigest'', js_get candidate ''identityDigest''), (''changeSetDigest'', JStr effective),
        (''patchDigest'', js_get changeSet ''patchDigest''), (''operationExecutionRevision'', jint operationExecutionRevision),
        (''controllerEpoch'', jint (currentControllerEpoch op)), (''createdAt'', createdAt)])))))))"

definition assemblyIdOf :: "js \<Rightarrow> string" where
  "assemblyIdOf assembly = str_of (js_get assembly ''assemblyId'')"

definition insertAssembly :: "js \<Rightarrow> OperationRecordV2 \<Rightarrow> OperationRecordV2" where
  "insertAssembly assembly op = op\<lparr>op_candidateAssemblyReceipts := AList.update (assemblyIdOf assembly) assembly (op_candidateAssemblyReceipts op)\<rparr>"

definition conflictingReceipt :: string where
  "conflictingReceipt = assemblyRejected ''a conflicting assembly receipt already exists for this candidate.''"

text \<open>Keeps a receipt that is already there; a different one under the same id is an error.\<close>

definition backfillAssembly :: "js \<Rightarrow> OperationRecordV2 \<Rightarrow> store_error + OperationRecordV2" where
  "backfillAssembly assembly op = (case map_of (op_candidateAssemblyReceipts op) (assemblyIdOf assembly) of
       Some existing \<Rightarrow> andThen (storeWhen (js_get existing ''digest'' \<noteq> js_get assembly ''digest'') conflictingReceipt) (\<lambda>_. Inr op)
     | None \<Rightarrow> Inr (insertAssembly assembly op))"

definition assemblyCreatedAt :: "string \<Rightarrow> OperationRecordV2 \<Rightarrow> js \<Rightarrow> string \<Rightarrow> js" where
  "assemblyCreatedAt now op candidate assemblyId =
     js_coalesce (js_get candidate ''createdAt'')
       (js_coalesce (case map_of (op_candidateAssemblyReceipts op) assemblyId of Some r \<Rightarrow> js_get r ''createdAt'' | None \<Rightarrow> JUndefined) (JStr now))"

definition alreadyBound :: "store_env \<Rightarrow> OperationRecordV2 \<Rightarrow> js \<Rightarrow> bool" where
  "alreadyBound S op candidate = (case op_candidateRevision op of Some bound \<Rightarrow> candidateRevisionsEqual (se_js S) bound candidate | None \<Rightarrow> False)"

definition assembleBound :: "store_env \<Rightarrow> string \<Rightarrow> int \<Rightarrow> js \<Rightarrow> string \<Rightarrow> js \<Rightarrow> store_callback" where
  "assembleBound S now clock input assemblyId createdAt current revision =
     andThen (buildAssembly S clock current input (executionRevisionOr 1 current) createdAt) (\<lambda>assembly.
     andThen (storeWhen (assemblyIdOf assembly \<noteq> assemblyId) (assemblyRejected ''assembly receipt identity does not match the bound candidate.'')) (\<lambda>_.
     backfillAssembly assembly (touched now revision current)))"

definition assembleNext :: "store_env \<Rightarrow> string \<Rightarrow> int \<Rightarrow> js \<Rightarrow> js \<Rightarrow> store_callback" where
  "assembleNext S now clock input createdAt current revision =
     (let candidate = js_get input ''candidate'' in
     andThen (storeWhen (\<not> safeRevision current) (unsupportedRevision ''candidate assembly'')) (\<lambda>_.
     andThen (storeWhen (isTerminal (op_status current)) (bindingRejected ''terminal operations cannot bind a new CandidateRevision.'')) (\<lambda>_.
     andThen (storeWhen (js_get candidate ''operationId'' \<noteq> JStr (op_id current)) (bindingRejected ''candidate operation does not match the operation record.'')) (\<lambda>_.
     case op_candidateRevision current of
       None \<Rightarrow> Inl (StoreRejected (assemblyRejected ''an assembly requires a bound base CandidateRevision.''))
     | Some bound \<Rightarrow>
         andThen (followsCandidate S bound candidate) (\<lambda>_.
         andThen (storeWhen (\<not> candidateRevisionsEqual (se_js S) bound (js_get input ''baseCandidate''))
           (assemblyRejected ''the assembly base is not the operation'' @ [CHR 0x27] @ ''s current CandidateRevision.'')) (\<lambda>_.
         andThen (assertWorkspaceMatchesCandidate S (candidateWorkspaceRoot current candidate) candidate) (\<lambda>_.
         andThen (buildAssembly S clock current input (executionRevisionOr 0 current + 1) createdAt) (\<lambda>assembly.
         andThen (storeWhen (case map_of (op_candidateAssemblyReceipts current) (assemblyIdOf assembly) of
             Some conflicting \<Rightarrow> js_get conflicting ''digest'' \<noteq> js_get assembly ''digest'' | None \<Rightarrow> False) conflictingReceipt) (\<lambda>_.
         Inr (insertAssembly assembly ((touched now revision current)\<lparr>op_candidateRevision := Some candidate,
           op_operationExecutionRevision := Some (executionRevisionOr 0 current + 1),
           op_resolvedOperationPolicy := None, op_participants := dropBindings (op_participants current)\<rparr>)))))))))))"

definition bindOperationCandidateWithAssemblyReceipt ::
    "store_env \<Rightarrow> controller_process \<Rightarrow> string \<Rightarrow> int \<Rightarrow> js \<Rightarrow> OperationRecordV2 \<Rightarrow> store_error + OperationRecordV2" where
  "bindOperationCandidateWithAssemblyReceipt S cp now clock input stored =
     (let candidate = js_get input ''candidate''; assemblyId = candidateAssemblyReceiptIdV1 (op_id stored) (str_of (js_get candidate ''candidateId'')) in
     andThen (assertAssemblyInput S (op_id stored) input) (\<lambda>_.
     mutateOperation S cp now emptyPatch True candidateEvent
       (Some (\<lambda>current revision.
          (let createdAt = assemblyCreatedAt now current candidate assemblyId in
           if alreadyBound S current candidate then assembleBound S now clock input assemblyId createdAt current revision
           else assembleNext S now clock input createdAt current revision))) True stored))"

definition assembledIsCurrent :: "OperationRecordV2 \<Rightarrow> js \<Rightarrow> store_error + unit" where
  "assembledIsCurrent op candidate = (case op_candidateRevision op of
       Some bound \<Rightarrow> storeWhen (list_ex (\<lambda>k. js_get bound k \<noteq> js_get candidate k) [''candidateId'', ''revision'', ''identityDigest''])
         (assemblyRejected ''assembled candidate is not the operation'' @ [CHR 0x27] @ ''s current CandidateRevision.'')
     | None \<Rightarrow> Inl (StoreRejected (assemblyRejected ''assembled candidate is not the operation'' @ [CHR 0x27] @ ''s current CandidateRevision.'')))"

text \<open>\<open>loaded\<close> is the record read before the lock is taken, \<open>stored\<close> the one under it.\<close>

definition recordCandidateAssemblyReceipt ::
    "store_env \<Rightarrow> controller_process \<Rightarrow> string \<Rightarrow> int \<Rightarrow> js \<Rightarrow> OperationRecordV2 \<Rightarrow> OperationRecordV2 \<Rightarrow> store_error + OperationRecordV2" where
  "recordCandidateAssemblyReceipt S cp now clock input loaded stored =
     (let candidate = js_get input ''candidate'' in
     andThen (assertAssemblyInput S (op_id loaded) input) (\<lambda>_.
     andThen (assembledIsCurrent loaded candidate) (\<lambda>_.
     andThen (buildAssembly S clock loaded input (executionRevisionOr 1 loaded) (js_coalesce (js_get candidate ''createdAt'') (JStr now))) (\<lambda>assembly.
     mutateOperation S cp now emptyPatch True ''operation.candidate.assembly-receipt''
       (Some (\<lambda>latest revision.
          andThen (assembledIsCurrent latest candidate) (\<lambda>_. backfillAssembly assembly (touched now revision latest)))) False stored))))"

subsection \<open>Policy and semantics\<close>

definition policyStale :: "string \<Rightarrow> string" where
  "policyStale message = ''EXECUTION_POLICY_STALE: '' @ message"

definition continuationStale :: "string \<Rightarrow> string" where
  "continuationStale message = ''DECISION_CONTINUATION_BINDING_STALE: '' @ message"

definition sameHumanDecisionBinding :: "store_env \<Rightarrow> js \<Rightarrow> js \<Rightarrow> bool" where
  "sameHumanDecisionBinding S a b \<longleftrightarrow>
     js_same (js_get a ''operationId'') (js_get b ''operationId'')
     \<and> candidateRevisionsEqual (se_js S) (js_get a ''candidate'') (js_get b ''candidate'')
     \<and> list_all (\<lambda>k. js_same (js_get a k) (js_get b k)) [''operationExecutionRevision'', ''policyDigest'', ''controllerEpoch'']"

text \<open>
  The continuation that is stored with a new policy. \<open>rewrite\<close> stands for the rewriting of the checkpoint file, which
  returns the continuation that names the new file.
\<close>

definition reboundContinuation ::
    "store_env \<Rightarrow> (OperationRecordV2 \<Rightarrow> js \<Rightarrow> js \<Rightarrow> store_error + js) \<Rightarrow> js \<Rightarrow> OperationRecordV2 \<Rightarrow> js \<Rightarrow> store_error + js" where
  "reboundContinuation S rewrite policy op continuation =
     (if js_get continuation ''state'' = JStr ''WAITING'' \<or> \<not> js_truthy (js_get continuation ''appliedRequirementDigest'') then Inr continuation
      else
        (let selected = js_get continuation ''selectedDecisionBinding''; candidate = field (op_candidateRevision op);
             revision = executionRevisionOr 0 op;
             binding = JObj [(''operationId'', JStr (op_id op)), (''candidate'', candidate), (''operationExecutionRevision'', jint revision),
               (''policyDigest'', js_get policy ''digest''), (''controllerEpoch'', jint (currentControllerEpoch op))] in
        andThen (storeWhen (\<not> candidateRevisionsEqual (se_js S) (js_get selected ''candidate'') candidate)
          (continuationStale ''a consumed product choice cannot cross candidate changes.'')) (\<lambda>_.
        andThen (storeWhen (revision \<noteq> int_of (js_get selected ''operationExecutionRevision'') + 1
            \<or> js_get continuation ''operationExecutionRevision'' \<noteq> jint revision)
          (continuationStale ''product-choice policy may bind only its single authorized execution revision.'')) (\<lambda>_.
        if js_same (js_get selected ''controllerEpoch'') (js_get policy ''controllerEpoch'')
        then (if sameHumanDecisionBinding S continuation binding then Inr continuation else rewrite op continuation binding)
        else andThen (storeWhen (int_of (js_get policy ''controllerEpoch'') \<le> int_of (js_get selected ''controllerEpoch''))
            (continuationStale ''controller epoch did not advance monotonically past the consumed choice.'')) (\<lambda>_.
          Inr continuation)))))"

definition policyBindsOperation :: "store_env \<Rightarrow> js \<Rightarrow> OperationRecordV2 \<Rightarrow> store_error + unit" where
  "policyBindsOperation S policy op =
     andThen (storeWhen (js_get policy ''operationId'' \<noteq> JStr (op_id op)) (policyStale ''policy belongs to a different operation.'')) (\<lambda>_.
     andThen (storeWhen (case op_candidateRevision op of
           None \<Rightarrow> True
         | Some c \<Rightarrow> js_get c ''identityDigest'' \<noteq> js_get policy ''candidateDigest'' \<or> js_get c ''revision'' \<noteq> js_get policy ''candidateRevision'')
       (policyStale ''policy does not bind the current candidate.'')) (\<lambda>_.
     andThen (storeWhen (js_truthy (js_get (field (op_candidateRevision op)) ''projectId'')
         \<and> js_get (field (op_candidateRevision op)) ''projectId'' \<noteq> js_get policy ''projectId'') (policyStale ''policy belongs to a different project.'')) (\<lambda>_.
     andThen (storeWhen (case op_operationExecutionRevision op of None \<Rightarrow> True | Some n \<Rightarrow> js_get policy ''operationExecutionRevision'' \<noteq> jint n \<or> \<not> safe_int n)
       (policyStale ''policy does not bind the current operation execution revision.'')) (\<lambda>_.
     storeWhen (js_get policy ''controllerEpoch'' \<noteq> jint (currentControllerEpoch op)) (policyStale ''policy does not bind the current controller epoch.'')))))"

definition bindResolvedOperationPolicy ::
    "store_env \<Rightarrow> controller_process \<Rightarrow> string \<Rightarrow> (OperationRecordV2 \<Rightarrow> js \<Rightarrow> js \<Rightarrow> store_error + js) \<Rightarrow> js \<Rightarrow>
     OperationRecordV2 \<Rightarrow> store_error + OperationRecordV2" where
  "bindResolvedOperationPolicy S cp now rewrite policy stored =
     andThen (identityCheck (assertResolvedOperationPolicyV2 (se_js S) policy)) (\<lambda>_.
     mutateOperation S cp now emptyPatch True ''operation.policy.bound''
       (Some (\<lambda>current revision.
          andThen (policyBindsOperation S policy current) (\<lambda>_.
          andThen (case op_resolvedOperationPolicy current of
              None \<Rightarrow> Inr ()
            | Some bound \<Rightarrow> andThen (canonicalText bound) (\<lambda>a. andThen (canonicalText policy) (\<lambda>b.
                storeWhen (a \<noteq> b) ''EXECUTION_POLICY_RECOMPILE_REQUIRED: execution semantics changed without advancing operationExecutionRevision.''))) (\<lambda>_.
          andThen (case op_continuation current of
              None \<Rightarrow> Inr None
            | Some c \<Rightarrow> andThen (decisionCheck (assertContinuationRecordV1 (se_js S) c)) (\<lambda>_.
                andThen (reboundContinuation S rewrite policy current c) (\<lambda>c'.
                Inr (Some (JObj (override [(''updatedAt'', JStr now)] (own_entries c'))))))) (\<lambda>continuation.
          Inr ((touched now revision current)\<lparr>op_resolvedOperationPolicy := Some policy, op_continuation := continuation\<rparr>)))))) False stored)"

definition bindOperationExecutionSemantics ::
    "store_env \<Rightarrow> controller_process \<Rightarrow> string \<Rightarrow> string \<Rightarrow> OperationRecordV2 \<Rightarrow> store_error + OperationRecordV2" where
  "bindOperationExecutionSemantics S cp now digest stored =
     andThen (storeWhen (\<not> is_digest digest) ''EXECUTION_SEMANTICS_INVALID: semantics digest must be a lowercase SHA-256 digest.'') (\<lambda>_.
     mutateOperation S cp now emptyPatch True semanticsEvent
       (Some (\<lambda>current revision.
          (let provisional = isProvisionalOperationPolicyV1 (op_resolvedOperationPolicy current);
               changed = (op_executionSemanticsDigest current \<noteq> None \<or> provisional) in
          andThen (storeWhen (\<not> safeRevision current) (unsupportedRevision ''execution planning'')) (\<lambda>_.
          if op_executionSemanticsDigest current = Some digest \<and> \<not> provisional then Inr (touched now revision current)
          else if changed then
            Inr ((touched now revision current)\<lparr>op_executionSemanticsDigest := Some digest,
              op_operationExecutionRevision := map_option (\<lambda>n. n + 1) (op_operationExecutionRevision current),
              op_resolvedOperationPolicy := None, op_participants := dropBindings (op_participants current)\<rparr>)
          else Inr ((touched now revision current)\<lparr>op_executionSemanticsDigest := Some digest\<rparr>))))) False stored)"

subsection \<open>Stages\<close>

definition terminalStage :: "OperationStageStatus \<Rightarrow> bool" where
  "terminalStage s \<longleftrightarrow> s = StageCompleted \<or> s = StageFailed \<or> s = StageBlocked \<or> s = StageSkipped"

definition nextStage :: "string \<Rightarrow> int \<Rightarrow> string \<Rightarrow> OperationStageStatus \<Rightarrow> string option \<Rightarrow> string option \<Rightarrow> OperationStageRecord option \<Rightarrow> OperationStageRecord" where
  "nextStage now revision name status message artifact previous =
     \<lparr>sr_name = name, sr_status = status, sr_revision = revision,
      sr_startedAt = orKeep (Option.bind previous sr_startedAt) (if status = StageRunning then Some now else None),
      sr_finishedAt = (if terminalStage status then Some now else None),
      sr_message = orKeep message (Option.bind previous sr_message), sr_artifact = orKeep artifact (Option.bind previous sr_artifact)\<rparr>"

definition setOperationStage ::
    "store_env \<Rightarrow> controller_process \<Rightarrow> string \<Rightarrow> string \<Rightarrow> OperationStageStatus \<Rightarrow> string option \<Rightarrow> string option \<Rightarrow>
     OperationRecordV2 \<Rightarrow> store_error + OperationRecordV2" where
  "setOperationStage S cp now name status message artifact =
     mutateOperation S cp now emptyPatch True ''operation.stage''
       (Some (\<lambda>current revision. Inr ((touched now revision current)\<lparr>op_phase := name,
          op_stages := AList.update name (nextStage now revision name status message artifact (map_of (op_stages current) name)) (op_stages current)\<rparr>))) False"

subsection \<open>Supervisor generations\<close>

definition drainGeneration :: "string \<Rightarrow> OperationSupervisorGeneration \<Rightarrow> OperationSupervisorGeneration" where
  "drainGeneration now g = g\<lparr>sg_status := GenDraining, sg_drainingAt := orKeep (sg_drainingAt g) (Some now)\<rparr>"

definition activeAmong :: "OperationSupervisorGeneration list \<Rightarrow> int option" where
  "activeAmong gs = map_option sg_generation (List.find (\<lambda>g. sg_status g = GenActive) gs)"

record supervisor_input =
  si_agentId :: "string option"
  si_materialized :: bool
  si_checkpointArtifact :: "string option"
  si_status :: "SupervisorGenerationStatus option"
  si_initializationAttempt :: "int option"

definition drainActive :: "string \<Rightarrow> OperationSupervisorGeneration \<Rightarrow> OperationSupervisorGeneration" where
  "drainActive now g = (if sg_status g = GenActive then drainGeneration now g else g)"

definition registeredGenerations :: "string \<Rightarrow> supervisor_input \<Rightarrow> OperationSupervisorGeneration list \<Rightarrow> OperationSupervisorGeneration list" where
  "registeredGenerations now i gs =
     (let drained = map (drainActive now) gs;
          status = (case si_status i of Some s \<Rightarrow> s | None \<Rightarrow> GenActive) in
      drained @ [\<lparr>sg_generation = foldl max 0 (map sg_generation drained) + 1, sg_agentId = si_agentId i, sg_status = status, sg_createdAt = now,
        sg_activatedAt = (if status = GenActive then Some now else None), sg_drainingAt = None, sg_archivedAt = None,
        sg_checkpointArtifact = si_checkpointArtifact i, sg_initializationAttempt = si_initializationAttempt i, sg_error = None\<rparr>])"

definition registerSupervisorGeneration ::
    "store_env \<Rightarrow> controller_process \<Rightarrow> string \<Rightarrow> supervisor_input \<Rightarrow> OperationRecordV2 \<Rightarrow> store_error + OperationRecordV2" where
  "registerSupervisorGeneration S cp now i =
     mutateOperation S cp now emptyPatch True ''operation.supervisor.registered''
       (Some (\<lambda>current revision.
          (let gs = registeredGenerations now i (su_generations (op_supervision current)) in
           Inr ((touched now revision current)\<lparr>op_supervision := (op_supervision current)\<lparr>su_required := True,
             su_materialized := su_materialized (op_supervision current) \<or> si_materialized i,
             su_activeGeneration := activeAmong gs, su_generations := gs\<rparr>\<rparr>)))) False"

text \<open>A patch of a generation: its status where it has one, and the other fields as the update they make.\<close>

definition updatedGenerations ::
    "string \<Rightarrow> int \<Rightarrow> SupervisorGenerationStatus option \<Rightarrow> (OperationSupervisorGeneration \<Rightarrow> OperationSupervisorGeneration) \<Rightarrow>
     OperationSupervisorGeneration list \<Rightarrow> OperationSupervisorGeneration list" where
  "updatedGenerations now n status f gs =
     (let patched = map (\<lambda>g. if sg_generation g = n then (case status of Some s \<Rightarrow> (f g)\<lparr>sg_status := s\<rparr> | None \<Rightarrow> f g) else g) gs in
      if status = Some GenActive then map (\<lambda>g. if sg_generation g \<noteq> n \<and> sg_status g = GenActive then drainGeneration now g else g) patched
      else patched)"

definition updateSupervisorGeneration ::
    "store_env \<Rightarrow> controller_process \<Rightarrow> string \<Rightarrow> int \<Rightarrow> SupervisorGenerationStatus option \<Rightarrow>
     (OperationSupervisorGeneration \<Rightarrow> OperationSupervisorGeneration) \<Rightarrow> OperationRecordV2 \<Rightarrow> store_error + OperationRecordV2" where
  "updateSupervisorGeneration S cp now n status f =
     mutateOperation S cp now emptyPatch True ''operation.supervisor.updated''
       (Some (\<lambda>current revision.
          (let gs = updatedGenerations now n status f (su_generations (op_supervision current)) in
           Inr ((touched now revision current)\<lparr>op_supervision := (op_supervision current)\<lparr>
             su_activeGeneration := activeAmong gs, su_generations := gs\<rparr>\<rparr>)))) False"

end
