(* ===== verification/OperationParticipants.thy ===== *)
theory OperationParticipants
  imports OperationLifecycle
begin

text \<open>
  Agents and participants of an operation, their execution bindings and receipts, and the two ways an operation becomes
  terminal without evidence of success (\<open>src/src/operations/state.ts\<close>): settlement and the hard deadline.
\<close>

subsection \<open>Agents\<close>

record agent_input =
  ai_id :: string
  ai_role :: "string option"
  ai_phase :: "string option"
  ai_workspaceId :: "string option"
  ai_transport :: "string option"
  ai_logicalAgent :: "string option"
  ai_parentAgentId :: "string option"
  ai_parentSupervisorGeneration :: "int option"

definition agentRecord :: "string \<Rightarrow> agent_input \<Rightarrow> OperationAgentRecord option \<Rightarrow> OperationAgentRecord" where
  "agentRecord now a previous =
     \<lparr>ag_id = ai_id a, ag_role = orKeep (ai_role a) (Option.bind previous ag_role), ag_phase = orKeep (ai_phase a) (Option.bind previous ag_phase),
      ag_workspaceId = orKeep (ai_workspaceId a) (Option.bind previous ag_workspaceId),
      ag_transport = orKeep (ai_transport a) (Option.bind previous ag_transport),
      ag_registeredAt = (case previous of Some p \<Rightarrow> ag_registeredAt p | None \<Rightarrow> now), ag_executionBinding = Option.bind previous ag_executionBinding\<rparr>"

definition newParticipant :: "string \<Rightarrow> string \<Rightarrow> OperationParticipantRecord" where
  "newParticipant now i = \<lparr>pa_id = i, pa_logicalAgent = None, pa_role = None, pa_stage = None, pa_phase = None, pa_parentSupervisorGeneration = None,
     pa_parentAgentId = None, pa_workspaceId = None, pa_transport = None, pa_status = PartRegistered, pa_registeredAt = now, pa_startedAt = None,
     pa_finishedAt = None, pa_resultArtifact = None, pa_executionBinding = None, pa_executionLiveness = None, pa_error = None\<rparr>"

definition registeredParticipant :: "string \<Rightarrow> agent_input \<Rightarrow> OperationRecordV2 \<Rightarrow> OperationParticipantRecord" where
  "registeredParticipant now a op =
     (let p = (case map_of (op_participants op) (ai_id a) of Some p \<Rightarrow> p | None \<Rightarrow> newParticipant now (ai_id a)) in
      p\<lparr>pa_id := ai_id a, pa_logicalAgent := orKeep (orKeep (ai_logicalAgent a) (ai_role a)) (pa_logicalAgent p),
        pa_role := orKeep (ai_role a) (pa_role p), pa_stage := orKeep (ai_phase a) (pa_stage p), pa_phase := orKeep (ai_phase a) (pa_phase p),
        pa_parentSupervisorGeneration := orKeep (ai_parentSupervisorGeneration a) (orKeep (pa_parentSupervisorGeneration p) (su_activeGeneration (op_supervision op))),
        pa_parentAgentId := orKeep (ai_parentAgentId a) (orKeep (pa_parentAgentId p) (Option.bind (activeOperationSupervisor op) sg_agentId)),
        pa_workspaceId := orKeep (ai_workspaceId a) (pa_workspaceId p), pa_transport := orKeep (ai_transport a) (pa_transport p)\<rparr>)"

definition withParticipants :: "(string \<times> OperationParticipantRecord) list \<Rightarrow> OperationRecordV2 \<Rightarrow> OperationRecordV2" where
  "withParticipants ps op = op\<lparr>op_participants := ps, op_progress := deriveProgress ps\<rparr>"

definition registerOperationAgent :: "store_env \<Rightarrow> controller_process \<Rightarrow> string \<Rightarrow> agent_input \<Rightarrow> OperationRecordV2 \<Rightarrow> store_error + OperationRecordV2" where
  "registerOperationAgent S cp now a =
     mutateOperation S cp now emptyPatch True ''operation.participant.registered''
       (Some (\<lambda>current revision.
          (let agents = filter (\<lambda>g. ag_id g \<noteq> ai_id a) (op_agents current)
                 @ [agentRecord now a (List.find (\<lambda>g. ag_id g = ai_id a) (op_agents current))];
               next = (touched now revision current)\<lparr>op_agents := agents\<rparr> in
           if orKeep (ai_logicalAgent a) (ai_role a) = Some ''operation-supervisor'' then Inr next
           else Inr (withParticipants (AList.update (ai_id a) (registeredParticipant now a current) (op_participants current)) next)))) False"

subsection \<open>Participants\<close>

text \<open>A patch of a participant: the fields the code inspects, and the other fields as the update they make.\<close>

record participant_patch =
  pp_status :: "OperationParticipantStatus option"
  pp_startedAt :: "string option"
  pp_finishedAt :: "string option"
  pp_other :: "OperationParticipantRecord \<Rightarrow> OperationParticipantRecord"

definition patchedParticipant :: "string \<Rightarrow> string \<Rightarrow> participant_patch \<Rightarrow> OperationParticipantRecord \<Rightarrow> OperationParticipantRecord" where
  "patchedParticipant now i patch previous =
     (let status = (case pp_status patch of
            Some s \<Rightarrow> Some (if isParticipantTerminal (pa_status previous) \<and> s \<noteq> pa_status previous then pa_status previous else s)
          | None \<Rightarrow> None);
          effective = (case status of Some s \<Rightarrow> s | None \<Rightarrow> pa_status previous);
          finished = orKeep (pp_finishedAt patch) (pa_finishedAt previous) in
      (pp_other patch previous)\<lparr>pa_id := i, pa_registeredAt := pa_registeredAt previous, pa_executionBinding := pa_executionBinding previous,
        pa_status := effective,
        pa_startedAt := (if status = Some PartRunning then orKeep (pa_startedAt previous) (Some now) else orKeep (pp_startedAt patch) (pa_startedAt previous)),
        pa_finishedAt := (if isParticipantTerminal effective then orKeep finished (Some now) else finished)\<rparr>)"

definition updateOperationParticipant ::
    "store_env \<Rightarrow> controller_process \<Rightarrow> string \<Rightarrow> string \<Rightarrow> participant_patch \<Rightarrow> OperationRecordV2 \<Rightarrow> store_error + OperationRecordV2" where
  "updateOperationParticipant S cp now i patch =
     mutateOperation S cp now emptyPatch True ''operation.participant.updated''
       (Some (\<lambda>current revision.
          (let previous = (case map_of (op_participants current) i of Some p \<Rightarrow> p | None \<Rightarrow> newParticipant now i) in
           Inr (withParticipants (AList.update i (patchedParticipant now i patch previous) (op_participants current)) (touched now revision current))))) False"

text \<open>\<open>loaded\<close> is the record read first, if it could be read.\<close>

definition updateRegisteredOperationParticipant ::
    "store_env \<Rightarrow> controller_process \<Rightarrow> string \<Rightarrow> string \<Rightarrow> participant_patch \<Rightarrow> OperationRecordV2 option \<Rightarrow> OperationRecordV2 \<Rightarrow>
     store_error + OperationRecordV2 option" where
  "updateRegisteredOperationParticipant S cp now i patch loaded stored =
     (case Option.bind loaded (\<lambda>op. map_of (op_participants op) i) of
        None \<Rightarrow> Inr None
      | Some _ \<Rightarrow> map_sum id Some (updateOperationParticipant S cp now i patch stored))"

subsection \<open>Execution bindings\<close>

definition provenance :: "string \<Rightarrow> string" where
  "provenance message = ''V2_RESULT_PROVENANCE: '' @ message"

definition notRegistered :: string where
  "notRegistered = provenance ''execution binding participant is not registered for this role.''"

definition bindingCurrent :: "store_env \<Rightarrow> js \<Rightarrow> OperationRecordV2 \<Rightarrow> store_error + unit" where
  "bindingCurrent S binding op =
     andThen (identityCheck (assertExecutionBindingV3 (se_js S) binding)) (\<lambda>_.
     (case op_resolvedOperationPolicy op of
        None \<Rightarrow> Inl (StoreRejected ''EXECUTION_POLICY_REQUIRED: participant binding requires a frozen ResolvedOperationPolicy.'')
      | Some policy \<Rightarrow>
          andThen (identityCheck (assertResolvedOperationPolicyV2 (se_js S) policy)) (\<lambda>_.
          andThen (storeWhen (js_get binding ''operationPolicyDigest'' \<noteq> js_get policy ''digest'')
            (''EXECUTION_POLICY_MISMATCH: participant binding does not use the operation'' @ [CHR 0x27] @ ''s frozen policy.'')) (\<lambda>_.
          andThen (storeWhen (case op_candidateRevision op of
                None \<Rightarrow> True
              | Some c \<Rightarrow> js_get c ''identityDigest'' \<noteq> js_get binding ''candidateDigest'' \<or> js_get c ''revision'' \<noteq> js_get binding ''candidateRevision'')
            (provenance ''execution binding candidate is no longer current.'')) (\<lambda>_.
          andThen (storeWhen (js_get binding ''version'' \<noteq> jint 3)
            ''UNSUPPORTED_EXECUTION_BINDING_VERSION: expected version 3; relaunch this participant with a current binding.'') (\<lambda>_.
          andThen (storeWhen (map_option jint (op_operationExecutionRevision op) \<noteq> Some (js_get binding ''operationExecutionRevision''))
            (provenance ''execution binding operation execution revision is stale or unsupported.'')) (\<lambda>_.
          storeWhen (js_get binding ''controllerEpoch'' \<noteq> jint (currentControllerEpoch op))
            (provenance ''execution binding controller epoch is stale.''))))))))"

definition bindingOwner :: "js \<Rightarrow> string \<Rightarrow> OperationRecordV2 \<Rightarrow> store_error + unit" where
  "bindingOwner binding participantId op =
     storeWhen (js_get binding ''operationId'' \<noteq> JStr (op_id op) \<or> js_get binding ''participantId'' \<noteq> JStr participantId)
       (provenance ''execution binding operation or participant identity is stale.'')"

fun bindFirst :: "string \<Rightarrow> js \<Rightarrow> OperationAgentRecord list \<Rightarrow> OperationAgentRecord list" where
  "bindFirst i b [] = []"
| "bindFirst i b (a # rest) = (if ag_id a = i then a\<lparr>ag_executionBinding := Some b\<rparr> # rest else a # bindFirst i b rest)"

text \<open>\<open>logicalAgent\<close> and \<open>role\<close> are the identity the caller registered the participant under.\<close>

definition bindOperationParticipantExecution ::
    "store_env \<Rightarrow> controller_process \<Rightarrow> string \<Rightarrow> string \<Rightarrow> string \<Rightarrow> string \<Rightarrow> js \<Rightarrow> OperationRecordV2 \<Rightarrow> store_error + OperationRecordV2" where
  "bindOperationParticipantExecution S cp now participantId logicalAgent role binding =
     mutateOperation S cp now emptyPatch True ''operation.participant.execution-bound''
       (Some (\<lambda>current revision.
          andThen (bindingCurrent S binding current) (\<lambda>_.
          (case map_of (op_participants current) participantId of
             None \<Rightarrow>
               andThen (storeWhen (role \<noteq> ''Operation Supervisor'' \<or> (case List.find (\<lambda>g. ag_id g = participantId) (op_agents current) of
                   None \<Rightarrow> True | Some agent \<Rightarrow> ag_role agent \<noteq> Some role)) notRegistered) (\<lambda>_.
               andThen (bindingOwner binding participantId current) (\<lambda>_.
               Inr ((touched now revision current)\<lparr>op_agents := bindFirst participantId binding (op_agents current)\<rparr>)))
           | Some previous \<Rightarrow>
               andThen (storeWhen (pa_role previous \<noteq> Some role \<or> pa_logicalAgent previous \<noteq> Some logicalAgent) notRegistered) (\<lambda>_.
               andThen (bindingOwner binding participantId current) (\<lambda>_.
               Inr ((touched now revision current)\<lparr>op_participants :=
                 AList.update participantId (previous\<lparr>pa_executionBinding := Some binding\<rparr>) (op_participants current)\<rparr>))))))) False"

subsection \<open>Participant receipts\<close>

text \<open>\<open>/^participant:[0-9a-f]{16}$/\<close>.\<close>

definition launchIdentity :: "string \<Rightarrow> bool" where
  "launchIdentity s \<longleftrightarrow> starts_with ''participant:'' s \<and> length s = 28 \<and> list_all hex_char (drop 12 s)"

definition receiptStatus :: "js \<Rightarrow> OperationParticipantStatus" where
  "receiptStatus receipt = (if js_get receipt ''outcome'' = JStr ''SUCCEEDED'' then PartCompleted
     else if js_get receipt ''outcome'' = JStr ''FAILED'' then PartFailed else PartCancelled)"

definition receiptArtifact :: "js \<Rightarrow> string option" where
  "receiptArtifact receipt = (case js_get (js_coalesce (js_get receipt ''persistedArtifact'') (js_get receipt ''artifact'')) ''artifactId'' of
     JStr s \<Rightarrow> Some s | _ \<Rightarrow> None)"

definition receiptedParticipants :: "string \<Rightarrow> js \<Rightarrow> string \<Rightarrow> OperationParticipantRecord \<Rightarrow> (string \<times> OperationParticipantRecord) list \<Rightarrow> (string \<times> OperationParticipantRecord) list" where
  "receiptedParticipants now receipt i previous ps =
     (let artifact = receiptArtifact receipt in
      if launchIdentity i
      then (if artifact \<noteq> None \<and> artifact \<noteq> Some [] \<and> pa_resultArtifact previous \<noteq> artifact
            then AList.update i (previous\<lparr>pa_resultArtifact := artifact\<rparr>) ps else ps)
      else AList.update i (previous\<lparr>pa_status := receiptStatus receipt, pa_finishedAt := orKeep (pa_finishedAt previous) (Some now), pa_resultArtifact := artifact\<rparr>) ps)"

definition receiptAllowed :: "store_env \<Rightarrow> int \<Rightarrow> js \<Rightarrow> OperationRecordV2 \<Rightarrow> store_error + unit" where
  "receiptAllowed S clock receipt op = (case op_candidateRevision op of
       None \<Rightarrow> Inl (StoreRejected ''V2_RECEIPT_REJECTED: operation has no current candidate revision.'')
     | Some c \<Rightarrow>
         andThen (assertWorkspaceMatchesCandidate S (candidateWorkspaceRoot op c) c) (\<lambda>_.
         andThen (map_sum StoreContract id (evaluateTerminalGate (se_js S) clock receipt (JObj [(''operationId'', JStr (op_id op)), (''candidate'', c)]))) (\<lambda>d.
         storeWhen (\<not> td_allowed d) ''V2_RECEIPT_REJECTED'')))"

definition recordParticipantReceipt ::
    "store_env \<Rightarrow> controller_process \<Rightarrow> string \<Rightarrow> int \<Rightarrow> js \<Rightarrow> OperationRecordV2 \<Rightarrow> OperationRecordV2 \<Rightarrow> store_error + OperationRecordV2" where
  "recordParticipantReceipt S cp now clock receipt loaded stored =
     (let i = str_of (js_get receipt ''participantId'') in
     andThen (receiptAllowed S clock receipt loaded) (\<lambda>_.
     mutateOperation S cp now emptyPatch True ''operation.participant.receipt''
       (Some (\<lambda>latest revision.
          (case op_candidateRevision latest of
             None \<Rightarrow> Inl (StoreRejected ''V2_RECEIPT_REJECTED: operation lost its current candidate revision.'')
           | Some c \<Rightarrow>
               (case map_of (op_participants latest) i of
                  None \<Rightarrow> Inl (StoreRejected ''V2_RECEIPT_REJECTED: participant is not registered for this operation.'')
                | Some previous \<Rightarrow>
                    andThen (checkContract (assertCurrentCandidateBinding (se_js S) (boundCandidate receipt) c)) (\<lambda>_.
                    andThen (assertWorkspaceMatchesCandidate S (candidateWorkspaceRoot latest c) c) (\<lambda>_.
                    Inr (withParticipants (receiptedParticipants now receipt i previous (op_participants latest))
                      ((touched now revision latest)\<lparr>op_participantReceipts :=
                         AList.update (str_of (js_get receipt ''receiptId'')) receipt (op_participantReceipts latest)\<rparr>)))))))) False stored))"

end
