(* ===== verification/OperationTerminal.thy ===== *)
theory OperationTerminal
  imports OperationParticipants CandidateLineage ObjectiveCompletion
begin

text \<open>
  How an operation ends (\<open>src/src/operations/state.ts\<close>): settlement of its parts, the frozen hard deadline, the Owner
  boundaries, the evidence a success needs, and the transition itself. The participant accounting is that of
  \<open>src/src/operations/participantAccounting.ts\<close> and the persisted oracle disposition that of
  \<open>src/src/architecture/acceptanceOracle.ts\<close>.
\<close>

subsection \<open>Settlement\<close>

definition settledStatus :: "OperationStatus \<Rightarrow> OperationParticipantStatus" where
  "settledStatus s = (if s = SUCCEEDED then PartCompleted else if s = FAILED then PartFailed else PartCancelled)"

definition settleParticipant :: "OperationStatus \<Rightarrow> string \<Rightarrow> OperationParticipantRecord \<Rightarrow> OperationParticipantRecord" where
  "settleParticipant status finishedAt p = (if isParticipantTerminal (pa_status p) then p
     else p\<lparr>pa_status := settledStatus status, pa_finishedAt := orKeep (pa_finishedAt p) (Some finishedAt)\<rparr>)"

definition settleParticipants :: "OperationStatus \<Rightarrow> string \<Rightarrow> (string \<times> OperationParticipantRecord) list \<Rightarrow> (string \<times> OperationParticipantRecord) list" where
  "settleParticipants status finishedAt = map (\<lambda>(i, p). (i, settleParticipant status finishedAt p))"

definition settleSupervision :: "string \<Rightarrow> OperationSupervisionState \<Rightarrow> OperationSupervisionState" where
  "settleSupervision at su = su\<lparr>su_activeGeneration := None,
     su_generations := map (\<lambda>g. if sg_status g = GenActive \<or> sg_status g = GenInitializing then drainGeneration at g else g) (su_generations su)\<rparr>"

definition settleStage :: "OperationStatus \<Rightarrow> int \<Rightarrow> string \<Rightarrow> OperationStageRecord \<Rightarrow> OperationStageRecord" where
  "settleStage status revision finishedAt s = (if sr_status s \<noteq> StageRunning then s
     else s\<lparr>sr_status := terminalStageStatus status, sr_revision := revision, sr_finishedAt := Some finishedAt,
       sr_message := orKeep (sr_message s) (Some (''Operation terminalized as '' @ statusText status @ '' while this stage was active.''))\<rparr>)"

definition settleRunningStages :: "OperationStatus \<Rightarrow> int \<Rightarrow> string \<Rightarrow> (string \<times> OperationStageRecord) list \<Rightarrow> (string \<times> OperationStageRecord) list" where
  "settleRunningStages status revision finishedAt = map (\<lambda>(k, s). (k, settleStage status revision finishedAt s))"

definition finishedStage :: "OperationStatus \<Rightarrow> int \<Rightarrow> string \<Rightarrow> OperationStageRecord" where
  "finishedStage status revision now = \<lparr>sr_name = ''finished'', sr_status = terminalStageStatus status, sr_revision = revision, sr_startedAt = Some now,
     sr_finishedAt = Some now, sr_message = None, sr_artifact = None\<rparr>"

text \<open>The parts of a record as they are after it ended at \<open>now\<close>.\<close>

definition settledRecord :: "OperationStatus \<Rightarrow> int \<Rightarrow> string \<Rightarrow> OperationRecordV2 \<Rightarrow> OperationRecordV2" where
  "settledRecord status revision now op = withParticipants (settleParticipants status now (op_participants op))
     ((touched now revision op)\<lparr>op_supervision := settleSupervision now (op_supervision op),
       op_stages := AList.update ''finished'' (finishedStage status revision now) (settleRunningStages status revision now (op_stages op))\<rparr>)"

subsection \<open>The hard deadline\<close>

text \<open>\<open>None\<close> in the result is \<open>undefined\<close>: terminal operations have no deadline, an unreadable date has none either.\<close>

definition rootDeadline :: "store_env \<Rightarrow> OperationRecordV2 \<Rightarrow> int option option" where
  "rootDeadline S op = map_option (\<lambda>origin. date_parse (se_js S) (str_of (js_get origin ''rootHardDeadlineAt''))) (op_origin op)"

definition policyDeadline :: "int \<Rightarrow> OperationRecordV2 \<Rightarrow> int option" where
  "policyDeadline createdAt op = map_option (\<lambda>p. createdAt + int_of (js_get (js_get p ''executionLiveness'') ''hardDeadlineMs'')) (op_resolvedOperationPolicy op)"

definition earlier :: "int option \<Rightarrow> int option option \<Rightarrow> int option" where
  "earlier fromPolicy fromRoot = (case fromRoot of
       None \<Rightarrow> fromPolicy
     | Some None \<Rightarrow> None
     | Some (Some r) \<Rightarrow> Some (case fromPolicy of Some d \<Rightarrow> min d r | None \<Rightarrow> r))"

definition frozenOperationHardDeadlineAt :: "store_env \<Rightarrow> OperationRecordV2 \<Rightarrow> store_error + int option" where
  "frozenOperationHardDeadlineAt S op =
     (if isTerminal (op_status op) then Inr None
      else andThen (case op_resolvedOperationPolicy op of None \<Rightarrow> Inr () | Some p \<Rightarrow> identityCheck (assertResolvedOperationPolicyV2 (se_js S) p)) (\<lambda>_.
        Inr (case date_parse (se_js S) (op_createdAt op) of
          None \<Rightarrow> None | Some createdAt \<Rightarrow> earlier (policyDeadline createdAt op) (rootDeadline S op))))"

text \<open>\<open>new Date(t).toISOString()\<close>, which throws outside the range of dates.\<close>

definition isoAt :: "store_env \<Rightarrow> int \<Rightarrow> store_error + string" where
  "isoAt S t = (case timeClip t of Some n \<Rightarrow> Inr (to_iso (se_js S) n) | None \<Rightarrow> Inl StoreTypeError)"

definition createOwnerContinuationBoundaryV1 :: "store_env \<Rightarrow> OperationRecordV2 \<Rightarrow> int \<Rightarrow> int \<Rightarrow> int \<Rightarrow> store_error + js" where
  "createOwnerContinuationBoundaryV1 S op deadline at terminalRevision =
     (let origin = field (op_origin op); turn = js_get origin ''userTurnId'' in
     andThen (isoAt S deadline) (\<lambda>deadlineText.
     andThen (noCandidate S op) (\<lambda>candidateDigest.
     andThen (noPolicy S op) (\<lambda>policyDigest.
     andThen (isoAt S at) (\<lambda>createdAt.
     (let body = [(''version'', jint 1), (''kind'', JStr ''OWNER_CONTINUATION_BOUNDARY''), (''reasonCode'', JStr ''HARD_OPERATION_DEADLINE''),
            (''operationId'', JStr (op_id op))] @ (if js_truthy turn then [(''userTurnId'', turn)] else [])
          @ [(''triggerEventId'', JStr (''operation.hard-deadline:'' @ op_id op @ '':'' @ int_text terminalRevision)),
             (''rootHardDeadlineAt'', js_coalesce (js_get origin ''rootHardDeadlineAt'') (JStr deadlineText)),
             (''candidateDigest'', candidateDigest), (''policyDigest'', policyDigest), (''controllerEpoch'', jint (currentControllerEpoch op)),
             (''state'', JStr ''WAITING''),
             (''reason'', JStr (''The frozen Owner hard operation deadline '' @ deadlineText
                @ '' elapsed. A new execution root requires an explicit Owner-authorized CLI start.'')),
             (''createdAt'', JStr createdAt)] in
      andThen (storeDigest S (JObj body)) (\<lambda>d. Inr (JObj (body @ [(''digest'', JStr d)])))))))))"

definition deadlineReached :: "string \<Rightarrow> string \<Rightarrow> string \<Rightarrow> string" where
  "deadlineReached owner at rest = ''HUMAN_REQUIRED: OPERATION_HARD_DEADLINE_REACHED: frozen '' @ owner @ '' deadline '' @ at @ rest"

text \<open>The record the watchdog commits, and its transition. The flag of the result says whether it was made.\<close>

definition watchdogRecord :: "string \<Rightarrow> js \<Rightarrow> string \<Rightarrow> OperationRecordV2 \<Rightarrow> OperationRecordV2" where
  "watchdogRecord now boundary deadlineText op = (settledRecord FAILED (op_revision op + 1) now op)\<lparr>
     op_status := FAILED, op_phase := ''HUMAN_REQUIRED'', op_ownerContinuationBoundary := Some boundary, op_ownerExemptions := None,
     op_error := Some (deadlineReached ''owner'' deadlineText '' elapsed.''), op_finishedAt := Some now\<rparr>"

definition watchdogTransition :: "store_env \<Rightarrow> int \<Rightarrow> OperationRecordV2 \<Rightarrow> int option \<Rightarrow> store_error + OperationRecordV2 \<times> bool" where
  "watchdogTransition S at current deadline =
     (let early = ''OPERATION_HARD_DEADLINE_NOT_REACHED: Watchdog terminalization requires the exact frozen deadline to have elapsed.'' in
      case deadline of
        None \<Rightarrow> Inl (StoreRejected early)
      | Some d \<Rightarrow>
          andThen (storeWhen (at < d) early) (\<lambda>_.
          andThen (isoAt S at) (\<lambda>now.
          andThen (createOwnerContinuationBoundaryV1 S current d at (op_revision current + 1)) (\<lambda>boundary.
          andThen (isoAt S d) (\<lambda>deadlineText.
          andThen (normalizeOperationRecord S (watchdogRecord now boundary deadlineText current)) (\<lambda>next.
          Inr (next, True)))))))"

definition transitionOperationAtHardDeadlineV1 :: "store_env \<Rightarrow> int \<Rightarrow> OperationRecordV2 \<Rightarrow> store_error + OperationRecordV2 \<times> bool" where
  "transitionOperationAtHardDeadlineV1 S at current =
     (if isTerminal (op_status current) then Inr (current, False)
      else
        andThen (case op_resolvedOperationPolicy current of None \<Rightarrow> Inr () | Some p \<Rightarrow> identityCheck (assertResolvedOperationPolicyV2 (se_js S) p)) (\<lambda>_.
        andThen (storeWhen (date_parse (se_js S) (op_createdAt current) = None)
          ''OPERATION_HARD_DEADLINE_POLICY_MISSING: operation creation timestamp is invalid.'') (\<lambda>_.
        andThen (frozenOperationHardDeadlineAt S current) (watchdogTransition S at current))))"

subsection \<open>The Owner's economic boundary\<close>

definition lastItems :: "nat \<Rightarrow> 'a list \<Rightarrow> 'a list" where
  "lastItems n xs = drop (length xs - n) xs"

definition operationBindingDigest :: "store_env \<Rightarrow> OperationRecordV2 \<Rightarrow> store_error + string" where
  "operationBindingDigest S op = storeDigest S (JObj [(''operationId'', JStr (op_id op)),
     (''candidateDigest'', js_get (field (op_candidateRevision op)) ''identityDigest''), (''policyDigest'', js_get (field (op_resolvedOperationPolicy op)) ''digest''),
     (''controllerEpoch'', jint (currentControllerEpoch op)), (''scope'', JStr ''OPERATION'')])"

text \<open>\<open>a ?? compute()\<close>.\<close>

definition coalesceOr :: "js \<Rightarrow> store_error + js \<Rightarrow> store_error + js" where
  "coalesceOr v r = (if js_nullish v then r else Inr v)"

definition createOwnerEconomicBoundaryRequirementV1 ::
    "store_env \<Rightarrow> OperationRecordV2 \<Rightarrow> OperationParticipantRecord option \<Rightarrow> js \<Rightarrow> int \<Rightarrow> store_error + js" where
  "createOwnerEconomicBoundaryRequirementV1 S op participant signal at =
     (let binding = field (Option.bind participant pa_executionBinding) in
     andThen (coalesceOr (js_get binding ''digest'') (map_sum id JStr (operationBindingDigest S op))) (\<lambda>bindingDigest.
     andThen (coalesceOr (js_get binding ''candidateDigest'') (noCandidate S op)) (\<lambda>candidateDigest.
     andThen (coalesceOr (js_get binding ''operationPolicyDigest'') (noPolicy S op)) (\<lambda>policyDigest.
     andThen (isoAt S at) (\<lambda>createdAt.
     (let body = [(''version'', jint 1), (''kind'', JStr ''OWNER_ECONOMIC_BOUNDARY''),
            (''scope'', JStr (if participant = None then ''OPERATION'' else ''PARTICIPANT'')), (''operationId'', JStr (op_id op)),
            (''participantId'', JStr (case participant of Some p \<Rightarrow> pa_id p | None \<Rightarrow> ''controller:operation'')),
            (''participantGeneration'', js_coalesce (js_get binding ''participantGeneration'') (JStr ''controller'')),
            (''executionBindingDigest'', bindingDigest), (''candidateDigest'', candidateDigest), (''policyDigest'', policyDigest),
            (''controllerEpoch'', js_coalesce (js_get binding ''controllerEpoch'') (jint (currentControllerEpoch op))),
            (''budget'', js_get signal ''budget''), (''configuredLimit'', js_get signal ''configuredLimit''), (''observed'', js_get signal ''observed''),
            (''usageCoverage'', js_get signal ''usageCoverage''),
            (''evidenceRefs'', JArr (lastItems 16 (js_uniq (js_items (js_get signal ''evidenceRefs''))))),
            (''reason'', JStr (take 2000 (str_of (js_get signal ''reason'')))), (''state'', JStr ''WAITING''), (''createdAt'', JStr createdAt)] in
      andThen (storeDigest S (JObj body)) (\<lambda>d. Inr (JObj (body @ [(''digest'', JStr d)])))))))))"

text \<open>The bound participant with the latest activity; a date that cannot be read never moves a participant forward.\<close>

definition activityAt :: "store_env \<Rightarrow> OperationParticipantRecord \<Rightarrow> int option" where
  "activityAt S p = date_parse (se_js S)
     (case orKeep (Option.bind (pa_executionLiveness p) lv_lastActivityAt) (pa_startedAt p) of Some t \<Rightarrow> t | None \<Rightarrow> pa_registeredAt p)"

definition laterActivity :: "store_env \<Rightarrow> OperationParticipantRecord \<Rightarrow> OperationParticipantRecord \<Rightarrow> bool" where
  "laterActivity S a b = (case (activityAt S a, activityAt S b) of (Some l, Some r) \<Rightarrow> r \<le> l | _ \<Rightarrow> True)"

definition boundaryParticipant :: "store_env \<Rightarrow> OperationRecordV2 \<Rightarrow> OperationParticipantRecord option" where
  "boundaryParticipant S op =
     (case sortBy (laterActivity S) (filter (\<lambda>p. pa_executionBinding p \<noteq> None) (map snd (op_participants op))) of
        [] \<Rightarrow> None | p # _ \<Rightarrow> Some p)"

subsection \<open>Evidence of success\<close>

definition gateRejected :: "string \<Rightarrow> string" where
  "gateRejected message = ''V2_TERMINAL_GATE_REJECTED: '' @ message"

definition gateContext :: "OperationRecordV2 \<Rightarrow> js \<Rightarrow> js" where
  "gateContext op candidate = JObj [(''operationId'', JStr (op_id op)), (''candidate'', candidate)]"

text \<open>Whether one receipt counts for its participant.\<close>

definition receiptCounts :: "store_env \<Rightarrow> int \<Rightarrow> OperationRecordV2 \<Rightarrow> js \<Rightarrow> js \<Rightarrow> store_error + bool" where
  "receiptCounts S clock op current receipt =
     (let bound = boundCandidate receipt in
     andThen (if js_truthy bound then map_sum StoreUnserializable id (resolveCandidateLineageReceiptV1 (se_js S) receipt current (map snd (op_candidateAssemblyReceipts op)))
       else Inr None) (\<lambda>resolution.
     andThen (map_sum StoreContract id (evaluateTerminalGate (se_js S) clock receipt (gateContext op
       (case resolution of Some (ASSEMBLY _) \<Rightarrow> bound | Some ANCESTOR \<Rightarrow> bound | _ \<Rightarrow> current)))) (\<lambda>d. Inr (td_allowed d))))"

fun terminalReceiptDecision :: "store_env \<Rightarrow> int \<Rightarrow> OperationRecordV2 \<Rightarrow> js \<Rightarrow> js list \<Rightarrow> store_error + bool" where
  "terminalReceiptDecision S clock op current [] = Inr False"
| "terminalReceiptDecision S clock op current (r # rs) =
     andThen (receiptCounts S clock op current r) (\<lambda>ok. if ok then Inr True else terminalReceiptDecision S clock op current rs)"

definition supervisesOperation :: "OperationRecordV2 \<Rightarrow> OperationParticipantRecord \<Rightarrow> bool" where
  "supervisesOperation op p \<longleftrightarrow> (pa_id p \<noteq> [] \<and> Some (pa_id p) \<in> set (map sg_agentId (su_generations (op_supervision op))))
     \<or> pa_role p = Some ''Operation Supervisor'' \<or> pa_role p = Some ''Semantic Assessor''"

definition ownReceipts :: "OperationRecordV2 \<Rightarrow> string \<Rightarrow> js list" where
  "ownReceipts op i = filter (\<lambda>r. js_get r ''participantId'' = JStr i \<or> js_get r ''sessionId'' = JStr i) (map snd (op_participantReceipts op))"

definition participantEvidence :: "store_env \<Rightarrow> int \<Rightarrow> OperationRecordV2 \<Rightarrow> js \<Rightarrow> OperationParticipantRecord \<Rightarrow> store_error + unit" where
  "participantEvidence S clock op current p =
     (if supervisesOperation op p then Inr ()
      else
        andThen (storeWhen (ownReceipts op (pa_id p) = []) (gateRejected (''participant '' @ pa_id p @ '' has no terminal receipt.''))) (\<lambda>_.
        andThen (terminalReceiptDecision S clock op current (ownReceipts op (pa_id p))) (\<lambda>ok.
        storeWhen (\<not> ok) (gateRejected (''participant '' @ pa_id p)))))"

definition currentObjectiveIdentityV1 :: "store_env \<Rightarrow> OperationRecordV2 \<Rightarrow> store_error + js" where
  "currentObjectiveIdentityV1 S op =
     (let epoch = jint (currentControllerEpoch op) in
     case (op_candidateRevision op, op_resolvedOperationPolicy op, op_operationExecutionRevision op) of
        (Some c, Some p, Some n) \<Rightarrow>
          andThen (storeWhen (\<not> safe_int n \<or> n < 1)
            ''ACCEPTANCE_IDENTITY_REQUIRED: current candidate, frozen policy, and operation execution revision are required.'') (\<lambda>_.
          andThen (identityCheck (assertResolvedOperationPolicyV2 (se_js S) p)) (\<lambda>_.
          andThen (storeWhen (js_get p ''operationId'' \<noteq> JStr (op_id op) \<or> js_get p ''candidateRevision'' \<noteq> js_get c ''revision''
              \<or> js_get p ''candidateDigest'' \<noteq> js_get c ''identityDigest'' \<or> js_get p ''operationExecutionRevision'' \<noteq> jint n
              \<or> js_get p ''controllerEpoch'' \<noteq> epoch
              \<or> js_truthy (js_get c ''projectId'') \<and> js_get p ''projectId'' \<noteq> js_get c ''projectId'')
            ''ACCEPTANCE_POLICY_STALE'') (\<lambda>_.
          Inr (JObj [(''operationId'', JStr (op_id op)), (''candidate'', c), (''policyDigest'', js_get p ''digest''),
            (''operationExecutionRevision'', jint n), (''controllerEpoch'', epoch)]))))
      | _ \<Rightarrow> Inl (StoreRejected ''ACCEPTANCE_IDENTITY_REQUIRED: current candidate, frozen policy, and operation execution revision are required.''))"

text \<open>\<open>sha256Canonical(a) !== sha256Canonical(b)\<close>.\<close>

definition sameDigest :: "store_env \<Rightarrow> js \<Rightarrow> js \<Rightarrow> store_error + bool" where
  "sameDigest S a b = andThen (storeDigest S a) (\<lambda>x. andThen (storeDigest S b) (\<lambda>y. Inr (x = y)))"

definition needSame :: "store_env \<Rightarrow> js \<Rightarrow> js \<Rightarrow> string \<Rightarrow> store_error + unit" where
  "needSame S a b message = andThen (sameDigest S a b) (\<lambda>same. storeWhen (\<not> same) message)"

definition oracleStale :: string where
  "oracleStale = ''ACCEPTANCE_ORACLE_ARTIFACT_STALE: persisted disposition is not the current accepted candidate/policy/execution/epoch result.''"

definition ownDigest :: "store_env \<Rightarrow> js \<Rightarrow> string \<Rightarrow> store_error + unit" where
  "ownDigest S v message = andThen (storeDigest S (digestBody v)) (\<lambda>d. storeWhen (js_get v ''digest'' \<noteq> JStr d) message)"

text \<open>\<open>stored\<close> is the parsed artifact file, if there is one.\<close>

definition loadCurrentAcceptanceOracleArtifactV1 :: "store_env \<Rightarrow> js option \<Rightarrow> OperationRecordV2 \<Rightarrow> store_error + js option" where
  "loadCurrentAcceptanceOracleArtifactV1 S stored op =
     andThen (currentObjectiveIdentityV1 S op) (\<lambda>current.
     (case stored of
        None \<Rightarrow> Inr None
      | Some a \<Rightarrow>
          (let bundle = js_get a ''evidenceBundle''; disposition = js_get a ''disposition'' in
          andThen (storeWhen (js_get a ''version'' \<noteq> jint 1 \<or> js_get a ''operationId'' \<noteq> JStr (op_id op)) oracleStale) (\<lambda>_.
          andThen (needSame S (js_get a ''identity'') current oracleStale) (\<lambda>_.
          andThen (needSame S (js_get bundle ''identity'') current oracleStale) (\<lambda>_.
          andThen (needSame S (js_get disposition ''identity'') current oracleStale) (\<lambda>_.
          andThen (storeWhen (js_get bundle ''digest'' \<noteq> js_get disposition ''evidenceBundleDigest''
              \<or> js_get disposition ''disposition'' \<notin> JStr ` {''ACCEPTED'', ''REJECTED''}) oracleStale) (\<lambda>_.
          andThen (if js_get disposition ''disposition'' = JStr ''ACCEPTED''
            then needSame S (js_get disposition ''requiredAssertionIds'') (js_get disposition ''coveredAssertionIds'') oracleStale else Inr ()) (\<lambda>_.
          andThen (ownDigest S disposition ''ACCEPTANCE_ORACLE_ARTIFACT_INVALID: disposition digest does not match its content.'') (\<lambda>_.
          andThen (ownDigest S bundle ''ACCEPTANCE_ORACLE_ARTIFACT_INVALID: EvidenceBundle digest does not match its content.'') (\<lambda>_.
          Inr (Some a))))))))))))"

subsection \<open>Participant accounting\<close>

record accounting_entry =
  ae_id :: string
  ae_status :: OperationParticipantStatus
  ae_supersededBy :: "string option"

fun findResult :: "('a \<Rightarrow> 'e + bool) \<Rightarrow> 'a list \<Rightarrow> 'e + 'a option" where
  "findResult f [] = Inr None"
| "findResult f (x # xs) = andThen (f x) (\<lambda>ok. if ok then Inr (Some x) else findResult f xs)"

definition accountsFor :: "store_env \<Rightarrow> js \<Rightarrow> js list \<Rightarrow> string \<Rightarrow> js \<Rightarrow> store_error + bool" where
  "accountsFor S candidate assemblies i entry =
     (if (js_get entry ''participantId'' = JStr i \<or> js_get entry ''sessionId'' = JStr i)
         \<and> js_get entry ''settled'' = JBool True \<and> js_get entry ''candidate'' \<noteq> JUndefined
      then map_sum StoreUnserializable (\<lambda>l. l \<noteq> None) (resolveCandidateLineageReceiptV1 (se_js S) entry candidate assemblies)
      else Inr False)"

definition participantRefs :: "OperationRecordV2 \<Rightarrow> (string \<times> participant_ref) list" where
  "participantRefs op = map (\<lambda>(i, p). (i, \<lparr>pr_id = pa_id p, pr_parentAgentId = pa_parentAgentId p\<rparr>)) (op_participants op)"

definition accountParticipant :: "store_env \<Rightarrow> OperationRecordV2 \<Rightarrow> js \<Rightarrow> OperationParticipantRecord \<Rightarrow> store_error + accounting_entry" where
  "accountParticipant S op candidate p =
     (let receipts = map snd (op_participantReceipts op); assemblies = map snd (op_candidateAssemblyReceipts op);
          entry = (\<lambda>s by. \<lparr>ae_id = pa_id p, ae_status = s, ae_supersededBy = by\<rparr>) in
      andThen (findResult (accountsFor S candidate assemblies (pa_id p)) receipts) (\<lambda>receipt.
      (case receipt of
         Some r \<Rightarrow> Inr (entry (receiptStatus r) None)
       | None \<Rightarrow>
           if pa_status p \<noteq> PartFailed then Inr (entry (pa_status p) None)
           else andThen (map_sum StoreUnserializable id
                   (resolveAttemptChainSupersedeV1 (se_js S) (pa_id p) (participantRefs op) receipts candidate assemblies)) (\<lambda>supersede.
             Inr (if supersede = None then entry PartFailed None else entry PartCompleted supersede)))))"

definition objectiveParticipantAccountingV1 :: "store_env \<Rightarrow> OperationRecordV2 \<Rightarrow> js \<Rightarrow> store_error + accounting_entry list" where
  "objectiveParticipantAccountingV1 S op candidate = sequence_results (map (accountParticipant S op candidate) (map snd (op_participants op)))"

definition participantStatusText :: "OperationParticipantStatus \<Rightarrow> string" where
  "participantStatusText s = (case s of PartRegistered \<Rightarrow> ''REGISTERED'' | PartIdle \<Rightarrow> ''IDLE'' | PartRunning \<Rightarrow> ''RUNNING'' | PartCompleted \<Rightarrow> ''COMPLETED''
     | PartFailed \<Rightarrow> ''FAILED'' | PartBlocked \<Rightarrow> ''BLOCKED'' | PartCancelled \<Rightarrow> ''CANCELLED'')"

subsection \<open>Issue imports\<close>

text \<open>\<open>readFile\<close> reads a file below the state root, \<open>None\<close> where it cannot.\<close>

definition sha256Text :: "js \<Rightarrow> bool" where
  "sha256Text v = (case v of JStr s \<Rightarrow> is_digest s | _ \<Rightarrow> False)"

definition intakeComplete :: "js \<Rightarrow> bool" where
  "intakeComplete v \<longleftrightarrow> js_truthy v \<and> js_get v ''version'' = jint 1 \<and> nonBlank (js_get v ''taskId'') \<and> nonBlank (js_get v ''route'')
     \<and> js_truthy (js_get (js_get v ''snapshot'') ''path'') \<and> js_truthy (js_get (js_get v ''contract'') ''path'')
     \<and> sha256Text (js_get (js_get v ''snapshot'') ''contentSha256'') \<and> sha256Text (js_get (js_get v ''contract'') ''digest'')"

definition intakeStale :: string where
  "intakeStale = ''ISSUE_INTAKE_CANDIDATE_STALE: the Planner receipt is not bound to the intake candidate lineage.''"

definition parentAdvanced :: "js \<Rightarrow> js \<Rightarrow> js \<Rightarrow> js \<Rightarrow> bool" where
  "parentAdvanced evidence receipt bound current \<longleftrightarrow> js_truthy (js_get evidence ''candidateAdvanced'') \<and> js_get receipt ''settled'' = JBool True
     \<and> js_get current ''revision'' = jint (int_of (js_get bound ''revision'') + 1)
     \<and> js_get current ''parentCandidateId'' \<noteq> JUndefined \<and> js_get bound ''candidateId'' = js_get current ''parentCandidateId''"

definition plannerEvidence :: "store_env \<Rightarrow> int \<Rightarrow> OperationRecordV2 \<Rightarrow> js \<Rightarrow> js \<Rightarrow> js \<Rightarrow> store_error + unit" where
  "plannerEvidence S clock op current evidence receipt =
     (let bound = boundCandidate receipt in
     andThen (storeWhen (\<not> js_truthy bound) ''ISSUE_INTAKE_RECEIPT_REQUIRED: the Planner receipt carries no candidate binding.'') (\<lambda>_.
     andThen (storeWhen (js_get receipt ''operationId'' \<noteq> JStr (op_id op) \<or> js_get bound ''operationId'' \<noteq> js_get current ''operationId'') intakeStale) (\<lambda>_.
     andThen (if js_get receipt ''settled'' = JBool True \<and> js_get receipt ''outcome'' = JStr ''SUCCEEDED''
       then map_sum StoreUnserializable id (resolveCandidateLineageReceiptV1 (se_js S) receipt current (map snd (op_candidateAssemblyReceipts op)))
       else Inr None) (\<lambda>lineage.
     andThen (storeWhen (lineage = None \<and> \<not> parentAdvanced evidence receipt bound current) intakeStale) (\<lambda>_.
     andThen (map_sum StoreContract id (evaluateTerminalGate (se_js S) clock receipt (gateContext op bound))) (\<lambda>d.
     storeWhen (\<not> td_allowed d) ''ISSUE_INTAKE_RECEIPT_REQUIRED: the Planner receipt is not valid completion evidence.''))))))"

definition assertIssueIntakeTerminalEvidence ::
    "store_env \<Rightarrow> int \<Rightarrow> (string \<Rightarrow> string option) \<Rightarrow> OperationRecordV2 \<Rightarrow> js \<Rightarrow> js \<Rightarrow> store_error + unit" where
  "assertIssueIntakeTerminalEvidence S clock readFile op current evidence =
     andThen (storeWhen (\<not> intakeComplete evidence)
       ''ISSUE_INTAKE_EVIDENCE_REQUIRED: a successful issue import requires the complete deterministic intake evidence.'') (\<lambda>_.
     andThen (storeWhen (case readFile (str_of (js_get (js_get evidence ''contract'') ''path'')) of
         None \<Rightarrow> True
       | Some content \<Rightarrow> content = [] \<or> js_get (js_get evidence ''contract'') ''digest'' \<noteq> JStr (sha256Utf8 (se_js S) content))
       ''ISSUE_INTAKE_ARTIFACT_STALE: the authored TaskContract does not match the recorded digest.'') (\<lambda>_.
     (case List.find (\<lambda>r. js_get r ''role'' = JStr ''Planner'' \<and> js_get r ''outcome'' = JStr ''SUCCEEDED'') (map snd (op_participantReceipts op)) of
        None \<Rightarrow> Inl (StoreRejected ''ISSUE_INTAKE_RECEIPT_REQUIRED: a successful issue import requires the bounded Planner receipt.'')
      | Some receipt \<Rightarrow> plannerEvidence S clock op current evidence receipt)))"

subsection \<open>Success\<close>

definition decisionJs :: "ObjectiveCompletionDecisionV1 \<Rightarrow> js" where
  "decisionJs d = JObj [(''complete'', JBool (oc_complete d)),
     (''blockers'', JArr (map (\<lambda>b. JObj [(''code'', JStr (bl_code b)), (''message'', JStr (bl_message b))]) (oc_blockers d)))]"

definition objectiveCurrent :: "store_env \<Rightarrow> OperationRecordV2 \<Rightarrow> js \<Rightarrow> js \<Rightarrow> store_error + unit" where
  "objectiveCurrent S op objective oracle =
     (let stale = ''OBJECTIVE_COMPLETION_IDENTITY_STALE: current operation does not match the accepted candidate/policy/execution/epoch evidence.'' in
     andThen (currentObjectiveIdentityV1 S op) (\<lambda>current.
     andThen (storeWhen (js_get oracle ''disposition'' \<noteq> JStr ''ACCEPTED'') stale) (\<lambda>_.
     andThen (needSame S (js_get oracle ''identity'') current stale) (\<lambda>_.
     andThen (storeWhen (js_get (js_get objective ''acceptance'') ''disposition'' \<noteq> JStr ''ACCEPTED'') stale) (\<lambda>_.
     needSame S (js_get objective ''identity'') current stale)))))"

definition oracleConsumed :: "store_env \<Rightarrow> js option \<Rightarrow> OperationRecordV2 \<Rightarrow> js \<Rightarrow> js \<Rightarrow> store_error + unit" where
  "oracleConsumed S stored op objective oracle =
     (let required = ''ACCEPTANCE_ORACLE_ARTIFACT_REQUIRED: successful terminalization requires the persisted current AcceptanceOracle disposition consumed by the run.'';
          stale = ''OBJECTIVE_COMPLETION_ORACLE_COVERAGE_STALE: completion assertion coverage does not match the persisted current AcceptanceOracle disposition.'';
          acceptance = js_get objective ''acceptance'' in
     andThen (loadCurrentAcceptanceOracleArtifactV1 S stored op) (\<lambda>artifact.
     (case artifact of
        None \<Rightarrow> Inl (StoreRejected required)
      | Some a \<Rightarrow>
          (let disposition = js_get a ''disposition'' in
          andThen (storeWhen (js_get disposition ''digest'' \<noteq> js_get oracle ''digest'') required) (\<lambda>_.
          andThen (needSame S disposition oracle stale) (\<lambda>_.
          andThen (needSame S (js_get acceptance ''requiredAssertionIds'') (js_get disposition ''requiredAssertionIds'') stale) (\<lambda>_.
          needSame S (js_get acceptance ''coveredAssertionIds'') (js_get disposition ''coveredAssertionIds'') stale)))))))"

definition snapshotStale :: "js \<Rightarrow> accounting_entry list \<Rightarrow> OperationParticipantRecord \<Rightarrow> bool" where
  "snapshotStale objective accounted p =
     (case (List.find (\<lambda>item. js_get item ''id'' = JStr (pa_id p)) (js_items (js_get objective ''participants'')), List.find (\<lambda>e. ae_id e = pa_id p) accounted) of
        (Some item, Some e) \<Rightarrow> js_get item ''status'' \<noteq> JStr (participantStatusText (ae_status e))
          \<or> pa_status p \<in> {PartRegistered, PartIdle, PartRunning} \<and> \<not> js_truthy (js_get item ''required'')
      | _ \<Rightarrow> True)"

definition objectiveEvidence :: "store_env \<Rightarrow> js option \<Rightarrow> OperationRecordV2 \<Rightarrow> js \<Rightarrow> js \<Rightarrow> store_error + unit" where
  "objectiveEvidence S oracle op current result =
     (let objective = js_get result ''objectiveCompletion''; reported = js_get result ''objectiveCompletionDecision''; reportedOracle = js_get result ''acceptanceOracle'';
          decision = evaluateObjectiveCompletionV1 (se_js S) objective;
          rejected = ''OBJECTIVE_COMPLETION_REJECTED: deterministic Definition of Done failed: '' @ js_join '','' (map bl_code (oc_blockers decision)) in
     andThen (storeWhen (\<not> js_truthy objective \<or> \<not> js_truthy reported \<or> \<not> js_truthy reportedOracle
         \<or> js_typeof (js_get result ''acceptanceOracleArtifact'') \<noteq> ''string'')
       ''OBJECTIVE_COMPLETION_REQUIRED: successful managed change/run operations require durable objective completion, current AcceptanceOracle disposition, and oracle artifact reference.'') (\<lambda>_.
     andThen (objectiveCurrent S op objective reportedOracle) (\<lambda>_.
     andThen (oracleConsumed S oracle op objective reportedOracle) (\<lambda>_.
     andThen (storeWhen (\<not> oc_complete decision) rejected) (\<lambda>_.
     andThen (needSame S (decisionJs decision) reported rejected) (\<lambda>_.
     andThen (objectiveParticipantAccountingV1 S op current) (\<lambda>accounted.
     checkEach (\<lambda>p. storeWhen (snapshotStale objective accounted p)
       (''OBJECTIVE_PARTICIPANT_SNAPSHOT_STALE: completion does not account for current participant '' @ [CHR 0x27] @ pa_id p @ [CHR 0x27] @ '' state.''))
       (map snd (op_participants op)))))))))"

text \<open>\<open>oracle\<close> is the persisted oracle disposition of the operation, \<open>readFile\<close> reads below the state root.\<close>

definition assertSuccessTerminalEvidence ::
    "store_env \<Rightarrow> int \<Rightarrow> (string \<Rightarrow> string option) \<Rightarrow> js option \<Rightarrow> OperationRecordV2 \<Rightarrow> js option \<Rightarrow> store_error + unit" where
  "assertSuccessTerminalEvidence S clock readFile oracle op result =
     (case op_candidateRevision op of
        None \<Rightarrow> Inl (StoreRejected (gateRejected ''successful operations require a current candidate revision.''))
      | Some current \<Rightarrow>
          andThen (storeWhen (op_participantReceipts op = []) (gateRejected ''successful operations require at least one terminal receipt.'')) (\<lambda>_.
          if op_kind op = ''change'' \<and> js_truthy (js_get (op_payload op) ''issueIntake'')
          then assertIssueIntakeTerminalEvidence S clock readFile op current (js_get (field result) ''issueIntake'')
          else
            andThen (checkEach (participantEvidence S clock op current) (map snd (op_participants op))) (\<lambda>_.
            if op_kind op = ''audit'' then Inr () else objectiveEvidence S oracle op current (field result))))"

definition jsonText :: "js \<Rightarrow> string" where
  "jsonText v = ser (jsonValue v)"

text \<open>
  The receipt of an operation that ran without participants. \<open>artifactPath\<close> is the path of the written artifact
  relative to the state root.
\<close>

definition createControllerTerminalReceipt :: "store_env \<Rightarrow> string \<Rightarrow> string \<Rightarrow> OperationRecordV2 \<Rightarrow> js option \<Rightarrow> store_error + OperationRecordV2" where
  "createControllerTerminalReceipt S now artifactPath op result =
     (case op_candidateRevision op of
        None \<Rightarrow> Inl (StoreRejected (gateRejected ''successful operations require a current candidate revision.''))
      | Some c \<Rightarrow>
          andThen (assertWorkspaceMatchesCandidate S (candidateWorkspaceRoot op c) c) (\<lambda>_.
          andThen (storeDigest S (op_payload op)) (\<lambda>contractDigest.
          (let content = jsonText (JObj [(''operationId'', JStr (op_id op)), (''candidate'', c), (''result'', js_coalesce (field result) JNull), (''createdAt'', JStr now)])
                 @ [CHR 0x0A];
               artifactDigest = sha256Utf8 (se_js S) content; revision = int_text (op_revision op + 1);
               receiptId = ''receipt:controller:'' @ op_id op @ '':'' @ revision in
           Inr (op\<lparr>op_participantReceipts := AList.update receiptId (JObj [
             (''version'', jint 1), (''receiptId'', JStr receiptId), (''operationId'', JStr (op_id op)), (''participantId'', JStr (''controller:'' @ op_id op)),
             (''role'', JStr ''operation-controller''), (''phase'', JStr (op_phase op)), (''candidate'', c), (''outcome'', JStr ''SUCCEEDED''),
             (''runtimeTerminal'', JObj [(''kind'', JStr ''runtime-terminal''), (''eventId'', JStr (''terminal:'' @ op_id op @ '':'' @ revision)), (''observedAt'', JStr now),
                (''terminal'', JBool True), (''status'', JStr ''SUCCEEDED''), (''exitCode'', jint 0)]),
             (''contract'', JObj [(''contractId'', JStr (''operation:'' @ op_id op)), (''contractDigest'', JStr contractDigest), (''valid'', JBool True)]),
             (''artifact'', JObj [(''artifactId'', JStr artifactPath), (''artifactDigest'', JStr artifactDigest), (''persisted'', JBool True), (''persistedAt'', JStr now)]),
             (''provenance'', JObj [(''provenanceId'', JStr (''provenance:'' @ op_id op @ '':'' @ revision)),
                (''provenanceDigest'', JStr (sha256Utf8 (se_js S) (str_of (js_get c ''identityDigest'') @ '':'' @ artifactDigest))),
                (''source'', JStr ''operation-controller''), (''valid'', JBool True)]),
             (''settled'', JBool True), (''createdAt'', JStr now)]) (op_participantReceipts op)\<rparr>)))))"

subsection \<open>The terminal transition\<close>

record terminal_patch =
  tp_status :: OperationStatus
  tp_phase :: "string option"
  tp_error :: "string option"
  tp_result :: "js option"
  tp_finishedAt :: "string option"
  tp_continuationBoundary :: "js option"
  tp_economicBoundary :: "js option"
  tp_other :: "OperationRecordV2 \<Rightarrow> OperationRecordV2"

text \<open>What the world around a terminal transition answers; the clock stands still during one.\<close>

record terminal_world =
  tw_clock :: int
  tw_readFile :: "string \<Rightarrow> string option"
  tw_oracle :: "js option"
  tw_artifactPath :: string
  tw_economic :: "(OperationRecordV2 \<Rightarrow> OperationStatus \<Rightarrow> store_error + js option) option"

definition ownerRequired :: "string \<Rightarrow> string" where
  "ownerRequired reason = ''HUMAN_REQUIRED: '' @ reason"

text \<open>After the hard deadline nothing but a cancellation keeps its status.\<close>

definition elapsedPatch :: "store_env \<Rightarrow> int \<Rightarrow> OperationRecordV2 \<Rightarrow> terminal_patch \<Rightarrow> int \<Rightarrow> store_error + terminal_patch" where
  "elapsedPatch S clock current patch deadline =
     andThen (case op_ownerContinuationBoundary current of
         Some b \<Rightarrow> Inr b
       | None \<Rightarrow> createOwnerContinuationBoundaryV1 S current deadline clock (op_revision current + 1)) (\<lambda>boundary.
     andThen (isoAt S deadline) (\<lambda>deadlineText.
     Inr (if tp_status patch = CANCELLED then patch\<lparr>tp_continuationBoundary := Some boundary\<rparr>
       else patch\<lparr>tp_status := FAILED, tp_phase := Some ''HUMAN_REQUIRED'', tp_continuationBoundary := Some boundary,
         tp_error := Some (deadlineReached ''Owner'' deadlineText '' elapsed before terminal transition.'')\<rparr>)))"

definition deadlinePatch :: "store_env \<Rightarrow> int \<Rightarrow> OperationRecordV2 \<Rightarrow> terminal_patch \<Rightarrow> store_error + terminal_patch" where
  "deadlinePatch S clock current patch =
     andThen (frozenOperationHardDeadlineAt S current) (\<lambda>deadline.
     (case deadline of None \<Rightarrow> Inr patch | Some d \<Rightarrow> if clock < d then Inr patch else elapsedPatch S clock current patch d))"

definition boundaryReason :: "js \<Rightarrow> string" where
  "boundaryReason boundary = str_of (js_get boundary ''reason'')"

text \<open>An Owner boundary that is already recorded turns success into failure.\<close>

definition recordedBoundaryPatch :: "OperationRecordV2 \<Rightarrow> terminal_patch \<Rightarrow> terminal_patch" where
  "recordedBoundaryPatch current patch = (case op_ownerEconomicBoundary current of
       None \<Rightarrow> patch
     | Some boundary \<Rightarrow> (let failed = (if tp_status patch = SUCCEEDED
           then patch\<lparr>tp_status := FAILED, tp_phase := Some ''HUMAN_REQUIRED'', tp_error := Some (ownerRequired (boundaryReason boundary))\<rparr> else patch) in
         failed\<lparr>tp_phase := Some ''HUMAN_REQUIRED'', tp_error := orKeep (tp_error failed) (Some (ownerRequired (boundaryReason boundary)))\<rparr>))"

definition needsEconomicAssessment :: "OperationRecordV2 \<Rightarrow> bool" where
  "needsEconomicAssessment op =
     (let economic = js_get (field (op_resolvedOperationPolicy op)) ''economicEnvelope'' in
      list_ex (\<lambda>k. js_get economic k \<noteq> JUndefined) [''hardTotalTokens'', ''hardCostUsd'', ''hardToolCalls''])"

definition finishedInstant :: "store_env \<Rightarrow> int \<Rightarrow> terminal_patch \<Rightarrow> store_error + int" where
  "finishedInstant S clock patch = (case tp_finishedAt patch of
       None \<Rightarrow> Inr clock
     | Some t \<Rightarrow> if t = [] then Inr clock else (case date_parse (se_js S) t of Some n \<Rightarrow> Inr n | None \<Rightarrow> Inl StoreTypeError))"

text \<open>The patch after the evaluator reported that a ceiling was reached.\<close>

definition signalledPatch :: "store_env \<Rightarrow> int \<Rightarrow> OperationRecordV2 \<Rightarrow> terminal_patch \<Rightarrow> js \<Rightarrow> store_error + terminal_patch" where
  "signalledPatch S clock current patch signal =
     andThen (finishedInstant S clock patch) (\<lambda>at.
     andThen (createOwnerEconomicBoundaryRequirementV1 S current (boundaryParticipant S current) signal at) (\<lambda>boundary.
     Inr (patch\<lparr>tp_status := FAILED, tp_phase := Some ''HUMAN_REQUIRED'', tp_error := Some (ownerRequired (boundaryReason signal)),
       tp_economicBoundary := Some boundary,
       tp_result := Some (JObj (AList.update ''economicBoundary'' (JObj (map (\<lambda>k. (k, js_get signal k))
         [''budget'', ''configuredLimit'', ''observed'', ''usageCoverage'', ''evidenceRefs''])) (own_entries (js_coalesce (field (tp_result patch)) (JObj [])))))\<rparr>)))"

definition economicSignal :: "terminal_world \<Rightarrow> OperationRecordV2 \<Rightarrow> OperationStatus \<Rightarrow> store_error + js option" where
  "economicSignal W current target = (case tw_economic W of
       Some evaluate \<Rightarrow> if op_ownerEconomicBoundary current = None then evaluate current target else Inr None
     | None \<Rightarrow> Inr None)"

definition economicPatch :: "store_env \<Rightarrow> terminal_world \<Rightarrow> OperationRecordV2 \<Rightarrow> terminal_patch \<Rightarrow> store_error + terminal_patch" where
  "economicPatch S W current patch =
     (if tp_status patch = CANCELLED then Inr patch
      else
        (let adjusted = recordedBoundaryPatch current patch in
        andThen (storeWhen (op_ownerEconomicBoundary current = None \<and> needsEconomicAssessment current \<and> Option.is_none (tw_economic W))
          ''OWNER_ECONOMIC_ASSESSMENT_REQUIRED: terminal success or failure under configured hard token, cost, or tool ceilings must be evaluated by the controller under the terminal coordination lock.'') (\<lambda>_.
        andThen (economicSignal W current (tp_status patch)) (\<lambda>signal.
        (case signal of None \<Rightarrow> Inr adjusted | Some s \<Rightarrow> signalledPatch S (tw_clock W) current adjusted s)))))"

definition noReceipts :: "OperationRecordV2 \<Rightarrow> bool" where
  "noReceipts op \<longleftrightarrow> op_participants op = [] \<and> op_participantReceipts op = []"

text \<open>What success asks: a bound candidate that matches the workspace, a receipt, and the evidence of the kind.\<close>

definition successRecord :: "store_env \<Rightarrow> terminal_world \<Rightarrow> string \<Rightarrow> OperationRecordV2 \<Rightarrow> js option \<Rightarrow> store_error + OperationRecordV2" where
  "successRecord S W now current result =
     (case op_candidateRevision current of
        None \<Rightarrow> Inl (StoreRejected (gateRejected ''successful operations require a current candidate revision.''))
      | Some c \<Rightarrow>
          andThen (assertWorkspaceMatchesCandidate S (candidateWorkspaceRoot current c) c) (\<lambda>_.
          andThen (if noReceipts current then createControllerTerminalReceipt S now (tw_artifactPath W) current result else Inr current) (\<lambda>op.
          andThen (assertSuccessTerminalEvidence S (tw_clock W) (tw_readFile W) (tw_oracle W) op result) (\<lambda>_.
          Inr op))))"

definition terminalRecord :: "string \<Rightarrow> terminal_patch \<Rightarrow> OperationRecordV2 \<Rightarrow> OperationRecordV2" where
  "terminalRecord now patch op =
     (let ended = settledRecord (tp_status patch) (op_revision op + 1) now op; base = tp_other patch op in
      base\<lparr>op_id := op_id op, op_kind := op_kind op, op_status := tp_status patch,
        op_phase := (case tp_phase patch of Some x \<Rightarrow> x | None \<Rightarrow> op_phase op), op_result := orKeep (tp_result patch) (op_result op),
        op_error := orKeep (tp_error patch) (op_error op), op_finishedAt := Some (case tp_finishedAt patch of Some t \<Rightarrow> t | None \<Rightarrow> now),
        op_revision := op_revision ended, op_updatedAt := now, op_lastProgressAt := now,
        op_participants := op_participants ended, op_progress := op_progress ended, op_supervision := op_supervision ended, op_stages := op_stages ended,
        op_ownerContinuationBoundary := orKeep (tp_continuationBoundary patch) (op_ownerContinuationBoundary base),
        op_ownerEconomicBoundary := orKeep (tp_economicBoundary patch) (op_ownerEconomicBoundary base),
        op_decisionRequest := None, op_continuation := None, op_pause := None, op_ownerExemptions := None\<rparr>)"

definition stillMatches :: "store_env \<Rightarrow> OperationRecordV2 \<Rightarrow> store_error + unit" where
  "stillMatches S next = (case op_candidateRevision next of
       Some c \<Rightarrow> assertWorkspaceMatchesCandidate S (candidateWorkspaceRoot next c) c | None \<Rightarrow> Inr ())"

definition transitionOperationToTerminal ::
    "store_env \<Rightarrow> controller_process \<Rightarrow> terminal_world \<Rightarrow> terminal_patch \<Rightarrow> OperationRecordV2 \<Rightarrow> store_error + OperationRecordV2 \<times> bool" where
  "transitionOperationToTerminal S cp W patch current =
     (if isTerminal (op_status current) then Inr (current, False)
      else
        andThen (assertCurrentControllerOwner S cp current ''terminal transition'') (\<lambda>_.
        andThen (deadlinePatch S (tw_clock W) current patch) (\<lambda>afterDeadline.
        andThen (economicPatch S W current afterDeadline) (\<lambda>effective.
        andThen (storeWhen (\<not> isAllowedOperationStatusTransition (op_status current) (tp_status effective))
          (''Invalid operation status transition '' @ statusText (op_status current) @ '' -> '' @ statusText (tp_status effective) @ ''.'')) (\<lambda>_.
        andThen (isoAt S (tw_clock W)) (\<lambda>now.
        andThen (if tp_status effective = SUCCEEDED then successRecord S W now current (tp_result effective) else Inr current) (\<lambda>op.
        andThen (normalizeOperationRecord S (terminalRecord now effective op)) (\<lambda>next.
        andThen (if tp_status effective = SUCCEEDED then stillMatches S next else Inr ()) (\<lambda>_.
        Inr (next, True))))))))))"

end
