(* ===== verification/OperationSamples.thy ===== *)
theory OperationSamples
  imports OperationTerminal
begin

text \<open>A store and a record for the witnesses: a running operation of one controller, with a bound candidate and no policy yet.\<close>

definition sample_store :: store_env where
  "sample_store = \<lparr>se_js = sample_env, se_collate = (\<lambda>a b. True), se_number = (\<lambda>s. jint 1), se_datetime = (\<lambda>s. s \<noteq> []),
     se_alive = (\<lambda>pid. False), se_worktree = (\<lambda>path. replicate 64 (CHR ''b''))\<rparr>"

definition sample_process :: controller_process where
  "sample_process = \<lparr>cp_epoch = Some ''1'', cp_token = Some ''secret''\<rparr>"

definition sample_controller :: OperationControllerBinding where
  "sample_controller = \<lparr>oc_epoch = 1, oc_ownerId = ''controller:a'', oc_claimedAt = ''t0'', oc_previousOwnerId = None,
     oc_tokenDigest = Some (replicate 64 (CHR ''a'')), oc_pid = Some 7\<rparr>"

definition sample_operation :: OperationRecordV2 where
  "sample_operation = \<lparr>op_id = ''op'', op_kind = ''run'', op_payload = JObj [], op_status = RUNNING, op_phase = ''execution'', op_root = ''/work'',
     op_workspaceRoot = None, op_revision = 3, op_createdAt = ''t0'', op_updatedAt = ''t1'', op_lastProgressAt = ''t1'', op_startedAt = Some ''t0'',
     op_finishedAt = None, op_lead = None,
     op_supervision = \<lparr>su_required = False, su_materialized = False, su_activeGeneration = None, su_generations = []\<rparr>,
     op_stages = [], op_participants = [], op_progress = deriveProgress [],
     op_notification = \<lparr>no_lastLeadWakeRevision = 0, no_lastLeadWakeAt = None, no_lastLeadWakeReason = None, no_terminalDelivered = False,
       no_attempts = 0, no_lastError = None\<rparr>,
     op_agents = [], op_result = None, op_error = None, op_candidateRevision = Some sample_candidate, op_participantReceipts = [],
     op_candidateAssemblyReceipts = [], op_operationExecutionRevision = Some 1, op_executionSemanticsDigest = None, op_resolvedOperationPolicy = None,
     op_origin = None, op_ownerEconomicBoundary = None, op_ownerContinuationBoundary = None, op_controller = Some sample_controller,
     op_decisionRequest = None, op_continuation = None, op_pause = None, op_ownerExemptions = None\<rparr>"

text \<open>A mutation of a running record by its owner succeeds when the record it produces passes every check.\<close>

lemma mutation_commits:
  assumes "\<not> isTerminal (op_status current)"
    "ownerFreeEvent ev \<or> assertCurrentControllerOwner S cp current (''operation mutation '' @ [CHR 0x27] @ ev @ [CHR 0x27]) = Inr ()"
    "f current (op_revision current + 1) = Inr candidate" "normalizeOperationRecord S candidate = Inr op"
    "snapshotExecutionIdentity current = Inr s" "assertCandidateTransition S current op ev = Inr ()"
    "assertExecutionIdentityTransition S op ev s = Inr ()" "assertControllerTransition (op_controller current) (op_controller op) ev = Inr ()"
  shows "mutateOperation S cp now emptyPatch True ev (Some f) allow current = Inr op"
  using assms by (auto simp: mutateOperation_def assertPatchStatus_def emptyPatch_def returnsEarly_def producedBy_def assertTerminalUnchanged_def)

lemma sample_fields:
  "op_status sample_operation = RUNNING" "op_candidateRevision sample_operation = Some sample_candidate" "op_id sample_operation = ''op''"
  "op_participants sample_operation = []" "op_resolvedOperationPolicy sample_operation = None" "op_ownerEconomicBoundary sample_operation = None"
  "op_origin sample_operation = None" "op_ownerContinuationBoundary sample_operation = None" "op_controller sample_operation = Some sample_controller"
  "op_operationExecutionRevision sample_operation = Some 1" "op_executionSemanticsDigest sample_operation = None"
  "op_revision sample_operation = 3" "op_stages sample_operation = []" "op_decisionRequest sample_operation = None" "op_continuation sample_operation = None"
  "op_ownerExemptions sample_operation = None" "op_phase sample_operation = ''execution''" "op_updatedAt sample_operation = ''t1''"
  "op_supervision sample_operation = \<lparr>su_required = False, su_materialized = False, su_activeGeneration = None, su_generations = []\<rparr>"
  by (simp_all add: sample_operation_def)

lemma sample_owner: "assertCurrentControllerOwner sample_store sample_process sample_operation action = Inr ()"
proof -
  have "controllerEpochFromEnvironment sample_process = Some 1" "controllerTokenFromEnvironment sample_process = Some ''secret''"
    "sha256Utf8 (se_js sample_store) ''secret'' = replicate 64 (CHR ''a'')"
    by code_simp+
  then show ?thesis
    by (simp add: assertCurrentControllerOwner_def assertControllerEpoch_def assertControllerToken_def tokenDigestOf_def currentControllerEpoch_def
      sample_fields sample_controller_def storeWhen_def)
qed

lemma sample_candidate_kept: "sameOptionalCandidate sample_store (Some sample_candidate) (Some sample_candidate)"
  using sample_candidate_valid by (auto simp: sameOptionalCandidate_def sample_store_def intro: candidateRevisionsEqual_refl)

lemma sample_snapshot: "snapshotExecutionIdentity sample_operation =
    Inr \<lparr>is_operationExecutionRevision = Some 1, is_executionSemanticsDigest = None, is_policyCanonical = None, is_policyProvisional = False, is_bindings = []\<rparr>"
  by (simp add: snapshotExecutionIdentity_def sample_fields canonicalOption_def isProvisionalOperationPolicyV1_def andThen_def)

text \<open>A mutation of the sample that leaves its identity alone commits.\<close>

lemma sample_commits:
  fixes g :: "OperationRecordV2 \<Rightarrow> int \<Rightarrow> OperationRecordV2"
  defines "candidate \<equiv> g sample_operation 4"
  assumes kept: "op_candidateRevision candidate = Some sample_candidate" "op_participants candidate = []" "op_resolvedOperationPolicy candidate = None"
      "op_origin candidate = None" "op_decisionRequest candidate = None" "op_continuation candidate = None" "op_ownerEconomicBoundary candidate = None"
      "op_ownerContinuationBoundary candidate = None" "op_ownerExemptions candidate = None" "op_controller candidate = Some sample_controller"
      "op_operationExecutionRevision candidate = Some 1" "op_executionSemanticsDigest candidate = None" "op_phase candidate \<noteq> ''HUMAN_REQUIRED''"
    and ev: "\<not> isSemanticsEvent ev" "ev \<noteq> candidateEvent" "ev \<noteq> ''operation.policy.bound''"
  shows "\<exists>op. mutateOperation sample_store sample_process now emptyPatch True ev (Some (\<lambda>current revision. Inr (g current revision))) allow sample_operation = Inr op"
proof -
  obtain op where n: "normalizeOperationRecord sample_store candidate = Inr op"
    by (simp add: normalizeOperationRecord_def assertRecord_def checkOption_def continuationStateInvalid_def waiting_def storeWhen_def kept)
  note fields_kept = normalizeOperationRecord_fields [OF n] kept
  have "assertCandidateTransition sample_store sample_operation op ev = Inr ()"
    by (simp add: assertCandidateTransition_def sample_fields fields_kept sample_candidate_kept)
  moreover have "assertExecutionIdentityTransition sample_store op ev
      \<lparr>is_operationExecutionRevision = Some 1, is_executionSemanticsDigest = None, is_policyCanonical = None, is_policyProvisional = False, is_bindings = []\<rparr> = Inr ()"
    using ev by (simp add: assertExecutionIdentityTransition_def semanticsRebind_def assertOperationPolicyTransition_def canonicalOption_def bindingChanges_def
      List.map_filter_simps assertBindingChanges_def assertOperationExecutionRevisionTransition_def isSemanticsEvent_def fields_kept storeWhen_def andThen_def js_uniq_def)
  moreover have "assertControllerTransition (op_controller sample_operation) (op_controller op) ev = Inr ()"
    by (simp add: assertControllerTransition_def sample_fields fields_kept)
  ultimately have "mutateOperation sample_store sample_process now emptyPatch True ev (Some (\<lambda>current revision. Inr (g current revision))) allow sample_operation = Inr op"
    by (intro mutation_commits [OF _ _ _ n sample_snapshot]) (auto simp: candidate_def sample_fields isTerminal_def sample_owner)
  then show ?thesis by (rule exI)
qed

lemma sample_stage: "\<exists>op. setOperationStage sample_store sample_process ''t2'' ''review'' StageRunning None None sample_operation = Inr op"
  unfolding setOperationStage_def
  by (rule sample_commits) (simp_all add: touched_def sample_fields isSemanticsEvent_def semanticsEvent_def choiceSemanticsEvent_def candidateEvent_def)

end
