(* ===== verification/OperationInvariants.thy ===== *)
theory OperationInvariants
  imports OperationSamples Machine
begin

text \<open>
  What the store of operations guarantees: the contract of a mutation whatever its callback does, the fencing of
  controllers, the invariants of supervisor generations and participants, and the machine of all processes that act on
  one record.
\<close>

subsection \<open>The contract of a mutation\<close>

definition mutationEnd :: "OperationRecordV2 \<Rightarrow> OperationRecordV2 \<Rightarrow> store_env \<Rightarrow> string \<Rightarrow> bool" where
  "mutationEnd current op S ev \<longleftrightarrow> (\<exists>snapshot candidate. snapshotExecutionIdentity current = Inr snapshot \<and> normalizeOperationRecord S candidate = Inr op
     \<and> assertTerminalUnchanged current op = Inr () \<and> assertCandidateTransition S current op ev = Inr ()
     \<and> assertExecutionIdentityTransition S op ev snapshot = Inr () \<and> assertControllerTransition (op_controller current) (op_controller op) ev = Inr ())"

lemma mutateOperation_cases:
  assumes "mutateOperation S cp now patch touch ev custom allow current = Inr op"
  obtains (kept) "isTerminal (op_status current)" "op = current" "returnsEarly current patch custom allow"
  | (committed) candidate where
      "\<not> ownerFreeEvent ev \<Longrightarrow> assertCurrentControllerOwner S cp current (''operation mutation '' @ [CHR 0x27] @ ev @ [CHR 0x27]) = Inr ()"
      "producedBy now patch touch custom current = Inr candidate" "normalizeOperationRecord S candidate = Inr op" "mutationEnd current op S ev"
      "assertPatchStatus current patch = Inr ()"
proof (cases "returnsEarly current patch custom allow")
  case True
  with assms have "op = current" by (simp add: mutateOperation_def)
  moreover have "isTerminal (op_status current)" using True by (simp add: returnsEarly_def)
  ultimately show thesis using True by (intro kept)
next
  case False
  with assms obtain snapshot candidate where
    "(if ownerFreeEvent ev then Inr () else assertCurrentControllerOwner S cp current (''operation mutation '' @ [CHR 0x27] @ ev @ [CHR 0x27])) = Inr ()"
    "snapshotExecutionIdentity current = Inr snapshot" "producedBy now patch touch custom current = Inr candidate"
    "normalizeOperationRecord S candidate = Inr op" "assertTerminalUnchanged current op = Inr ()" "assertCandidateTransition S current op ev = Inr ()"
    "assertExecutionIdentityTransition S op ev snapshot = Inr ()" "assertControllerTransition (op_controller current) (op_controller op) ev = Inr ()"
    "assertPatchStatus current patch = Inr ()"
    by (auto simp only: mutateOperation_def andThen_unit andThen_Inr if_False Inr_inject)
  then show thesis by (intro committed) (auto simp: mutationEnd_def)
qed

lemma storeWhen_Inr [simp]: "storeWhen b m = Inr u \<longleftrightarrow> \<not> b"
  by (simp add: storeWhen_def)

lemma mutationEnd_terminal:
  assumes "mutationEnd current op S ev" "isTerminal (op_status current)"
  shows "op_status op = op_status current" "op_phase op = op_phase current" "op_finishedAt op = op_finishedAt current"
    "op_error op = op_error current" "sameCanonicalOptional (op_result op) (op_result current) = Inr True"
  using assms by (auto simp: mutationEnd_def assertTerminalUnchanged_def Let_def split: if_split_asm)

lemma mutationEnd_candidate:
  assumes "mutationEnd current op S ev" "\<not> sameOptionalCandidate S (op_candidateRevision current) (op_candidateRevision op)"
  shows "ev = candidateEvent"
    "revisionOf (op_candidateRevision op) = jint (case op_candidateRevision current of None \<Rightarrow> 1 | Some c \<Rightarrow> int_of (js_get c ''revision'') + 1)"
  using assms by (auto simp: mutationEnd_def assertCandidateTransition_def revisionOf_def field_def split: option.splits)

lemma snapshot_fields:
  assumes "snapshotExecutionIdentity op = Inr s"
  shows "is_operationExecutionRevision s = op_operationExecutionRevision op" "is_executionSemanticsDigest s = op_executionSemanticsDigest op"
    "canonicalOption (op_resolvedOperationPolicy op) = Inr (is_policyCanonical s)"
    "is_policyProvisional s = isProvisionalOperationPolicyV1 (op_resolvedOperationPolicy op)"
    "sequence_results (map bindingEntry (op_participants op)) = Inr (is_bindings s)"
  using assms by (auto simp: snapshotExecutionIdentity_def)

lemma identityTransition_parts:
  assumes "assertExecutionIdentityTransition S op ev s = Inr u"
  obtains changes where
    "is_executionSemanticsDigest s \<noteq> op_executionSemanticsDigest op \<Longrightarrow> isSemanticsEvent ev"
    "bindingChanges s op = Inr changes"
    "assertOperationPolicyTransition S (is_policyCanonical s) (op_resolvedOperationPolicy op) ev (canInvalidate s op ev) = Inr ()"
    "assertBindingChanges S changes ev (canInvalidate s op ev) = Inr ()"
    "semanticsRebind s op ev \<Longrightarrow> op_resolvedOperationPolicy op = None \<and> \<not> someBinding op"
    "assertOperationExecutionRevisionTransition s op ev (is_executionSemanticsDigest s \<noteq> op_executionSemanticsDigest op) = Inr ()"
proof -
  note parts = assms [unfolded assertExecutionIdentityTransition_def Let_def andThen_unit andThen_Inr storeWhen_Inr]
  from parts show thesis by (elim exE conjE) (rule that, simp_all)
qed

definition invalidatingEvents :: "string list" where
  "invalidatingEvents = [candidateEvent, claimEvent, semanticsEvent, choiceSemanticsEvent]"

lemma canInvalidate_events: "ev \<in> set (canInvalidate s op ev) \<Longrightarrow> ev \<in> set invalidatingEvents"
  by (auto simp: canInvalidate_def invalidatingEvents_def split: if_split_asm)

lemma mutationEnd_identity:
  assumes "mutationEnd current op S ev"
  obtains s changes where "snapshotExecutionIdentity current = Inr s" "bindingChanges s op = Inr changes"
    "is_executionSemanticsDigest s \<noteq> op_executionSemanticsDigest op \<Longrightarrow> isSemanticsEvent ev"
    "assertOperationPolicyTransition S (is_policyCanonical s) (op_resolvedOperationPolicy op) ev (canInvalidate s op ev) = Inr ()"
    "assertBindingChanges S changes ev (canInvalidate s op ev) = Inr ()"
    "assertOperationExecutionRevisionTransition s op ev (is_executionSemanticsDigest s \<noteq> op_executionSemanticsDigest op) = Inr ()"
proof -
  from assms obtain s where s: "snapshotExecutionIdentity current = Inr s" "assertExecutionIdentityTransition S op ev s = Inr ()"
    by (auto simp: mutationEnd_def)
  show thesis by (rule identityTransition_parts [OF s(2)]) (rule that [OF s(1)])
qed

lemma mutationEnd_revision:
  assumes "mutationEnd current op S ev"
  shows "op_operationExecutionRevision op = op_operationExecutionRevision current
    \<or> ev \<in> {candidateEvent, semanticsEvent, choiceSemanticsEvent}
      \<and> (\<exists>n. op_operationExecutionRevision current = Some n \<and> 1 \<le> n \<and> op_operationExecutionRevision op = Some (n + 1))"
    and "ev = candidateEvent \<Longrightarrow> \<exists>n. op_operationExecutionRevision current = Some n \<and> 1 \<le> n \<and> op_operationExecutionRevision op = Some (n + 1)"
proof (atomize (full), rule mutationEnd_identity [OF assms], goal_cases)
  case (1 s changes)
  note r = 1(6) [unfolded assertOperationExecutionRevisionTransition_def snapshot_fields [OF 1(1)] Let_def]
  then show ?case by (cases "op_operationExecutionRevision current") (auto split: if_split_asm)
qed

lemma mutationEnd_semantics:
  assumes "mutationEnd current op S ev" "op_executionSemanticsDigest op \<noteq> op_executionSemanticsDigest current"
  shows "isSemanticsEvent ev"
  by (rule mutationEnd_identity [OF assms(1)]) (use assms(2) snapshot_fields(2) in fastforce)

lemma mutationEnd_policy:
  assumes e: "mutationEnd current op S ev" and changed: "canonicalOption (op_resolvedOperationPolicy op) \<noteq> canonicalOption (op_resolvedOperationPolicy current)"
  shows "ev = ''operation.policy.bound'' \<and> op_resolvedOperationPolicy current = None
       \<and> (\<exists>p. op_resolvedOperationPolicy op = Some p \<and> assertResolvedOperationPolicyV2 (se_js S) p = Inr ())
    \<or> ev \<in> set invalidatingEvents \<and> op_resolvedOperationPolicy op = None"
proof (rule mutationEnd_identity [OF e])
  fix s changes
  assume s: "snapshotExecutionIdentity current = Inr s"
    and p: "assertOperationPolicyTransition S (is_policyCanonical s) (op_resolvedOperationPolicy op) ev (canInvalidate s op ev) = Inr ()"
  show ?thesis
  proof (cases "ev = ''operation.policy.bound''")
    case True
    with p obtain policy bound where t: "op_resolvedOperationPolicy op = Some policy" "assertResolvedOperationPolicyV2 (se_js S) policy = Inr ()"
        "canonicalText policy = Inr bound" "is_policyCanonical s = None \<or> is_policyCanonical s = Some bound"
      by (cases "op_resolvedOperationPolicy op") (auto simp: assertOperationPolicyTransition_def identityCheck_def map_sum_Inr)
    with changed snapshot_fields(3) [OF s] have "is_policyCanonical s = None"
      by (auto simp: canonicalOption_def split: option.split_asm)
    with snapshot_fields(3) [OF s] have "op_resolvedOperationPolicy current = None"
      by (cases "op_resolvedOperationPolicy current") (auto simp: canonicalOption_def map_sum_Inr)
    with t True show ?thesis by blast
  next
    case False
    with p changed snapshot_fields(3) [OF s] have "ev \<in> set (canInvalidate s op ev) \<and> op_resolvedOperationPolicy op = None"
      unfolding assertOperationPolicyTransition_def by (auto split: if_split_asm)
    with canInvalidate_events show ?thesis by blast
  qed
qed

text \<open>The binding a participant has, none where it is not registered.\<close>

definition participantBinding :: "OperationRecordV2 \<Rightarrow> string \<Rightarrow> js option" where
  "participantBinding op i = Option.bind (map_of (op_participants op) i) pa_executionBinding"

lemma snapshot_bindings:
  assumes "sequence_results (map bindingEntry ps) = Inr bs"
  shows "map fst bs = map fst ps"
    "canonicalOption (Option.bind (map_of ps i) pa_executionBinding) = Inr (Option.bind (map_of bs i) id)"
proof -
  from assms have m: "map bindingEntry ps = map Inr bs" by (simp add: sequence_results_Inr)
  then show "map fst bs = map fst ps"
    by (induction ps arbitrary: bs) (auto simp: bindingEntry_def map_sum_Inr)
  from m show "canonicalOption (Option.bind (map_of ps i) pa_executionBinding) = Inr (Option.bind (map_of bs i) id)"
    by (induction ps arbitrary: bs) (auto simp: bindingEntry_def map_sum_Inr canonicalOption_def)
qed

lemma bindingChange_Inr:
  assumes "bindingChange s op i = Inr r"
  shows "r = None \<Longrightarrow> canonicalOption (participantBinding op i) = Inr (Option.bind (map_of (is_bindings s) i) id)"
    "r \<noteq> None \<Longrightarrow> r = Some (participantBinding op i)"
proof -
  have b: "(case map_of (op_participants op) i of Some p \<Rightarrow> pa_executionBinding p | None \<Rightarrow> None) = participantBinding op i"
    by (simp add: participantBinding_def split: option.split)
  have p: "(case map_of (is_bindings s) i of Some (Some t) \<Rightarrow> Some t | _ \<Rightarrow> None) = Option.bind (map_of (is_bindings s) i) id"
    by (cases "map_of (is_bindings s) i") (auto split: option.split)
  show "r = None \<Longrightarrow> canonicalOption (participantBinding op i) = Inr (Option.bind (map_of (is_bindings s) i) id)" "r \<noteq> None \<Longrightarrow> r = Some (participantBinding op i)"
    using assms by (auto simp: bindingChange_def b p Let_def split: if_split_asm)
qed

lemma mutationEnd_binding:
  assumes e: "mutationEnd current op S ev" and changed: "canonicalOption (participantBinding op i) \<noteq> canonicalOption (participantBinding current i)"
  shows "ev = ''operation.participant.execution-bound'' \<and> (\<exists>b. participantBinding op i = Some b \<and> assertExecutionBindingV3 (se_js S) b = Inr ())
    \<or> ev \<in> set invalidatingEvents \<and> participantBinding op i = None"
proof (rule mutationEnd_identity [OF e])
  fix s changes
  assume s: "snapshotExecutionIdentity current = Inr s" and c: "bindingChanges s op = Inr changes"
    and a: "assertBindingChanges S changes ev (canInvalidate s op ev) = Inr ()"
  note bs = snapshot_bindings [OF snapshot_fields(5) [OF s]]
  have known: "i \<in> set (map fst (is_bindings s) @ map fst (op_participants op))"
  proof (rule ccontr)
    assume "\<not> ?thesis"
    then have "participantBinding op i = None" "participantBinding current i = None"
      using bs(1) by (auto simp: participantBinding_def map_of_eq_None_iff [THEN iffD2])
    with changed show False by simp
  qed
  obtain cs where cs: "sequence_results (map (bindingChange s op) (js_uniq (map fst (is_bindings s) @ map fst (op_participants op)))) = Inr cs"
      "changes = List.map_filter id cs"
    using c by (auto simp: bindingChanges_def)
  then obtain r where r: "bindingChange s op i = Inr r" "r \<in> set cs"
  proof -
    from cs(1) have "set (map (bindingChange s op) (js_uniq (map fst (is_bindings s) @ map fst (op_participants op)))) = set (map Inr cs)"
      by (simp only: sequence_results_Inr)
    then have "bindingChange s op ` set (map fst (is_bindings s) @ map fst (op_participants op)) = Inr ` set cs" by (simp only: set_map set_js_uniq)
    with known have "bindingChange s op i \<in> Inr ` set cs" by blast
    then show thesis by (elim imageE) (rule that)
  qed
  have "r \<noteq> None" using bindingChange_Inr(1) [OF r(1)] changed bs(2) [of i] by (auto simp: participantBinding_def)
  with bindingChange_Inr(2) [OF r(1)] r(2) cs(2) have "participantBinding op i \<in> set changes"
    by (auto simp: List.map_filter_def image_iff)
  with a show ?thesis
    using canInvalidate_events [of ev s op]
    by (auto simp: assertBindingChanges_def identityCheck_def map_sum_Inr list_all_iff split: if_split_asm list.split_asm option.split_asm)
qed

lemma mutationEnd_controller:
  assumes "mutationEnd current op S ev" "op_controller op \<noteq> op_controller current"
  shows "ev = claimEvent \<or> ev = ''operation.controller.process-bound''
     \<and> (\<exists>c n. op_controller current = Some c \<and> op_controller op = Some n \<and> oc_epoch n = oc_epoch c \<and> oc_ownerId n = oc_ownerId c \<and> oc_tokenDigest n = oc_tokenDigest c)"
  using assms by (auto simp: mutationEnd_def assertControllerTransition_def split: if_split_asm option.split_asm)


subsection \<open>Fencing\<close>

lemma currentOwner_parts:
  assumes "assertCurrentControllerOwner S cp op action = Inr u"
  shows "controllerEpochFromEnvironment cp = Some (currentControllerEpoch op)"
    "\<exists>token. controllerTokenFromEnvironment cp = Some token \<and> tokenDigestOf op = Some (sha256Utf8 (se_js S) token)"
  using assms by (auto simp: assertCurrentControllerOwner_def assertControllerEpoch_def assertControllerToken_def split: option.split_asm)


lemma claim_produced:
  assumes claim: "claimControllerEpoch S cp now ownerId token pid cancellation current = Inr op" and live: "\<not> isTerminal (op_status current)"
  shows "currentControllerEpoch op = currentControllerEpoch current + 1" "op_resolvedOperationPolicy op = None" "op_participants op = dropBindings (op_participants current)"
    "tokenDigestOf op = (if sha256Utf8 (se_js S) token = [] then None else Some (sha256Utf8 (se_js S) token))"
    "tokenDigestOf current = None \<or> isCurrentOwner S cp current \<or> cancellation \<noteq> None \<or> \<not> unprovenOwner S current"
proof (atomize (full), rule mutateOperation_cases [OF claim [unfolded claimControllerEpoch_def]], goal_cases)
  case 1
  with live show ?case by simp
next
  case (2 produced)
  from 2(2) obtain owner where free: "\<not> (tokenDigestOf current \<noteq> None \<and> \<not> isCurrentOwner S cp current \<and> Option.is_none cancellation \<and> unprovenOwner S current)"
    and made: "produced = (touched now (op_revision current + 1) current)\<lparr>op_participants := dropBindings (op_participants current), op_resolvedOperationPolicy := None,
       op_controller := Some \<lparr>oc_epoch = currentControllerEpoch current + 1, oc_ownerId = owner, oc_claimedAt = now,
         oc_previousOwnerId = (case op_controller current of Some c \<Rightarrow> if oc_ownerId c = [] then None else Some (oc_ownerId c) | None \<Rightarrow> None),
         oc_tokenDigest = Some (sha256Utf8 (se_js S) token), oc_pid = (if pid = Some 0 then None else pid)\<rparr>\<rparr>"
    unfolding producedBy_def Let_def option.case andThen_unit andThen_Inr storeWhen_Inr by auto
  note kept = normalizeOperationRecord_fields [OF 2(3)]
  show ?case using free by (auto simp: kept made currentControllerEpoch_def tokenDigestOf_def Option.is_none_def)
qed

lemma dropBindings_lookup: "Option.bind (map_of (dropBindings ps) i) pa_executionBinding = None"
  by (induction ps) (auto simp: dropBindings_def)

lemma dropBindings_none: "op_participants op = dropBindings ps \<Longrightarrow> participantBinding op i = None"
  by (simp add: participantBinding_def dropBindings_lookup)

text \<open>The epoch in the environment: the decimal text of a safe epoch reads back as the epoch.\<close>

lemma digit_plain: "c \<in> set ''0123456789'' \<Longrightarrow> digitChar c \<and> \<not> js_white c"
  by (auto simp: digitChar_def js_white_def less_eq_char_def)

lemma controllerEpoch_reads:
  assumes "0 \<le> e" "safe_int e" "cp_epoch cp = Some (int_text e)"
  shows "controllerEpochFromEnvironment cp = Some e"
proof -
  let ?t = "nat_text (nat e)"
  have plain: "list_all digitChar ?t" "list_all (\<lambda>c. \<not> js_white c) ?t"
    unfolding list_all_iff by (intro ballI; drule nat_text_digits; drule digit_plain; simp)+
  then have tw: "takeWhile digitChar ?t = ?t" and trim: "js_trim ?t = ?t" by (auto simp: list_all_iff takeWhile_eq_all_conv intro: trim_id)
  have dw: "dropWhile js_white ?t = ?t" using plain(2) by (cases ?t) auto
  have sign: "starts_with ''-'' ?t = False" "starts_with ''+'' ?t = False"
    using plain(1) by (cases ?t; auto simp: starts_with_def digitChar_def less_eq_char_def)+
  have "parseInt10 ?t = Some e" using assms(1) by (simp add: parseInt10_def Let_def dw sign tw digitsValue_nat_text)
  then show ?thesis using assms by (simp add: controllerEpochFromEnvironment_def int_text_def trim)
qed


subsection \<open>Two operations that cannot complete\<close>

lemma backfill_revision:
  assumes "backfillAssembly a op = Inr op'"
  shows "op_operationExecutionRevision op' = op_operationExecutionRevision op"
  using assms by (auto simp: backfillAssembly_def insertAssembly_def split: option.split_asm)

text \<open>
  C29: Binding an assembled candidate that is already bound, the retry the operation is documented to answer with the missing
  receipt, always fails: the retry keeps the execution revision, and its event asks for the next one.
\<close>

theorem assembly_retry_never_succeeds:
  assumes bound: "alreadyBound S current (js_get input ''candidate'')"
  shows "isl (bindOperationCandidateWithAssemblyReceipt S cp now clock input current)"
proof (cases "bindOperationCandidateWithAssemblyReceipt S cp now clock input current")
  case (Inr op)
  let ?assemblyId = "candidateAssemblyReceiptIdV1 (op_id current) (str_of (js_get (js_get input ''candidate'') ''candidateId''))"
  let ?f = "\<lambda>current revision. let createdAt = assemblyCreatedAt now current (js_get input ''candidate'') ?assemblyId in
    if alreadyBound S current (js_get input ''candidate'') then assembleBound S now clock input ?assemblyId createdAt current revision
    else assembleNext S now clock input createdAt current revision"
  from Inr have m: "mutateOperation S cp now emptyPatch True candidateEvent (Some ?f) True current = Inr op"
    by (simp add: bindOperationCandidateWithAssemblyReceipt_def Let_def andThen_unit)
  then show ?thesis
  proof (cases rule: mutateOperation_cases)
    case kept
    then show ?thesis by (simp add: returnsEarly_def)
  next
    case (committed produced)
    from committed(2) bound have "op_operationExecutionRevision produced = op_operationExecutionRevision current"
      by (auto simp: producedBy_def Let_def assembleBound_def touched_def dest!: backfill_revision)
    with committed(3) have "op_operationExecutionRevision op = op_operationExecutionRevision current"
      by (simp add: normalizeOperationRecord_fields)
    with mutationEnd_revision(2) [OF committed(4)] show ?thesis by auto
  qed
qed simp


subsection \<open>Supervisor generations and participants\<close>

text \<open>Generations have different numbers, at most one is active, and \<open>activeGeneration\<close> is its number.\<close>

definition oneActive :: "OperationSupervisorGeneration list \<Rightarrow> bool" where
  "oneActive gs \<longleftrightarrow> (\<forall>g \<in> set gs. \<forall>h \<in> set gs. sg_status g = GenActive \<and> sg_status h = GenActive \<longrightarrow> g = h)"

definition supervisionOk :: "OperationSupervisionState \<Rightarrow> bool" where
  "supervisionOk su \<longleftrightarrow> distinct (map sg_generation (su_generations su)) \<and> oneActive (su_generations su)
     \<and> su_activeGeneration su = activeAmong (su_generations su)"

lemma drain_generation [simp]: "sg_generation (drainGeneration now g) = sg_generation g" "sg_status (drainGeneration now g) = GenDraining"
  "sg_generation (drainActive now g) = sg_generation g" "sg_status (drainActive now g) \<noteq> GenActive"
  by (simp_all add: drainGeneration_def drainActive_def)

lemma foldl_max_start: "a \<le> foldl max a xs" for a :: int
proof (induction xs arbitrary: a)
  case (Cons y ys)
  from Cons [of "max a y"] show ?case by simp
qed simp

lemma foldl_max_member: "x \<in> set xs \<Longrightarrow> x \<le> foldl max a xs" for a :: int
proof (induction xs arbitrary: a)
  case (Cons y ys)
  then show ?case using foldl_max_start [of "max a y" ys] by (cases "x = y") auto
qed simp

lemma registeredGenerations_ok:
  assumes "distinct (map sg_generation gs)"
  shows "distinct (map sg_generation (registeredGenerations now i gs))"
    "oneActive (registeredGenerations now i gs)"
proof -
  have m: "map sg_generation (map (drainActive now) gs) = map sg_generation gs" by simp
  have "foldl max 0 (map sg_generation gs) + 1 \<notin> set (map sg_generation gs)"
    using foldl_max_member [of "foldl max 0 (map sg_generation gs) + 1" "map sg_generation gs" 0] by auto
  with assms show "distinct (map sg_generation (registeredGenerations now i gs))"
    by (simp add: registeredGenerations_def Let_def m comp_def)
  show "oneActive (registeredGenerations now i gs)"
    by (auto simp: oneActive_def registeredGenerations_def Let_def)
qed

lemma updatedGenerations_ok:
  assumes d: "distinct (map sg_generation gs)" and f: "\<And>g. sg_generation (f g) = sg_generation g" "\<And>g. status = None \<Longrightarrow> sg_status (f g) = sg_status g"
    and one: "oneActive gs"
  shows "distinct (map sg_generation (updatedGenerations now n status f gs))"
    "oneActive (updatedGenerations now n status f gs)"
proof -
  let ?p = "\<lambda>g. if sg_generation g = n then (case status of Some s \<Rightarrow> (f g)\<lparr>sg_status := s\<rparr> | None \<Rightarrow> f g) else g"
  let ?d = "\<lambda>g. if sg_generation g \<noteq> n \<and> sg_status g = GenActive then drainGeneration now g else g"
  have p: "sg_generation (?p g) = sg_generation g" for g using f(1) by (simp split: option.split)
  have e: "updatedGenerations now n status f gs = (if status = Some GenActive then map (?d \<circ> ?p) gs else map ?p gs)"
    by (simp add: updatedGenerations_def)
  have "map sg_generation (updatedGenerations now n status f gs) = map sg_generation gs"
    using p by (auto simp: e comp_def)
  with d show "distinct (map sg_generation (updatedGenerations now n status f gs))" by simp
  have same: "g = h" if "g \<in> set gs" "h \<in> set gs" "sg_generation g = sg_generation h" for g h
    using d that by (auto simp: distinct_map inj_on_def)
  let ?F = "if status = Some GenActive then ?d \<circ> ?p else ?p"
  have active: "if status = Some GenActive then sg_generation x = n else sg_status x = GenActive" if "sg_status (?F x) = GenActive" for x
    using that f(2) by (cases "sg_generation x = n"; cases status) (auto simp: f(1) split: if_split_asm)
  have unique: "x = y" if "x \<in> set gs" "y \<in> set gs" "sg_status (?F x) = GenActive" "sg_status (?F y) = GenActive" for x y
    using active [OF that(3)] active [OF that(4)] one [unfolded oneActive_def, rule_format, of x y] same [of x y] that(1,2) by (simp split: if_split_asm)
  have image: "updatedGenerations now n status f gs = map ?F gs" by (simp add: e)
  show "oneActive (updatedGenerations now n status f gs)" unfolding oneActive_def
  proof (intro ballI impI)
    fix g h
    assume g: "g \<in> set (updatedGenerations now n status f gs)" and h: "h \<in> set (updatedGenerations now n status f gs)"
      and a: "sg_status g = GenActive \<and> sg_status h = GenActive"
    from g obtain x where x: "x \<in> set gs" "g = ?F x" unfolding image set_map by (elim imageE)
    from h obtain y where y: "y \<in> set gs" "h = ?F y" unfolding image set_map by (elim imageE)
    from unique [OF x(1) y(1)] a x(2) y(2) show "g = h" by metis
  qed
qed

lemma settleSupervision_ok:
  assumes d: "distinct (map sg_generation (su_generations su))"
  shows "supervisionOk (settleSupervision at su)" "su_activeGeneration (settleSupervision at su) = None"
proof -
  let ?f = "\<lambda>g. if sg_status g = GenActive \<or> sg_status g = GenInitializing then drainGeneration at g else g"
  have m: "map sg_generation (map ?f (su_generations su)) = map sg_generation (su_generations su)" by simp
  have inactive: "sg_status g \<noteq> GenActive" if "g \<in> set (map ?f (su_generations su))" for g using that by auto
  then have "List.find (\<lambda>g. sg_status g = GenActive) (map ?f (su_generations su)) = None"
    unfolding find_None_iff by blast
  moreover have "oneActive (map ?f (su_generations su))" using inactive unfolding oneActive_def by blast
  ultimately show "supervisionOk (settleSupervision at su)"
    using d unfolding m [symmetric] by (simp only: supervisionOk_def settleSupervision_def activeAmong_def) simp
  show "su_activeGeneration (settleSupervision at su) = None" by (simp add: settleSupervision_def)
qed


subsection \<open>How an operation ends\<close>

lemma receiptDecision_counts:
  "terminalReceiptDecision S clock op c rs = Inr True \<Longrightarrow> \<exists>r \<in> set rs. receiptCounts S clock op c r = Inr True"
proof (induction rs)
  case (Cons r rs)
  then obtain ok where ok: "receiptCounts S clock op c r = Inr ok"
    "(if ok then Inr True else terminalReceiptDecision S clock op c rs) = Inr True"
    by (auto simp only: terminalReceiptDecision.simps andThen_Inr)
  then show ?case using Cons.IH by (cases ok) auto
qed simp

lemma participantEvidence_Inr:
  assumes "participantEvidence S clock op c p = Inr u"
  shows "supervisesOperation op p \<or> (\<exists>r \<in> set (ownReceipts op (pa_id p)). receiptCounts S clock op c r = Inr True)"
proof (cases "supervisesOperation op p")
  case False
  with assms have "terminalReceiptDecision S clock op c (ownReceipts op (pa_id p)) = Inr True"
    by (auto simp: participantEvidence_def)
  then show ?thesis by (intro disjI2) (rule receiptDecision_counts)
qed simp

lemma elapsedPatch_status: "elapsedPatch S clock current patch d = Inr p \<Longrightarrow> tp_status p = (if tp_status patch = CANCELLED then CANCELLED else FAILED)"
  by (auto simp: elapsedPatch_def)

lemma deadlinePatch_cases:
  assumes "deadlinePatch S clock current patch = Inr p"
  obtains (before) "p = patch" "\<And>d. frozenOperationHardDeadlineAt S current = Inr (Some d) \<Longrightarrow> clock < d"
  | (elapsed) d where "elapsedPatch S clock current patch d = Inr p"
proof -
  from assms obtain deadline where f: "frozenOperationHardDeadlineAt S current = Inr deadline"
    and c: "(case deadline of None \<Rightarrow> Inr patch | Some d \<Rightarrow> if clock < d then Inr patch else elapsedPatch S clock current patch d) = Inr p"
    by (auto simp only: deadlinePatch_def andThen_Inr)
  show thesis
  proof (cases deadline)
    case None
    with f c before show thesis by simp
  next
    case (Some d)
    with f c before elapsed [of d] show thesis by (cases "clock < d") auto
  qed
qed

lemma signalledPatch_status: "signalledPatch S clock current patch s = Inr p \<Longrightarrow> tp_status p = FAILED"
  by (auto simp: signalledPatch_def)

lemma economicPatch_cases:
  assumes "economicPatch S W current patch = Inr p"
  obtains (cancelled) "p = patch" "tp_status p = CANCELLED" | (adjusted) "p = recordedBoundaryPatch current patch" | (signalled) "tp_status p = FAILED"
proof (cases "tp_status patch = CANCELLED")
  case True
  with assms cancelled show thesis by (simp add: economicPatch_def)
next
  case False
  from assms obtain signal where "(case signal of None \<Rightarrow> Inr (recordedBoundaryPatch current patch)
      | Some s \<Rightarrow> signalledPatch S (tw_clock W) current (recordedBoundaryPatch current patch) s) = Inr p"
    by (auto simp only: economicPatch_def Let_def if_not_P [OF False] andThen_unit andThen_Inr)
  with adjusted signalled show thesis by (cases signal) (auto dest: signalledPatch_status)
qed

lemma recordedBoundary_status:
  "tp_status (recordedBoundaryPatch current patch) = (if op_ownerEconomicBoundary current \<noteq> None \<and> tp_status patch = SUCCEEDED then FAILED else tp_status patch)"
  by (simp add: recordedBoundaryPatch_def Let_def split: option.split)

lemma economicPatch_success:
  assumes p: "economicPatch S W current patch = Inr p" "tp_status p = SUCCEEDED"
  shows "tp_status patch = SUCCEEDED" "op_ownerEconomicBoundary current = None"
  using p(1) by (cases rule: economicPatch_cases; use p(2) in \<open>simp add: recordedBoundary_status split: if_split_asm\<close>)+

lemma terminalRecord_fields:
  "op_status (terminalRecord now p op) = tp_status p"
  "op_participants (terminalRecord now p op) = settleParticipants (tp_status p) now (op_participants op)"
  "op_supervision (terminalRecord now p op) = settleSupervision now (op_supervision op)"
  "op_revision (terminalRecord now p op) = op_revision op + 1"
  by (simp_all add: terminalRecord_def Let_def settledRecord_def withParticipants_def touched_def)

lemma transition_parts:
  assumes "transitionOperationToTerminal S cp W patch current = Inr (next_record, True)"
  obtains afterDeadline effective now op where "\<not> isTerminal (op_status current)"
    "assertCurrentControllerOwner S cp current ''terminal transition'' = Inr ()"
    "deadlinePatch S (tw_clock W) current patch = Inr afterDeadline" "economicPatch S W current afterDeadline = Inr effective"
    "isAllowedOperationStatusTransition (op_status current) (tp_status effective)"
    "(if tp_status effective = SUCCEEDED then successRecord S W now current (tp_result effective) else Inr current) = Inr op"
    "normalizeOperationRecord S (terminalRecord now effective op) = Inr next_record"
proof -
  have live: "\<not> isTerminal (op_status current)" using assms by (auto simp: transitionOperationToTerminal_def split: if_split_asm)
  note parts = assms [unfolded transitionOperationToTerminal_def if_not_P [OF live] andThen_unit andThen_Inr storeWhen_Inr]
  from parts show thesis by (elim exE conjE) (rule that, simp_all add: live)
qed

lemma successRecord_parts:
  assumes "successRecord S W now current result = Inr op"
  obtains c where "op_candidateRevision current = Some c" "js_get c ''sourceDigest'' = JStr (se_worktree S (candidateWorkspaceRoot current c))"
    "if noReceipts current then createControllerTerminalReceipt S now (tw_artifactPath W) current result = Inr op else op = current"
    "assertSuccessTerminalEvidence S (tw_clock W) (tw_readFile W) (tw_oracle W) op result = Inr ()"
  using assms by (cases "op_candidateRevision current") (auto simp: successRecord_def assertWorkspaceMatchesCandidate_def split: if_split_asm)

lemma controllerReceipt_fields:
  assumes "createControllerTerminalReceipt S now path op result = Inr op'"
  shows "op_participants op' = op_participants op" "op_kind op' = op_kind op" "op_payload op' = op_payload op" "op_candidateRevision op' = op_candidateRevision op"
    "op_supervision op' = op_supervision op"
  using assms by (auto simp: createControllerTerminalReceipt_def Let_def split: option.split_asm)


lemma watchdog_parts:
  assumes "transitionOperationAtHardDeadlineV1 S at current = Inr (op, True)"
  obtains now boundary deadlineText where "\<not> isTerminal (op_status current)"
    "normalizeOperationRecord S (watchdogRecord now boundary deadlineText current) = Inr op"
    "\<exists>d. frozenOperationHardDeadlineAt S current = Inr (Some d) \<and> d \<le> at"
proof -
  have live: "\<not> isTerminal (op_status current)" using assms by (auto simp: transitionOperationAtHardDeadlineV1_def split: if_split_asm)
  from assms obtain deadline where f: "frozenOperationHardDeadlineAt S current = Inr deadline"
    and w: "watchdogTransition S at current deadline = Inr (op, True)"
    by (auto simp only: transitionOperationAtHardDeadlineV1_def if_not_P [OF live] andThen_Inr)
  then obtain d where d: "deadline = Some d" by (cases deadline) (auto simp: watchdogTransition_def)
  from w obtain now boundary deadlineText where "\<not> at < d"
    "normalizeOperationRecord S (watchdogRecord now boundary deadlineText current) = Inr op"
    by (auto simp only: watchdogTransition_def Let_def d option.case andThen_unit andThen_Inr storeWhen_Inr Inr_inject prod.inject)
  then show thesis using live f d by (intro that) auto
qed

text \<open>What every ended record looks like.\<close>

definition endedRecord :: "OperationRecordV2 \<Rightarrow> bool" where
  "endedRecord op \<longleftrightarrow> isTerminal (op_status op) \<and> (\<forall>p \<in> set (map snd (op_participants op)). isParticipantTerminal (pa_status p))
     \<and> su_activeGeneration (op_supervision op) = None \<and> (\<forall>g \<in> set (su_generations (op_supervision op)). sg_status g \<notin> {GenActive, GenInitializing})
     \<and> (\<forall>s \<in> set (map snd (op_stages op)). sr_status s \<noteq> StageRunning) \<and> op_ownerExemptions op = None"

lemma settled_statuses: "isParticipantTerminal (settledStatus s)" "terminalStageStatus s \<noteq> StageRunning"
  by (auto simp: settledStatus_def isParticipantTerminal_def terminalStageStatus_def)

lemma settledParticipants: "p \<in> set (map snd (settleParticipants s now ps)) \<Longrightarrow> isParticipantTerminal (pa_status p)"
  by (auto simp: settleParticipants_def settleParticipant_def settled_statuses)

lemma update_values: "x \<in> set (map snd (AList.update k v xs)) \<Longrightarrow> x = v \<or> x \<in> set (map snd xs)"
  by (induction xs) (auto split: if_split_asm)

lemma settledStages: "x \<in> set (map snd (AList.update k (finishedStage s r now) (settleRunningStages s r now ss))) \<Longrightarrow> sr_status x \<noteq> StageRunning"
proof (drule update_values, elim disjE)
  show "x = finishedStage s r now \<Longrightarrow> sr_status x \<noteq> StageRunning" by (simp add: finishedStage_def settled_statuses)
  assume "x \<in> set (map snd (settleRunningStages s r now ss))"
  then obtain y where "x = settleStage s r now y" by (auto simp: settleRunningStages_def)
  then show "sr_status x \<noteq> StageRunning" by (simp add: settleStage_def settled_statuses)
qed

lemma settledGenerations: "g \<in> set (su_generations (settleSupervision now su)) \<Longrightarrow> sg_status g \<notin> {GenActive, GenInitializing}"
  by (auto simp: settleSupervision_def split: if_split_asm)

lemma normalized_more:
  assumes "normalizeOperationRecord S op = Inr op'"
  shows "op_stages op' = op_stages op" "op_ownerExemptions op' = op_ownerExemptions op"
  using assms by (auto simp: normalizeOperationRecord_def)

lemma endedRecord_settled:
  assumes "normalizeOperationRecord S raw = Inr op" "isTerminal (op_status raw)" "op_ownerExemptions raw = None"
    "op_participants raw = settleParticipants s now ps" "op_supervision raw = settleSupervision now su"
    "op_stages raw = AList.update ''finished'' (finishedStage s r now) (settleRunningStages s r now ss)"
  shows "endedRecord op"
  unfolding endedRecord_def normalizeOperationRecord_fields [OF assms(1)] normalized_more [OF assms(1)] assms(3-6)
proof (intro conjI ballI)
  show "isTerminal (op_status raw)" by (rule assms(2))
  show "su_activeGeneration (settleSupervision now su) = None" by (simp add: settleSupervision_def)
qed (rule refl | erule settledParticipants settledGenerations settledStages)+


subsection \<open>The record under all processes\<close>

text \<open>A terminal patch that carries only what ends the operation.\<close>

definition endsOnly :: "terminal_patch \<Rightarrow> bool" where
  "endsOnly patch \<longleftrightarrow> isTerminal (tp_status patch) \<and> (\<forall>op. op_operationExecutionRevision (tp_other patch op) = op_operationExecutionRevision op
     \<and> op_controller (tp_other patch op) = op_controller op)"

inductive store_step :: "store_env \<Rightarrow> int \<Rightarrow> OperationRecordV2 \<Rightarrow> OperationRecordV2 \<Rightarrow> bool" for S and t where
  mutates: "mutateOperation S cp now patch touch ev custom allow op = Inr op' \<Longrightarrow> ev \<noteq> claimEvent \<Longrightarrow> store_step S t op op'"
| claims: "claimControllerEpoch S cp now ownerId token pid cancellation op = Inr op' \<Longrightarrow> store_step S t op op'"
| ends: "transitionOperationToTerminal S cp W patch op = Inr (op', made) \<Longrightarrow> endsOnly patch \<Longrightarrow> store_step S t op op'"
| expires: "transitionOperationAtHardDeadlineV1 S t op = Inr (op', made) \<Longrightarrow> store_step S t op op'"

text \<open>The order every step respects.\<close>

definition laterRecord :: "OperationRecordV2 \<Rightarrow> OperationRecordV2 \<Rightarrow> bool" where
  "laterRecord op' op \<longleftrightarrow> currentControllerEpoch op \<le> currentControllerEpoch op'
     \<and> (case op_operationExecutionRevision op of
          None \<Rightarrow> op_operationExecutionRevision op' = None
        | Some m \<Rightarrow> (\<exists>n. op_operationExecutionRevision op' = Some n \<and> m \<le> n))
     \<and> (isTerminal (op_status op) \<longrightarrow> op_status op' = op_status op \<and> op_phase op' = op_phase op \<and> op_finishedAt op' = op_finishedAt op \<and> op_error op' = op_error op)"

lemma laterRecord_refl: "laterRecord op op"
  by (simp add: laterRecord_def split: option.split)

lemma laterRecord_trans: "laterRecord a b \<Longrightarrow> laterRecord b c \<Longrightarrow> laterRecord a c"
  unfolding laterRecord_def by (cases "op_operationExecutionRevision c"; cases "op_operationExecutionRevision b") (auto 0 3)

lemma laterRecord_mutationEnd:
  assumes e: "mutationEnd op op' S ev" and epoch: "currentControllerEpoch op \<le> currentControllerEpoch op'"
  shows "laterRecord op' op"
  using mutationEnd_revision(1) [OF e] mutationEnd_terminal(1-4) [OF e] epoch
  by (auto simp: laterRecord_def split: option.split)

lemma laterRecord_ended:
  assumes "\<not> isTerminal (op_status op)" "op_operationExecutionRevision op' = op_operationExecutionRevision op" "currentControllerEpoch op' = currentControllerEpoch op"
  shows "laterRecord op' op"
  using assms by (simp add: laterRecord_def split: option.split)

lemma terminal_kept:
  "isTerminal (op_status op) \<Longrightarrow> transitionOperationToTerminal S cp W patch op = Inr (op', made) \<Longrightarrow> op' = op"
  "isTerminal (op_status op) \<Longrightarrow> transitionOperationAtHardDeadlineV1 S t op = Inr (op', made) \<Longrightarrow> op' = op"
  by (simp_all add: transitionOperationToTerminal_def transitionOperationAtHardDeadlineV1_def)

lemma made_unless_terminal:
  "\<not> isTerminal (op_status op) \<Longrightarrow> transitionOperationToTerminal S cp W patch op = Inr (op', made) \<Longrightarrow> made"
  "\<not> isTerminal (op_status op) \<Longrightarrow> transitionOperationAtHardDeadlineV1 S t op = Inr (op', made) \<Longrightarrow> made"
  by (auto simp: transitionOperationToTerminal_def) (auto simp: transitionOperationAtHardDeadlineV1_def watchdogTransition_def Let_def split: option.split_asm)

lemma receiptKeeps: "createControllerTerminalReceipt S now path op result = Inr op' \<Longrightarrow>
    op_operationExecutionRevision op' = op_operationExecutionRevision op \<and> op_controller op' = op_controller op"
  by (auto simp: createControllerTerminalReceipt_def Let_def split: option.split_asm)

lemma successKeeps:
  assumes "successRecord S W now op result = Inr op'"
  shows "op_operationExecutionRevision op' = op_operationExecutionRevision op \<and> op_controller op' = op_controller op"
  using assms by (rule successRecord_parts) (auto dest: receiptKeeps split: if_split_asm)

lemma patchKeeps:
  "deadlinePatch S clock op patch = Inr p \<Longrightarrow> tp_other p = tp_other patch"
  "economicPatch S W op patch = Inr p \<Longrightarrow> tp_other p = tp_other patch"
proof -
  have e: "elapsedPatch S clock op patch d = Inr p \<Longrightarrow> tp_other p = tp_other patch" for d by (auto simp: elapsedPatch_def)
  show "deadlinePatch S clock op patch = Inr p \<Longrightarrow> tp_other p = tp_other patch"
    by (erule deadlinePatch_cases) (simp_all add: e)
  have r: "tp_other (recordedBoundaryPatch op patch) = tp_other patch" by (simp add: recordedBoundaryPatch_def Let_def split: option.split)
  have s: "signalledPatch S clock op q s = Inr p \<Longrightarrow> tp_other p = tp_other q" for clock q s by (auto simp: signalledPatch_def)
  assume a: "economicPatch S W op patch = Inr p"
  show "tp_other p = tp_other patch"
  proof (cases "tp_status patch = CANCELLED")
    case True
    with a show ?thesis by (simp add: economicPatch_def)
  next
    case False
    from a obtain signal where "(case signal of None \<Rightarrow> Inr (recordedBoundaryPatch op patch)
        | Some s \<Rightarrow> signalledPatch S (tw_clock W) op (recordedBoundaryPatch op patch) s) = Inr p"
      by (auto simp only: economicPatch_def Let_def if_not_P [OF False] andThen_unit andThen_Inr)
    then show ?thesis by (cases signal) (auto simp: r dest: s)
  qed
qed

lemma terminalRecord_kept:
  assumes "\<And>op. op_operationExecutionRevision (tp_other p op) = op_operationExecutionRevision op" "\<And>op. op_controller (tp_other p op) = op_controller op"
  shows "op_operationExecutionRevision (terminalRecord now p op) = op_operationExecutionRevision op" "op_controller (terminalRecord now p op) = op_controller op"
  using assms by (simp_all add: terminalRecord_def Let_def)

lemma epoch_controller: "op_controller a = op_controller b \<Longrightarrow> currentControllerEpoch a = currentControllerEpoch b"
  by (simp add: currentControllerEpoch_def)

lemma ended_later:
  assumes t: "transitionOperationToTerminal S cp W patch op = Inr (op', True)" and only: "endsOnly patch"
  shows "laterRecord op' op"
  using t
proof (rule transition_parts, goal_cases)
  case (1 afterDeadline effective now r)
  have other: "tp_other effective = tp_other patch" using patchKeeps(1) [OF 1(3)] patchKeeps(2) [OF 1(4)] by simp
  have r: "op_operationExecutionRevision r = op_operationExecutionRevision op \<and> op_controller r = op_controller op"
    using 1(6) by (cases "tp_status effective = SUCCEEDED") (auto dest: successKeeps)
  have k: "op_operationExecutionRevision (terminalRecord now effective r) = op_operationExecutionRevision r"
    "op_controller (terminalRecord now effective r) = op_controller r"
    using only by (intro terminalRecord_kept; simp add: other endsOnly_def)+
  show ?case
    by (rule laterRecord_ended [OF 1(1)])
      (use normalizeOperationRecord_fields [OF 1(7)] k r epoch_controller [of "terminalRecord now effective r" op] in auto)
qed

lemma expired_later:
  assumes "transitionOperationAtHardDeadlineV1 S t op = Inr (op', True)"
  shows "laterRecord op' op"
  using assms
proof (rule watchdog_parts, goal_cases)
  case (1 now boundary deadlineText)
  have k: "op_operationExecutionRevision (watchdogRecord now boundary deadlineText op) = op_operationExecutionRevision op"
    "op_controller (watchdogRecord now boundary deadlineText op) = op_controller op"
    by (simp_all add: watchdogRecord_def settledRecord_def withParticipants_def touched_def)
  show ?case
    by (rule laterRecord_ended [OF 1(1)]) (use normalizeOperationRecord_fields [OF 1(2)] k epoch_controller [OF k(2)] in auto)
qed

lemma claim_later:
  assumes c: "claimControllerEpoch S cp now ownerId token pid cancellation op = Inr op'"
  shows "laterRecord op' op"
proof (cases "isTerminal (op_status op)")
  case True
  from c [unfolded claimControllerEpoch_def] show ?thesis
  proof (cases rule: mutateOperation_cases)
    case (committed produced)
    then show ?thesis using True by (auto simp: producedBy_def)
  qed (simp add: laterRecord_refl)
next
  case False
  from c [unfolded claimControllerEpoch_def] show ?thesis
  proof (cases rule: mutateOperation_cases)
    case (committed produced)
    from laterRecord_mutationEnd [OF committed(4)] show ?thesis using claim_produced(1) [OF c False] by simp
  qed (use False in simp)
qed

lemma ends_later:
  assumes t: "transitionOperationToTerminal S cp W patch op = Inr (op', made)" and only: "endsOnly patch"
  shows "laterRecord op' op"
proof (cases "isTerminal (op_status op)")
  case True
  show ?thesis unfolding terminal_kept(1) [OF True t] by (rule laterRecord_refl)
next
  case False
  with made_unless_terminal(1) [OF False t] t have "transitionOperationToTerminal S cp W patch op = Inr (op', True)" by simp
  then show ?thesis using only by (rule ended_later)
qed

lemma expires_later:
  assumes t: "transitionOperationAtHardDeadlineV1 S t op = Inr (op', made)"
  shows "laterRecord op' op"
proof (cases "isTerminal (op_status op)")
  case True
  show ?thesis unfolding terminal_kept(2) [OF True t] by (rule laterRecord_refl)
next
  case False
  with made_unless_terminal(2) [OF False t] t have "transitionOperationAtHardDeadlineV1 S t op = Inr (op', True)" by simp
  then show ?thesis by (rule expired_later)
qed

lemma mutates_later:
  assumes m: "mutateOperation S cp now patch touch ev custom allow op = Inr op'" and ev: "ev \<noteq> claimEvent"
  shows "laterRecord op' op"
  using m
proof (cases rule: mutateOperation_cases)
  case kept
  show ?thesis unfolding kept(2) by (rule laterRecord_refl)
next
  case (committed candidate)
  have "currentControllerEpoch op' = currentControllerEpoch op"
    using mutationEnd_controller [OF committed(4)] ev by (cases "op_controller op' = op_controller op") (auto simp: currentControllerEpoch_def)
  then show ?thesis by (intro laterRecord_mutationEnd [OF committed(4)]) simp
qed

lemma store_step_later: "store_step S t op op' \<Longrightarrow> laterRecord op' op"
  by (erule store_step.cases) (simp_all only: mutates_later claim_later ends_later expires_later not_False_eq_True simp_thms)

interpretation store: attenuating_machine "store_step S" laterRecord
  by unfold_locales (auto intro: store_step_later laterRecord_refl laterRecord_trans)


subsection \<open>Witnesses\<close>



definition sample_claim :: "store_error + OperationRecordV2" where
  "sample_claim = claimControllerEpoch sample_store \<lparr>cp_epoch = None, cp_token = None\<rparr> ''t2'' ''controller:b'' ''fresh'' (Some 8) None sample_operation"

lemma sample_claimed: "\<exists>op. sample_claim = Inr op"
proof -
  let ?f = "\<lambda>current revision. (touched ''t2'' revision current)\<lparr>op_participants := dropBindings (op_participants current), op_resolvedOperationPolicy := None,
    op_controller := Some \<lparr>oc_epoch = currentControllerEpoch current + 1, oc_ownerId = ''controller:b'', oc_claimedAt = ''t2'',
      oc_previousOwnerId = Some ''controller:a'', oc_tokenDigest = Some (sha256Utf8 (se_js sample_store) ''fresh''), oc_pid = Some 8\<rparr>\<rparr>"
  have plain: "\<not> isTerminal (op_status sample_operation)" "dropBindings [] = []" "\<not> unprovenOwner sample_store sample_operation" "requiredId ''controller:b'' = Inr ''controller:b''"
    by code_simp+
  obtain op where n: "normalizeOperationRecord sample_store (?f sample_operation 4) = Inr op"
    by (simp add: normalizeOperationRecord_def assertRecord_def checkOption_def continuationStateInvalid_def waiting_def storeWhen_def touched_def sample_fields)
  note fields_kept = normalizeOperationRecord_fields [OF n, simplified touched_def, simplified sample_fields plain, simplified]
  have "sample_claim = Inr op"
    unfolding sample_claim_def claimControllerEpoch_def
  proof (rule mutation_commits [OF plain(1) _ _ n sample_snapshot])
    show "assertCandidateTransition sample_store sample_operation op claimEvent = Inr ()"
      by (simp add: assertCandidateTransition_def sample_fields fields_kept sample_candidate_kept)
    show "assertExecutionIdentityTransition sample_store op claimEvent
        \<lparr>is_operationExecutionRevision = Some 1, is_executionSemanticsDigest = None, is_policyCanonical = None, is_policyProvisional = False, is_bindings = []\<rparr> = Inr ()"
      by (simp add: assertExecutionIdentityTransition_def semanticsRebind_def assertOperationPolicyTransition_def canonicalOption_def bindingChanges_def
        List.map_filter_simps assertBindingChanges_def assertOperationExecutionRevisionTransition_def isSemanticsEvent_def fields_kept sample_fields andThen_def js_uniq_def
        claimEvent_def semanticsEvent_def choiceSemanticsEvent_def candidateEvent_def storeWhen_def)
  qed (simp_all add: ownerFreeEvent_def assertControllerTransition_def sample_fields plain storeWhen_def sample_controller_def isTerminal_def)
  then show ?thesis by (rule exI)
qed


theorem assembly_retry_never_succeeds_witness:
  "isl (bindOperationCandidateWithAssemblyReceipt sample_store sample_process ''t2'' 0
     (JObj [(''baseCandidate'', JNull), (''candidate'', sample_candidate), (''changeSet'', JNull)]) sample_operation)"
  by (rule assembly_retry_never_succeeds) code_simp

definition sample_provisional :: OperationRecordV2 where
  "sample_provisional = sample_operation\<lparr>op_executionSemanticsDigest := Some (replicate 64 (CHR ''c'')),
     op_resolvedOperationPolicy := Some (JObj [(''knowledgePolicy'', JObj [(''bootstrap'', JBool True)])])\<rparr>"


definition sample_generation :: supervisor_input where
  "sample_generation = \<lparr>si_agentId = Some ''s1'', si_materialized = True, si_checkpointArtifact = None, si_status = None, si_initializationAttempt = None\<rparr>"


definition sample_audit :: OperationRecordV2 where
  "sample_audit = sample_operation\<lparr>op_kind := ''audit'', op_participants := [(''p1'', newParticipant ''t0'' ''p1'')],
     op_participantReceipts := [(''r1'', sample_terminal_receipt)]\<rparr>"

definition sample_world :: terminal_world where
  "sample_world = \<lparr>tw_clock = 5000, tw_readFile = (\<lambda>path. None), tw_oracle = None, tw_artifactPath = ''a.json'', tw_economic = None\<rparr>"

definition sample_end :: terminal_patch where
  "sample_end = \<lparr>tp_status = SUCCEEDED, tp_phase = Some ''finished'', tp_error = None, tp_result = None, tp_finishedAt = None,
     tp_continuationBoundary = None, tp_economicBoundary = None, tp_other = (\<lambda>op. op)\<rparr>"

definition sample_success :: "store_error + OperationRecordV2 \<times> bool" where
  "sample_success = transitionOperationToTerminal sample_store sample_process sample_world sample_end sample_audit"

lemma audit_fields:
  "op_status sample_audit = RUNNING" "op_kind sample_audit = ''audit''" "op_candidateRevision sample_audit = Some sample_candidate" "op_id sample_audit = ''op''"
  "op_participants sample_audit = [(''p1'', newParticipant ''t0'' ''p1'')]" "op_participantReceipts sample_audit = [(''r1'', sample_terminal_receipt)]"
  "op_resolvedOperationPolicy sample_audit = None" "op_ownerEconomicBoundary sample_audit = None" "op_origin sample_audit = None" "op_root sample_audit = ''/work''"
  "op_workspaceRoot sample_audit = None" "op_payload sample_audit = JObj []" "op_candidateAssemblyReceipts sample_audit = []"
  "op_supervision sample_audit = \<lparr>su_required = False, su_materialized = False, su_activeGeneration = None, su_generations = []\<rparr>"
  "op_createdAt sample_audit = ''t0''" "op_ownerContinuationBoundary sample_audit = None" "op_controller sample_audit = Some sample_controller"
  "op_revision sample_audit = 3" "op_stages sample_audit = []" "op_lastProgressAt sample_audit = ''t1''" "op_error sample_audit = None" "op_result sample_audit = None"
  by (simp_all add: sample_audit_def sample_operation_def)

lemma audit_receipt: "receiptCounts sample_store 5000 sample_audit sample_candidate sample_terminal_receipt = Inr True"
proof -
  let ?C = "JObj [(''operationId'', JStr ''op''), (''candidate'', sample_candidate)]"
  have v: "assertCandidateRevisionV1 sample_env sample_candidate = None" "candidateRevisionsEqual sample_env sample_candidate sample_candidate"
    using sample_candidate_valid by (auto intro: candidateRevisionsEqual_refl)
  have b: "boundCandidate sample_terminal_receipt = sample_candidate" "js_truthy sample_candidate" by code_simp+
  have "js_get sample_candidate ''operationId'' = JStr ''op''" "\<not> js_nullish sample_candidate" "list_all hex_char (replicate 64 (CHR ''a''))" by code_simp+
  with v(2) b
  have "terminalFailures sample_env sample_terminal_receipt ?C ''iso'' = []"
    unfolding terminalFailures_def failIf_append_Nil failIf_Nil
    by (simp add: sample_terminal_receipt_def Let_def js_coalesce_def runtimeTerminalOk_def
        contractEvidenceOk_def artifactEvidenceOk_def provenanceEvidenceOk_def isValidTimestamp_def dateTime_def
        sample_env_def is_digest_def js_nullish_def)
  then have "evaluateTerminalGate sample_env 5000 sample_terminal_receipt ?C = Inr \<lparr>td_allowed = True, td_reasons = []\<rparr>"
    using v(1)
    by (simp add: evaluateTerminalGate_def terminalContext_def isoTime_def dateTime_def timeClip_def js_coalesce_def
        sample_env_def sample_terminal_receipt_def Let_def js_nullish_def)
  then show ?thesis
    using v b by (simp add: receiptCounts_def Let_def resolveCandidateLineageReceiptV1_def gateContext_def audit_fields sample_store_def)
qed

lemma audit_workspace: "assertWorkspaceMatchesCandidate sample_store path sample_candidate = Inr ()"
proof -
  have "js_get sample_candidate ''sourceDigest'' = JStr (replicate 64 (CHR ''b''))" by code_simp
  then show ?thesis by (simp add: assertWorkspaceMatchesCandidate_def sample_store_def)
qed

lemma audit_evidence: "successRecord sample_store sample_world now sample_audit None = Inr sample_audit"
proof -
  have "ownReceipts sample_audit ''p1'' = [sample_terminal_receipt]"
    by (simp add: ownReceipts_def audit_fields sample_terminal_receipt_def Let_def)
  then have "participantEvidence sample_store 5000 sample_audit sample_candidate (newParticipant ''t0'' ''p1'') = Inr ()"
    by (auto simp: participantEvidence_def newParticipant_def audit_receipt)
  then have "assertSuccessTerminalEvidence sample_store 5000 (\<lambda>path. None) None sample_audit None = Inr ()"
    by (simp add: assertSuccessTerminalEvidence_def audit_fields storeWhen_def)
  then show ?thesis by (simp add: successRecord_def audit_fields audit_workspace noReceipts_def sample_world_def)
qed

lemma end_fields: "tp_status sample_end = SUCCEEDED" "tp_result sample_end = None"
  by (simp_all add: sample_end_def)

lemma audit_deadline: "deadlinePatch sample_store clock sample_audit sample_end = Inr sample_end"
proof -
  have "frozenOperationHardDeadlineAt sample_store sample_audit = Inr None"
    by (simp add: frozenOperationHardDeadlineAt_def audit_fields isTerminal_def policyDeadline_def rootDeadline_def earlier_def split: option.split)
  then show ?thesis by (simp add: deadlinePatch_def)
qed

lemma audit_economic: "economicPatch sample_store sample_world sample_audit sample_end = Inr sample_end"
  by (simp add: economicPatch_def Let_def recordedBoundaryPatch_def economicSignal_def needsEconomicAssessment_def field_def audit_fields
    end_fields storeWhen_def sample_world_def)

lemma sample_succeeds: "\<exists>op. sample_success = Inr (op, True) \<and> op_status op = SUCCEEDED"
proof -
  have owner: "assertCurrentControllerOwner sample_store sample_process sample_audit ''terminal transition'' = Inr ()" by code_simp
  have now: "isoAt sample_store 5000 = Inr ''iso''" "tw_clock sample_world = 5000" by code_simp+
  obtain op where op: "normalizeOperationRecord sample_store (terminalRecord ''iso'' sample_end sample_audit) = Inr op"
      "op_status op = SUCCEEDED" "op_candidateRevision op = Some sample_candidate"
    by (simp add: normalizeOperationRecord_def assertRecord_def checkOption_def terminalRecord_def settledRecord_def touched_def withParticipants_def sample_end_def
      audit_fields continuationStateInvalid_def waiting_def storeWhen_def orKeep_def)
  have "stillMatches sample_store op = Inr ()" by (simp add: stillMatches_def op(3) audit_workspace)
  with owner now op have "sample_success = Inr (op, True)"
    by (simp add: sample_success_def transitionOperationToTerminal_def audit_deadline audit_economic audit_evidence end_fields storeWhen_def
      audit_fields isTerminal_def isAllowedOperationStatusTransition_def)
  with op(2) show ?thesis by blast
qed




end
