(* ===== verification/ProductChoice.thy ===== *)
theory ProductChoice
  imports OperationTerminal
begin

text \<open>
  Product choices of an operation (\<open>src/src/operations/state.ts\<close>, from \<open>suspendOperationForProductChoice\<close> to
  \<open>resumeOperationProductChoice\<close>, and \<open>completeOperationProductChoice\<close>): the operation is suspended with a request and a
  checkpoint, the human choice is consumed, the revised semantics are bound, and the saved work resumes. A checkpoint
  file is its text with the value \<open>JSON.parse\<close> reads from it; a file that is written before a later check of the same
  mutation fails stays behind unreferenced and is not part of the result. Random identifiers are arguments. The check that
  a checkpoint path stays below the state root is left to the check of the continuation, which every caller makes first.
\<close>

subsection \<open>Current bindings\<close>

definition bindingStale :: "string \<Rightarrow> string" where
  "bindingStale action = ''DECISION_BINDING_STALE: '' @ action
     @ '' does not match the current operation, candidate, execution revision, policy, and controller epoch.''"

definition assertCurrentDecisionBinding :: "store_env \<Rightarrow> OperationRecordV2 \<Rightarrow> js \<Rightarrow> string \<Rightarrow> store_error + unit" where
  "assertCurrentDecisionBinding S op binding action =
     (let revision = (case op_operationExecutionRevision op of Some n \<Rightarrow> jint n | None \<Rightarrow> JUndefined); epoch = jint (currentControllerEpoch op) in
     case (op_candidateRevision op, op_resolvedOperationPolicy op) of
        (Some c, Some p) \<Rightarrow>
          storeWhen (js_get binding ''operationId'' \<noteq> JStr (op_id op)
            \<or> \<not> candidateRevisionsEqual (se_js S) (js_get binding ''candidate'') c
            \<or> js_get binding ''operationExecutionRevision'' \<noteq> revision \<or> js_get binding ''policyDigest'' \<noteq> js_get p ''digest''
            \<or> js_get binding ''controllerEpoch'' \<noteq> epoch
            \<or> js_get p ''operationId'' \<noteq> JStr (op_id op) \<or> js_get p ''operationExecutionRevision'' \<noteq> revision
            \<or> js_get p ''candidateRevision'' \<noteq> js_get c ''revision'' \<or> js_get p ''candidateDigest'' \<noteq> js_get c ''identityDigest''
            \<or> js_get p ''controllerEpoch'' \<noteq> epoch
            \<or> (js_truthy (js_get c ''projectId'') \<and> js_get p ''projectId'' \<noteq> js_get c ''projectId'')) (bindingStale action)
      | _ \<Rightarrow> Inl (StoreRejected (bindingStale action)))"

definition bindingObject :: "OperationRecordV2 \<Rightarrow> js \<Rightarrow> int \<Rightarrow> js \<Rightarrow> js_entries" where
  "bindingObject op candidate revision policyDigest =
     [(''operationId'', JStr (op_id op)), (''candidate'', candidate), (''operationExecutionRevision'', jint revision),
      (''policyDigest'', policyDigest), (''controllerEpoch'', jint (currentControllerEpoch op))]"

definition currentDecisionBinding :: "store_env \<Rightarrow> OperationRecordV2 \<Rightarrow> string \<Rightarrow> store_error + js_entries" where
  "currentDecisionBinding S op action =
     (let missing = Inl (StoreRejected (''DECISION_AUTHORITY_REQUIRED: '' @ action @ '' requires current candidate, execution revision, and frozen policy.'')) in
     case (op_candidateRevision op, op_resolvedOperationPolicy op, op_operationExecutionRevision op) of
        (Some c, Some p, Some n) \<Rightarrow>
          if \<not> safe_int n then missing
          else
            andThen (identityCheck (assertResolvedOperationPolicyV2 (se_js S) p)) (\<lambda>_.
            (let binding = bindingObject op c n (js_get p ''digest'') in
            andThen (assertCurrentDecisionBinding S op (JObj binding) action) (\<lambda>_. Inr binding)))
      | _ \<Rightarrow> missing)"

definition checkpointInvalid :: "string \<Rightarrow> string" where
  "checkpointInvalid message = ''DECISION_CONTINUATION_CHECKPOINT_INVALID: '' @ message"

definition assertCheckpointBinding :: "store_env \<Rightarrow> js \<Rightarrow> store_error + unit" where
  "assertCheckpointBinding S v =
     (let keys = map fst (own_entries v); candidate = js_get v ''candidate'' in
     andThen (storeWhen (\<not> js_is_object v \<or> js_is_array v) (checkpointInvalid ''checkpoint binding must be an object.'')) (\<lambda>_.
     andThen (storeWhen (\<not> list_all (\<lambda>k. k \<in> set decisionBindingFields) keys \<or> \<not> list_all (\<lambda>k. k \<in> set keys) decisionBindingFields)
       (checkpointInvalid ''checkpoint binding has an invalid shape.'')) (\<lambda>_.
     andThen (checkContract (assertCandidateRevisionV1 (se_js S) candidate)) (\<lambda>_.
     storeWhen (\<not> nonBlank (js_get v ''operationId'') \<or> js_get candidate ''operationId'' \<noteq> js_get v ''operationId''
         \<or> \<not> js_safe_at_least 1 (js_get v ''operationExecutionRevision'') \<or> \<not> schemaDigest (js_get v ''policyDigest'')
         \<or> \<not> js_safe_at_least 0 (js_get v ''controllerEpoch''))
       (checkpointInvalid ''checkpoint binding is malformed.'')))))"

definition bindingFromDecisionRecord :: "store_env \<Rightarrow> js \<Rightarrow> store_error + js" where
  "bindingFromDecisionRecord S v =
     (let binding = JObj (map (\<lambda>k. (k, js_get v k)) decisionBindingFields) in
     andThen (assertCheckpointBinding S binding) (\<lambda>_. Inr binding))"

text \<open>A chosen continuation against the current operation, and against the binding its decision was consumed under.\<close>

definition decisionStale :: "string \<Rightarrow> string" where
  "decisionStale message = ''DECISION_CONTINUATION_DECISION_BINDING_STALE: '' @ message"

definition assertCurrentConsumedProductChoiceBinding :: "store_env \<Rightarrow> OperationRecordV2 \<Rightarrow> js \<Rightarrow> js \<Rightarrow> store_error + unit" where
  "assertCurrentConsumedProductChoiceBinding S current continuation decided =
     (let selected = js_get continuation ''selectedDecisionBinding'' in
     andThen (decisionCheck (assertContinuationRecordV1 (se_js S) continuation)) (\<lambda>_.
     andThen (storeWhen (\<not> js_truthy selected \<or> \<not> sameHumanDecisionBinding S selected decided)
       (decisionStale ''consumed decision binding differs from its saved receipt identity.'')) (\<lambda>_.
     andThen (currentDecisionBinding S current ''consumed product-choice validation'') (\<lambda>binding.
     (let currentBinding = JObj binding in
     andThen (storeWhen (\<not> sameHumanDecisionBinding S currentBinding continuation)
       (continuationStale ''saved continuation does not match the current operation, candidate, revision, policy, and epoch.'')) (\<lambda>_.
     andThen (storeWhen (js_get decided ''operationId'' \<noteq> JStr (op_id current)
         \<or> \<not> candidateRevisionsEqual (se_js S) (js_get decided ''candidate'') (field (op_candidateRevision current))
         \<or> js_get decided ''controllerEpoch'' \<noteq> js_get currentBinding ''controllerEpoch'')
       (decisionStale ''consumed decision belongs to another operation, candidate, or controller epoch.'')) (\<lambda>_.
     if js_truthy (js_get continuation ''appliedRequirementDigest'')
     then storeWhen (js_get currentBinding ''operationExecutionRevision'' \<noteq> jint (int_of (js_get decided ''operationExecutionRevision'') + 1)
         \<or> js_get continuation ''operationExecutionRevision'' \<noteq> js_get currentBinding ''operationExecutionRevision'')
       (continuationStale ''only the single authorized product-choice revision may follow the consumed decision.'')
     else storeWhen (\<not> sameHumanDecisionBinding S currentBinding decided)
       (decisionStale ''consumed decision no longer matches the current operation policy identity.''))))))))"

subsection \<open>Checkpoint files\<close>

record checkpoint_file =
  ck_text :: string
  ck_value :: "js option"

type_synonym checkpoints = "(string \<times> checkpoint_file) list"

text \<open>\<open>JSON.stringify(value, null, 2)\<close> of a JSON value, and the length of a text in UTF-8.\<close>

fun prettyJson :: "nat \<Rightarrow> js \<Rightarrow> string" where
  "prettyJson n (JArr xs) =
     (if xs = [] then ''[]''
      else ''['' @ [CHR 0x0A] @ js_join ('','' @ [CHR 0x0A]) (map (\<lambda>x. replicate (n + 2) (CHR '' '') @ prettyJson (n + 2) x) xs)
        @ [CHR 0x0A] @ replicate n (CHR '' '') @ '']'')"
| "prettyJson n (JObj kvs) =
     (if kvs = [] then ''{}''
      else ''{'' @ [CHR 0x0A] @ js_join ('','' @ [CHR 0x0A])
          (map (\<lambda>(k, x). replicate (n + 2) (CHR '' '') @ json_string k @ '': '' @ prettyJson (n + 2) x) kvs)
        @ [CHR 0x0A] @ replicate n (CHR '' '') @ ''}'')"
| "prettyJson n v = ser v"

definition utf8Length :: "string \<Rightarrow> nat" where
  "utf8Length s = length s + length (filter (\<lambda>c. 128 \<le> (of_char c :: nat)) s)"

definition checkpointFile :: "js \<Rightarrow> checkpoint_file" where
  "checkpointFile envelope = \<lparr>ck_text = prettyJson 0 (jsonValue envelope) @ [CHR 0x0A], ck_value = Some (jsonValue envelope)\<rparr>"

definition safeId :: "string \<Rightarrow> store_error + string" where
  "safeId v = (if v \<noteq> [] \<and> list_all (\<lambda>c. CHR ''A'' \<le> c \<and> c \<le> CHR ''Z'' \<or> CHR ''a'' \<le> c \<and> c \<le> CHR ''z'' \<or> digitChar c \<or> c \<in> set ''._-'') v then Inr v
     else Inl (StoreRejected (''Invalid operation id '' @ [CHR 0x27] @ v @ [CHR 0x27] @ ''.'')))"

definition checkpointArtifact :: "string \<Rightarrow> string \<Rightarrow> store_error + string" where
  "checkpointArtifact operationId stem = andThen (safeId operationId) (\<lambda>i. Inr (''.harness/operations/'' @ i @ ''/continuations/'' @ stem @ ''.json''))"

definition envelopeObject :: "string \<Rightarrow> string \<Rightarrow> string \<Rightarrow> js \<Rightarrow> js \<Rightarrow> js" where
  "envelopeObject continuationId requestId operationId binding checkpoint =
     JObj [(''version'', jint 1), (''continuationId'', JStr continuationId), (''requestId'', JStr requestId), (''operationId'', JStr operationId),
       (''binding'', binding), (''checkpoint'', checkpoint)]"

text \<open>Writing with the flag \<open>wx\<close>: the message of a file that exists, and \<open>limited\<close> where the code bounds the size of the file.\<close>

definition writeCheckpoint :: "bool \<Rightarrow> string \<Rightarrow> string \<Rightarrow> js \<Rightarrow> checkpoints \<Rightarrow> store_error + checkpoint_file" where
  "writeCheckpoint limited exists artifact envelope files =
     (let file = checkpointFile envelope in
     andThen (storeWhen (limited \<and> 1000000 < utf8Length (ck_text file))
       ''DECISION_CONTINUATION_CHECKPOINT_TOO_LARGE: continuation checkpoint exceeds one megabyte.'') (\<lambda>_.
     andThen (storeWhen (map_of files artifact \<noteq> None) exists) (\<lambda>_.
     Inr file)))"

definition envelopeKeys :: "string list" where
  "envelopeKeys = [''version'', ''continuationId'', ''requestId'', ''operationId'', ''binding'', ''checkpoint'']"

definition readProductChoiceCheckpointEnvelope :: "store_env \<Rightarrow> checkpoints \<Rightarrow> OperationRecordV2 \<Rightarrow> js \<Rightarrow> store_error + js" where
  "readProductChoiceCheckpointEnvelope S files current continuation =
     (case map_of files (str_of (js_get continuation ''checkpointArtifact'')) of
        None \<Rightarrow> Inl (StoreRejected ''ENOENT'')
      | Some file \<Rightarrow>
          andThen (storeWhen (js_get continuation ''checkpointDigest'' \<noteq> JStr (sha256Utf8 (se_js S) (ck_text file)))
            ''DECISION_CONTINUATION_CHECKPOINT_STALE: checkpoint content digest changed.'') (\<lambda>_.
          (case ck_value file of
             None \<Rightarrow> Inl (StoreRejected (checkpointInvalid ''checkpoint envelope is not valid JSON.''))
           | Some raw \<Rightarrow>
               (let keys = map fst (own_entries raw) in
               andThen (storeWhen (\<not> js_is_object raw \<or> js_is_array raw) (checkpointInvalid ''checkpoint envelope must be an object.'')) (\<lambda>_.
               andThen (storeWhen (\<not> list_all (\<lambda>k. k \<in> set envelopeKeys) keys \<or> \<not> list_all (\<lambda>k. k \<in> set keys) envelopeKeys
                   \<or> js_get raw ''version'' \<noteq> jint 1 \<or> \<not> js_same (js_get raw ''continuationId'') (js_get continuation ''continuationId'')
                   \<or> \<not> js_same (js_get raw ''requestId'') (js_get continuation ''requestId'') \<or> js_get raw ''operationId'' \<noteq> JStr (op_id current))
                 (checkpointInvalid ''checkpoint does not match the current continuation.'')) (\<lambda>_.
               andThen (assertCheckpointBinding S (js_get raw ''binding'')) (\<lambda>_.
               andThen (storeWhen (\<not> sameHumanDecisionBinding S (js_get raw ''binding'') continuation)
                 ''DECISION_CONTINUATION_CHECKPOINT_BINDING_STALE: checkpoint binding differs from the saved continuation.'') (\<lambda>_.
               Inr raw))))))))"

text \<open>The continuation with the new binding, and the new file it names. \<open>additional\<close> are its further new fields.\<close>

definition rewriteProductChoiceCheckpointBinding ::
    "store_env \<Rightarrow> string \<Rightarrow> checkpoints \<Rightarrow> OperationRecordV2 \<Rightarrow> js \<Rightarrow> js_entries \<Rightarrow> js_entries \<Rightarrow> store_error + js \<times> string \<times> checkpoint_file" where
  "rewriteProductChoiceCheckpointBinding S uuid files current continuation binding additional =
     (let b = JObj binding in
     andThen (readProductChoiceCheckpointEnvelope S files current continuation) (\<lambda>previous.
     andThen (assertCheckpointBinding S b) (\<lambda>_.
     andThen (storeWhen (js_get b ''operationId'' \<noteq> JStr (op_id current)
         \<or> (case op_candidateRevision current of None \<Rightarrow> True | Some c \<Rightarrow> \<not> candidateRevisionsEqual (se_js S) (js_get b ''candidate'') c)
         \<or> Some (js_get b ''operationExecutionRevision'') \<noteq> map_option jint (op_operationExecutionRevision current)
         \<or> js_get b ''controllerEpoch'' \<noteq> jint (currentControllerEpoch current))
       ''DECISION_CONTINUATION_CHECKPOINT_BINDING_STALE: replacement checkpoint binding does not match the current operation identity.'') (\<lambda>_.
     andThen (checkpointArtifact (op_id current) (drop (length ''continuation:'') (str_of (js_get continuation ''continuationId'')) @ ''-'' @ uuid)) (\<lambda>artifact.
     andThen (writeCheckpoint True ''EEXIST'' artifact (JObj (override [(''binding'', b)] (own_entries previous))) files) (\<lambda>file.
     (let next = JObj (override (binding @ additional @ [(''checkpointArtifact'', JStr artifact),
            (''checkpointDigest'', JStr (sha256Utf8 (se_js S) (ck_text file)))]) (own_entries continuation)) in
     andThen (decisionCheck (assertContinuationRecordV1 (se_js S) next)) (\<lambda>_.
     Inr (next, artifact, file)))))))))"

subsection \<open>Mutations that write a checkpoint\<close>

type_synonym choice_callback = "OperationRecordV2 \<Rightarrow> int \<Rightarrow> store_error + OperationRecordV2 \<times> (string \<times> checkpoint_file) option"

text \<open>\<open>mutateOperation\<close> with a callback that returns the record and the file it wrote.\<close>

definition mutateChoice ::
    "store_env \<Rightarrow> controller_process \<Rightarrow> string \<Rightarrow> string \<Rightarrow> choice_callback \<Rightarrow> checkpoints \<Rightarrow> OperationRecordV2 \<Rightarrow>
     store_error + OperationRecordV2 \<times> checkpoints" where
  "mutateChoice S cp now eventType f files stored =
     andThen (mutateOperation S cp now emptyPatch True eventType (Some (\<lambda>current revision. map_sum id fst (f current revision))) False stored) (\<lambda>op.
     Inr (op, if isTerminal (op_status stored) then files
       else (case f stored (op_revision stored + 1) of Inr (_, Some (artifact, file)) \<Rightarrow> AList.update artifact file files | _ \<Rightarrow> files)))"

subsection \<open>Suspension\<close>

definition choiceStage :: string where
  "choiceStage = ''spec-authoring''"

text \<open>The identifiers minted for a request and its continuation, and the request that is opened under a binding.\<close>

record choice_ids =
  ci_request :: string
  ci_continuation :: string

definition requestObject :: "string \<Rightarrow> js_entries \<Rightarrow> js \<Rightarrow> string \<Rightarrow> string \<Rightarrow> js" where
  "requestObject requestId binding content createdAt expiresAt =
     JObj ([(''version'', jint 1), (''requestId'', JStr requestId)] @ binding
       @ map (\<lambda>k. (k, js_get content k)) [''issue'', ''authoritativeEvidence'', ''whatTried'', ''whyUnresolvable'', ''choices'', ''workThatCanContinue'']
       @ [(''resumeTarget'', JStr ''SPEC_AUTHORING''), (''createdAt'', JStr createdAt), (''expiresAt'', JStr expiresAt)])"

definition waitingContinuation :: "string \<Rightarrow> js_entries \<Rightarrow> string \<Rightarrow> string \<Rightarrow> string \<Rightarrow> js \<Rightarrow> string \<Rightarrow> js" where
  "waitingContinuation continuationId binding requestId artifact digest suspendedAt now =
     JObj ([(''version'', jint 1), (''continuationId'', JStr continuationId)] @ binding
       @ [(''resumeTarget'', JStr ''SPEC_AUTHORING''), (''reason'', JStr ''PRODUCT_CHOICE''), (''requestId'', JStr requestId),
          (''checkpointArtifact'', JStr artifact), (''checkpointDigest'', JStr digest),
          (''requiredRevalidation'', JArr (map JStr continuationRevalidationValuesV1)), (''state'', JStr ''WAITING''),
          (''suspendedAt'', suspendedAt), (''updatedAt'', JStr now)])"

definition expiryAfter :: "store_env \<Rightarrow> string \<Rightarrow> int \<Rightarrow> store_error + string" where
  "expiryAfter S now ms = (case date_parse (se_js S) now of Some t \<Rightarrow> isoAt S (t + ms) | None \<Rightarrow> Inl StoreTypeError)"

text \<open>
  The part that suspension, reconfirmation and reissue share: the checkpoint file under the new binding, the
  continuation that names it, and the record that waits for the choice.
\<close>

definition openChoice ::
    "store_env \<Rightarrow> string \<Rightarrow> choice_ids \<Rightarrow> bool \<Rightarrow> string \<Rightarrow> js_entries \<Rightarrow> js \<Rightarrow> js \<Rightarrow> js \<Rightarrow> (OperationStageRecord option \<Rightarrow> OperationStageRecord) \<Rightarrow> checkpoints \<Rightarrow>
     choice_callback" where
  "openChoice S now ids limited exists binding request checkpoint suspendedAt stage files current revision =
     andThen (checkpointArtifact (op_id current) (drop (length ''continuation:'') (ci_continuation ids))) (\<lambda>artifact.
     andThen (writeCheckpoint limited exists artifact (envelopeObject (ci_continuation ids) (ci_request ids) (op_id current) (JObj binding) checkpoint) files) (\<lambda>file.
     (let continuation = waitingContinuation (ci_continuation ids) binding (ci_request ids) artifact (sha256Utf8 (se_js S) (ck_text file)) suspendedAt now in
     andThen (decisionCheck (assertContinuationRecordV1 (se_js S) continuation)) (\<lambda>_.
     Inr ((touched now revision current)\<lparr>op_phase := ''HUMAN_REQUIRED'', op_decisionRequest := Some request, op_continuation := Some continuation,
       op_stages := AList.update choiceStage ((stage (map_of (op_stages current) choiceStage))\<lparr>sr_name := choiceStage, sr_status := StageBlocked,
         sr_revision := revision, sr_artifact := Some artifact\<rparr>) (op_stages current)\<rparr>, Some (artifact, file))))))"

definition blockedStage :: "string \<Rightarrow> string \<Rightarrow> OperationStageRecord option \<Rightarrow> OperationStageRecord" where
  "blockedStage now message previous =
     \<lparr>sr_name = choiceStage, sr_status = StageBlocked, sr_revision = 0,
      sr_startedAt = orKeep (Option.bind previous sr_startedAt) (Some now), sr_finishedAt = Some now, sr_message = Some message, sr_artifact = None\<rparr>"

definition suspendable :: "OperationRecordV2 \<Rightarrow> bool" where
  "suspendable op \<longleftrightarrow> op_status op = RUNNING \<and> op_phase op \<noteq> ''HUMAN_REQUIRED''
     \<and> (case op_continuation op of None \<Rightarrow> True | Some c \<Rightarrow> js_get c ''state'' = JStr ''RESUMING'' \<and> op_decisionRequest op = None)"

definition suspendOperationForProductChoice ::
    "store_env \<Rightarrow> controller_process \<Rightarrow> string \<Rightarrow> choice_ids \<Rightarrow> js \<Rightarrow> js \<Rightarrow> int \<Rightarrow> checkpoints \<Rightarrow> OperationRecordV2 \<Rightarrow>
     store_error + OperationRecordV2 \<times> checkpoints" where
  "suspendOperationForProductChoice S cp now ids content checkpoint expiresInMs files stored =
     andThen (storeWhen (\<not> safe_int expiresInMs \<or> expiresInMs < 60000 \<or> 604800000 < expiresInMs)
       ''DECISION_REQUEST_EXPIRY_INVALID: expiry must be between one minute and seven days.'') (\<lambda>_.
     mutateChoice S cp now ''operation.human-decision.suspended''
       (\<lambda>current revision.
          andThen (assertCurrentControllerOwner S cp current ''product-choice suspension'') (\<lambda>_.
          andThen (storeWhen (\<not> suspendable current)
            ''DECISION_REQUEST_STATE_INVALID: only active Spec Manager authoring without an unanswered continuation may suspend for a product choice'') (\<lambda>_.
          andThen (currentDecisionBinding S current ''product-choice suspension'') (\<lambda>binding.
          andThen (expiryAfter S now expiresInMs) (\<lambda>expiresAt.
          (let request = requestObject (ci_request ids) binding content now expiresAt in
          andThen (decisionCheck (assertDecisionRequestV1 (se_js S) request)) (\<lambda>_.
          openChoice S now ids True ''DECISION_CONTINUATION_COLLISION: create a new product-choice request.'' binding request checkpoint (JStr now) (blockedStage now ''Waiting for a scoped product choice.'') files current revision)))))))
       files stored)"

subsection \<open>Loading a checkpoint\<close>

definition checkpointStale :: "string \<Rightarrow> string" where
  "checkpointStale message = ''DECISION_CONTINUATION_CHECKPOINT_BINDING_STALE: '' @ message"

definition loadOperationProductChoiceCheckpoint :: "store_env \<Rightarrow> checkpoints \<Rightarrow> OperationRecordV2 \<Rightarrow> store_error + js" where
  "loadOperationProductChoiceCheckpoint S files current =
     (case op_continuation current of
        None \<Rightarrow> Inl (StoreRejected ''DECISION_CONTINUATION_MISSING: no supported product-choice continuation is stored.'')
      | Some c \<Rightarrow>
          andThen (storeWhen (js_get c ''resumeTarget'' \<noteq> JStr ''SPEC_AUTHORING'')
            ''DECISION_CONTINUATION_MISSING: no supported product-choice continuation is stored.'') (\<lambda>_.
          andThen (decisionCheck (assertContinuationRecordV1 (se_js S) c)) (\<lambda>_.
          andThen (readProductChoiceCheckpointEnvelope S files current c) (\<lambda>envelope.
          andThen (currentDecisionBinding S current ''product-choice checkpoint load'') (\<lambda>binding.
          andThen (storeWhen (\<not> sameHumanDecisionBinding S (js_get envelope ''binding'') c \<or> \<not> sameHumanDecisionBinding S c (JObj binding))
            (checkpointStale ''checkpoint, saved continuation, and current operation bindings must match exactly.'')) (\<lambda>_.
          Inr (js_get envelope ''checkpoint'')))))))"

definition reissueStale :: string where
  "reissueStale = ''DECISION_CONTINUATION_REISSUE_STALE: unanswered checkpoint is not bound to the current operation and saved request.''"

definition loadWaitingOperationProductChoiceCheckpointForReissue :: "store_env \<Rightarrow> checkpoints \<Rightarrow> OperationRecordV2 \<Rightarrow> store_error + js" where
  "loadWaitingOperationProductChoiceCheckpointForReissue S files current =
     (let unanswered = ''DECISION_CONTINUATION_REISSUE_INVALID: only an unanswered HUMAN_REQUIRED choice can be reissued.'' in
     case (op_continuation current, op_decisionRequest current) of
        (Some c, Some request) \<Rightarrow>
          andThen (storeWhen (op_status current \<noteq> RUNNING \<or> op_phase current \<noteq> ''HUMAN_REQUIRED'' \<or> js_get c ''state'' \<noteq> JStr ''WAITING'') unanswered) (\<lambda>_.
          andThen (decisionCheck (assertContinuationRecordV1 (se_js S) c)) (\<lambda>_.
          andThen (decisionCheck (assertDecisionRequestV1 (se_js S) request)) (\<lambda>_.
          andThen (readProductChoiceCheckpointEnvelope S files current c) (\<lambda>envelope.
          andThen (bindingFromDecisionRecord S request) (\<lambda>requestBinding.
          andThen (storeWhen (\<not> sameHumanDecisionBinding S (js_get envelope ''binding'') c \<or> \<not> sameHumanDecisionBinding S requestBinding c
              \<or> \<not> js_same (js_get request ''requestId'') (js_get c ''requestId'') \<or> js_get request ''operationId'' \<noteq> JStr (op_id current)
              \<or> (case op_candidateRevision current of None \<Rightarrow> True | Some x \<Rightarrow> \<not> candidateRevisionsEqual (se_js S) x (js_get c ''candidate''))
              \<or> map_option jint (op_operationExecutionRevision current) \<noteq> Some (js_get c ''operationExecutionRevision'')) reissueStale) (\<lambda>_.
          Inr (js_get envelope ''checkpoint'')))))))
      | _ \<Rightarrow> Inl (StoreRejected unanswered))"

subsection \<open>Reconfirmation of a choice that became stale\<close>

definition reconfirmation :: "string \<Rightarrow> string" where
  "reconfirmation message = ''DECISION_CONTINUATION_RECONFIRMATION_'' @ message"

definition assertStaleConsumedChoiceEligible :: "store_env \<Rightarrow> OperationRecordV2 \<Rightarrow> js \<Rightarrow> store_error + unit" where
  "assertStaleConsumedChoiceEligible S current continuation =
     (let selected = js_get continuation ''selectedDecisionBinding'' in
     andThen (storeWhen (op_status current \<noteq> RUNNING \<or> js_get continuation ''state'' = JStr ''WAITING''
         \<or> \<not> list_all (\<lambda>k. js_truthy (js_get continuation k)) [''appliedRequirementDigest'', ''selectedDecisionId'', ''selectedChoiceId'', ''selectedDecisionBinding''])
       (reconfirmation ''INVALID: only a consumed product choice with applied requirement semantics can be reconfirmed.'')) (\<lambda>_.
     andThen (currentDecisionBinding S current ''stale product-choice reconfirmation'') (\<lambda>binding.
     (let revision = (case op_operationExecutionRevision current of Some n \<Rightarrow> n | None \<Rightarrow> 0); candidate = field (op_candidateRevision current) in
     andThen (storeWhen (js_get selected ''operationId'' \<noteq> JStr (op_id current)
         \<or> \<not> candidateRevisionsEqual (se_js S) (js_get selected ''candidate'') candidate
         \<or> \<not> candidateRevisionsEqual (se_js S) (js_get continuation ''candidate'') candidate
         \<or> revision \<noteq> int_of (js_get selected ''operationExecutionRevision'') + 1
         \<or> js_get continuation ''operationExecutionRevision'' \<noteq> jint revision)
       (reconfirmation ''STALE: candidate or execution revision changed outside the single applied product-choice revision.'')) (\<lambda>_.
     andThen (storeWhen (sameHumanDecisionBinding S (JObj binding) continuation)
       (reconfirmation ''NOT_REQUIRED: consumed choice binding is already current.'')) (\<lambda>_.
     storeWhen (currentControllerEpoch current < int_of (js_get selected ''controllerEpoch''))
       (reconfirmation ''STALE: current controller epoch moved backwards.'')))))))"

definition assertConsumedProductChoiceReceipt :: "store_env \<Rightarrow> human_ledger \<Rightarrow> js \<Rightarrow> store_error + unit" where
  "assertConsumedProductChoiceReceipt S L continuation =
     (let selected = js_get continuation ''selectedDecisionBinding''; decisionId = js_get continuation ''selectedDecisionId'';
          choiceId = js_get continuation ''selectedChoiceId'';
          invalid = reconfirmation ''RECEIPT_INVALID: stale selection has no exact original consumed receipt.'' in
     andThen (storeWhen (\<not> js_truthy selected \<or> \<not> js_truthy decisionId \<or> \<not> js_truthy choiceId)
       ''DECISION_CONTINUATION_STATE_INVALID: consumed product-choice identity is incomplete.'') (\<lambda>_.
     andThen (map_sum StoreDecision id (findDecision (se_js S) (str_of decisionId) L)) (\<lambda>found.
     (case found of
        None \<Rightarrow> Inl (StoreRejected invalid)
      | Some decision \<Rightarrow>
          (let purpose = js_get decision ''purpose'' in
          andThen (storeWhen (js_get decision ''kind'' \<noteq> JStr ''CHOOSE'' \<or> js_get purpose ''kind'' \<noteq> JStr ''PRODUCT_CHOICE''
              \<or> \<not> js_same (js_get purpose ''requestId'') (js_get continuation ''requestId'') \<or> \<not> js_same (js_get purpose ''choiceId'') choiceId
              \<or> \<not> sameHumanDecisionBinding S decision selected) invalid) (\<lambda>_.
          andThen (map_sum StoreDecision id (consumedExact (se_js S) selected purpose (str_of (js_get decision ''decisionId'')) (str_of (js_get decision ''actorId'')) L)) (\<lambda>receipt.
          storeWhen (receipt = None) invalid)))))))"

definition loadStaleConsumedProductChoiceCheckpointForReconfirmation ::
    "store_env \<Rightarrow> human_ledger \<Rightarrow> checkpoints \<Rightarrow> OperationRecordV2 \<Rightarrow> store_error + js" where
  "loadStaleConsumedProductChoiceCheckpointForReconfirmation S L files current =
     (case op_continuation current of
        None \<Rightarrow> Inl (StoreRejected ''DECISION_CONTINUATION_MISSING: no consumed product-choice continuation is stored.'')
      | Some c \<Rightarrow>
          andThen (decisionCheck (assertContinuationRecordV1 (se_js S) c)) (\<lambda>_.
          andThen (assertStaleConsumedChoiceEligible S current c) (\<lambda>_.
          andThen (readProductChoiceCheckpointEnvelope S files current c) (\<lambda>envelope.
          andThen (assertConsumedProductChoiceReceipt S L c) (\<lambda>_.
          Inr (js_get envelope ''checkpoint''))))))"

text \<open>\<open>canonicalSerialize(a) !== canonicalSerialize(b)\<close>.\<close>

definition needCanonical :: "js \<Rightarrow> js \<Rightarrow> string \<Rightarrow> store_error + unit" where
  "needCanonical a b message = andThen (canonicalText a) (\<lambda>s. andThen (canonicalText b) (\<lambda>t. storeWhen (s \<noteq> t) message))"

text \<open>The continuation is still the one that was read before the lock was taken.\<close>

definition sameContinuation :: "OperationRecordV2 \<Rightarrow> js \<Rightarrow> bool" where
  "sameContinuation before c \<longleftrightarrow> js_same (js_get c ''continuationId'') (js_get (field (op_continuation before)) ''continuationId'')
     \<and> js_same (js_get c ''requestId'') (js_get (field (op_continuation before)) ''requestId'')"

text \<open>\<open>before\<close> is the record read without the lock, \<open>stored\<close> the one under it.\<close>

definition reconfirmStaleConsumedProductChoice ::
    "store_env \<Rightarrow> controller_process \<Rightarrow> string \<Rightarrow> choice_ids \<Rightarrow> js \<Rightarrow> js \<Rightarrow> human_ledger \<Rightarrow> checkpoints \<Rightarrow> OperationRecordV2 \<Rightarrow> OperationRecordV2 \<Rightarrow>
     store_error + OperationRecordV2 \<times> checkpoints" where
  "reconfirmStaleConsumedProductChoice S cp now ids content checkpoint L files before stored =
     (let mismatch = reconfirmation ''CHECKPOINT_MISMATCH: reconsent must preserve the verified saved checkpoint.'' in
     andThen (loadStaleConsumedProductChoiceCheckpointForReconfirmation S L files before) (\<lambda>saved.
     andThen (needCanonical saved checkpoint mismatch) (\<lambda>_.
     mutateChoice S cp now ''operation.human-decision.reconfirmation-required''
       (\<lambda>current revision.
          andThen (assertCurrentControllerOwner S cp current ''stale product-choice reconfirmation'') (\<lambda>_.
          (case op_continuation current of
             None \<Rightarrow> Inl (StoreRejected (reconfirmation ''STALE: consumed continuation changed before reconsent.''))
           | Some c \<Rightarrow>
               andThen (decisionCheck (assertContinuationRecordV1 (se_js S) c)) (\<lambda>_.
               andThen (storeWhen (\<not> sameContinuation before c) (reconfirmation ''STALE: consumed continuation changed before reconsent.'')) (\<lambda>_.
               andThen (assertStaleConsumedChoiceEligible S current c) (\<lambda>_.
               andThen (readProductChoiceCheckpointEnvelope S files current c) (\<lambda>envelope.
               andThen (assertConsumedProductChoiceReceipt S L c) (\<lambda>_.
               andThen (needCanonical (js_get envelope ''checkpoint'') checkpoint mismatch) (\<lambda>_.
               andThen (currentDecisionBinding S current ''stale product-choice reconfirmation'') (\<lambda>binding.
               andThen (expiryAfter S now 86400000) (\<lambda>expiresAt.
               (let request = requestObject (ci_request ids) binding content now expiresAt in
               andThen (decisionCheck (assertDecisionRequestV1 (se_js S) request)) (\<lambda>_.
               openChoice S now ids True ''EEXIST'' binding request checkpoint (JStr now)
                 (blockedStage now ''Prior product choice became stale; a new current-authority choice is required before resumption.'')
                 files current revision))))))))))))) files stored)))"

subsection \<open>Reissue of an unanswered request\<close>

definition reissuedStage :: "OperationStageRecord option \<Rightarrow> OperationStageRecord" where
  "reissuedStage previous =
     (case previous of
        Some s \<Rightarrow> s
      | None \<Rightarrow> \<lparr>sr_name = choiceStage, sr_status = StageBlocked, sr_revision = 0, sr_startedAt = None, sr_finishedAt = None, sr_message = None, sr_artifact = None\<rparr>)
     \<lparr>sr_message := Some ''Waiting for a product choice under the current controller epoch.''\<rparr>"

definition unanswered :: "OperationRecordV2 \<Rightarrow> js \<Rightarrow> bool" where
  "unanswered op c \<longleftrightarrow> op_phase op = ''HUMAN_REQUIRED'' \<and> js_get c ''state'' = JStr ''WAITING''"

definition reissueOperationProductChoice ::
    "store_env \<Rightarrow> controller_process \<Rightarrow> string \<Rightarrow> choice_ids \<Rightarrow> js \<Rightarrow> checkpoints \<Rightarrow> OperationRecordV2 \<Rightarrow> OperationRecordV2 \<Rightarrow>
     store_error + OperationRecordV2 \<times> checkpoints" where
  "reissueOperationProductChoice S cp now ids checkpoint files before stored =
     (let invalid = ''DECISION_REQUEST_STATE_INVALID: only an unchanged unanswered HUMAN_REQUIRED product choice can be rebound.'' in
     andThen (loadWaitingOperationProductChoiceCheckpointForReissue S files before) (\<lambda>saved.
     andThen (needCanonical saved checkpoint ''DECISION_CONTINUATION_REISSUE_CHECKPOINT_MISMATCH: reissue must preserve the verified saved checkpoint.'') (\<lambda>_.
     mutateChoice S cp now ''operation.human-decision.reissued''
       (\<lambda>current revision.
          andThen (assertCurrentControllerOwner S cp current ''product-choice request reissue'') (\<lambda>_.
          (case (op_decisionRequest current, op_continuation current) of
             (Some previous, Some c) \<Rightarrow>
               andThen (decisionCheck (assertDecisionRequestV1 (se_js S) previous)) (\<lambda>_.
               andThen (decisionCheck (assertContinuationRecordV1 (se_js S) c)) (\<lambda>_.
               andThen (storeWhen (\<not> unanswered current c \<or> \<not> sameContinuation before c) invalid) (\<lambda>_.
               andThen (currentDecisionBinding S current ''product-choice request reissue'') (\<lambda>binding.
               andThen (storeWhen (\<not> candidateRevisionsEqual (se_js S) (js_get c ''candidate'') (js_get (JObj binding) ''candidate'')
                   \<or> \<not> js_same (js_get c ''operationExecutionRevision'') (js_get (JObj binding) ''operationExecutionRevision''))
                 ''DECISION_CONTINUATION_STALE: candidate or execution semantics changed while the operation was suspended.'') (\<lambda>_.
               andThen (expiryAfter S now 86400000) (\<lambda>expiresAt.
               (let request = JObj (override (binding @ [(''requestId'', JStr (ci_request ids)), (''createdAt'', JStr now), (''expiresAt'', JStr expiresAt)])
                      (own_entries previous)) in
               andThen (decisionCheck (assertDecisionRequestV1 (se_js S) request)) (\<lambda>_.
               openChoice S now ids False ''EEXIST'' binding request checkpoint (js_get c ''suspendedAt'') reissuedStage files current revision))))))))
           | _ \<Rightarrow> Inl (StoreRejected invalid)))) files stored)))"

subsection \<open>The choice is consumed, bound and resumed\<close>

definition withFields :: "js \<Rightarrow> js_entries \<Rightarrow> js" where
  "withFields v new = JObj (override new (own_entries v))"

definition decisionIdText :: "string \<Rightarrow> bool" where
  "decisionIdText i = prefixedUuid ''decision:'' i"

definition requestStale :: string where
  "requestStale = ''DECISION_REQUEST_STALE: no matching current product-choice request is awaiting a decision.''"

definition markOperationProductChoiceConsumed ::
    "store_env \<Rightarrow> controller_process \<Rightarrow> string \<Rightarrow> string \<Rightarrow> string \<Rightarrow> string \<Rightarrow> OperationRecordV2 \<Rightarrow> store_error + OperationRecordV2" where
  "markOperationProductChoiceConsumed S cp now requestId decisionId choiceId =
     mutateOperation S cp now emptyPatch True ''operation.human-decision.consumed''
       (Some (\<lambda>current revision.
          andThen (assertCurrentControllerOwner S cp current ''product-choice consumption'') (\<lambda>_.
          andThen (checkOption (decisionCheck \<circ> assertDecisionRequestV1 (se_js S)) (op_decisionRequest current)) (\<lambda>_.
          andThen (checkOption (decisionCheck \<circ> assertContinuationRecordV1 (se_js S)) (op_continuation current)) (\<lambda>_.
          (case (op_decisionRequest current, op_continuation current) of
             (Some request, Some c) \<Rightarrow>
               andThen (storeWhen (\<not> unanswered current c \<or> js_get request ''requestId'' \<noteq> JStr requestId \<or> js_get c ''requestId'' \<noteq> JStr requestId) requestStale) (\<lambda>_.
               andThen (assertCurrentDecisionBinding S current request ''product-choice consumption'') (\<lambda>_.
               andThen (currentDecisionBinding S current ''product-choice consumption'') (\<lambda>selected.
               andThen (storeWhen (case (date_parse (se_js S) (str_of (js_get request ''expiresAt'')), date_parse (se_js S) now) of
                   (Some deadline, Some t) \<Rightarrow> deadline \<le> t | _ \<Rightarrow> False) ''DECISION_REQUEST_EXPIRED: the product-choice request has expired.'') (\<lambda>_.
               andThen (storeWhen (\<not> list_ex (\<lambda>choice. js_get choice ''choiceId'' = JStr choiceId) (js_items (js_get request ''choices'')))
                 (''DECISION_CHOICE_INVALID: selected choice is not one of the request'' @ [CHR 0x27] @ ''s bounded options.'')) (\<lambda>_.
               andThen (storeWhen (\<not> decisionIdText decisionId) ''DECISION_ID_INVALID: consumed HumanDecision id is malformed.'') (\<lambda>_.
               Inr ((touched now revision current)\<lparr>op_phase := ''REVALIDATING'', op_decisionRequest := None,
                 op_continuation := Some (withFields c [(''state'', JStr ''CHOICE_CONSUMED''), (''selectedDecisionId'', JStr decisionId),
                   (''selectedChoiceId'', JStr choiceId), (''selectedDecisionBinding'', JObj selected), (''updatedAt'', JStr now)])\<rparr>)))))))
           | _ \<Rightarrow> Inl (StoreRejected requestStale))))))) False"

definition chosenState :: "js \<Rightarrow> bool" where
  "chosenState c \<longleftrightarrow> js_get c ''state'' = JStr ''CHOICE_CONSUMED'' \<or> js_get c ''state'' = JStr ''RESUMING''"

definition choiceSemantics :: "OperationRecordV2 \<Rightarrow> string list \<Rightarrow> string \<Rightarrow> string \<Rightarrow> string \<Rightarrow> js" where
  "choiceSemantics op prior decisionId choiceId requirementDigest =
     JObj [(''previous'', case op_executionSemanticsDigest op of Some d \<Rightarrow> JStr d | None \<Rightarrow> JNull), (''priorDecisionIds'', JArr (map JStr prior)),
       (''decisionId'', JStr decisionId), (''choiceId'', JStr choiceId), (''requirementDigest'', JStr requirementDigest)]"

text \<open>The requirement is the one the choice was applied with already.\<close>

definition alreadyApplied :: "OperationRecordV2 \<Rightarrow> string \<Rightarrow> string \<Rightarrow> string \<Rightarrow> bool" where
  "alreadyApplied op decisionId choiceId requirementDigest = (case op_continuation op of
       Some c \<Rightarrow> js_get c ''selectedDecisionId'' = JStr decisionId \<and> js_get c ''selectedChoiceId'' = JStr choiceId
         \<and> js_get c ''appliedRequirementDigest'' = JStr requirementDigest
     | None \<Rightarrow> False)"

definition bindProductChoiceExecutionSemantics ::
    "store_env \<Rightarrow> controller_process \<Rightarrow> string \<Rightarrow> string \<Rightarrow> string \<Rightarrow> string \<Rightarrow> string \<Rightarrow> string list \<Rightarrow> checkpoints \<Rightarrow> OperationRecordV2 \<Rightarrow>
     OperationRecordV2 \<Rightarrow> store_error + OperationRecordV2 \<times> checkpoints" where
  "bindProductChoiceExecutionSemantics S cp now uuid requirementDigest decisionId choiceId prior files before stored =
     andThen (storeWhen (\<not> is_digest requirementDigest) ''EXECUTION_SEMANTICS_INVALID: requirement digest must be a lowercase SHA-256 digest.'') (\<lambda>_.
     andThen (storeWhen (16 < length prior \<or> \<not> list_all decisionIdText prior \<or> \<not> distinct prior \<or> decisionId \<in> set prior)
       ''DECISION_CONTINUATION_CHAIN_INVALID: prior product decision identities must be unique, valid and bounded.'') (\<lambda>_.
     if alreadyApplied before decisionId choiceId requirementDigest
     then (let c = field (op_continuation before) in
       andThen (assertCurrentConsumedProductChoiceBinding S before c (js_get c ''selectedDecisionBinding'')) (\<lambda>_. Inr (before, files)))
     else mutateChoice S cp now choiceSemanticsEvent
       (\<lambda>current revision.
          andThen (assertCurrentControllerOwner S cp current ''product-choice semantics binding'') (\<lambda>_.
          andThen (checkOption (decisionCheck \<circ> assertContinuationRecordV1 (se_js S)) (op_continuation current)) (\<lambda>_.
          (case op_continuation current of
             None \<Rightarrow> Inl (StoreRejected ''DECISION_CONTINUATION_STATE_INVALID: revised product semantics require the consumed current product choice.'')
           | Some c \<Rightarrow>
               andThen (storeWhen (\<not> chosenState c \<or> js_get c ''selectedDecisionId'' \<noteq> JStr decisionId \<or> js_get c ''selectedChoiceId'' \<noteq> JStr choiceId)
                 ''DECISION_CONTINUATION_STATE_INVALID: revised product semantics require the consumed current product choice.'') (\<lambda>_.
               andThen (storeWhen (\<not> safeRevision current)
                 ''UNSUPPORTED_OPERATION_EXECUTION_REVISION: migrate this operation record before product-choice resumption.'') (\<lambda>_.
               andThen (assertCurrentConsumedProductChoiceBinding S current c (js_get c ''selectedDecisionBinding'')) (\<lambda>_.
               andThen (storeDigest S (choiceSemantics current prior decisionId choiceId requirementDigest)) (\<lambda>semantics.
               (let following = executionRevisionOr 0 current + 1;
                    binding = bindingObject current (field (op_candidateRevision current)) following (js_get c ''policyDigest'') in
               andThen (rewriteProductChoiceCheckpointBinding S uuid files (current\<lparr>op_operationExecutionRevision := Some following\<rparr>) c binding
                 [(''appliedRequirementDigest'', JStr requirementDigest)]) (\<lambda>(rebound, artifact, file).
               Inr ((touched now revision current)\<lparr>op_operationExecutionRevision := Some following, op_executionSemanticsDigest := Some semantics,
                 op_resolvedOperationPolicy := None, op_participants := dropBindings (op_participants current),
                 op_continuation := Some (withFields rebound [(''state'', JStr ''CHOICE_CONSUMED''), (''appliedRequirementDigest'', JStr requirementDigest),
                   (''updatedAt'', JStr now)])\<rparr>, Some (artifact, file)))))))))))) files stored))"

definition resumedStage :: "string \<Rightarrow> int \<Rightarrow> OperationStageRecord option \<Rightarrow> OperationStageRecord" where
  "resumedStage now revision previous =
     \<lparr>sr_name = choiceStage, sr_status = StageRunning, sr_revision = revision, sr_startedAt = Some now, sr_finishedAt = None,
      sr_message = Some ''Resuming Spec Manager after validated product choice.'', sr_artifact = Option.bind previous sr_artifact\<rparr>"

definition resumeOperationProductChoice ::
    "store_env \<Rightarrow> controller_process \<Rightarrow> string \<Rightarrow> checkpoints \<Rightarrow> OperationRecordV2 \<Rightarrow> OperationRecordV2 \<Rightarrow> store_error + OperationRecordV2" where
  "resumeOperationProductChoice S cp now files before stored =
     (let required = ''DECISION_CONTINUATION_STATE_INVALID: a consumed product choice is required before resumption.'' in
     andThen (loadOperationProductChoiceCheckpoint S files before) (\<lambda>_.
     mutateOperation S cp now emptyPatch True ''operation.human-decision.resumed''
       (Some (\<lambda>current revision.
          andThen (assertCurrentControllerOwner S cp current ''product-choice continuation resume'') (\<lambda>_.
          andThen (checkOption (decisionCheck \<circ> assertContinuationRecordV1 (se_js S)) (op_continuation current)) (\<lambda>_.
          (case op_continuation current of
             None \<Rightarrow> Inl (StoreRejected required)
           | Some c \<Rightarrow>
               andThen (storeWhen (\<not> chosenState c \<or> \<not> js_truthy (js_get c ''selectedDecisionId'') \<or> \<not> js_truthy (js_get c ''selectedChoiceId'')) required) (\<lambda>_.
               andThen (currentDecisionBinding S current ''product-choice continuation resume'') (\<lambda>binding.
               andThen (storeWhen (\<not> sameHumanDecisionBinding S c (JObj binding))
                 (continuationStale ''current operation identity changed before continuation resume.'')) (\<lambda>_.
               andThen (assertCurrentConsumedProductChoiceBinding S current c (js_get c ''selectedDecisionBinding'')) (\<lambda>_.
               andThen (readProductChoiceCheckpointEnvelope S files current c) (\<lambda>envelope.
               andThen (storeWhen (\<not> sameHumanDecisionBinding S (js_get envelope ''binding'') c \<or> \<not> sameHumanDecisionBinding S (js_get envelope ''binding'') (JObj binding))
                 (checkpointStale ''checkpoint identity changed before continuation resume.'')) (\<lambda>_.
               (let following = withFields c [(''state'', JStr ''RESUMING''), (''updatedAt'', JStr now)] in
               andThen (decisionCheck (assertContinuationRecordV1 (se_js S) following)) (\<lambda>_.
               Inr ((touched now revision current)\<lparr>op_phase := choiceStage, op_continuation := Some following,
                 op_stages := AList.update choiceStage (resumedStage now revision (map_of (op_stages current) choiceStage)) (op_stages current)\<rparr>))))))))))))))
       False stored))"

definition completeOperationProductChoice :: "store_env \<Rightarrow> controller_process \<Rightarrow> string \<Rightarrow> OperationRecordV2 \<Rightarrow> store_error + OperationRecordV2" where
  "completeOperationProductChoice S cp now =
     mutateOperation S cp now emptyPatch True ''operation.human-decision.completed''
       (Some (\<lambda>current revision.
          andThen (assertCurrentControllerOwner S cp current ''product-choice continuation completion'') (\<lambda>_.
          andThen (storeWhen (case op_continuation current of
              Some c \<Rightarrow> js_get c ''state'' \<noteq> JStr ''RESUMING'' \<or> \<not> js_truthy (js_get c ''selectedDecisionId'') | None \<Rightarrow> True)
            ''DECISION_CONTINUATION_STATE_INVALID: only the active resumed product-choice continuation can complete.'') (\<lambda>_.
          Inr ((touched now revision current)\<lparr>op_continuation := None, op_decisionRequest := None\<rparr>))))) False"

end
