(* ===== verification/ProductChoiceProtocol.thy ===== *)
theory ProductChoiceProtocol
  imports ProductChoice OperationInvariants "HOL-Library.Sublist"
begin

text \<open>
  The protocol that the product-choice operations of \<open>ProductChoice\<close> follow: what of a record it is about, its moves, and
  the runs of the operations on one record. A locale states it for any system whose steps are such moves; the
  interpretation is on the operations of the store.
\<close>

subsection \<open>The protocol\<close>

text \<open>A choice that is awaited has its request, one that was made its request, decision and choice; the last field is the applied requirement.\<close>

datatype choice_view = NoChoice | Awaiting js js | Chosen bool js js js js

datatype choice_event = RequestOpened string | RequestReissued string | ChoiceConsumed string string string | RequirementApplied string string string
  | ChoiceResumed | ChoiceReconfirmed string | ChoiceCompleted | OtherStep

inductive choice_move :: "choice_view \<Rightarrow> choice_event \<Rightarrow> choice_view \<Rightarrow> bool" where
  opens: "choice_move NoChoice (RequestOpened r) (Awaiting (JStr r) JUndefined)"
| replaces: "choice_move (Chosen True q d c a) (RequestOpened r) (Awaiting (JStr r) JUndefined)"
| reissues: "choice_move (Awaiting q a) (RequestReissued r) (Awaiting (JStr r) JUndefined)"
| consumes: "choice_move (Awaiting (JStr r) a) (ChoiceConsumed r d c) (Chosen False (JStr r) (JStr d) (JStr c) a)"
| applies: "choice_move (Chosen b q (JStr d) (JStr c) a) (RequirementApplied d c x) (Chosen False q (JStr d) (JStr c) (JStr x))"
| resumes: "choice_move (Chosen b q d c a) ChoiceResumed (Chosen True q d c a)"
| reconfirms: "js_truthy a \<Longrightarrow> choice_move (Chosen b q d c a) (ChoiceReconfirmed r) (Awaiting (JStr r) JUndefined)"
| completes: "choice_move (Chosen True q d c a) ChoiceCompleted NoChoice"
| others: "choice_move v OtherStep v"

inductive_simps choice_move_simps:
  "choice_move v (RequestOpened r) v'" "choice_move v (RequestReissued r) v'" "choice_move v (ChoiceConsumed r d c) v'"
  "choice_move v (RequirementApplied d c x) v'" "choice_move v ChoiceResumed v'" "choice_move v (ChoiceReconfirmed r) v'"
  "choice_move v ChoiceCompleted v'" "choice_move v OtherStep v'"

fun openedRequests :: "choice_event list \<Rightarrow> string list" where
  "openedRequests [] = []"
| "openedRequests (RequestOpened r # es) = r # openedRequests es"
| "openedRequests (RequestReissued r # es) = r # openedRequests es"
| "openedRequests (ChoiceReconfirmed r # es) = r # openedRequests es"
| "openedRequests (e # es) = openedRequests es"

fun consumedRequests :: "choice_event list \<Rightarrow> string list" where
  "consumedRequests [] = []"
| "consumedRequests (ChoiceConsumed r d c # es) = r # consumedRequests es"
| "consumedRequests (e # es) = consumedRequests es"

definition awaitedRequest :: "choice_view \<Rightarrow> string list" where
  "awaitedRequest v = (case v of Awaiting (JStr r) a \<Rightarrow> [r] | _ \<Rightarrow> [])"

lemma move_answers:
  assumes "choice_move v e v'" "subseq (consumedRequests es) (awaitedRequest v' @ openedRequests es)"
  shows "subseq (consumedRequests (e # es)) (awaitedRequest v @ openedRequests (e # es))"
  using assms by cases (auto simp: awaitedRequest_def split: js.splits)

inductive steps_of :: "('s \<Rightarrow> 'e \<Rightarrow> 's \<Rightarrow> bool) \<Rightarrow> 's \<Rightarrow> 'e list \<Rightarrow> 's \<Rightarrow> bool" for step where
  none: "steps_of step s [] s"
| more: "step s e t \<Longrightarrow> steps_of step t es u \<Longrightarrow> steps_of step s (e # es) u"

lemma subseq_of_distinct: "subseq xs ys \<Longrightarrow> distinct ys \<Longrightarrow> distinct xs"
proof (induction rule: list_emb.induct)
  case (list_emb_Cons2 x y xs ys)
  then show ?case by (auto dest: list_emb_set)
qed simp_all

locale choice_protocol =
  fixes view :: "'s \<Rightarrow> choice_view" and step :: "'s \<Rightarrow> choice_event \<Rightarrow> 's \<Rightarrow> bool"
  assumes moves: "step s e t \<Longrightarrow> choice_move (view s) e (view t)"
begin

lemma run_moves: "steps_of step s es t \<Longrightarrow> steps_of choice_move (view s) es (view t)"
  by (induction rule: steps_of.induct) (auto intro: steps_of.intros moves)

text \<open>The answered requests are requests that were opened, in their order, each at most once.\<close>

lemma run_answers: "steps_of step s es t \<Longrightarrow> subseq (consumedRequests es) (awaitedRequest (view s) @ openedRequests es)"
proof (induction rule: steps_of.induct)
  case (more s e t es u)
  from move_answers [OF moves [OF more.hyps(1)] more.IH] show ?case .
qed simp

lemma run_answers_once: "steps_of step s es t \<Longrightarrow> distinct (awaitedRequest (view s) @ openedRequests es) \<Longrightarrow> distinct (consumedRequests es)"
  by (blast dest: run_answers intro: subseq_of_distinct)

end

subsection \<open>The operations as moves\<close>

definition choiceView :: "OperationRecordV2 \<Rightarrow> choice_view" where
  "choiceView op = (case op_continuation op of
       None \<Rightarrow> NoChoice
     | Some c \<Rightarrow>
         (let request = js_get c ''requestId''; applied = js_get c ''appliedRequirementDigest'' in
          if js_get c ''state'' = JStr ''WAITING'' then Awaiting request applied
          else Chosen (js_get c ''state'' = JStr ''RESUMING'') request (js_get c ''selectedDecisionId'') (js_get c ''selectedChoiceId'') applied))"

text \<open>\<open>rewriteProductChoiceCheckpointBinding\<close> as the policy binding calls it.\<close>

definition rewriteForPolicy :: "store_env \<Rightarrow> string \<Rightarrow> checkpoints \<Rightarrow> OperationRecordV2 \<Rightarrow> js \<Rightarrow> js \<Rightarrow> store_error + js" where
  "rewriteForPolicy S uuid files op continuation binding =
     map_sum id fst (rewriteProductChoiceCheckpointBinding S uuid files op continuation (own_entries binding) [])"

text \<open>
  A change of a record that has not ended: one of the product-choice operations, whatever was read before the lock was
  taken and whatever checkpoint files exist, the binding of a policy, or any step of the store that leaves the
  continuation alone.
\<close>

inductive choice_operation :: "store_env \<Rightarrow> OperationRecordV2 \<Rightarrow> choice_event \<Rightarrow> OperationRecordV2 \<Rightarrow> bool" for S where
  suspends: "suspendOperationForProductChoice S cp now ids content checkpoint ms files op = Inr (op', files') \<Longrightarrow> \<not> isTerminal (op_status op) \<Longrightarrow>
    choice_operation S op (RequestOpened (ci_request ids)) op'"
| reissues: "reissueOperationProductChoice S cp now ids checkpoint files before op = Inr (op', files') \<Longrightarrow> \<not> isTerminal (op_status op) \<Longrightarrow>
    choice_operation S op (RequestReissued (ci_request ids)) op'"
| reconfirms: "reconfirmStaleConsumedProductChoice S cp now ids content checkpoint L files before op = Inr (op', files') \<Longrightarrow> \<not> isTerminal (op_status op) \<Longrightarrow>
    choice_operation S op (ChoiceReconfirmed (ci_request ids)) op'"
| consumes: "markOperationProductChoiceConsumed S cp now requestId decisionId choiceId op = Inr op' \<Longrightarrow> \<not> isTerminal (op_status op) \<Longrightarrow>
    choice_operation S op (ChoiceConsumed requestId decisionId choiceId) op'"
| applies: "bindProductChoiceExecutionSemantics S cp now uuid requirement decisionId choiceId prior files before op = Inr (op', files') \<Longrightarrow>
    \<not> alreadyApplied before decisionId choiceId requirement \<Longrightarrow> \<not> isTerminal (op_status op) \<Longrightarrow>
    choice_operation S op (RequirementApplied decisionId choiceId requirement) op'"
| resumes: "resumeOperationProductChoice S cp now files before op = Inr op' \<Longrightarrow> \<not> isTerminal (op_status op) \<Longrightarrow> choice_operation S op ChoiceResumed op'"
| completes: "completeOperationProductChoice S cp now op = Inr op' \<Longrightarrow> \<not> isTerminal (op_status op) \<Longrightarrow> choice_operation S op ChoiceCompleted op'"
| rebinds: "bindResolvedOperationPolicy S cp now (rewriteForPolicy S uuid files) policy op = Inr op' \<Longrightarrow> choice_operation S op OtherStep op'"
| others: "store_step S t op op' \<Longrightarrow> op_continuation op' = op_continuation op \<Longrightarrow> choice_operation S op OtherStep op'"

lemma normalized_choice: "normalizeOperationRecord S op = Inr op' \<Longrightarrow> op_continuation op' = op_continuation op \<and> op_decisionRequest op' = op_decisionRequest op"
  by (auto simp: normalizeOperationRecord_def)

lemma mutation_commits_record:
  assumes "mutateOperation S cp now emptyPatch True ev (Some f) False op = Inr op'" "\<not> isTerminal (op_status op)"
  obtains produced where "f op (op_revision op + 1) = Inr produced" "normalizeOperationRecord S produced = Inr op'" "op_continuation op' = op_continuation produced"
    "mutationEnd op op' S ev"
  using assms(1)
proof (cases rule: mutateOperation_cases)
  case (committed candidate)
  then show thesis using normalized_choice [of S candidate op'] by (intro that [of candidate]) (auto simp: producedBy_def Let_def)
qed (simp add: assms(2))

lemma choice_commits_record:
  assumes "mutateChoice S cp now ev f files op = Inr (op', files')" "\<not> isTerminal (op_status op)"
  obtains produced made where "f op (op_revision op + 1) = Inr (produced, made)" "normalizeOperationRecord S produced = Inr op'"
    "op_continuation op' = op_continuation produced" "mutationEnd op op' S ev"
proof -
  from assms(1) have "mutateOperation S cp now emptyPatch True ev (Some (\<lambda>current revision. map_sum id fst (f current revision))) False op = Inr op'"
    by (auto simp: mutateChoice_def)
  then show thesis
    by (rule mutation_commits_record [OF _ assms(2)]) (auto simp: map_sum_Inr intro: that)
qed

lemma override_lookup: "map_of (override new base) = map_of base ++ map_of (rev new)"
proof (induction new arbitrary: base)
  case (Cons kx new)
  then show ?case by (cases kx) (simp add: override_def update_conv' map_add_def fun_eq_iff split: option.splits)
qed (simp add: override_def)

lemma withFields_get: "js_get (withFields v new) k = (case map_of (rev new) k of Some x \<Rightarrow> x | None \<Rightarrow> js_get v k)"
  by (cases v) (auto simp: withFields_def override_lookup own_entries_def map_add_def split: option.splits)

lemma openChoice_continuation:
  "openChoice S now ids limited exists binding request checkpoint suspendedAt stage files current revision = Inr (produced, made) \<Longrightarrow>
   \<exists>artifact digest. op_continuation produced = Some (waitingContinuation (ci_continuation ids) binding (ci_request ids) artifact digest suspendedAt now)"
  by (auto simp: openChoice_def Let_def andThen_unit) blast

lemma waiting_get:
  assumes "map_of binding ''state'' = None" "map_of binding ''requestId'' = None" "map_of binding ''appliedRequirementDigest'' = None"
  shows "js_get (waitingContinuation i binding r artifact digest at now) ''state'' = JStr ''WAITING''"
    "js_get (waitingContinuation i binding r artifact digest at now) ''requestId'' = JStr r"
    "js_get (waitingContinuation i binding r artifact digest at now) ''appliedRequirementDigest'' = JUndefined"
  using assms by (simp_all add: waitingContinuation_def map_add_def)

lemma openChoice_view:
  assumes "openChoice S now ids limited exists binding request checkpoint suspendedAt stage files current revision = Inr (produced, made)"
    "op_continuation op' = op_continuation produced" "map_of binding ''state'' = None" "map_of binding ''requestId'' = None"
    "map_of binding ''appliedRequirementDigest'' = None"
  shows "choiceView op' = Awaiting (JStr (ci_request ids)) JUndefined"
  using openChoice_continuation [OF assms(1)] assms(2) waiting_get [OF assms(3-5)] by (auto simp: choiceView_def Let_def)

lemma currentBinding_keys:
  assumes "currentDecisionBinding S op action = Inr binding"
  shows "k \<notin> set decisionBindingFields \<Longrightarrow> map_of binding k = None"
  using assms by (auto simp: currentDecisionBinding_def bindingObject_def Let_def decisionBindingFields_def andThen_unit split: option.split_asm if_split_asm)

lemmas opened_view = openChoice_view [OF _ _ currentBinding_keys currentBinding_keys currentBinding_keys]

lemma suspends_move:
  assumes "suspendOperationForProductChoice S cp now ids content checkpoint ms files op = Inr (op', files')" "\<not> isTerminal (op_status op)"
  shows "choice_move (choiceView op) (RequestOpened (ci_request ids)) (choiceView op')"
proof -
  obtain f where m: "mutateChoice S cp now ''operation.human-decision.suspended'' f files op = Inr (op', files')"
    and f: "f = (\<lambda>current revision.
          andThen (assertCurrentControllerOwner S cp current ''product-choice suspension'') (\<lambda>_.
          andThen (storeWhen (\<not> suspendable current)
            ''DECISION_REQUEST_STATE_INVALID: only active Spec Manager authoring without an unanswered continuation may suspend for a product choice'') (\<lambda>_.
          andThen (currentDecisionBinding S current ''product-choice suspension'') (\<lambda>binding.
          andThen (expiryAfter S now ms) (\<lambda>expiresAt.
          (let request = requestObject (ci_request ids) binding content now expiresAt in
          andThen (decisionCheck (assertDecisionRequestV1 (se_js S) request)) (\<lambda>_.
          openChoice S now ids True ''DECISION_CONTINUATION_COLLISION: create a new product-choice request.'' binding request checkpoint (JStr now) (blockedStage now ''Waiting for a scoped product choice.'') files current revision)))))))"
    using assms(1) by (auto simp: suspendOperationForProductChoice_def andThen_unit)
  from m assms(2) show ?thesis
  proof (rule choice_commits_record)
    fix produced made
    assume p: "f op (op_revision op + 1) = Inr (produced, made)" and c: "op_continuation op' = op_continuation produced"
    from p obtain binding request where s: "suspendable op" and b: "currentDecisionBinding S op ''product-choice suspension'' = Inr binding"
      and o: "openChoice S now ids True ''DECISION_CONTINUATION_COLLISION: create a new product-choice request.'' binding request checkpoint (JStr now) (blockedStage now ''Waiting for a scoped product choice.'') files op (op_revision op + 1)
        = Inr (produced, made)"
      by (auto simp: f Let_def andThen_unit)
    have "choiceView op' = Awaiting (JStr (ci_request ids)) JUndefined"
      by (rule opened_view [OF o c b _ b _ b]) (simp_all add: decisionBindingFields_def)
    then show ?thesis using s by (auto simp: choiceView_def suspendable_def simp: choice_move_simps split: option.split_asm)
  qed
qed

lemma view_None: "op_continuation op = None \<Longrightarrow> choiceView op = NoChoice"
  by (simp add: choiceView_def)

lemma view_Some: "op_continuation op = Some c \<Longrightarrow> js_get c ''state'' \<noteq> JStr ''WAITING'' \<Longrightarrow>
    choiceView op = Chosen (js_get c ''state'' = JStr ''RESUMING'') (js_get c ''requestId'') (js_get c ''selectedDecisionId'') (js_get c ''selectedChoiceId'')
      (js_get c ''appliedRequirementDigest'')"
  by (simp add: choiceView_def Let_def)

lemma view_waiting: "op_continuation op = Some c \<Longrightarrow> js_get c ''state'' = JStr ''WAITING'' \<Longrightarrow>
    choiceView op = Awaiting (js_get c ''requestId'') (js_get c ''appliedRequirementDigest'')"
  by (simp add: choiceView_def Let_def)

lemma opened_now:
  assumes "openChoice S now ids limited exists binding request checkpoint suspendedAt stage files op revision = Inr (produced, made)"
    "op_continuation op' = op_continuation produced" "currentDecisionBinding S op action = Inr binding"
  shows "choiceView op' = Awaiting (JStr (ci_request ids)) JUndefined"
  by (rule opened_view [OF assms(1,2,3) _ assms(3) _ assms(3)]) (simp_all add: decisionBindingFields_def)

lemma reissues_move:
  assumes "reissueOperationProductChoice S cp now ids checkpoint files before op = Inr (op', files')" "\<not> isTerminal (op_status op)"
  shows "choice_move (choiceView op) (RequestReissued (ci_request ids)) (choiceView op')"
  using assms(1) unfolding reissueOperationProductChoice_def Let_def andThen_Inr
  by (elim exE conjE choice_commits_record [OF _ assms(2)])
     (auto simp: andThen_unit unanswered_def view_waiting opened_now split: option.split_asm simp: choice_move_simps)

lemma eligible_chosen:
  "assertStaleConsumedChoiceEligible S op c = Inr u \<Longrightarrow> js_get c ''state'' \<noteq> JStr ''WAITING'' \<and> js_truthy (js_get c ''appliedRequirementDigest'')"
  by (auto simp: assertStaleConsumedChoiceEligible_def Let_def andThen_unit)

lemma reconfirms_move:
  assumes "reconfirmStaleConsumedProductChoice S cp now ids content checkpoint L files before op = Inr (op', files')" "\<not> isTerminal (op_status op)"
  shows "choice_move (choiceView op) (ChoiceReconfirmed (ci_request ids)) (choiceView op')"
  using assms(1) unfolding reconfirmStaleConsumedProductChoice_def Let_def andThen_Inr
  by (elim exE conjE choice_commits_record [OF _ assms(2)])
     (auto simp: andThen_unit view_Some opened_now choice_move_simps split: option.split_asm dest: eligible_chosen)

lemma consumes_move:
  assumes "markOperationProductChoiceConsumed S cp now requestId decisionId choiceId op = Inr op'" "\<not> isTerminal (op_status op)"
  shows "choice_move (choiceView op) (ChoiceConsumed requestId decisionId choiceId) (choiceView op')"
  using assms(1) unfolding markOperationProductChoiceConsumed_def
  by (elim mutation_commits_record [OF _ assms(2)])
     (auto simp: andThen_unit unanswered_def view_waiting view_Some withFields_get split: option.split_asm simp: choice_move_simps)

lemma resumes_move:
  assumes "resumeOperationProductChoice S cp now files before op = Inr op'" "\<not> isTerminal (op_status op)"
  shows "choice_move (choiceView op) ChoiceResumed (choiceView op')"
  using assms(1) unfolding resumeOperationProductChoice_def Let_def andThen_Inr
  by (elim exE conjE mutation_commits_record [OF _ assms(2)])
     (auto simp: andThen_unit chosenState_def view_Some withFields_get split: option.split_asm simp: choice_move_simps)

lemma completes_move:
  assumes "completeOperationProductChoice S cp now op = Inr op'" "\<not> isTerminal (op_status op)"
  shows "choice_move (choiceView op) ChoiceCompleted (choiceView op')"
  using assms(1) unfolding completeOperationProductChoice_def
  by (elim mutation_commits_record [OF _ assms(2)])
     (auto simp: andThen_unit view_Some choiceView_def split: option.split_asm simp: choice_move_simps)

lemma rewritten_get:
  assumes "rewriteProductChoiceCheckpointBinding S uuid files op c binding additional = Inr (following, artifact, made)"
    "k \<notin> fst ` set binding" "k \<notin> fst ` set additional" "k \<noteq> ''checkpointArtifact''" "k \<noteq> ''checkpointDigest''"
  shows "js_get following k = js_get c k"
proof -
  from assms(1) obtain d where "following = withFields c (binding @ additional @ [(''checkpointArtifact'', JStr artifact), (''checkpointDigest'', d)])"
    by (auto simp: rewriteProductChoiceCheckpointBinding_def Let_def andThen_unit withFields_def)
  moreover have "map_of (rev additional) k = None" "map_of (rev binding) k = None"
    using assms(2,3) by (simp_all add: map_of_eq_None_iff)
  ultimately show ?thesis using assms(4,5) by (simp add: withFields_get map_add_def)
qed

lemma applies_move:
  assumes "bindProductChoiceExecutionSemantics S cp now uuid requirement decisionId choiceId prior files before op = Inr (op', files')"
    "\<not> alreadyApplied before decisionId choiceId requirement" "\<not> isTerminal (op_status op)"
  shows "choice_move (choiceView op) (RequirementApplied decisionId choiceId requirement) (choiceView op')"
proof -
  have view: "choice_move (choiceView op) (RequirementApplied decisionId choiceId requirement) (choiceView op')"
    if c: "op_continuation op = Some c" "chosenState c" "js_get c ''selectedDecisionId'' = JStr decisionId" "js_get c ''selectedChoiceId'' = JStr choiceId"
      and r: "rewriteProductChoiceCheckpointBinding S uuid files current c (bindingObject op candidate n p) [(''appliedRequirementDigest'', d)] = Inr (rebound, artifact, made)"
      and c': "op_continuation op' = Some (withFields rebound [(''state'', JStr ''CHOICE_CONSUMED''), (''appliedRequirementDigest'', JStr requirement), (''updatedAt'', JStr now)])"
    for c current candidate n p d rebound artifact made
  proof -
    have "js_get rebound k = js_get c k" if "k \<in> set [''requestId'', ''selectedDecisionId'', ''selectedChoiceId'']" for k
      using that by (intro rewritten_get [OF r]) (auto simp: bindingObject_def)
    then show ?thesis using c c' by (auto simp: chosenState_def view_Some withFields_get choice_move_simps)
  qed
  show ?thesis
    using assms(1) unfolding bindProductChoiceExecutionSemantics_def Let_def andThen_unit if_not_P [OF assms(2)]
    by (elim conjE choice_commits_record [OF _ assms(3)]) (auto simp: andThen_unit view split: option.split_asm)
qed

lemma rebound_get:
  assumes "reboundContinuation S (rewriteForPolicy S uuid files) policy op c = Inr c'" "k \<notin> set decisionBindingFields"
    "k \<noteq> ''checkpointArtifact''" "k \<noteq> ''checkpointDigest''"
  shows "js_get c' k = js_get c k"
  using assms
  by (auto simp: reboundContinuation_def Let_def andThen_unit rewriteForPolicy_def map_sum_Inr own_entries_def decisionBindingFields_def
    split: if_split_asm dest!: rewritten_get [where k = k])

lemma rebinds_move:
  assumes "bindResolvedOperationPolicy S cp now (rewriteForPolicy S uuid files) policy op = Inr op'"
  shows "choiceView op' = choiceView op"
proof (cases "isTerminal (op_status op)")
  case True
  with assms show ?thesis
    by (auto simp: bindResolvedOperationPolicy_def andThen_unit mutateOperation_def returnsEarly_def assertPatchStatus_def emptyPatch_def)
next
  case False
  have view: "choiceView op' = choiceView op" if "op_continuation op = Some c"
      "reboundContinuation S (rewriteForPolicy S uuid files) policy op c = Inr c'" "op_continuation op' = Some (JObj (override [(''updatedAt'', JStr now)] (own_entries c')))"
    for c c'
    using that(1,3) by (simp add: choiceView_def Let_def rebound_get [OF that(2)] decisionBindingFields_def withFields_get flip: withFields_def)
  show ?thesis
    using assms unfolding bindResolvedOperationPolicy_def andThen_unit
    by (elim conjE mutation_commits_record [OF _ False]) (auto simp: andThen_unit view_None view split: option.split_asm)
qed

lemma same_view_move: "v' = v \<Longrightarrow> choice_move v OtherStep v'"
  by (simp add: choice_move.others)

lemma same_continuation_view: "op_continuation op' = op_continuation op \<Longrightarrow> choiceView op' = choiceView op"
  by (simp add: choiceView_def)

lemma choice_operation_moves: "choice_operation S op e op' \<Longrightarrow> choice_move (choiceView op) e (choiceView op')"
  by (induction rule: choice_operation.induct)
     (erule (1) suspends_move reissues_move reconfirms_move consumes_move resumes_move completes_move | erule (2) applies_move
       | rule same_view_move, erule rebinds_move same_continuation_view)+

interpretation choice: choice_protocol choiceView "choice_operation S" for S
  by unfold_locales (rule choice_operation_moves)

text \<open>
  C0: The product-choice operations of the store implement the protocol: whatever was read before the lock and whatever checkpoint files
  exist, a history of a record that has not ended is a history of moves, so a choice is consumed only for the request that is
  awaited, a requirement is applied only to the decision that was consumed, and only a resumed choice completes.
\<close>

theorem product_choice_refines_protocol:
  assumes "steps_of (choice_operation S) op events op'"
  shows "steps_of choice_move (choiceView op) events (choiceView op')"
  using assms by (rule choice.run_moves)

text \<open>
  C0: Each product-choice request is answered at most once, and in the order the requests were opened: a request that was reissued,
  replaced or reconfirmed is not answered afterwards, if the request identifiers are fresh.
\<close>

theorem each_request_answered_once:
  assumes "steps_of (choice_operation S) op events op'" "distinct (awaitedRequest (choiceView op) @ openedRequests events)"
  shows "distinct (consumedRequests events) \<and> subseq (consumedRequests events) (awaitedRequest (choiceView op) @ openedRequests events)"
  using choice.run_answers [OF assms(1)] choice.run_answers_once [OF assms] by simp

subsection \<open>A choice that was not applied does not cross a takeover\<close>

definition strandedChoice :: "OperationRecordV2 \<Rightarrow> bool" where
  "strandedChoice op = (case op_continuation op of
       None \<Rightarrow> False
     | Some c \<Rightarrow> js_get c ''state'' = JStr ''CHOICE_CONSUMED'' \<and> \<not> js_truthy (js_get c ''appliedRequirementDigest'')
         \<and> (\<exists>e. js_get c ''controllerEpoch'' = jint e \<and> e < currentControllerEpoch op))"

lemma bound_epoch: "currentDecisionBinding S op action = Inr binding \<Longrightarrow> map_of binding ''controllerEpoch'' = Some (jint (currentControllerEpoch op))"
  by (auto simp: currentDecisionBinding_def bindingObject_def Let_def andThen_unit split: option.split_asm if_split_asm)

lemma same_binding_epoch: "sameHumanDecisionBinding S a b \<Longrightarrow> js_same (js_get a ''controllerEpoch'') (js_get b ''controllerEpoch'')"
  by (simp add: sameHumanDecisionBinding_def)

lemma consumedBinding_epoch:
  assumes "assertCurrentConsumedProductChoiceBinding S op c decided = Inr u"
  shows "js_same (jint (currentControllerEpoch op)) (js_get c ''controllerEpoch'')"
  using assms by (auto simp: assertCurrentConsumedProductChoiceBinding_def Let_def andThen_unit dest!: same_binding_epoch bound_epoch)

lemma laterRecord_epoch: "laterRecord op' op \<Longrightarrow> currentControllerEpoch op \<le> currentControllerEpoch op'"
  by (simp add: laterRecord_def)

lemma choice_operation_later:
  assumes "choice_operation S op OtherStep op'"
  shows "currentControllerEpoch op \<le> currentControllerEpoch op'"
  using assms
proof cases
  case (rebinds cp now uuid files policy)
  then show ?thesis
    unfolding bindResolvedOperationPolicy_def andThen_unit by (elim conjE mutates_later [THEN laterRecord_epoch]) (simp_all add: claimEvent_def)
next
  case (others t)
  then show ?thesis by (blast dest: store_step_later laterRecord_epoch)
qed

lemma rebinds_stranded:
  assumes "bindResolvedOperationPolicy S cp now (rewriteForPolicy S uuid files) policy op = Inr op'" "\<not> isTerminal (op_status op)"
    "op_continuation op = Some c" "\<not> js_truthy (js_get c ''appliedRequirementDigest'')"
  shows "op_continuation op' = Some (withFields c [(''updatedAt'', JStr now)])"
  using assms(1) unfolding bindResolvedOperationPolicy_def andThen_unit
  by (elim conjE mutation_commits_record [OF _ assms(2)])
     (auto simp: andThen_unit assms(3,4) reboundContinuation_def withFields_def split: option.split_asm)

lemma terminal_mutation: "isTerminal (op_status op) \<Longrightarrow> mutateOperation S cp now emptyPatch True ev (Some f) False op = Inr op' \<Longrightarrow> op' = op"
  by (simp add: mutateOperation_def returnsEarly_def assertPatchStatus_def emptyPatch_def)

lemma stranded_kept:
  assumes "strandedChoice op" "choice_operation S op OtherStep op'"
  shows "strandedChoice op'"
proof -
  obtain c e where c: "op_continuation op = Some c" "js_get c ''state'' = JStr ''CHOICE_CONSUMED''" "\<not> js_truthy (js_get c ''appliedRequirementDigest'')"
      "js_get c ''controllerEpoch'' = jint e" "e < currentControllerEpoch op"
    using assms(1) by (auto simp: strandedChoice_def split: option.split_asm)
  have later: "currentControllerEpoch op \<le> currentControllerEpoch op'" using assms(2) by (rule choice_operation_later)
  have "op_continuation op' = op_continuation op \<or> (\<exists>now. op_continuation op' = Some (withFields c [(''updatedAt'', JStr now)]))"
    using assms(2)
  proof cases
    case (rebinds cp now uuid files policy)
    show ?thesis
    proof (cases "isTerminal (op_status op)")
      case True
      with rebinds have "op' = op" by (auto simp: bindResolvedOperationPolicy_def andThen_unit dest: terminal_mutation)
      then show ?thesis by simp
    qed (use rebinds_stranded [OF rebinds _ c(1,3)] in blast)
  qed simp
  then show ?thesis using c later by (auto simp: strandedChoice_def withFields_get)
qed

lemma stranded_stuck:
  assumes "strandedChoice op" "choice_operation S op e op'"
  shows "e = OtherStep"
proof -
  obtain c n where c: "op_continuation op = Some c" "js_get c ''state'' = JStr ''CHOICE_CONSUMED''" "\<not> js_truthy (js_get c ''appliedRequirementDigest'')"
      "js_get c ''controllerEpoch'' = jint n" "n < currentControllerEpoch op"
    using assms(1) by (auto simp: strandedChoice_def split: option.split_asm)
  then have view: "choiceView op = Chosen False (js_get c ''requestId'') (js_get c ''selectedDecisionId'') (js_get c ''selectedChoiceId'') (js_get c ''appliedRequirementDigest'')"
    by (simp add: view_Some)
  from assms(2) show ?thesis
  proof cases
    case (applies cp now uuid requirement decisionId choiceId prior files before files')
    from applies(2) have False
      unfolding bindProductChoiceExecutionSemantics_def Let_def andThen_unit if_not_P [OF applies(3)]
      by (elim conjE choice_commits_record [OF _ applies(4)]) (use c in \<open>auto simp: andThen_unit dest!: consumedBinding_epoch\<close>)
    then show ?thesis ..
  next
    case (resumes cp now files before)
    from resumes(2) have False
      unfolding resumeOperationProductChoice_def Let_def andThen_Inr
      by (elim exE conjE mutation_commits_record [OF _ resumes(3)]) (use c in \<open>auto simp: andThen_unit dest!: consumedBinding_epoch\<close>)
    then show ?thesis ..
  qed (use choice_operation_moves [OF assms(2)] c(3) in \<open>simp_all add: view choice_move_simps\<close>)
qed

lemma stranded_run:
  "steps_of (choice_operation S) op events op' \<Longrightarrow> strandedChoice op \<Longrightarrow> set events \<subseteq> {OtherStep} \<and> strandedChoice op' \<and> choiceView op' = choiceView op"
proof (induction rule: steps_of.induct)
  case (more op e op1 events op')
  have e: "e = OtherStep" using more.prems more.hyps(1) by (rule stranded_stuck)
  have "choiceView op1 = choiceView op" using choice_operation_moves [OF more.hyps(1)] by (simp add: e choice_move_simps)
  then show ?case using more.IH stranded_kept [OF more.prems more.hyps(1) [unfolded e]] e by simp
qed simp

text \<open>
  C0: A choice that was consumed but whose requirement was not applied does not cross a controller takeover: after the claim no
  product-choice operation succeeds again on the record, whatever else happens to it, and the consumed choice stays as it was.
\<close>

theorem unapplied_choice_never_crosses_takeover:
  assumes consumed: "op_continuation op = Some c" "js_get c ''state'' = JStr ''CHOICE_CONSUMED''" "\<not> js_truthy (js_get c ''appliedRequirementDigest'')"
      "js_get c ''controllerEpoch'' = jint (currentControllerEpoch op)"
    and claim: "claimControllerEpoch S cp now ownerId token pid cancellation op = Inr claimed" and live: "\<not> isTerminal (op_status op)"
    and after: "steps_of (choice_operation S) claimed events op'"
  shows "set events \<subseteq> {OtherStep} \<and> choiceView op' = choiceView op"
proof -
  have c: "op_continuation claimed = op_continuation op"
    using claim unfolding claimControllerEpoch_def by (elim mutation_commits_record [OF _ live]) (auto simp: andThen_unit touched_def)
  have "strandedChoice claimed" using consumed claim_produced(1) [OF claim live] by (simp add: strandedChoice_def c)
  from stranded_run [OF after this] show ?thesis by (simp add: same_continuation_view [OF c])
qed

end
