(* ===== verification/ProductChoiceSamples.thy ===== *)
theory ProductChoiceSamples
  imports ProductChoiceProtocol
begin

text \<open>A record that waits for a product choice, with its policy, request and continuation, for the witnesses; dates read as the length of their text.\<close>

definition choice_env :: js_env where
  "choice_env = \<lparr>sha256 = (\<lambda>s. replicate 64 (CHR ''a'')), date_parse = (\<lambda>s. if s = [] then None else Some (int (length s))), to_iso = (\<lambda>t. replicate (nat t) (CHR ''0''))\<rparr>"

definition choice_store :: store_env where
  "choice_store = sample_store\<lparr>se_js := choice_env\<rparr>"

definition choice_policy :: js where
  "choice_policy = JObj [(''version'', jint 2), (''projectId'', JStr ''p''), (''operationId'', JStr ''op''), (''intent'', JStr ''i''),
     (''operationExecutionRevision'', jint 1), (''candidateRevision'', jint 1), (''candidateDigest'', sample_hash), (''controllerEpoch'', jint 1),
     (''executionLiveness'', JObj livenessDefaults), (''economicEnvelope'', envelopeValue JUndefined),
     (''allowedExternalEffects'', JArr []), (''humanDecisionRequirements'', JArr []), (''digest'', sample_hash)]"

definition choice_binding :: js_entries where
  "choice_binding = [(''operationId'', JStr ''op''), (''candidate'', sample_candidate), (''operationExecutionRevision'', jint 1),
     (''policyDigest'', sample_hash), (''controllerEpoch'', jint 1)]"

definition choice_request :: js where
  "choice_request = requestObject ''request:1'' choice_binding
     (JObj [(''issue'', JStr ''which store''),
        (''authoritativeEvidence'', JArr [JObj [(''artifact'', JStr ''.harness/spec.md''), (''sha256'', sample_hash), (''description'', JStr ''spec'')]]),
        (''whatTried'', JArr [JStr ''reading'']), (''whyUnresolvable'', JStr ''product decision''),
        (''choices'', JArr [JObj [(''choiceId'', JStr ''a''), (''label'', JStr ''A''), (''description'', JStr ''first''), (''consequences'', JArr [JStr ''none''])]]),
        (''workThatCanContinue'', JArr [])]) ''t1'' ''t1+86400''"

definition choice_waiting :: js where
  "choice_waiting = waitingContinuation ''continuation:1'' choice_binding ''request:1'' ''.harness/operations/op/continuations/1.json''
     (replicate 64 (CHR ''a'')) (JStr ''t1'') ''t1''"

definition choice_decision :: string where
  "choice_decision = ''decision:'' @ replicate 36 (CHR ''0'')"

definition choice_chosen :: js where
  "choice_chosen = withFields choice_waiting [(''state'', JStr ''CHOICE_CONSUMED''), (''selectedDecisionId'', JStr choice_decision),
     (''selectedChoiceId'', JStr ''a''), (''selectedDecisionBinding'', JObj choice_binding), (''updatedAt'', JStr ''t2'')]"

lemma choice_policy_accepted: "assertResolvedOperationPolicyV2 choice_env choice_policy = Inr ()"
  unfolding assertResolvedOperationPolicyV2_def andThen_unit
proof (intro conjI)
  have p: "printable (canon (digestBody choice_policy))" by code_simp
  obtain s where "canonicalSerialize (digestBody choice_policy) = Inr s"
    unfolding canonicalSerialize_def using printable_serializes [OF p] by blast
  then have d: "canonicalDigest choice_env (digestBody choice_policy) = Inr (replicate 64 (CHR ''a''))"
    by (simp add: canonicalDigest_def sha256Canonical_def sha256Utf8_def choice_env_def)
  show "assertDigest choice_env choice_policy m = Inr ()" for m
    by (rule assertDigest_sealed [OF d]) (simp_all add: choice_policy_def sample_hash_def choice_env_def is_digest_def hex_char_def list_all_iff)
  show "assertExecutionLivenessPolicy (js_get choice_policy ''executionLiveness'') = Inr ()" by code_simp
  show "assertEconomicEnvelope choice_env (js_get choice_policy ''economicEnvelope'') = Inr ()" by code_simp
qed code_simp+

lemma choice_candidate:
  "assertCandidateRevisionV1 choice_env sample_candidate = None" "js_get sample_candidate ''operationId'' = JStr ''op''"
  "js_get sample_candidate ''revision'' = jint 1" "js_get sample_candidate ''identityDigest'' = sample_hash" "js_get sample_candidate ''projectId'' = JUndefined"
  by code_simp+

lemma choice_candidate_kept: "candidateRevisionsEqual choice_env sample_candidate sample_candidate"
  using choice_candidate(1) by (rule candidateRevisionsEqual_refl)

lemma choice_hash: "digestPattern sample_hash" "js_truthy sample_hash" "js_same sample_hash sample_hash" "digestPattern (JStr (replicate 64 (CHR ''a'')))"
  by code_simp+

lemma choice_date: "date_parse choice_env s = (if s = [] then None else Some (int (length s)))"
  by (simp add: choice_env_def)

lemma choice_binding_accepted:
  assumes "js_is_object v" "js_get v ''operationId'' = JStr ''op''" "js_get v ''candidate'' = sample_candidate"
    "js_get v ''operationExecutionRevision'' = jint 1" "js_get v ''policyDigest'' = sample_hash" "js_get v ''controllerEpoch'' = jint 1"
  shows "assertBinding choice_env v = Inr ()"
  by (simp add: assertBinding_def assms choice_candidate choice_hash needText_def js_trim_def js_white_def rejectWhen_def
    js_safe_at_least_def safe_int_def max_safe_integer_def)

lemmas choice_checks = choice_request_def requestObject_def choice_binding_def assertExactObject_def requestFields_def optionalFields_def own_entries_def
  boundedText_def needText_def js_trim_def js_white_def rejectWhen_def assertTextList_def js_is_array_def checkEach_Inr
  choice_hash needInstant_def dateTime_def

lemma choice_path: "insidePath ''.harness/'' ''.harness/spec.md''" "insidePath ''.harness/operations/'' ''.harness/operations/op/continuations/1.json''"
  by code_simp+

lemma choice_evidence: "assertEvidence (JObj [(''artifact'', JStr ''.harness/spec.md''), (''sha256'', sample_hash), (''description'', JStr ''spec'')]) = Inr ''.harness/spec.md''"
  unfolding assertEvidence_def andThen_Inr andThen_unit by (simp add: choice_checks choice_path)

lemma choice_option: "assertChoice (JObj [(''choiceId'', JStr ''a''), (''label'', JStr ''A''), (''description'', JStr ''first''), (''consequences'', JArr [JStr ''none''])]) = Inr ''a''"
  unfolding assertChoice_def andThen_Inr andThen_unit by (simp add: choice_checks)

lemma choice_request_accepted: "assertDecisionRequestV1 choice_env choice_request = Inr ()"
proof -
  have exact: "assertExactObject choice_request requestFields ''DecisionRequestV1'' = Inr ()" by code_simp
  have plain: "boundedText (js_get choice_request ''issue'') ''issue'' 4000 = Inr ()"
    "boundedText (js_get choice_request ''whyUnresolvable'') ''whyUnresolvable'' 4000 = Inr ()"
    "assertTextList (js_get choice_request ''whatTried'') ''whatTried'' 1 16 1000 = Inr ()"
    "assertTextList (js_get choice_request ''workThatCanContinue'') ''workThatCanContinue'' 0 32 1000 = Inr ()"
    "needText (js_get choice_request ''requestId'') ''requestId'' = Inr ''request:1''"
    by (simp_all add: choice_checks)
  have unique:
    "uniqueKeys assertEvidence ''DecisionRequest authoritative evidence references must be unique.'' [] (js_items (js_get choice_request ''authoritativeEvidence'')) = Inr ()"
    "uniqueKeys assertChoice ''DecisionRequest choice IDs must be unique.'' [] (js_items (js_get choice_request ''choices'')) = Inr ()"
    by (simp_all add: choice_request_def requestObject_def choice_binding_def choice_evidence choice_option)
  have instants: "needInstant choice_env (js_get choice_request ''createdAt'') ''createdAt'' = Inr (replicate 2 (CHR ''0''))"
    "needInstant choice_env (js_get choice_request ''expiresAt'') ''expiresAt'' = Inr (replicate 8 (CHR ''0''))"
    by (simp_all add: choice_checks choice_env_def)
  have b: "assertBinding choice_env choice_request = Inr ()"
    by (rule choice_binding_accepted) (simp_all add: choice_request_def requestObject_def choice_binding_def)
  have gets: "js_get choice_request ''version'' = jint 1" "js_get choice_request ''resumeTarget'' = JStr ''SPEC_AUTHORING''"
    "js_is_array (js_get choice_request ''authoritativeEvidence'')" "length (js_items (js_get choice_request ''authoritativeEvidence'')) = 1"
    "js_is_array (js_get choice_request ''choices'')" "length (js_items (js_get choice_request ''choices'')) = 1"
    by (simp_all add: choice_request_def requestObject_def choice_binding_def js_is_array_def)
  have d: "date_parse choice_env (replicate 2 (CHR ''0'')) = Some 2" "date_parse choice_env (replicate 8 (CHR ''0'')) = Some 8"
    by (simp_all add: choice_env_def)
  show ?thesis
    unfolding assertDecisionRequestV1_def Let_def
    by (simp add: exact plain unique instants b gets d rejectWhen_def del: One_nat_def)
qed

lemma continuation_accepted:
  assumes "assertExactObject c continuationFields ''ContinuationRecordV1'' = Inr ()" "assertBinding choice_env c = Inr ()"
    "js_get c ''version'' = jint 1" "js_get c ''continuationId'' = JStr ''continuation:1''" "js_get c ''requestId'' = JStr ''request:1''"
    "js_get c ''resumeTarget'' = JStr ''SPEC_AUTHORING''" "js_get c ''reason'' = JStr ''PRODUCT_CHOICE''"
    "js_get c ''checkpointArtifact'' = JStr ''.harness/operations/op/continuations/1.json''" "js_get c ''checkpointDigest'' = sample_hash"
    "exactlyOnce continuationRevalidationValuesV1 (js_get c ''requiredRevalidation'')"
    "js_get c ''state'' \<in> {JStr ''WAITING'', JStr ''CHOICE_CONSUMED'', JStr ''RESUMING''}" "\<not> selectedIncomplete c"
    "hasDecision c \<Longrightarrow> assertSelectedBinding choice_env c = Inr ()" "js_get c ''appliedRequirementDigest'' = JUndefined"
    "js_get c ''suspendedAt'' = JStr ''t1''" "js_get c ''updatedAt'' = JStr t" "t \<noteq> []"
  shows "assertContinuationRecordV1 choice_env c = Inr ()"
  unfolding assertContinuationRecordV1_def using assms(11,13)
  by (simp add: assms(1-10,12,14-17) choice_path choice_hash needText_def js_trim_def js_white_def rejectWhen_def needInstant_def dateTime_def choice_date)

lemmas choice_continuations = choice_waiting_def choice_chosen_def waitingContinuation_def withFields_def override_def own_entries_def choice_binding_def

lemma choice_waiting_accepted: "assertContinuationRecordV1 choice_env choice_waiting = Inr ()"
proof (rule continuation_accepted [where t = "''t1''"])
  show "assertExactObject choice_waiting continuationFields ''ContinuationRecordV1'' = Inr ()"
    "exactlyOnce continuationRevalidationValuesV1 (js_get choice_waiting ''requiredRevalidation'')" "\<not> selectedIncomplete choice_waiting" by code_simp+
  show "assertBinding choice_env choice_waiting = Inr ()"
    by (rule choice_binding_accepted) (simp_all add: choice_waiting_def waitingContinuation_def choice_binding_def)
qed (simp_all add: choice_waiting_def waitingContinuation_def choice_binding_def hasDecision_def sample_hash_def)

lemma choice_selected_binding: "assertExactBinding choice_env (JObj choice_binding) = Inr ()"
proof -
  have "assertBinding choice_env (JObj choice_binding) = Inr ()" by (rule choice_binding_accepted) (simp_all add: choice_binding_def)
  then show ?thesis by (simp add: assertExactBinding_def choice_binding_def decisionBindingFields_def own_entries_def js_is_array_def rejectWhen_def)
qed

lemma choice_chosen_get:
  "js_get choice_chosen k = (case map_of [(''updatedAt'', JStr ''t2''), (''selectedDecisionBinding'', JObj choice_binding), (''selectedChoiceId'', JStr ''a''),
     (''selectedDecisionId'', JStr choice_decision), (''state'', JStr ''CHOICE_CONSUMED'')] k of Some x \<Rightarrow> x | None \<Rightarrow> js_get choice_waiting k)"
  by (simp add: choice_chosen_def withFields_get)

lemma choice_waiting_gets:
  "js_get choice_waiting ''operationId'' = JStr ''op''" "js_get choice_waiting ''candidate'' = sample_candidate"
  "js_get choice_waiting ''operationExecutionRevision'' = jint 1" "js_get choice_waiting ''policyDigest'' = sample_hash" "js_get choice_waiting ''controllerEpoch'' = jint 1"
  "js_get choice_waiting ''version'' = jint 1" "js_get choice_waiting ''continuationId'' = JStr ''continuation:1''" "js_get choice_waiting ''requestId'' = JStr ''request:1''"
  "js_get choice_waiting ''resumeTarget'' = JStr ''SPEC_AUTHORING''" "js_get choice_waiting ''reason'' = JStr ''PRODUCT_CHOICE''"
  "js_get choice_waiting ''checkpointArtifact'' = JStr ''.harness/operations/op/continuations/1.json''" "js_get choice_waiting ''checkpointDigest'' = sample_hash"
  "js_get choice_waiting ''appliedRequirementDigest'' = JUndefined" "js_get choice_waiting ''suspendedAt'' = JStr ''t1''"
  "js_get choice_waiting ''state'' = JStr ''WAITING''" "js_is_object choice_waiting"
  by (simp_all add: choice_waiting_def waitingContinuation_def choice_binding_def sample_hash_def)

lemma choice_chosen_accepted: "assertContinuationRecordV1 choice_env choice_chosen = Inr ()"
proof (rule continuation_accepted [where t = "''t2''"])
  show "assertExactObject choice_chosen continuationFields ''ContinuationRecordV1'' = Inr ()"
    "exactlyOnce continuationRevalidationValuesV1 (js_get choice_chosen ''requiredRevalidation'')" by code_simp+
  have o: "js_is_object choice_chosen" by (simp add: choice_chosen_def withFields_def)
  show "assertBinding choice_env choice_chosen = Inr ()"
    by (rule choice_binding_accepted) (simp_all add: o choice_chosen_get choice_waiting_gets)
  have "js_get choice_chosen ''selectedDecisionId'' = JStr choice_decision" "js_get choice_chosen ''selectedChoiceId'' = JStr ''a''"
    "js_get choice_chosen ''selectedDecisionBinding'' = JObj choice_binding" by (simp_all add: choice_chosen_get)
  then show "assertSelectedBinding choice_env choice_chosen = Inr ()" "\<not> selectedIncomplete choice_chosen"
    by (simp_all add: assertSelectedBinding_def Let_def choice_selected_binding [unfolded choice_binding_def] choice_chosen_get choice_waiting_gets choice_candidate_kept
      needText_def js_trim_def js_white_def choice_decision_def rejectWhen_def choice_binding_def choice_hash selectedIncomplete_def hasDecision_def)
qed (simp_all add: choice_chosen_get choice_waiting_gets)

subsection \<open>The record that waits, and the record whose choice is consumed\<close>

definition awaiting_operation :: OperationRecordV2 where
  "awaiting_operation = sample_operation\<lparr>op_phase := ''HUMAN_REQUIRED'', op_resolvedOperationPolicy := Some choice_policy,
     op_decisionRequest := Some choice_request, op_continuation := Some choice_waiting\<rparr>"

lemma awaiting_fields:
  "op_status awaiting_operation = RUNNING" "op_candidateRevision awaiting_operation = Some sample_candidate" "op_id awaiting_operation = ''op''"
  "op_participants awaiting_operation = []" "op_resolvedOperationPolicy awaiting_operation = Some choice_policy" "op_ownerEconomicBoundary awaiting_operation = None"
  "op_origin awaiting_operation = None" "op_ownerContinuationBoundary awaiting_operation = None" "op_controller awaiting_operation = Some sample_controller"
  "op_operationExecutionRevision awaiting_operation = Some 1" "op_executionSemanticsDigest awaiting_operation = None" "op_revision awaiting_operation = 3"
  "op_decisionRequest awaiting_operation = Some choice_request" "op_continuation awaiting_operation = Some choice_waiting"
  "op_ownerExemptions awaiting_operation = None" "op_phase awaiting_operation = ''HUMAN_REQUIRED''"
  by (simp_all add: awaiting_operation_def sample_fields)

lemma awaiting_epoch: "currentControllerEpoch awaiting_operation = 1"
  by (simp add: currentControllerEpoch_def awaiting_fields sample_controller_def)

lemma choice_js: "se_js choice_store = choice_env"
  by (simp add: choice_store_def)

lemma awaiting_owner: "assertCurrentControllerOwner choice_store sample_process awaiting_operation action = Inr ()"
proof -
  have "controllerEpochFromEnvironment sample_process = Some 1" "controllerTokenFromEnvironment sample_process = Some ''secret''"
    by code_simp+
  then show ?thesis
    by (simp add: assertCurrentControllerOwner_def assertControllerEpoch_def assertControllerToken_def tokenDigestOf_def awaiting_epoch
      awaiting_fields sample_controller_def storeWhen_def choice_js sha256Utf8_def choice_env_def)
qed

lemma awaiting_policy_text: "\<exists>text. canonicalText choice_policy = Inr text"
proof -
  have "printable (canon choice_policy)" by code_simp
  then obtain s where "canonicalSerialize choice_policy = Inr s"
    unfolding canonicalSerialize_def using printable_serializes by blast
  then show ?thesis by (simp add: canonicalText_def)
qed

text \<open>A mutation of the record that leaves its identity alone commits.\<close>

lemma awaiting_commits:
  assumes produced: "f awaiting_operation 4 = Inr candidate"
    and kept: "op_candidateRevision candidate = Some sample_candidate" "op_participants candidate = []" "op_resolvedOperationPolicy candidate = Some choice_policy"
      "op_origin candidate = None" "op_decisionRequest candidate = None" "op_continuation candidate = Some choice_chosen" "op_ownerEconomicBoundary candidate = None"
      "op_ownerContinuationBoundary candidate = None" "op_ownerExemptions candidate = None" "op_controller candidate = Some sample_controller"
      "op_operationExecutionRevision candidate = Some 1" "op_executionSemanticsDigest candidate = None" "op_phase candidate \<noteq> ''HUMAN_REQUIRED''"
    and ev: "\<not> isSemanticsEvent ev" "ev \<noteq> candidateEvent" "ev \<noteq> ''operation.policy.bound''"
  shows "\<exists>op. mutateOperation choice_store sample_process now emptyPatch True ev (Some f) allow awaiting_operation = Inr op \<and> op_continuation op = Some choice_chosen
    \<and> op_controller op = Some sample_controller"
proof -
  obtain op where n: "normalizeOperationRecord choice_store candidate = Inr op"
    by (simp add: normalizeOperationRecord_def assertRecord_def checkOption_def continuationStateInvalid_def waiting_def storeWhen_def kept decisionCheck_def
      choice_js choice_chosen_accepted choice_chosen_get)
  note fields_kept = normalizeOperationRecord_fields [OF n] kept
  obtain s where policy: "canonicalText choice_policy = Inr s" using awaiting_policy_text ..
  let ?s = "\<lparr>is_operationExecutionRevision = Some 1, is_executionSemanticsDigest = None, is_policyCanonical = Some s,
    is_policyProvisional = isProvisionalOperationPolicyV1 (Some choice_policy), is_bindings = []\<rparr>"
  have snapshot: "snapshotExecutionIdentity awaiting_operation = Inr ?s"
    by (simp add: snapshotExecutionIdentity_def awaiting_fields canonicalOption_def policy andThen_def)
  have c: "assertCandidateTransition choice_store awaiting_operation op ev = Inr ()"
    by (simp add: assertCandidateTransition_def awaiting_fields fields_kept sameOptionalCandidate_def choice_js choice_candidate_kept)
  have i: "assertExecutionIdentityTransition choice_store op ev ?s = Inr ()"
    using ev by (simp add: assertExecutionIdentityTransition_def semanticsRebind_def assertOperationPolicyTransition_def canonicalOption_def bindingChanges_def policy
      List.map_filter_simps assertBindingChanges_def assertOperationExecutionRevisionTransition_def isSemanticsEvent_def fields_kept storeWhen_def andThen_def js_uniq_def)
  have o: "assertControllerTransition (op_controller awaiting_operation) (op_controller op) ev = Inr ()"
    by (simp add: assertControllerTransition_def awaiting_fields fields_kept)
  have "mutateOperation choice_store sample_process now emptyPatch True ev (Some f) allow awaiting_operation = Inr op"
    by (rule mutation_commits [OF _ _ _ n snapshot c i o]) (auto simp: awaiting_fields isTerminal_def awaiting_owner produced)
  moreover have "op_continuation op = Some choice_chosen" using normalized_choice [OF n] kept by simp
  moreover have "op_controller op = Some sample_controller" by (simp add: fields_kept)
  ultimately show ?thesis by blast
qed

text \<open>The choice is consumed.\<close>

definition sample_consumption :: "store_error + OperationRecordV2" where
  "sample_consumption = markOperationProductChoiceConsumed choice_store sample_process ''t2'' ''request:1'' choice_decision ''a'' awaiting_operation"

lemma awaiting_binding: "currentDecisionBinding choice_store awaiting_operation action = Inr choice_binding"
  by (simp add: currentDecisionBinding_def assertCurrentDecisionBinding_def awaiting_fields awaiting_epoch bindingObject_def choice_js choice_policy_accepted
    identityCheck_def safe_int_def max_safe_integer_def choice_candidate_kept choice_candidate choice_binding_def storeWhen_def
    choice_policy_def choice_policy_accepted [unfolded choice_policy_def])

lemma sample_consumed:
  "\<exists>op. sample_consumption = Inr op \<and> op_continuation op = Some choice_chosen \<and> op_controller op = Some sample_controller"
proof -
  have request: "js_get choice_request ''requestId'' = JStr ''request:1''" "js_get choice_request ''expiresAt'' = JStr ''t1+86400''"
    "js_items (js_get choice_request ''choices'') = [JObj [(''choiceId'', JStr ''a''), (''label'', JStr ''A''), (''description'', JStr ''first''), (''consequences'', JArr [JStr ''none''])]]"
    by (simp_all add: choice_request_def requestObject_def choice_binding_def)
  have bound: "assertCurrentDecisionBinding choice_store awaiting_operation choice_request action = Inr ()" for action
    by (simp add: assertCurrentDecisionBinding_def awaiting_fields awaiting_epoch choice_js choice_request_def requestObject_def choice_binding_def
      choice_candidate_kept choice_candidate storeWhen_def choice_policy_def)
  have i: "decisionIdText choice_decision" by code_simp
  show ?thesis
    unfolding sample_consumption_def markOperationProductChoiceConsumed_def
    by (rule awaiting_commits [where candidate = "(touched ''t2'' 4 awaiting_operation)\<lparr>op_phase := ''REVALIDATING'', op_decisionRequest := None,
        op_continuation := Some choice_chosen\<rparr>"])
      (simp_all add: awaiting_owner awaiting_fields checkOption_def decisionCheck_def choice_js choice_request_accepted choice_waiting_accepted unanswered_def
        choice_waiting_gets request bound awaiting_binding choice_date i storeWhen_def touched_def choice_chosen_def str_of_def isSemanticsEvent_def semanticsEvent_def
        choiceSemanticsEvent_def candidateEvent_def)
qed

theorem each_request_answered_once_witness:
  "distinct (consumedRequests [ChoiceConsumed ''request:1'' choice_decision ''a''])"
proof -
  obtain op where "sample_consumption = Inr op" using sample_consumed by blast
  then have "choice_operation choice_store awaiting_operation (ChoiceConsumed ''request:1'' choice_decision ''a'') op"
    unfolding sample_consumption_def by (rule choice_operation.consumes) (simp add: awaiting_fields isTerminal_def)
  then have run: "steps_of (choice_operation choice_store) awaiting_operation [ChoiceConsumed ''request:1'' choice_decision ''a''] op"
    by (rule steps_of.more [OF _ steps_of.none])
  have "distinct (awaitedRequest (choiceView awaiting_operation) @ openedRequests [ChoiceConsumed ''request:1'' choice_decision ''a''])"
    by (simp add: choiceView_def awaiting_fields choice_waiting_gets awaitedRequest_def)
  from each_request_answered_once [OF run this] show ?thesis by simp
qed

theorem product_choice_refines_protocol_witness:
  "steps_of choice_move (choiceView awaiting_operation) [ChoiceConsumed ''request:1'' choice_decision ''a''] (choiceView (projr sample_consumption))"
proof -
  obtain op where op: "sample_consumption = Inr op" using sample_consumed by blast
  then have "choice_operation choice_store awaiting_operation (ChoiceConsumed ''request:1'' choice_decision ''a'') op"
    unfolding sample_consumption_def by (rule choice_operation.consumes) (simp add: awaiting_fields isTerminal_def)
  then have "steps_of (choice_operation choice_store) awaiting_operation [ChoiceConsumed ''request:1'' choice_decision ''a''] op"
    by (rule steps_of.more [OF _ steps_of.none])
  from product_choice_refines_protocol [OF this] show ?thesis by (simp add: op)
qed

text \<open>Another controller takes the record over.\<close>

definition consumed_operation :: OperationRecordV2 where
  "consumed_operation = (touched ''t2'' 4 awaiting_operation)\<lparr>op_phase := ''REVALIDATING'', op_decisionRequest := None, op_continuation := Some choice_chosen\<rparr>"

definition sample_takeover :: "store_error + OperationRecordV2" where
  "sample_takeover = claimControllerEpoch choice_store \<lparr>cp_epoch = None, cp_token = None\<rparr> ''t3'' ''controller:b'' ''fresh'' (Some 8) None consumed_operation"

lemma consumed_fields:
  "op_status consumed_operation = RUNNING" "op_candidateRevision consumed_operation = Some sample_candidate"
  "op_participants consumed_operation = []" "op_resolvedOperationPolicy consumed_operation = Some choice_policy" "op_ownerEconomicBoundary consumed_operation = None"
  "op_origin consumed_operation = None" "op_ownerContinuationBoundary consumed_operation = None" "op_controller consumed_operation = Some sample_controller"
  "op_operationExecutionRevision consumed_operation = Some 1" "op_executionSemanticsDigest consumed_operation = None" "op_revision consumed_operation = 4"
  "op_decisionRequest consumed_operation = None" "op_continuation consumed_operation = Some choice_chosen"
  "op_ownerExemptions consumed_operation = None" "op_phase consumed_operation = ''REVALIDATING''"
  by (simp_all add: consumed_operation_def awaiting_fields touched_def)

lemma sample_taken_over: "\<exists>op. sample_takeover = Inr op"
proof -
  let ?f = "\<lambda>current revision. (touched ''t3'' revision current)\<lparr>op_participants := dropBindings (op_participants current), op_resolvedOperationPolicy := None,
    op_controller := Some \<lparr>oc_epoch = currentControllerEpoch current + 1, oc_ownerId = ''controller:b'', oc_claimedAt = ''t3'',
      oc_previousOwnerId = Some ''controller:a'', oc_tokenDigest = Some (sha256Utf8 (se_js choice_store) ''fresh''), oc_pid = Some 8\<rparr>\<rparr>"
  have plain: "\<not> isTerminal RUNNING" "dropBindings [] = []" "\<not> unprovenOwner choice_store consumed_operation" "requiredId ''controller:b'' = Inr ''controller:b''"
    by (simp_all add: isTerminal_def dropBindings_def unprovenOwner_def consumed_fields sample_controller_def choice_store_def sample_store_def requiredId_def js_trim_def js_white_def)
  obtain op where n: "normalizeOperationRecord choice_store (?f consumed_operation 5) = Inr op"
    by (simp add: normalizeOperationRecord_def assertRecord_def checkOption_def continuationStateInvalid_def waiting_def storeWhen_def touched_def consumed_fields decisionCheck_def
      choice_js choice_chosen_accepted choice_chosen_get)
  note fields_kept = normalizeOperationRecord_fields [OF n, simplified touched_def, simplified consumed_fields plain, simplified]
  obtain s where policy: "canonicalText choice_policy = Inr s" using awaiting_policy_text ..
  let ?s = "\<lparr>is_operationExecutionRevision = Some 1, is_executionSemanticsDigest = None, is_policyCanonical = Some s,
    is_policyProvisional = isProvisionalOperationPolicyV1 (Some choice_policy), is_bindings = []\<rparr>"
  have snapshot: "snapshotExecutionIdentity consumed_operation = Inr ?s"
    by (simp add: snapshotExecutionIdentity_def consumed_fields canonicalOption_def policy andThen_def)
  have "sample_takeover = Inr op"
    unfolding sample_takeover_def claimControllerEpoch_def
  proof (rule mutation_commits [OF _ _ _ n snapshot])
    show "assertCandidateTransition choice_store consumed_operation op claimEvent = Inr ()"
      by (simp add: assertCandidateTransition_def consumed_fields fields_kept sameOptionalCandidate_def choice_js choice_candidate_kept)
    show "assertExecutionIdentityTransition choice_store op claimEvent ?s = Inr ()"
      by (simp add: assertExecutionIdentityTransition_def semanticsRebind_def assertOperationPolicyTransition_def canonicalOption_def bindingChanges_def canInvalidate_def
        List.map_filter_simps assertBindingChanges_def assertOperationExecutionRevisionTransition_def isSemanticsEvent_def fields_kept consumed_fields andThen_def js_uniq_def
        claimEvent_def semanticsEvent_def choiceSemanticsEvent_def candidateEvent_def storeWhen_def)
  qed (simp_all add: ownerFreeEvent_def assertControllerTransition_def consumed_fields plain storeWhen_def sample_controller_def)
  then show ?thesis by (rule exI)
qed

theorem unapplied_choice_never_crosses_takeover_witness:
  "choiceView (projr sample_takeover) = choiceView consumed_operation"
proof -
  obtain op where op: "sample_takeover = Inr op" using sample_taken_over ..
  have "set [] \<subseteq> {OtherStep} \<and> choiceView op = choiceView consumed_operation"
    using unapplied_choice_never_crosses_takeover [OF consumed_fields(13) _ _ _ op [unfolded sample_takeover_def] _ steps_of.none]
    by (simp add: choice_chosen_get choice_waiting_gets consumed_fields isTerminal_def currentControllerEpoch_def sample_controller_def)
  then show ?thesis by (simp add: op)
qed

end
