(* ===== verification/Spec2Isabelle.thy ===== *)
theory Spec2Isabelle
  imports CandidateLineage WaveScheduler RuntimeSupervisor ObjectiveCompletion AuthorityV2 PullRequestReview CandidateAssurance HumanDecision Permissions OperationInvariants ProductChoiceSamples
begin

text \<open>
  A verification development for the agentic engineering harness.
\<close>

end
